(* ===== verification/Go_Prelude.thy ===== *)
theory Go_Prelude
  imports Main "HOL-Library.Sublist" "HOL-Library.Word"
begin

text \<open>
  What the gateway uses of the Go language and its standard library, shared by every component:
  byte strings and the functions of package \<open>strings\<close> and \<open>strconv\<close> the code calls, 64-bit
  integers, instants and durations of package \<open>time\<close>, maps, and the named collections of
  rewrite rules the component theories extend.

  A Go string is a sequence of bytes, here a \<open>char list\<close> (one \<open>char\<close> is one byte). An instant is
  its distance from the Unix epoch in nanoseconds and a duration a number of nanoseconds, both as
  \<open>int\<close>; \<open>time_sub\<close> saturates as \<open>Time.Sub\<close> does.
\<close>

named_theorems go_simps \<open>unfoldings of the small operations of the Go prelude\<close>
named_theorems model_defs \<open>definitions of a component's operations\<close>

section \<open>Integers\<close>

definition int64_min :: int where "int64_min = - (2 ^ 63)"
definition int64_max :: int where "int64_max = 2 ^ 63 - 1"

definition in_int64 :: "int \<Rightarrow> bool" where
  "in_int64 n \<longleftrightarrow> int64_min \<le> n \<and> n \<le> int64_max"

text \<open>Two's complement wrap-around of an \<open>int64\<close> (and of \<open>int\<close> on a 64-bit platform).\<close>

definition wrap64 :: "int \<Rightarrow> int" where
  "wrap64 n = (n + 2 ^ 63) mod 2 ^ 64 - 2 ^ 63"

lemma wrap64_id [simp]: "in_int64 n \<Longrightarrow> wrap64 n = n"
  by (simp add: wrap64_def in_int64_def int64_min_def int64_max_def)

lemma in_int64_wrap64 [simp]: "in_int64 (wrap64 n)"
proof -
  have "0 \<le> (n + 2 ^ 63) mod 2 ^ 64 \<and> (n + 2 ^ 63) mod 2 ^ 64 < 2 ^ 64" by simp
  then show ?thesis by (simp add: wrap64_def in_int64_def int64_min_def int64_max_def)
qed

text \<open>Go's \<open>%\<close> takes the sign of the dividend.\<close>

definition go_rem :: "int \<Rightarrow> int \<Rightarrow> int" where
  "go_rem a b = sgn a * (\<bar>a\<bar> mod \<bar>b\<bar>)"

lemma go_rem_nonneg: "0 \<le> a \<Longrightarrow> 0 < b \<Longrightarrow> go_rem a b = a mod b"
  by (cases "a = 0") (simp_all add: go_rem_def)

section \<open>Instants and durations\<close>

type_synonym time = int
type_synonym duration = int

definition nanosecond :: duration where "nanosecond = 1"
definition second :: duration where "second = 1000000000"
definition minute :: duration where "minute = 60 * second"
definition hour :: duration where "hour = 60 * minute"

lemmas duration_units = nanosecond_def second_def minute_def hour_def

text \<open>\<open>time.Time{}\<close> is January 1 of year 1, 00:00:00 UTC.\<close>

definition zero_time :: time where "zero_time = - 62135596800 * second"

definition is_zero_time :: "time \<Rightarrow> bool" where
  "is_zero_time t \<longleftrightarrow> t = zero_time"

text \<open>\<open>Time.Sub\<close>: the difference, saturated to the range of a duration.\<close>

definition time_sub :: "time \<Rightarrow> time \<Rightarrow> duration" where
  "time_sub a b = max int64_min (min int64_max (a - b))"

text \<open>\<open>time.Unix(sec, 0)\<close> and \<open>Time.Unix()\<close>.\<close>

definition time_unix :: "int \<Rightarrow> time" where "time_unix s = s * second"
definition unix_sec :: "time \<Rightarrow> int" where "unix_sec t = t div second"

lemma unix_sec_time_unix [simp]: "unix_sec (time_unix s) = s"
  by (simp add: unix_sec_def time_unix_def second_def)

lemma time_sub_less_iff:
  "int64_min < d \<Longrightarrow> d \<le> int64_max \<Longrightarrow> time_sub a b < d \<longleftrightarrow> a - b < d"
  by (auto simp: time_sub_def)

lemma time_sub_greater_iff:
  "int64_min \<le> d \<Longrightarrow> d < int64_max \<Longrightarrow> d < time_sub a b \<longleftrightarrow> d < a - b"
  by (auto simp: time_sub_def)

section \<open>Byte strings\<close>

definition has_prefix :: "string \<Rightarrow> string \<Rightarrow> bool" where
  "has_prefix s p \<longleftrightarrow> take (length p) s = p"

definition has_suffix :: "string \<Rightarrow> string \<Rightarrow> bool" where
  "has_suffix s p \<longleftrightarrow> has_prefix (rev s) (rev p)"

definition trim_prefix :: "string \<Rightarrow> string \<Rightarrow> string" where
  "trim_prefix s p = (if has_prefix s p then drop (length p) s else s)"

definition trim_suffix :: "string \<Rightarrow> string \<Rightarrow> string" where
  "trim_suffix s p = (if has_suffix s p then take (length s - length p) s else s)"

lemma has_prefix_iff: "has_prefix s p \<longleftrightarrow> prefix p s"
  by (auto simp: has_prefix_def prefix_def) (metis append_take_drop_id)

lemma has_prefix_append [simp]: "has_prefix (p @ s) p"
  by (simp add: has_prefix_def)

lemma has_prefix_Nil [simp]: "has_prefix s []"
  by (simp add: has_prefix_def)

lemma trim_prefix_append [simp]: "trim_prefix (p @ s) p = s"
  by (simp add: trim_prefix_def)

text \<open>\<open>strings.Index(s, sub)\<close>, with \<open>None\<close> for -1.\<close>

fun index_of :: "string \<Rightarrow> string \<Rightarrow> nat option" where
  "index_of [] p = (if p = [] then Some 0 else None)"
| "index_of (c # s) p =
     (if has_prefix (c # s) p then Some 0 else map_option Suc (index_of s p))"

definition contains :: "string \<Rightarrow> string \<Rightarrow> bool" where
  "contains s p \<longleftrightarrow> index_of s p \<noteq> None"

definition contains_any :: "string \<Rightarrow> string \<Rightarrow> bool" where
  "contains_any s cs \<longleftrightarrow> list_ex (\<lambda>c. c \<in> set cs) s"

text \<open>\<open>strings.Split(s, sep)\<close> for a one-byte separator.\<close>

fun split_on :: "char \<Rightarrow> string \<Rightarrow> string list" where
  "split_on d [] = [[]]"
| "split_on d (c # s) =
     (if c = d then [] # split_on d s
      else (case split_on d s of [] \<Rightarrow> [[c]] | w # ws \<Rightarrow> (c # w) # ws))"

text \<open>\<open>strings.SplitN(s, sep, 2)\<close> for a one-byte separator: one part, or two.\<close>

fun split_first :: "char \<Rightarrow> string \<Rightarrow> string \<times> string option" where
  "split_first d [] = ([], None)"
| "split_first d (c # s) =
     (if c = d then ([], Some s)
      else (case split_first d s of (a, b) \<Rightarrow> (c # a, b)))"

lemma split_on_nonempty [simp]: "split_on d s \<noteq> []"
  by (induction s) (auto split: list.splits)

text \<open>\<open>strings.Join(parts, sep)\<close>.\<close>

fun join :: "string list \<Rightarrow> string \<Rightarrow> string" where
  "join [] sep = []"
| "join [x] sep = x"
| "join (x # y # ys) sep = x @ sep @ join (y # ys) sep"

text \<open>
  \<open>strings.TrimSpace\<close> strips the runes for which \<open>unicode.IsSpace\<close> holds. They are listed here by
  their UTF-8 encodings, so that the function is exact on bytes.
\<close>

definition space_runes :: "string list" where
  "space_runes =
     [[CHR 0x20], [CHR 0x09], [CHR 0x0A], [CHR 0x0B], [CHR 0x0C], [CHR 0x0D],
      [CHR 0xC2, CHR 0x85], [CHR 0xC2, CHR 0xA0], [CHR 0xE1, CHR 0x9A, CHR 0x80],
      [CHR 0xE2, CHR 0x80, CHR 0x80], [CHR 0xE2, CHR 0x80, CHR 0x81],
      [CHR 0xE2, CHR 0x80, CHR 0x82], [CHR 0xE2, CHR 0x80, CHR 0x83],
      [CHR 0xE2, CHR 0x80, CHR 0x84], [CHR 0xE2, CHR 0x80, CHR 0x85],
      [CHR 0xE2, CHR 0x80, CHR 0x86], [CHR 0xE2, CHR 0x80, CHR 0x87],
      [CHR 0xE2, CHR 0x80, CHR 0x88], [CHR 0xE2, CHR 0x80, CHR 0x89],
      [CHR 0xE2, CHR 0x80, CHR 0x8A], [CHR 0xE2, CHR 0x80, CHR 0xA8],
      [CHR 0xE2, CHR 0x80, CHR 0xA9], [CHR 0xE2, CHR 0x80, CHR 0xAF],
      [CHR 0xE2, CHR 0x81, CHR 0x9F], [CHR 0xE3, CHR 0x80, CHR 0x80]]"

definition rev_space_runes :: "string list" where
  "rev_space_runes = map rev space_runes"

fun strip_one :: "string list \<Rightarrow> string \<Rightarrow> string option" where
  "strip_one [] s = None"
| "strip_one (r # rs) s =
     (if r \<noteq> [] \<and> has_prefix s r then Some (drop (length r) s) else strip_one rs s)"

lemma strip_one_shorter: "strip_one rs s = Some t \<Longrightarrow> length t < length s"
proof (induction rs)
  case (Cons r rs)
  show ?case
  proof (cases "r \<noteq> [] \<and> has_prefix s r")
    case True
    then have "s \<noteq> []" by (auto simp: has_prefix_def)
    with True Cons.prems show ?thesis by (auto simp: diff_less)
  next
    case False
    with Cons show ?thesis by auto
  qed
qed simp

function strip_runes :: "string list \<Rightarrow> string \<Rightarrow> string" where
  "strip_runes rs s = (case strip_one rs s of None \<Rightarrow> s | Some t \<Rightarrow> strip_runes rs t)"
  by pat_completeness auto
termination
  by (relation "measure (\<lambda>(rs, s). length s)") (auto dest: strip_one_shorter)

declare strip_runes.simps [simp del]

definition trim_left :: "string \<Rightarrow> string" where
  "trim_left s = strip_runes space_runes s"

definition trim_space :: "string \<Rightarrow> string" where
  "trim_space s = rev (strip_runes rev_space_runes (rev (trim_left s)))"

lemma strip_runes_Nil [simp]: "strip_runes rs [] = []"
proof -
  have "strip_one rs [] = None"
    by (induction rs) (auto simp: has_prefix_def)
  then show ?thesis by (simp add: strip_runes.simps [of rs "[]"])
qed

lemma trim_space_Nil [simp]: "trim_space [] = []"
  by (simp add: trim_space_def trim_left_def)

lemma length_strip_runes: "length (strip_runes rs s) \<le> length s"
proof (induction rs s rule: strip_runes.induct)
  case (1 rs s)
  show ?case
  proof (cases "strip_one rs s")
    case None
    then show ?thesis by (simp add: strip_runes.simps [of rs s])
  next
    case (Some t)
    with "1.IH" [OF Some] strip_one_shorter [OF Some] show ?thesis
      by (simp add: strip_runes.simps [of rs s])
  qed
qed

lemma length_trim_space: "length (trim_space s) \<le> length s"
proof -
  have "length (trim_space s) \<le> length (trim_left s)"
    using length_strip_runes [of rev_space_runes "rev (trim_left s)"] by (simp add: trim_space_def)
  also have "\<dots> \<le> length s" by (simp add: trim_left_def length_strip_runes)
  finally show ?thesis .
qed

lemma strip_runes_None: "strip_one rs (strip_runes rs s) = None"
proof (induction rs s rule: strip_runes.induct)
  case (1 rs s)
  show ?case
  proof (cases "strip_one rs s")
    case None
    then show ?thesis by (simp add: strip_runes.simps [of rs s])
  next
    case (Some t)
    with "1.IH" [OF Some] show ?thesis by (simp add: strip_runes.simps [of rs s])
  qed
qed

lemma strip_one_suffix: "strip_one rs s = Some t \<Longrightarrow> suffix t s"
  by (induction rs) (auto simp: suffix_drop split: if_splits)

lemma strip_runes_suffix: "suffix (strip_runes rs s) s"
proof (induction rs s rule: strip_runes.induct)
  case (1 rs s)
  show ?case
  proof (cases "strip_one rs s")
    case None
    then show ?thesis by (simp add: strip_runes.simps [of rs s])
  next
    case (Some t)
    from "1.IH" [OF Some] strip_one_suffix [OF Some] Some show ?thesis
      by (simp add: strip_runes.simps [of rs s])
  qed
qed

lemma strip_one_prefix: "prefix t s \<Longrightarrow> strip_one rs s = None \<Longrightarrow> strip_one rs t = None"
proof (induction rs)
  case (Cons r rs)
  have "has_prefix s r" if "has_prefix t r"
    using that Cons.prems(1) by (auto simp: has_prefix_iff elim: prefix_order.trans)
  with Cons show ?case by (auto split: if_splits)
qed simp

lemma strip_runes_id: "strip_one rs s = None \<Longrightarrow> strip_runes rs s = s"
  by (simp add: strip_runes.simps [of rs s])

lemma trim_space_idem [simp]: "trim_space (trim_space s) = trim_space s"
proof -
  let ?l = "trim_left s" and ?r = "strip_runes rev_space_runes (rev (trim_left s))"
  have "strip_one space_runes ?l = None" by (simp add: trim_left_def strip_runes_None)
  moreover have "prefix (rev ?r) ?l"
    using strip_runes_suffix [of rev_space_runes "rev ?l"] by (simp add: suffix_to_prefix)
  ultimately have "strip_one space_runes (rev ?r) = None" using strip_one_prefix by blast
  then have l: "trim_left (rev ?r) = rev ?r" by (simp add: trim_left_def strip_runes_id)
  have "strip_runes rev_space_runes ?r = ?r" by (simp add: strip_runes_id strip_runes_None)
  with l show ?thesis by (simp add: trim_space_def)
qed

text \<open>\<open>strings.Trim(s, cutset)\<close> for a cutset of single bytes.\<close>

definition trim_set :: "string \<Rightarrow> string \<Rightarrow> string" where
  "trim_set s cs = rev (dropWhile (\<lambda>c. c \<in> set cs) (rev (dropWhile (\<lambda>c. c \<in> set cs) s)))"

text \<open>
  \<open>strings.ToLower\<close>. The code only compares its result with ASCII literals or searches it for
  them. Besides A to Z, two code points have an ASCII lower case: U+212A (Kelvin sign, \<open>k\<close>) and
  U+0130 (\<open>i\<close>). Every other non-ASCII letter keeps a non-ASCII lower case, so leaving it as it is
  gives the same comparisons.
\<close>

definition ascii_lower :: "char \<Rightarrow> char" where
  "ascii_lower c =
     (if 65 \<le> (of_char c :: nat) \<and> (of_char c :: nat) \<le> 90
      then char_of ((of_char c :: nat) + 32) else c)"

fun to_lower :: "string \<Rightarrow> string" where
  "to_lower [] = []"
| "to_lower (c # s) =
     (if has_prefix (c # s) [CHR 0xE2, CHR 0x84, CHR 0xAA] then CHR ''k'' # to_lower (drop 2 s)
      else if has_prefix (c # s) [CHR 0xC4, CHR 0xB0] then CHR ''i'' # to_lower (drop 1 s)
      else ascii_lower c # to_lower s)"

section \<open>Decimal numbers\<close>

definition is_digit :: "char \<Rightarrow> bool" where
  "is_digit c \<longleftrightarrow> 48 \<le> (of_char c :: nat) \<and> (of_char c :: nat) \<le> 57"

definition digit_val :: "char \<Rightarrow> int" where
  "digit_val c = int (of_char c) - 48"

definition dec_value :: "string \<Rightarrow> int" where
  "dec_value s = foldl (\<lambda>n c. 10 * n + digit_val c) 0 s"

text \<open>
  \<open>strconv.ParseInt(s, 10, 64)\<close> and, on a 64-bit platform, \<open>strconv.Atoi\<close>: an optional sign and at
  least one digit, in the range of \<open>int64\<close>; \<open>None\<close> for an error (bad syntax or out of range).
\<close>

definition parse_digits :: "string \<Rightarrow> int option" where
  "parse_digits s = (if s \<noteq> [] \<and> list_all is_digit s then Some (dec_value s) else None)"

definition parse_int64 :: "string \<Rightarrow> int option" where
  "parse_int64 s =
     (let r = (case s of
                 [] \<Rightarrow> None
               | c # t \<Rightarrow> if c = CHR ''-'' then map_option uminus (parse_digits t)
                          else if c = CHR ''+'' then parse_digits t
                          else parse_digits s)
      in case r of None \<Rightarrow> None | Some n \<Rightarrow> if in_int64 n then Some n else None)"

definition atoi :: "string \<Rightarrow> int option" where "atoi = parse_int64"

fun nat_digits :: "nat \<Rightarrow> string" where
  "nat_digits n =
     (if n < 10 then [char_of (48 + n)] else nat_digits (n div 10) @ [char_of (48 + n mod 10)])"

declare nat_digits.simps [simp del]

definition itoa :: "int \<Rightarrow> string" where
  "itoa n = (if n < 0 then CHR ''-'' # nat_digits (nat (- n)) else nat_digits (nat n))"

text \<open>\<open>hex.EncodeToString\<close>.\<close>

definition hex_digit :: "nat \<Rightarrow> char" where
  "hex_digit n = (if n < 10 then char_of (48 + n) else char_of (87 + n))"

definition hex_encode :: "string \<Rightarrow> string" where
  "hex_encode s =
     concat (map (\<lambda>c. [hex_digit (of_char c div 16), hex_digit (of_char c mod 16)]) s)"

lemma length_hex_encode [simp]: "length (hex_encode s) = 2 * length s"
  by (induction s) (simp_all add: hex_encode_def)

section \<open>Maps\<close>

text \<open>
  A Go map is a partial function. \<open>map_keep P m\<close> is the loop that ranges over the map and deletes
  the entries for which \<open>P\<close> fails (deleting during a range is defined in Go, in any order).
\<close>

definition map_keep :: "('k \<Rightarrow> 'v \<Rightarrow> bool) \<Rightarrow> ('k \<rightharpoonup> 'v) \<Rightarrow> ('k \<rightharpoonup> 'v)" where
  "map_keep P m = (\<lambda>k. case m k of None \<Rightarrow> None | Some v \<Rightarrow> if P k v then Some v else None)"

lemma map_keep_Some [simp]: "map_keep P m k = Some v \<longleftrightarrow> m k = Some v \<and> P k v"
  by (auto simp: map_keep_def split: option.splits)

lemma map_keep_None: "map_keep P m k = None \<longleftrightarrow> m k = None \<or> (\<exists>v. m k = Some v \<and> \<not> P k v)"
  by (auto simp: map_keep_def split: option.splits)

lemma dom_map_keep_subset: "dom (map_keep P m) \<subseteq> dom m"
  by (auto simp: map_keep_def split: option.splits)

text \<open>The value of a missing key is the zero value; for strings the empty string.\<close>

definition get_str :: "(string \<rightharpoonup> string) \<Rightarrow> string \<Rightarrow> string" where
  "get_str m k = (case m k of None \<Rightarrow> [] | Some v \<Rightarrow> v)"

text \<open>A \<open>map[string]string\<close>, \<open>None\<close> for \<open>nil\<close>.\<close>

type_synonym headers = "(string \<rightharpoonup> string) option"

text \<open>Go's order on strings: bytewise, a prefix first.\<close>

fun str_less :: "string \<Rightarrow> string \<Rightarrow> bool" where
  "str_less [] [] = False"
| "str_less [] (_ # _) = True"
| "str_less (_ # _) [] = False"
| "str_less (a # s) (b # t) =
     ((of_char a :: nat) < of_char b \<or> a = b \<and> str_less s t)"

lemma str_less_irrefl [simp]: "\<not> str_less s s"
  by (induction s) auto

lemma str_less_trans: "str_less s t \<Longrightarrow> str_less t u \<Longrightarrow> str_less s u"
proof (induction s t arbitrary: u rule: str_less.induct)
  case (4 a s b t)
  from "4.prems"(2) obtain c u' where u: "u = c # u'" by (cases u) auto
  with 4 show ?case by auto
qed (auto elim: str_less.elims)

lemma str_less_linear: "str_less s t \<or> s = t \<or> str_less t s"
proof (induction s t rule: str_less.induct)
  case (4 a s b t)
  have "a = b" if "(of_char a :: nat) = of_char b"
    using that by (metis char_of_char)
  with 4 show ?case by fastforce
qed (auto)

section \<open>Lists\<close>

lemma find_app: "find P (xs @ ys) = (case find P xs of Some x \<Rightarrow> Some x | None \<Rightarrow> find P ys)"
  by (induction xs) auto

lemma find_None_set: "find P xs = None \<longleftrightarrow> (\<forall>x \<in> set xs. \<not> P x)"
  by (auto simp: find_None_iff)

lemma find_Some_set: "find P xs = Some x \<Longrightarrow> x \<in> set xs \<and> P x"
  by (induction xs) (auto split: if_splits)

text \<open>The last \<open>n\<close> elements.\<close>

definition last_n :: "nat \<Rightarrow> 'a list \<Rightarrow> 'a list" where
  "last_n n xs = drop (length xs - n) xs"

lemma last_n_short: "length xs \<le> n \<Longrightarrow> last_n n xs = xs"
  by (simp add: last_n_def)

lemma last_n_snoc: "last_n n (last_n n xs @ [x]) = last_n n (xs @ [x])"
  by (cases n; cases "length xs \<le> n") (auto simp: last_n_def Suc_diff_Suc Suc_diff_le)

lemma length_last_n [simp]: "length (last_n n xs) = min n (length xs)"
  by (simp add: last_n_def)

end
