(* ===== verification/Json.thy ===== *)
theory Json
  imports Go_Prelude
begin

text \<open>
  What the gateway uses of \<open>encoding/json\<close>: the grammar the package's scanner accepts (white
  space, string escapes, numbers, the nesting limit of 10000), the decoding of string literals
  (escapes, surrogate pairs, invalid UTF-8 replaced by U+FFFD) and the tree a document denotes.
  \<open>json_parse\<close> is \<open>json.Unmarshal\<close> into a tree, \<open>json_valid\<close> is \<open>json.Valid\<close>. Numbers keep
  their literal text. Handlers build trees for \<open>json.Encoder\<close>, whose text is not modelled.

  The parser recurses on a fuel argument; \<open>pval_fuel\<close> shows that the fuel of \<open>json_parse\<close> is
  enough: more fuel never changes the result.
\<close>

datatype json =
    JNull
  | JBool bool
  | JNum string
  | JStr string
  | JArr "json list"
  | JObj "(string \<times> json) list"

section \<open>Lexical elements\<close>

definition json_ws :: "char \<Rightarrow> bool" where
  "json_ws c \<longleftrightarrow> c = CHR 0x20 \<or> c = CHR 0x09 \<or> c = CHR 0x0D \<or> c = CHR 0x0A"

definition skip_ws :: "string \<Rightarrow> string" where
  "skip_ws s = dropWhile json_ws s"

definition hex_val :: "char \<Rightarrow> nat option" where
  "hex_val c =
     (let n = (of_char c :: nat)
      in if 48 \<le> n \<and> n \<le> 57 then Some (n - 48)
         else if 97 \<le> n \<and> n \<le> 102 then Some (n - 87)
         else if 65 \<le> n \<and> n \<le> 70 then Some (n - 55)
         else None)"

definition hex4 :: "string \<Rightarrow> nat option" where
  "hex4 s =
     (case map hex_val (take 4 s) of
        [Some a, Some b, Some c, Some d] \<Rightarrow> Some (((a * 16 + b) * 16 + c) * 16 + d)
      | _ \<Rightarrow> None)"

text \<open>The raw text of a string literal after its opening quote, and what follows the closing one.\<close>

fun scan_string :: "string \<Rightarrow> (string \<times> string) option" where
  "scan_string [] = None"
| "scan_string (c # s) =
     (if c = CHR 0x22 then Some ([], s)
      else if (of_char c :: nat) < 32 then None
      else if c = CHR 0x5C then
        (case s of
           [] \<Rightarrow> None
         | e # t \<Rightarrow>
             if e \<in> set [CHR 0x22, CHR 0x5C, CHR ''/'', CHR ''b'', CHR ''f'', CHR ''n'', CHR ''r'', CHR ''t'']
             then map_option (\<lambda>(a, b). (c # e # a, b)) (scan_string t)
             else if e = CHR ''u'' \<and> hex4 t \<noteq> None
             then map_option (\<lambda>(a, b). (c # e # a, b)) (scan_string t)
             else None)
      else map_option (\<lambda>(a, b). (c # a, b)) (scan_string s))"

text \<open>UTF-8: the length of the valid sequence at the head (0 when there is none), and encoding.\<close>

definition cont_byte :: "nat \<Rightarrow> bool" where
  "cont_byte n \<longleftrightarrow> 128 \<le> n \<and> n \<le> 191"

definition utf8_len :: "string \<Rightarrow> nat" where
  "utf8_len s =
     (case map of_char (take 4 s) of
        [] \<Rightarrow> 0
      | (a :: nat) # r \<Rightarrow>
          if a < 128 then 1
          else (case r of
             [] \<Rightarrow> 0
           | b # r2 \<Rightarrow>
               if 194 \<le> a \<and> a \<le> 223 \<and> cont_byte b then 2
               else (case r2 of
                  [] \<Rightarrow> 0
                | c # r3 \<Rightarrow>
                    if 224 \<le> a \<and> a \<le> 239 \<and> cont_byte b \<and> cont_byte c
                       \<and> (a = 224 \<longrightarrow> 160 \<le> b) \<and> (a = 237 \<longrightarrow> b \<le> 159) then 3
                    else (case r3 of
                       [] \<Rightarrow> 0
                     | d # _ \<Rightarrow>
                         if 240 \<le> a \<and> a \<le> 244 \<and> cont_byte b \<and> cont_byte c \<and> cont_byte d
                            \<and> (a = 240 \<longrightarrow> 144 \<le> b) \<and> (a = 244 \<longrightarrow> b \<le> 143) then 4
                         else 0))))"

definition utf8_encode :: "nat \<Rightarrow> string" where
  "utf8_encode r =
     (if r < 128 then [char_of r]
      else if r < 2048 then [char_of (192 + r div 64), char_of (128 + r mod 64)]
      else if r < 65536 then
        [char_of (224 + r div 4096), char_of (128 + r div 64 mod 64), char_of (128 + r mod 64)]
      else [char_of (240 + r div 262144), char_of (128 + r div 4096 mod 64),
            char_of (128 + r div 64 mod 64), char_of (128 + r mod 64)])"

definition replacement :: string where
  "replacement = [CHR 0xEF, CHR 0xBF, CHR 0xBD]"

text \<open>The runes of a string, each as its bytes; an invalid byte is a rune of its own, U+FFFD.\<close>

function runes :: "string \<Rightarrow> string list" where
  "runes [] = []"
| "runes (c # s) =
     (let k = utf8_len (c # s)
      in if k = 0 then replacement # runes s else take k (c # s) # runes (drop (k - 1) s))"
  by pat_completeness auto
termination by (relation "measure length") auto

declare runes.simps [simp del]

definition char_count :: "string \<Rightarrow> nat" where
  "char_count s = length (runes s)"

lemma char_count_le: "char_count s \<le> length s"
proof -
  have "length (runes s) \<le> length s" by (induction s rule: runes.induct) (auto simp: runes.simps Let_def)
  then show ?thesis by (simp add: char_count_def)
qed

definition simple_escape :: "char \<Rightarrow> char" where
  "simple_escape e =
     (if e = CHR ''b'' then CHR 0x08 else if e = CHR ''f'' then CHR 0x0C
      else if e = CHR ''n'' then CHR 0x0A else if e = CHR ''r'' then CHR 0x0D
      else if e = CHR ''t'' then CHR 0x09 else e)"

text \<open>The decoded value of a raw literal; the first argument is fuel, the literal's length.\<close>

fun unquote :: "nat \<Rightarrow> string \<Rightarrow> string" where
  "unquote 0 s = []"
| "unquote (Suc n) [] = []"
| "unquote (Suc n) (c # s) =
     (if c = CHR 0x5C then
        (case s of
           [] \<Rightarrow> []
         | e # t \<Rightarrow>
             if e \<noteq> CHR ''u'' then simple_escape e # unquote n t
             else (case hex4 t of
                None \<Rightarrow> []
              | Some r \<Rightarrow>
                  if 55296 \<le> r \<and> r \<le> 57343 then
                    (let t2 = drop 4 t;
                         lo = (if take 2 t2 = [CHR 0x5C, CHR ''u''] then hex4 (drop 2 t2) else None)
                     in (case lo of
                           Some r2 \<Rightarrow>
                             if r \<le> 56319 \<and> 56320 \<le> r2 \<and> r2 \<le> 57343
                             then utf8_encode (65536 + (r - 55296) * 1024 + (r2 - 56320))
                                    @ unquote n (drop 6 t2)
                             else replacement @ unquote n t2
                         | None \<Rightarrow> replacement @ unquote n t2))
                  else utf8_encode r @ unquote n (drop 4 t)))
      else (let k = utf8_len (c # s)
            in if k = 0 then replacement @ unquote n s
               else take k (c # s) @ unquote n (drop (k - 1) s)))"

definition lex_string :: "string \<Rightarrow> (string \<times> string) option" where
  "lex_string s = map_option (\<lambda>(raw, rest). (unquote (length raw) raw, rest)) (scan_string s)"

text \<open>A number literal: sign, integer part without leading zeros, fraction, exponent.\<close>

definition take_digits :: "string \<Rightarrow> string \<times> string" where
  "take_digits s = (takeWhile is_digit s, dropWhile is_digit s)"

definition lex_int :: "string \<Rightarrow> (string \<times> string) option" where
  "lex_int s =
     (case s of
        [] \<Rightarrow> None
      | c # t \<Rightarrow> if c = CHR ''0'' then Some ([c], t)
                 else if is_digit c then Some (take_digits s)
                 else None)"

definition lex_frac :: "string \<Rightarrow> (string \<times> string) option" where
  "lex_frac s =
     (case s of
        [] \<Rightarrow> Some ([], [])
      | c # t \<Rightarrow>
          if c = CHR ''.'' then
            (case take_digits t of (d, r) \<Rightarrow> if d = [] then None else Some (c # d, r))
          else Some ([], s))"

definition lex_exp :: "string \<Rightarrow> (string \<times> string) option" where
  "lex_exp s =
     (case s of
        [] \<Rightarrow> Some ([], [])
      | c # t \<Rightarrow>
          if c = CHR ''e'' \<or> c = CHR ''E'' then
            (let (sg, u) = (case t of
                              [] \<Rightarrow> ([], t)
                            | x # v \<Rightarrow> if x = CHR ''+'' \<or> x = CHR ''-'' then ([x], v) else ([], t));
                 (d, r) = take_digits u
             in if d = [] then None else Some (c # sg @ d, r))
          else Some ([], s))"

definition lex_number :: "string \<Rightarrow> (string \<times> string) option" where
  "lex_number s =
     (let (sg, t) = (case s of [] \<Rightarrow> ([], s) | c # u \<Rightarrow> if c = CHR ''-'' then ([c], u) else ([], s))
      in (case lex_int t of
            None \<Rightarrow> None
          | Some (i, u) \<Rightarrow>
              (case lex_frac u of
                 None \<Rightarrow> None
               | Some (f, v) \<Rightarrow>
                   (case lex_exp v of
                      None \<Rightarrow> None
                    | Some (e, w) \<Rightarrow> Some (sg @ i @ f @ e, w)))))"

section \<open>Values\<close>

definition max_depth :: nat where "max_depth = 10000"

fun pval :: "nat \<Rightarrow> nat \<Rightarrow> string \<Rightarrow> (json \<times> string) option"
and parr :: "nat \<Rightarrow> nat \<Rightarrow> string \<Rightarrow> (json list \<times> string) option"
and pobj :: "nat \<Rightarrow> nat \<Rightarrow> string \<Rightarrow> ((string \<times> json) list \<times> string) option" where
  "pval 0 d s = None"
| "pval (Suc n) d s =
     (case skip_ws s of
        [] \<Rightarrow> None
      | c # t \<Rightarrow>
          if c = CHR ''{'' then
            (if max_depth \<le> d then None
             else (case skip_ws t of
                [] \<Rightarrow> None
              | x # u \<Rightarrow> if x = CHR ''}'' then Some (JObj [], u)
                         else map_option (\<lambda>(m, r). (JObj m, r)) (pobj n (Suc d) t)))
          else if c = CHR ''['' then
            (if max_depth \<le> d then None
             else (case skip_ws t of
                [] \<Rightarrow> None
              | x # u \<Rightarrow> if x = CHR '']'' then Some (JArr [], u)
                         else map_option (\<lambda>(m, r). (JArr m, r)) (parr n (Suc d) t)))
          else if c = CHR 0x22 then map_option (\<lambda>(a, r). (JStr a, r)) (lex_string t)
          else if has_prefix (c # t) ''true'' then Some (JBool True, drop 3 t)
          else if has_prefix (c # t) ''false'' then Some (JBool False, drop 4 t)
          else if has_prefix (c # t) ''null'' then Some (JNull, drop 3 t)
          else map_option (\<lambda>(a, r). (JNum a, r)) (lex_number (c # t)))"
| "parr 0 d s = None"
| "parr (Suc n) d s =
     (case pval n d s of
        None \<Rightarrow> None
      | Some (v, r) \<Rightarrow>
          (case skip_ws r of
             [] \<Rightarrow> None
           | x # u \<Rightarrow>
               if x = CHR '']'' then Some ([v], u)
               else if x = CHR '','' then map_option (\<lambda>(vs, w). (v # vs, w)) (parr n d u)
               else None))"
| "pobj 0 d s = None"
| "pobj (Suc n) d s =
     (case skip_ws s of
        [] \<Rightarrow> None
      | q # t \<Rightarrow>
          if q \<noteq> CHR 0x22 then None
          else (case lex_string t of
             None \<Rightarrow> None
           | Some (k, r) \<Rightarrow>
               (case skip_ws r of
                  [] \<Rightarrow> None
                | x # u \<Rightarrow>
                    if x \<noteq> CHR '':'' then None
                    else (case pval n d u of
                       None \<Rightarrow> None
                     | Some (v, r2) \<Rightarrow>
                         (case skip_ws r2 of
                            [] \<Rightarrow> None
                          | y # w \<Rightarrow>
                              if y = CHR ''}'' then Some ([(k, v)], w)
                              else if y = CHR '','' then
                                map_option (\<lambda>(m, z). ((k, v) # m, z)) (pobj n d w)
                              else None)))))"

declare pval.simps [simp del] parr.simps [simp del] pobj.simps [simp del]

definition value_fuel :: "string \<Rightarrow> nat" where
  "value_fuel s = 2 * length s + 2"

text \<open>\<open>json.Unmarshal\<close> into an \<open>any\<close>: one value and nothing but white space around it.\<close>

definition json_parse :: "string \<Rightarrow> json option" where
  "json_parse s =
     (case pval (value_fuel s) 0 s of
        None \<Rightarrow> None
      | Some (v, r) \<Rightarrow> if skip_ws r = [] then Some v else None)"

definition json_valid :: "string \<Rightarrow> bool" where
  "json_valid s \<longleftrightarrow> json_parse s \<noteq> None"

text \<open>The value of a key of an object decoded into a Go map: the last one wins.\<close>

definition obj_lookup :: "(string \<times> json) list \<Rightarrow> string \<Rightarrow> json option" where
  "obj_lookup m k = map_of (rev m) k"

text \<open>
  Decoding into a struct matches a key to a field by name, up to Unicode case folding (which takes
  U+017F to \<open>s\<close> and U+212A to \<open>k\<close>); the last match wins.
  \<open>struct_string\<close> is a string field: a missing key or \<open>null\<close> leaves it empty, a value of another
  kind is an \<open>UnmarshalTypeError\<close> (\<open>None\<close>).
\<close>

fun fold_name :: "string \<Rightarrow> string" where
  "fold_name [] = []"
| "fold_name (c # s) =
     (if has_prefix (c # s) [CHR 0xE2, CHR 0x84, CHR 0xAA] then CHR ''k'' # fold_name (drop 2 s)
      else if has_prefix (c # s) [CHR 0xC5, CHR 0xBF] then CHR ''s'' # fold_name (drop 1 s)
      else ascii_lower c # fold_name s)"

definition field_values :: "(string \<times> json) list \<Rightarrow> string \<Rightarrow> json list" where
  "field_values m f = map snd (filter (\<lambda>(k, v). fold_name k = fold_name f) m)"

fun decode_strings :: "string \<Rightarrow> json list \<Rightarrow> string option" where
  "decode_strings cur [] = Some cur"
| "decode_strings cur (JNull # vs) = decode_strings cur vs"
| "decode_strings cur (JStr s # vs) = decode_strings s vs"
| "decode_strings cur (v # vs) = None"

definition struct_string :: "(string \<times> json) list \<Rightarrow> string \<Rightarrow> string option" where
  "struct_string m f = decode_strings [] (field_values m f)"

section \<open>The fuel is enough\<close>

lemma length_skip_ws: "length (skip_ws s) \<le> length s"
  by (simp add: skip_ws_def length_dropWhile_le)

lemma skip_ws_Cons: "skip_ws s = c # t \<Longrightarrow> length t < length s"
  using length_skip_ws [of s] by simp

lemma scan_string_length: "scan_string s = Some (a, r) \<Longrightarrow> length r < length s"
proof (induction s arbitrary: a r rule: scan_string.induct)
  case (2 c s)
  then show ?case
    by (fastforce split: if_splits list.splits)
qed simp

lemma lex_string_length: "lex_string s = Some (a, r) \<Longrightarrow> length r < length s"
  by (auto simp: lex_string_def dest: scan_string_length)

lemma lex_int_length: "lex_int s = Some (a, r) \<Longrightarrow> length r < length s"
  by (cases s)
     (auto simp: lex_int_def take_digits_def less_Suc_eq_le length_dropWhile_le split: if_splits)

lemma lex_frac_length: "lex_frac s = Some (a, r) \<Longrightarrow> length r \<le> length s"
  by (cases s)
     (auto simp: lex_frac_def take_digits_def le_Suc_eq length_dropWhile_le split: if_splits)

lemma lex_exp_length: "lex_exp s = Some (a, r) \<Longrightarrow> length r \<le> length s"
proof (cases s)
  case (Cons c t)
  assume "lex_exp s = Some (a, r)"
  moreover have "length (dropWhile is_digit u) \<le> length u" for u
    by (rule length_dropWhile_le)
  ultimately show ?thesis
    using Cons
    by (auto simp: lex_exp_def take_digits_def Let_def le_SucI split: if_splits list.splits)
qed (simp add: lex_exp_def)

lemma lex_number_length: "lex_number s = Some (a, r) \<Longrightarrow> length r < length s"
proof -
  assume h: "lex_number s = Some (a, r)"
  obtain sg t where t: "(case s of [] \<Rightarrow> ([], s) | c # u \<Rightarrow> if c = CHR ''-'' then ([c], u) else ([], s)) = (sg, t)"
    by fastforce
  then have ts: "length t \<le> length s" by (cases s) (auto split: if_splits)
  from h t obtain i u f v e where "lex_int t = Some (i, u)" "lex_frac u = Some (f, v)"
      "lex_exp v = Some (e, r)"
    by (auto simp: lex_number_def split: option.splits)
  then have "length u < length t" "length v \<le> length u" "length r \<le> length v"
    by (auto dest: lex_int_length lex_frac_length lex_exp_length)
  with ts show ?thesis by linarith
qed

lemma pval_length_aux:
  "(\<forall>d s v r. pval n d s = Some (v, r) \<longrightarrow> length r < length s) \<and>
   (\<forall>d s v r. parr n d s = Some (v, r) \<longrightarrow> length r < length s) \<and>
   (\<forall>d s v r. pobj n d s = Some (v, r) \<longrightarrow> length r < length s)"
proof (induction n)
  case 0
  show ?case by (simp add: pval.simps parr.simps pobj.simps)
next
  case (Suc n)
  note IH = Suc.IH [THEN conjunct1, rule_format]
    Suc.IH [THEN conjunct2, THEN conjunct1, rule_format]
    Suc.IH [THEN conjunct2, THEN conjunct2, rule_format]
  note dest = IH(1) IH(2) IH(3) skip_ws_Cons lex_string_length lex_number_length
  have v: "length r < length s" if h: "pval (Suc n) d s = Some (v, r)" for d s v r
  proof (cases "skip_ws s")
    case Nil
    with h show ?thesis by (simp add: pval.simps)
  next
    case (Cons c t)
    from skip_ws_Cons [OF Cons] h show ?thesis
      unfolding pval.simps Cons list.case
      by (auto split: if_splits list.splits dest!: dest)
  qed
  have a: "length r < length s" if h: "parr (Suc n) d s = Some (v, r)" for d s v r
    using h by (auto simp: parr.simps split: if_splits list.splits option.splits dest!: dest)
  have o: "length r < length s" if h: "pobj (Suc n) d s = Some (v, r)" for d s v r
    using h by (auto simp: pobj.simps split: if_splits list.splits option.splits dest!: dest)
  from v a o show ?case by blast
qed

lemma pval_length: "pval n d s = Some (v, r) \<Longrightarrow> length r < length s"
  using pval_length_aux [of n] by blast

lemma pval_fuel_aux:
  "(\<forall>d s. 2 * length s + 1 \<le> n \<longrightarrow> pval (Suc n) d s = pval n d s) \<and>
   (\<forall>d s. 2 * length s + 2 \<le> n \<longrightarrow> parr (Suc n) d s = parr n d s) \<and>
   (\<forall>d s. 2 * length s + 2 \<le> n \<longrightarrow> pobj (Suc n) d s = pobj n d s)"
proof (induction n)
  case 0
  show ?case by simp
next
  case (Suc n)
  note IH = Suc.IH [THEN conjunct1, rule_format]
    Suc.IH [THEN conjunct2, THEN conjunct1, rule_format]
    Suc.IH [THEN conjunct2, THEN conjunct2, rule_format]
  have v: "pval (Suc (Suc n)) d s = pval (Suc n) d s" if h: "2 * length s + 1 \<le> Suc n" for d s
  proof (cases "skip_ws s")
    case Nil
    then show ?thesis by (simp add: pval.simps)
  next
    case (Cons c t)
    have "2 * length t + 2 \<le> n" using skip_ws_Cons [OF Cons] h by linarith
    then show ?thesis
      unfolding pval.simps Cons list.case by (simp add: IH split: list.splits)
  qed
  have a: "parr (Suc (Suc n)) d s = parr (Suc n) d s" if h: "2 * length s + 2 \<le> Suc n" for d s
  proof -
    have "parr (Suc n) d u = parr n d u"
      if "pval n d s = Some (v, r)" "skip_ws r = x # u" for v r x u
      using pval_length [OF that(1)] skip_ws_Cons [OF that(2)] h by (intro IH) linarith
    then show ?thesis
      using h
      by (simp add: IH parr.simps(2) [of "Suc n" d s] parr.simps(2) [of n d s]
          split: option.splits list.splits)
  qed
  have o: "pobj (Suc (Suc n)) d s = pobj (Suc n) d s" if h: "2 * length s + 2 \<le> Suc n" for d s
  proof -
    have u: "pval (Suc n) d u = pval n d u"
      if "skip_ws s = q # t" "lex_string t = Some (k, r)" "skip_ws r = x # u" for q t k r x u
      using skip_ws_Cons [OF that(1)] lex_string_length [OF that(2)] skip_ws_Cons [OF that(3)] h
      by (intro IH) linarith
    have w: "pobj (Suc n) d w = pobj n d w"
      if "skip_ws s = q # t" "lex_string t = Some (k, r)" "skip_ws r = x # u"
        "pval n d u = Some (v, r2)" "skip_ws r2 = y # w" for q t k r x u v r2 y w
      using skip_ws_Cons [OF that(1)] lex_string_length [OF that(2)] skip_ws_Cons [OF that(3)]
        pval_length [OF that(4)] skip_ws_Cons [OF that(5)] h
      by (intro IH) linarith
    show ?thesis
      using u w
      by (auto simp: pobj.simps(2) [of "Suc n" d s] pobj.simps(2) [of n d s]
          split: option.splits list.splits)
  qed
  from v a o show ?case by blast
qed

lemma pval_fuel: "value_fuel s \<le> n \<Longrightarrow> pval n d s = pval (value_fuel s) d s"
proof (induction n)
  case (Suc n)
  show ?case
  proof (cases "value_fuel s \<le> n")
    case True
    then have "2 * length s + 1 \<le> n" by (simp add: value_fuel_def)
    with pval_fuel_aux [of n] True Suc.IH show ?thesis by simp
  next
    case False
    with Suc.prems show ?thesis by (simp add: le_Suc_eq)
  qed
qed (simp add: value_fuel_def)

end
