(* ===== verification/Errors.thy ===== *)
theory Errors
  imports Json
begin

text \<open>
  Package \<open>apperr\<close> and the error values of the whole service. A Go \<open>error\<close> is a \<open>goerr\<close>: a
  plain text (\<open>errors.New\<close>, or \<open>fmt.Errorf\<close> without \<open>%w\<close>), one of the package-level sentinels,
  an error wrapped with \<open>%w\<close> behind a prefix or before a suffix, or an \<open>*apperr.Error\<close>. \<open>errors_is\<close> is
  \<open>errors.Is\<close> on these, \<open>code_of\<close> is \<open>apperr.CodeOf\<close>. \<open>nil\<close> is the absence of a value.
\<close>

datatype app_code =
    CodeNone
  | CodeInvalidRequestBody
  | CodePayloadTooLarge
  | CodeMethodNotAllowed
  | CodeUnauthorized
  | CodeForbidden
  | CodeMissingBearerToken
  | CodeInvalidToken
  | CodeRateLimitExceeded
  | CodeInternalServerError
  | CodeQueueFull
  | CodeQueueThrottled
  | CodePublishFailed
  | CodeDuplicateEvent
  | CodeFailedEventStore
  | CodeReplayInputInvalid
  | CodeReplayEventNotFound
  | CodeReplayConfigInvalid
  | CodeReplayPublishFailed
  | CodeReplayReadFailed

fun code_text :: "app_code \<Rightarrow> string" where
  "code_text CodeNone = ''''"
| "code_text CodeInvalidRequestBody = ''ERR_INVALID_REQUEST_BODY''"
| "code_text CodePayloadTooLarge = ''ERR_PAYLOAD_TOO_LARGE''"
| "code_text CodeMethodNotAllowed = ''ERR_METHOD_NOT_ALLOWED''"
| "code_text CodeUnauthorized = ''ERR_UNAUTHORIZED''"
| "code_text CodeForbidden = ''ERR_FORBIDDEN''"
| "code_text CodeMissingBearerToken = ''ERR_MISSING_BEARER_TOKEN''"
| "code_text CodeInvalidToken = ''ERR_INVALID_TOKEN''"
| "code_text CodeRateLimitExceeded = ''ERR_RATE_LIMIT_EXCEEDED''"
| "code_text CodeInternalServerError = ''ERR_INTERNAL_SERVER_ERROR''"
| "code_text CodeQueueFull = ''ERR_QUEUE_FULL''"
| "code_text CodeQueueThrottled = ''ERR_QUEUE_THROTTLED''"
| "code_text CodePublishFailed = ''ERR_PUBLISH_FAILED''"
| "code_text CodeDuplicateEvent = ''ERR_DUPLICATE_EVENT''"
| "code_text CodeFailedEventStore = ''ERR_FAILED_EVENT_STORE''"
| "code_text CodeReplayInputInvalid = ''ERR_REPLAY_INPUT_INVALID''"
| "code_text CodeReplayEventNotFound = ''ERR_REPLAY_EVENT_NOT_FOUND''"
| "code_text CodeReplayConfigInvalid = ''ERR_REPLAY_CONFIG_INVALID''"
| "code_text CodeReplayPublishFailed = ''ERR_REPLAY_PUBLISH_FAILED''"
| "code_text CodeReplayReadFailed = ''ERR_REPLAY_READ_FAILED''"

datatype sentinel =
    ErrQueueFull
  | ErrQueueClosed
  | ErrQueueThrottled
  | ErrCircuitOpen
  | ErrNotFound
  | ErrInvalidListQuery
  | ErrCursorNotFound
  | CtxCanceled
  | CtxDeadlineExceeded

fun sentinel_text :: "sentinel \<Rightarrow> string" where
  "sentinel_text ErrQueueFull = ''publish queue is full''"
| "sentinel_text ErrQueueClosed = ''publish queue is closed''"
| "sentinel_text ErrQueueThrottled = ''publish queue is throttled''"
| "sentinel_text ErrCircuitOpen = ''circuit breaker is open''"
| "sentinel_text ErrNotFound = ''failed event not found''"
| "sentinel_text ErrInvalidListQuery = ''invalid replay audit list query''"
| "sentinel_text ErrCursorNotFound = ''replay audit cursor not found''"
| "sentinel_text CtxCanceled = ''context canceled''"
| "sentinel_text CtxDeadlineExceeded = ''context deadline exceeded''"

text \<open>\<open>AppError code message op err\<close> is \<open>apperr.New(op, code, message, err)\<close>.\<close>

datatype goerr =
    ErrText string
  | Sentinel sentinel
  | Wrapped string goerr
  | Suffixed goerr string
  | AppError app_code string string "goerr option"

definition app_new :: "string \<Rightarrow> app_code \<Rightarrow> string \<Rightarrow> goerr option \<Rightarrow> goerr" where
  "app_new op code message err = AppError code message op err"

text \<open>\<open>Error()\<close>: a wrapped error is printed as its prefix and the inner text.\<close>

fun error_text :: "goerr \<Rightarrow> string" where
  "error_text (ErrText t) = t"
| "error_text (Sentinel s) = sentinel_text s"
| "error_text (Wrapped p e) = p @ error_text e"
| "error_text (Suffixed e t) = error_text e @ t"
| "error_text (AppError c m op (Some e)) =
     (if op \<noteq> '''' then op @ '': '' @ m @ '': '' @ error_text e
      else m @ '': '' @ error_text e)"
| "error_text (AppError c m op None) =
     (if op \<noteq> '''' then op @ '': '' @ m else m)"

definition unwrap :: "goerr \<Rightarrow> goerr option" where
  "unwrap e = (case e of Wrapped p i \<Rightarrow> Some i | Suffixed i t \<Rightarrow> Some i | AppError c m op i \<Rightarrow> i | _ \<Rightarrow> None)"

fun errors_is :: "goerr \<Rightarrow> sentinel \<Rightarrow> bool" where
  "errors_is (ErrText t) s = False"
| "errors_is (Sentinel s') s = (s' = s)"
| "errors_is (Wrapped p e) s = errors_is e s"
| "errors_is (Suffixed e t) s = errors_is e s"
| "errors_is (AppError c m op (Some e)) s = errors_is e s"
| "errors_is (AppError c m op None) s = False"

fun code_of :: "goerr \<Rightarrow> app_code" where
  "code_of (ErrText t) = CodeNone"
| "code_of (Sentinel s) = CodeNone"
| "code_of (Wrapped p e) = code_of e"
| "code_of (Suffixed e t) = code_of e"
| "code_of (AppError c m op e) = c"

text \<open>A chain of \<open>%w\<close> wrappers, outermost prefix first.\<close>

definition wrap_chain :: "string list \<Rightarrow> goerr \<Rightarrow> goerr" where
  "wrap_chain ps e = foldr Wrapped ps e"

lemma errors_is_wrap_chain [simp]: "errors_is (wrap_chain ps e) s = errors_is e s"
  by (induction ps) (simp_all add: wrap_chain_def)

lemma code_of_wrap_chain [simp]: "code_of (wrap_chain ps e) = code_of e"
  by (induction ps) (simp_all add: wrap_chain_def)

lemma error_text_wrap_chain: "error_text (wrap_chain ps e) = concat ps @ error_text e"
  by (induction ps) (simp_all add: wrap_chain_def)

lemma code_text_inj: "code_text a = code_text b \<Longrightarrow> a = b"
  by (cases a; cases b; simp)

lemma unwrap_app_new [simp]: "unwrap (app_new op c m e) = e"
  by (simp add: unwrap_def app_new_def)

lemma errors_is_app_new [simp]:
  "errors_is (app_new op c m e) s = (case e of None \<Rightarrow> False | Some i \<Rightarrow> errors_is i s)"
  by (cases e) (simp_all add: app_new_def)

lemma code_of_app_new [simp]: "code_of (app_new op c m e) = c"
  by (simp add: app_new_def)

text \<open>An error chain carries at most one sentinel: \<open>errors.Is\<close> tells the sentinels apart.\<close>

lemma errors_is_unique: "errors_is e s \<Longrightarrow> errors_is e t \<Longrightarrow> s = t"
  by (induction e s rule: errors_is.induct) auto

text \<open>Results of fallible operations and their errors.\<close>

type_synonym 'a result = "goerr + 'a"

definition is_err :: "'a result \<Rightarrow> bool" where
  "is_err r = (case r of Inl _ \<Rightarrow> True | Inr _ \<Rightarrow> False)"

lemma is_err_simps [simp]: "is_err (Inl e)" "\<not> is_err (Inr x)"
  by (simp_all add: is_err_def)

definition map_err :: "(goerr \<Rightarrow> goerr) \<Rightarrow> 'a result \<Rightarrow> 'a result" where
  "map_err f r = (case r of Inl e \<Rightarrow> Inl (f e) | Inr x \<Rightarrow> Inr x)"

lemma map_err_simps [simp]: "map_err f (Inl e) = Inl (f e)" "map_err f (Inr x) = Inr x"
  by (simp_all add: map_err_def)

lemma map_err_Inr_iff [simp]: "map_err f r = Inr x \<longleftrightarrow> r = Inr x"
  by (cases r) simp_all

lemma is_err_map_err [simp]: "is_err (map_err f r) = is_err r"
  by (cases r) simp_all

end
