(* ===== verification/Schema.thy ===== *)
theory Schema
  imports Errors
begin

text \<open>
  Package \<open>schema\<close>: the per-source validation of webhook bodies. \<open>load_schemas\<close> reads the schema
  files (the directory listing and the file contents are arguments, as the operating system gives
  them), \<open>schema_validate\<close> is \<open>Validator.Validate\<close>, and \<open>top_level_fields\<close> the walk over the token
  stream of \<open>json.Decoder\<close>. The texts of the decoder's own errors are not modelled: \<open>detail\<close> stands
  for the wrapped one.

  The walk decodes each member value on its own, so its nesting limit starts afresh inside the outer
  object. \<open>json_depth\<close> measures a tree, and \<open>validator_fields\<close> says that the walk and
  \<open>json.Unmarshal\<close> agree on every body but those exactly one level too deep.
\<close>

record json_schema =
  js_required :: "string list"
  js_type :: string

type_synonym validator = "string \<rightharpoonup> json_schema"

datatype schema_error =
    InvalidJson
  | NotObject
  | BadKey
  | BadValue
  | BadEnd
  | TrailingData
  | MissingField string

fun schema_goerr :: "goerr \<Rightarrow> schema_error \<Rightarrow> goerr" where
  "schema_goerr detail InvalidJson = Wrapped ''invalid JSON: '' detail"
| "schema_goerr detail NotObject = ErrText ''invalid JSON object''"
| "schema_goerr detail BadKey = Wrapped ''invalid JSON object key: '' detail"
| "schema_goerr detail BadValue = Wrapped ''invalid JSON object value: '' detail"
| "schema_goerr detail BadEnd = Wrapped ''invalid JSON object: '' detail"
| "schema_goerr detail TrailingData = ErrText (''invalid JSON: trailing data after '' @ error_text detail)"
| "schema_goerr detail (MissingField f) = ErrText (''missing required field: '' @ f)"

section \<open>Walking over the members of an object\<close>

text \<open>The loop \<open>for dec.More()\<close> with the tokens it takes; \<open>first\<close> before the first member. A comma is
  taken with the key that follows it, and a key position only admits a string literal.\<close>

definition next_key :: "bool \<Rightarrow> string \<Rightarrow> (string \<times> string) option" where
  "next_key first s =
     (let s1 = (if first then s
                else (case s of [] \<Rightarrow> [] | c # t \<Rightarrow> if c = CHR '','' then skip_ws t else []))
      in (case s1 of
            [] \<Rightarrow> None
          | c # t \<Rightarrow> if c = CHR 0x22 then lex_string t else None))"

definition member_value :: "string \<Rightarrow> (json \<times> string) option" where
  "member_value s =
     (case skip_ws s of
        [] \<Rightarrow> None
      | c # t \<Rightarrow> if c = CHR '':'' then pval (value_fuel t) 0 t else None)"

lemma next_key_length: "next_key first s = Some (k, r) \<Longrightarrow> length r < length s"
  by (cases s)
     (auto simp: next_key_def Let_def dest!: lex_string_length skip_ws_Cons split: if_splits list.splits)

lemma member_value_length: "member_value s = Some (v, r) \<Longrightarrow> length r < length s"
  by (auto simp: member_value_def dest!: pval_length skip_ws_Cons split: if_splits list.splits)

function object_fields :: "bool \<Rightarrow> string \<Rightarrow> schema_error + string list \<times> string" where
  "object_fields first s =
     (case skip_ws s of
        [] \<Rightarrow> Inl BadEnd
      | c # t \<Rightarrow>
          if c = CHR ''}'' then Inr ([], t)
          else if c = CHR '']'' then Inl BadEnd
          else (case next_key first (c # t) of
             None \<Rightarrow> Inl BadKey
           | Some (k, r) \<Rightarrow>
               (case member_value r of
                  None \<Rightarrow> Inl BadValue
                | Some (v, r2) \<Rightarrow>
                    (case object_fields False r2 of
                       Inl e \<Rightarrow> Inl e
                     | Inr (ks, w) \<Rightarrow> Inr (k # ks, w)))))"
  by pat_completeness auto
termination
proof (relation "measure (\<lambda>(first, s). length s)", goal_cases)
  case (2 first s c t p k r p2 v r2)
  then have "length r2 < length r" by (auto dest: member_value_length)
  moreover have "length r < length (c # t)" using 2 next_key_length by blast
  ultimately show ?case using 2(1) length_skip_ws [of s] by simp
qed simp

declare object_fields.simps [simp del]

text \<open>Whether the next token at top level is a delimiter or a value, not an error.\<close>

definition top_token :: "string \<Rightarrow> bool" where
  "top_token s =
     (case skip_ws s of
        [] \<Rightarrow> False
      | c # t \<Rightarrow> c = CHR ''{'' \<or> c = CHR ''['' \<or> pval (value_fuel (c # t)) 0 (c # t) \<noteq> None)"

definition top_level_fields :: "string \<Rightarrow> schema_error + string list" where
  "top_level_fields body =
     (case skip_ws body of
        [] \<Rightarrow> Inl InvalidJson
      | c # t \<Rightarrow>
          if c = CHR ''{'' then
            (case object_fields True t of
               Inl e \<Rightarrow> Inl e
             | Inr (ks, r) \<Rightarrow>
                 if skip_ws r = [] then Inr ks
                 else Inl (if top_token r then TrailingData else InvalidJson))
          else Inl (if top_token body then NotObject else InvalidJson))"

text \<open>The required fields are looked up in their order: the first missing one is reported.\<close>

definition schema_validate :: "validator \<Rightarrow> string \<Rightarrow> string \<Rightarrow> schema_error option" where
  "schema_validate v source body =
     (case v source of
        None \<Rightarrow> None
      | Some sch \<Rightarrow>
          if js_type sch \<noteq> ''object'' then (if json_valid body then None else Some InvalidJson)
          else (case top_level_fields body of
             Inl e \<Rightarrow> Some e
           | Inr ks \<Rightarrow> map_option MissingField (find (\<lambda>f. f \<notin> set ks) (js_required sch))))"

section \<open>Loading\<close>

text \<open>Decoding a \<open>[]string\<close>: \<open>null\<close> makes the slice \<open>nil\<close>, an array overwrites the elements it already
  has; a \<open>null\<close> element keeps the one that is there.\<close>

fun decode_elems :: "string list \<Rightarrow> json list \<Rightarrow> string list option" where
  "decode_elems cur [] = Some []"
| "decode_elems cur (v # vs) =
     (case decode_strings (case cur of [] \<Rightarrow> [] | c # cs \<Rightarrow> c) [v] of
        None \<Rightarrow> None
      | Some s \<Rightarrow> map_option ((#) s) (decode_elems (drop 1 cur) vs))"

fun decode_string_list :: "string list \<Rightarrow> json list \<Rightarrow> string list option" where
  "decode_string_list cur [] = Some cur"
| "decode_string_list cur (JNull # vs) = decode_string_list [] vs"
| "decode_string_list cur (JArr xs # vs) =
     (case decode_elems cur xs of None \<Rightarrow> None | Some ys \<Rightarrow> decode_string_list ys vs)"
| "decode_string_list cur (v # vs) = None"

definition decodes_map :: "json \<Rightarrow> bool" where
  "decodes_map j = (case j of JNull \<Rightarrow> True | JObj m \<Rightarrow> True | _ \<Rightarrow> False)"

definition decode_schema :: "string \<Rightarrow> json_schema option" where
  "decode_schema data =
     (case json_parse data of
        Some JNull \<Rightarrow> Some \<lparr>js_required = [], js_type = ''''\<rparr>
      | Some (JObj m) \<Rightarrow>
          (case (decode_string_list [] (field_values m ''required''), struct_string m ''type'',
                 list_all decodes_map (field_values m ''properties'')) of
             (Some req, Some ty, True) \<Rightarrow> Some \<lparr>js_required = req, js_type = ty\<rparr>
           | _ \<Rightarrow> None)
      | _ \<Rightarrow> None)"

text \<open>\<open>filepath.Base\<close> without the extension that \<open>filepath.Ext\<close> finds.\<close>

definition path_base :: "string \<Rightarrow> string" where
  "path_base p =
     (if p = '''' then ''.''
      else (let q = rev (dropWhile (\<lambda>c. c = CHR ''/'') (rev p))
            in if q = '''' then ''/'' else last (split_on (CHR ''/'') q)))"

definition path_ext_len :: "string \<Rightarrow> nat" where
  "path_ext_len p =
     (let r = rev p; w = takeWhile (\<lambda>c. c \<noteq> CHR ''.'' \<and> c \<noteq> CHR ''/'') r
      in (case drop (length w) r of [] \<Rightarrow> 0 | c # t \<Rightarrow> if c = CHR ''.'' then Suc (length w) else 0))"

definition schema_source :: "string \<Rightarrow> string" where
  "schema_source f = (let b = path_base f in take (length b - path_ext_len b) b)"

fun load_files :: "(string \<Rightarrow> string result) \<Rightarrow> (string \<Rightarrow> goerr) \<Rightarrow> string list \<Rightarrow> validator
     \<Rightarrow> validator result" where
  "load_files read parse_err [] v = Inr v"
| "load_files read parse_err (f # fs) v =
     (case read f of
        Inl e \<Rightarrow> Inl (Wrapped (''read schema file '' @ f @ '': '') e)
      | Inr data \<Rightarrow>
          (case decode_schema data of
             None \<Rightarrow> Inl (Wrapped (''parse schema file '' @ f @ '': '') (parse_err data))
           | Some sch \<Rightarrow> load_files read parse_err fs (v(schema_source f \<mapsto> sch))))"

definition load_schemas ::
  "(string \<Rightarrow> string list result) \<Rightarrow> (string \<Rightarrow> string result) \<Rightarrow> (string \<Rightarrow> goerr) \<Rightarrow> string
     \<Rightarrow> validator result" where
  "load_schemas glob read parse_err path =
     (case glob path of
        Inl e \<Rightarrow> Inl (Wrapped ''glob schema files: '' e)
      | Inr [] \<Rightarrow> Inl (ErrText (''no schema files found in '' @ path))
      | Inr fs \<Rightarrow> load_files read parse_err fs Map.empty)"

definition new_validator ::
  "(string \<Rightarrow> string list result) \<Rightarrow> (string \<Rightarrow> string result) \<Rightarrow> (string \<Rightarrow> goerr) \<Rightarrow> string
     \<Rightarrow> validator result" where
  "new_validator glob read parse_err path =
     (if path = '''' then Inr Map.empty
      else map_err (Wrapped ''load schemas: '') (load_schemas glob read parse_err path))"

section \<open>Nesting\<close>

fun json_depth :: "json \<Rightarrow> nat" where
  "json_depth (JArr vs) = Suc (foldr (\<lambda>v n. max (json_depth v) n) vs 0)"
| "json_depth (JObj m) = Suc (foldr (\<lambda>(k, v) n. max (json_depth v) n) m 0)"
| "json_depth _ = 0"

text \<open>A tree the scanner can reach at depth \<open>d\<close> without passing its limit.\<close>

definition fits :: "nat \<Rightarrow> json \<Rightarrow> bool" where
  "fits d v \<longleftrightarrow> json_depth v = 0 \<or> d + json_depth v \<le> max_depth"

definition all_fit :: "nat \<Rightarrow> (string \<times> json) list \<Rightarrow> bool" where
  "all_fit d m \<longleftrightarrow> (\<forall>v \<in> snd ` set m. fits d v)"

lemma foldr_max_le: "foldr (\<lambda>v n. max (f v) n) vs 0 \<le> (k :: nat) \<longleftrightarrow> (\<forall>v \<in> set vs. f v \<le> k)"
  by (induction vs) auto

lemma foldr_max_pair_le:
  "foldr (\<lambda>(a, v) n. max (f v) n) m 0 \<le> (k :: nat) \<longleftrightarrow> (\<forall>v \<in> snd ` set m. f v \<le> k)"
  by (induction m) auto

lemma fits_JArr [simp]: "fits d (JArr vs) \<longleftrightarrow> d < max_depth \<and> (\<forall>v \<in> set vs. fits (Suc d) v)"
proof -
  have "fits d (JArr vs)
      \<longleftrightarrow> d < max_depth \<and> foldr (\<lambda>v n. max (json_depth v) n) vs 0 \<le> max_depth - Suc d"
    by (auto simp: fits_def)
  also have "\<dots> \<longleftrightarrow> d < max_depth \<and> (\<forall>v \<in> set vs. fits (Suc d) v)"
    by (auto simp: foldr_max_le fits_def)
  finally show ?thesis .
qed

lemma fits_JObj [simp]: "fits d (JObj m) \<longleftrightarrow> d < max_depth \<and> all_fit (Suc d) m"
proof -
  have "fits d (JObj m)
      \<longleftrightarrow> d < max_depth \<and> foldr (\<lambda>(k, v) n. max (json_depth v) n) m 0 \<le> max_depth - Suc d"
    by (auto simp: fits_def)
  also have "\<dots> \<longleftrightarrow> d < max_depth \<and> all_fit (Suc d) m"
    by (auto simp: foldr_max_pair_le fits_def all_fit_def)
  finally show ?thesis .
qed

lemma fits_scalar [simp]:
  "fits d JNull" "fits d (JBool b)" "fits d (JNum t)" "fits d (JStr t)"
  by (simp_all add: fits_def)

lemma all_fit_simps [simp]: "all_fit d []" "all_fit d (kv # m) \<longleftrightarrow> fits d (snd kv) \<and> all_fit d m"
  by (auto simp: all_fit_def)

lemma fits_mono: "fits d v \<Longrightarrow> d' \<le> d \<Longrightarrow> fits d' v"
  by (auto simp: fits_def)

lemma parr_Some_iff:
  "parr (Suc n) d s = Some (vs, r) \<longleftrightarrow>
     (\<exists>v r1 x u. pval n d s = Some (v, r1) \<and> skip_ws r1 = x # u
        \<and> (x = CHR '']'' \<and> vs = [v] \<and> r = u
           \<or> x = CHR '','' \<and> (\<exists>vs'. vs = v # vs' \<and> parr n d u = Some (vs', r))))"
  by (auto simp: parr.simps(2) split: option.splits list.splits)

lemma pobj_Some_iff:
  "pobj (Suc n) d s = Some (m, r) \<longleftrightarrow>
     (\<exists>t k r1 u v r2 y w. skip_ws s = CHR 0x22 # t \<and> lex_string t = Some (k, r1)
        \<and> skip_ws r1 = CHR '':'' # u \<and> pval n d u = Some (v, r2) \<and> skip_ws r2 = y # w
        \<and> (y = CHR ''}'' \<and> m = [(k, v)] \<and> r = w
           \<or> y = CHR '','' \<and> (\<exists>m'. m = (k, v) # m' \<and> pobj n d w = Some (m', r))))"
  by (auto simp: pobj.simps(2) split: option.splits list.splits)

text \<open>What the parser accepts fits, and is accepted at every other depth where it fits.\<close>

lemma pval_fits_aux:
  "(\<forall>d s v r. pval n d s = Some (v, r) \<longrightarrow> fits d v \<and> (\<forall>d'. fits d' v \<longrightarrow> pval n d' s = Some (v, r))) \<and>
   (\<forall>d s vs r. parr n d s = Some (vs, r) \<longrightarrow>
      (\<forall>v \<in> set vs. fits d v) \<and> (\<forall>d'. (\<forall>v \<in> set vs. fits d' v) \<longrightarrow> parr n d' s = Some (vs, r))) \<and>
   (\<forall>d s m r. pobj n d s = Some (m, r) \<longrightarrow>
      all_fit d m \<and> (\<forall>d'. all_fit d' m \<longrightarrow> pobj n d' s = Some (m, r)))"
proof (induction n)
  case 0
  show ?case by (simp add: pval.simps parr.simps pobj.simps)
next
  case (Suc n)
  note V = Suc.IH [THEN conjunct1, rule_format]
  note A = Suc.IH [THEN conjunct2, THEN conjunct1, rule_format]
  note M = Suc.IH [THEN conjunct2, THEN conjunct2, rule_format]
  have v: "fits d v \<and> (\<forall>d'. fits d' v \<longrightarrow> pval (Suc n) d' s = Some (v, r))"
    if h: "pval (Suc n) d s = Some (v, r)" for d s v r
  proof (cases "skip_ws s")
    case Nil
    with h show ?thesis by (simp add: pval.simps)
  next
    case (Cons c t)
    from h show ?thesis
      unfolding pval.simps Cons list.case
      by (auto split: if_splits list.splits dest!: A M)
  qed
  have a: "(\<forall>v \<in> set vs. fits d v) \<and> (\<forall>d'. (\<forall>v \<in> set vs. fits d' v) \<longrightarrow> parr (Suc n) d' s = Some (vs, r))"
    if h: "parr (Suc n) d s = Some (vs, r)" for d s vs r
  proof -
    from h obtain v r1 x u where p: "pval n d s = Some (v, r1)" "skip_ws r1 = x # u"
      and e: "x = CHR '']'' \<and> vs = [v] \<and> r = u
        \<or> x = CHR '','' \<and> (\<exists>vs'. vs = v # vs' \<and> parr n d u = Some (vs', r))"
      unfolding parr_Some_iff by blast
    from e show ?thesis
      unfolding parr_Some_iff using p V [OF p(1)] by (elim disjE) (auto dest!: A)
  qed
  have o: "all_fit d m \<and> (\<forall>d'. all_fit d' m \<longrightarrow> pobj (Suc n) d' s = Some (m, r))"
    if h: "pobj (Suc n) d s = Some (m, r)" for d s m r
  proof -
    from h obtain t k r1 u v r2 y w where p: "skip_ws s = CHR 0x22 # t" "lex_string t = Some (k, r1)"
        "skip_ws r1 = CHR '':'' # u" "pval n d u = Some (v, r2)" "skip_ws r2 = y # w"
      and e: "y = CHR ''}'' \<and> m = [(k, v)] \<and> r = w
        \<or> y = CHR '','' \<and> (\<exists>m'. m = (k, v) # m' \<and> pobj n d w = Some (m', r))"
      unfolding pobj_Some_iff by blast
    from e show ?thesis
      unfolding pobj_Some_iff using p V [OF p(4)] by (elim disjE) (auto dest!: M)
  qed
  from v a o show ?case by blast
qed

lemma pval_fits: "pval n d s = Some (v, r) \<Longrightarrow> fits d v"
  and pval_depth: "pval n d s = Some (v, r) \<Longrightarrow> fits d' v \<Longrightarrow> pval n d' s = Some (v, r)"
  and pobj_fits: "pobj n d s = Some (m, r) \<Longrightarrow> all_fit d m"
  and pobj_depth: "pobj n d s = Some (m, r) \<Longrightarrow> all_fit d' m \<Longrightarrow> pobj n d' s = Some (m, r)"
  using pval_fits_aux [of n] by blast+


section \<open>The walk and the parser\<close>

lemma pobj_object_fields:
  assumes "pobj n d s = Some (m, r)" and "2 * length s + 2 \<le> n"
    and "skip_ws s0 = skip_ws s \<and> first \<or> skip_ws s0 = CHR '','' # s \<and> \<not> first"
  shows "object_fields first s0 = Inr (map fst m, r)"
  using assms
proof (induction n arbitrary: d s m r first s0)
  case 0
  then show ?case by simp
next
  case (Suc n)
  from Suc.prems(1) obtain t k r1 u v r2 y w where p: "skip_ws s = CHR 0x22 # t"
      "lex_string t = Some (k, r1)" "skip_ws r1 = CHR '':'' # u" "pval n d u = Some (v, r2)"
      "skip_ws r2 = y # w"
    and e: "y = CHR ''}'' \<and> m = [(k, v)] \<and> r = w
      \<or> y = CHR '','' \<and> (\<exists>m'. m = (k, v) # m' \<and> pobj n d w = Some (m', r))"
    unfolding pobj_Some_iff by blast
  have len: "length t < length s" "length r1 < length t" "length u < length r1"
      "length r2 < length u" "length w < length r2"
    using skip_ws_Cons [OF p(1)] lex_string_length [OF p(2)] skip_ws_Cons [OF p(3)]
      pval_length [OF p(4)] skip_ws_Cons [OF p(5)] by auto
  have "pval n 0 u = Some (v, r2)"
    using pval_depth [OF p(4)] fits_mono [OF pval_fits [OF p(4)]] by simp
  moreover have "value_fuel u \<le> n" using len Suc.prems(2) by (simp add: value_fuel_def)
  ultimately have "member_value r1 = Some (v, r2)"
    using pval_fuel [of u n 0] p(3) by (simp add: member_value_def)
  moreover obtain c t0 where c: "skip_ws s0 = c # t0" "c \<noteq> CHR ''}''" "c \<noteq> CHR '']''"
      "next_key first (c # t0) = Some (k, r1)"
    using Suc.prems(3) p(1,2) by (auto simp: next_key_def)
  ultimately have step: "object_fields first s0
      = (case object_fields False r2 of Inl e \<Rightarrow> Inl e | Inr (ks, w) \<Rightarrow> Inr (k # ks, w))"
    by (simp add: object_fields.simps [of first s0])
  from e show ?case
  proof
    assume "y = CHR ''}'' \<and> m = [(k, v)] \<and> r = w"
    with p(5) step show ?case by (simp add: object_fields.simps [of False r2])
  next
    assume "y = CHR '','' \<and> (\<exists>m'. m = (k, v) # m' \<and> pobj n d w = Some (m', r))"
    then obtain m' where m: "y = CHR '',''" "m = (k, v) # m'" "pobj n d w = Some (m', r)" by blast
    have "object_fields False r2 = Inr (map fst m', r)"
      using Suc.IH [OF m(3), of r2 False] p(5) m(1) len Suc.prems(2) by simp
    with step m(2) show ?case by simp
  qed
qed

text \<open>One round of the loop, as one round of the parser at any depth and with enough fuel.\<close>

lemma object_fields_step:
  assumes "object_fields first s0 = Inr (ks, r)" and "\<nexists>t. skip_ws s0 = CHR ''}'' # t"
  obtains s k v r2 ks' where "if first then s = s0 else skip_ws s0 = CHR '','' # s" and "fits 0 v"
    and "object_fields False r2 = Inr (ks', r)" and "ks = k # ks'" and "length r2 < length s"
    and "\<And>n d m y w. 2 * length s + 1 \<le> n \<Longrightarrow> fits d v \<Longrightarrow> skip_ws r2 = y # w \<Longrightarrow>
      y = CHR ''}'' \<and> m = [] \<and> w = r \<or> y = CHR '','' \<and> pobj n d w = Some (m, r) \<Longrightarrow>
      pobj (Suc n) d s = Some ((k, v) # m, r)"
proof -
  from assms obtain c t0 k r1 v r2 ks' where p: "skip_ws s0 = c # t0"
      "next_key first (c # t0) = Some (k, r1)" "member_value r1 = Some (v, r2)"
      "object_fields False r2 = Inr (ks', r)" "ks = k # ks'"
    by (auto simp: object_fields.simps [of first s0] split: list.splits if_splits option.splits
        sum.splits)
  define s where "s = (if first then s0 else t0)"
  from p(1,2) obtain t where t: "skip_ws s = CHR 0x22 # t" "lex_string t = Some (k, r1)"
    and s: "if first then s = s0 else skip_ws s0 = CHR '','' # s"
    by (auto simp: next_key_def s_def Let_def split: if_splits list.splits)
  from p(3) obtain u where u: "skip_ws r1 = CHR '':'' # u" "pval (value_fuel u) 0 u = Some (v, r2)"
    by (auto simp: member_value_def split: list.splits if_splits)
  have len: "length t < length s" "length r1 < length t" "length u < length r1" "length r2 < length u"
    using skip_ws_Cons [OF t(1)] lex_string_length [OF t(2)] skip_ws_Cons [OF u(1)]
      pval_length [OF u(2)] by auto
  have val: "pval n d u = Some (v, r2)" if "fits d v" "2 * length s + 1 \<le> n" for n d
    using pval_depth [OF u(2) that(1)] pval_fuel [of u n d] that(2) len by (simp add: value_fuel_def)
  show ?thesis
  proof (rule that [OF s pval_fits [OF u(2)] p(4,5)])
    show "length r2 < length s" using len by simp
    fix n d m y w assume "2 * length s + 1 \<le> n" "fits d v" "skip_ws r2 = y # w"
      "y = CHR ''}'' \<and> m = [] \<and> w = r \<or> y = CHR '','' \<and> pobj n d w = Some (m, r)"
    then show "pobj (Suc n) d s = Some ((k, v) # m, r)"
      unfolding pobj_Some_iff using t u(1) val [of d n] by auto
  qed
qed

definition parsed_as :: "string \<Rightarrow> string list \<Rightarrow> string \<Rightarrow> bool" where
  "parsed_as s ks r \<longleftrightarrow> (\<exists>m. ks = map fst m \<and> all_fit 0 m
     \<and> (\<forall>n d. 2 * length s + 2 \<le> n \<longrightarrow> all_fit d m \<longrightarrow> pobj n d s = Some (m, r)))"

lemma object_fields_pobj:
  assumes "object_fields first s0 = Inr (ks, r)"
  shows "skip_ws s0 = CHR ''}'' # r \<and> ks = []
    \<or> (\<exists>s. (if first then s = s0 else skip_ws s0 = CHR '','' # s) \<and> parsed_as s ks r)"
  using assms
proof (induction "length s0" arbitrary: first s0 ks r rule: less_induct)
  case less
  show ?case
  proof (cases "\<exists>t. skip_ws s0 = CHR ''}'' # t")
    case True
    with less.prems show ?thesis by (auto simp: object_fields.simps [of first s0])
  next
    case False
    show ?thesis
    proof (rule object_fields_step [OF less.prems False])
      fix s k v r2 ks'
      assume s: "if first then s = s0 else skip_ws s0 = CHR '','' # s" and v: "fits 0 v"
        and rec: "object_fields False r2 = Inr (ks', r)" and ks: "ks = k # ks'"
        and len: "length r2 < length s"
        and step: "\<And>n d m y w. 2 * length s + 1 \<le> n \<Longrightarrow> fits d v \<Longrightarrow> skip_ws r2 = y # w \<Longrightarrow>
          y = CHR ''}'' \<and> m = [] \<and> w = r \<or> y = CHR '','' \<and> pobj n d w = Some (m, r) \<Longrightarrow>
          pobj (Suc n) d s = Some ((k, v) # m, r)"
      have "length s \<le> length s0" using s by (auto dest!: skip_ws_Cons split: if_splits)
      with len have "length r2 < length s0" by simp
      from less.hyps [OF this rec]
      have "skip_ws r2 = CHR ''}'' # r \<and> ks' = [] \<or> (\<exists>w. skip_ws r2 = CHR '','' # w \<and> parsed_as w ks' r)"
        by simp
      then obtain m y w where m: "skip_ws r2 = y # w" "ks' = map fst m" "all_fit 0 m"
          "\<And>n d. 2 * length w + 2 \<le> n \<Longrightarrow> all_fit d m \<Longrightarrow>
            y = CHR ''}'' \<and> m = [] \<and> w = r \<or> y = CHR '','' \<and> pobj n d w = Some (m, r)"
      proof
        assume "skip_ws r2 = CHR ''}'' # r \<and> ks' = []"
        then show thesis by (intro that [of "CHR ''}''" r "[]"]) simp_all
      next
        assume "\<exists>w. skip_ws r2 = CHR '','' # w \<and> parsed_as w ks' r"
        then obtain w m where "skip_ws r2 = CHR '','' # w" "ks' = map fst m" "all_fit 0 m"
          "\<forall>n d. 2 * length w + 2 \<le> n \<longrightarrow> all_fit d m \<longrightarrow> pobj n d w = Some (m, r)"
          unfolding parsed_as_def by blast
        then show thesis by (intro that [of "CHR '',''" w m]) simp_all
      qed
      have "length w < length r2" using skip_ws_Cons [OF m(1)] .
      then have "pobj n d s = Some ((k, v) # m, r)"
        if "2 * length s + 2 \<le> n" "all_fit d ((k, v) # m)" for n d
        using that step [OF _ _ m(1), of "n - 1" d m] m(4) [of "n - 1" d] len by (cases n) auto
      then have "parsed_as s ks r"
        unfolding parsed_as_def using ks v m(2,3) by (intro exI [of _ "(k, v) # m"]) simp
      with s show ?thesis by blast
    qed
  qed
qed

lemma pobj_not_brace: "pobj n d s = Some (m, r) \<Longrightarrow> \<exists>c t. skip_ws s = c # t \<and> c \<noteq> CHR ''}''"
  by (cases n) (auto simp: pobj_Some_iff pobj.simps(1))

text \<open>\<open>json.Unmarshal\<close> on a body that starts with a brace.\<close>

lemma json_parse_object:
  assumes "skip_ws body = CHR ''{'' # t"
  shows "json_parse body =
    (case skip_ws t of
       [] \<Rightarrow> None
     | x # u \<Rightarrow>
         if x = CHR ''}'' then (if skip_ws u = [] then Some (JObj []) else None)
         else (case pobj (2 * length body + 1) 1 t of
                 None \<Rightarrow> None
               | Some (m, r) \<Rightarrow> if skip_ws r = [] then Some (JObj m) else None))"
  using assms
  by (auto simp: json_parse_def value_fuel_def pval.simps(2) max_depth_def split: list.splits option.splits)

lemma json_parse_no_object:
  "json_parse body = Some (JObj m) \<Longrightarrow> \<exists>t. skip_ws body = CHR ''{'' # t"
  by (auto simp: json_parse_def value_fuel_def pval.simps(2) split: option.splits list.splits if_splits)

lemma object_fields_true:
  assumes "skip_ws t = x # u" and "x \<noteq> CHR ''}''"
  shows "object_fields True t = Inr (ks, r) \<longleftrightarrow> parsed_as t ks r"
proof
  assume "object_fields True t = Inr (ks, r)"
  from object_fields_pobj [OF this] assms show "parsed_as t ks r" by auto
next
  assume "parsed_as t ks r"
  then obtain m where m: "ks = map fst m" "pobj (2 * length t + 2) 0 t = Some (m, r)"
    unfolding parsed_as_def by auto
  show "object_fields True t = Inr (ks, r)"
    using pobj_object_fields [OF m(2), of t True] m(1) by simp
qed

lemma top_level_fields_of_object:
  assumes "json_parse body = Some (JObj m)"
  shows "top_level_fields body = Inr (map fst m)"
proof -
  obtain t where t: "skip_ws body = CHR ''{'' # t" using json_parse_no_object [OF assms] by blast
  note parse = json_parse_object [OF t] skip_ws_Cons [OF t]
  show ?thesis
  proof (cases "\<exists>u. skip_ws t = CHR ''}'' # u")
    case True
    with assms t parse show ?thesis
      by (auto simp: top_level_fields_def object_fields.simps [of True t] split: if_splits)
  next
    case False
    with assms parse(1) obtain r where r: "pobj (2 * length body + 1) 1 t = Some (m, r)" "skip_ws r = []"
      by (auto split: list.splits if_splits option.splits)
    have "object_fields True t = Inr (map fst m, r)"
      using pobj_object_fields [OF r(1), of t True] parse(2) by simp
    with t r(2) show ?thesis by (simp add: top_level_fields_def)
  qed
qed

lemma top_level_fields_too_deep:
  assumes "top_level_fields body = Inr ks"
  shows "\<exists>m. ks = map fst m \<and> (json_parse body = Some (JObj m)
    \<or> json_parse body = None \<and> json_depth (JObj m) = Suc max_depth)"
proof -
  from assms obtain t r where t: "skip_ws body = CHR ''{'' # t" and f: "object_fields True t = Inr (ks, r)"
    and r: "skip_ws r = []"
    by (auto simp: top_level_fields_def split: list.splits if_splits sum.splits)
  note parse = json_parse_object [OF t] skip_ws_Cons [OF t]
  show ?thesis
  proof (cases "\<exists>u. skip_ws t = CHR ''}'' # u")
    case True
    with f r parse(1) show ?thesis
      by (intro exI [of _ "[]"]) (auto simp: object_fields.simps [of True t])
  next
    case False
    with f obtain x u where x: "skip_ws t = x # u" "x \<noteq> CHR ''}''"
      by (cases "skip_ws t") (auto simp: object_fields.simps [of True t])
    with f have "parsed_as t ks r" by (simp add: object_fields_true)
    then obtain m where m: "ks = map fst m" "all_fit 0 m"
      and p: "\<And>n d. 2 * length t + 2 \<le> n \<Longrightarrow> all_fit d m \<Longrightarrow> pobj n d t = Some (m, r)"
      unfolding parsed_as_def by blast
    have n: "2 * length t + 2 \<le> 2 * length body + 1" using parse(2) by simp
    show ?thesis
    proof (cases "all_fit 1 m")
      case True
      from parse(1) x p [OF n True] r m(1) show ?thesis by auto
    next
      case False
      have "pobj (2 * length body + 1) 1 t = None"
      proof (rule ccontr)
        assume "pobj (2 * length body + 1) 1 t \<noteq> None"
        then obtain m' r' where q: "pobj (2 * length body + 1) 1 t = Some (m', r')" by auto
        have "all_fit 0 m'" using pobj_fits [OF q] by (auto simp: all_fit_def intro: fits_mono)
        from pobj_depth [OF q this] p [OF n m(2)] pobj_fits [OF q] False show False by simp
      qed
      moreover have "json_depth (JObj m) = Suc max_depth"
      proof -
        from False obtain v where v: "v \<in> snd ` set m" "\<not> fits 1 v" by (auto simp: all_fit_def)
        with m(2) have "json_depth v = max_depth" by (auto simp: all_fit_def fits_def)
        moreover have "\<forall>v \<in> snd ` set m. json_depth v \<le> max_depth"
          using m(2) by (auto simp: all_fit_def fits_def)
        ultimately show ?thesis
          using v(1) foldr_max_pair_le [of json_depth m max_depth]
            foldr_max_pair_le [of json_depth m "max_depth - 1"] by (force simp: max_depth_def)
      qed
      ultimately show ?thesis using parse(1) x m(1) by auto
    qed
  qed
qed


section \<open>What the validator accepts\<close>

lemma find_missing: "find (\<lambda>f. f \<notin> S) fs = None \<longleftrightarrow> set fs \<subseteq> S"
  by (auto simp: find_None_set)

text \<open>
  C1: A source with an object schema accepts exactly the JSON objects that have every required field,
  for every body \<open>json.Unmarshal\<close> can read. A body it cannot read is accepted only when it is an object
  with the required fields whose nesting is exactly one level above the scanner's limit, since the
  validator decodes member by member.
\<close>

theorem validator_spec:
  assumes "v source = Some sch" and "js_type sch = ''object''"
  shows "(\<forall>j. json_parse body = Some j \<longrightarrow>
      (schema_validate v source body = None
       \<longleftrightarrow> (\<exists>m. j = JObj m \<and> set (js_required sch) \<subseteq> fst ` set m)))
    \<and> (json_parse body = None \<and> schema_validate v source body = None \<longrightarrow>
      (\<exists>m. set (js_required sch) \<subseteq> fst ` set m \<and> json_depth (JObj m) = Suc max_depth))"
proof -
  have unf: "schema_validate v source body = None
      \<longleftrightarrow> (\<exists>ks. top_level_fields body = Inr ks \<and> set (js_required sch) \<subseteq> set ks)"
    using assms by (auto simp: schema_validate_def find_missing split: sum.splits)
  show ?thesis
    unfolding unf using top_level_fields_of_object [of body] top_level_fields_too_deep [of body]
    by fastforce
qed

definition demo_validator :: validator where
  "demo_validator = [''github'' \<mapsto> \<lparr>js_required = [''id''], js_type = ''object''\<rparr>]"

theorem validator_spec_witness:
  "schema_validate demo_validator ''github'' ''{\"id\":[1]}'' = None
   \<and> schema_validate demo_validator ''github'' ''{\"ID\":[1]}'' \<noteq> None"
proof -
  have v: "demo_validator ''github'' = Some \<lparr>js_required = [''id''], js_type = ''object''\<rparr>"
    by (simp add: demo_validator_def)
  have a: "json_parse ''{\"id\":[1]}'' = Some (JObj [(''id'', JArr [JNum ''1''])])"
    and b: "json_parse ''{\"ID\":[1]}'' = Some (JObj [(''ID'', JArr [JNum ''1''])])"
    by code_simp+
  show ?thesis
    using validator_spec [where v = demo_validator, OF v, of "''{\"id\":[1]}''"] validator_spec [where v = demo_validator, OF v, of "''{\"ID\":[1]}''"] a b
    by simp
qed

end
