(* ===== verification/Line_File.thy ===== *)
theory Line_File
  imports Errors
begin

text \<open>
  Files of JSON lines, as the three file stores (failed events, replay audit, security audit) keep
  them. A file is absent before the first write; a line is its length in bytes and the value it decodes
  to, \<open>None\<close> when it is blank or does not decode. Encoding is a parameter: \<open>enc x\<close> is the length of the
  line and the value read back from it. The scanner has a buffer of 2 MiB and stops at the first line
  that does not fit with its newline.
\<close>

record 'a file_line =
  fl_bytes :: nat
  fl_value :: "'a option"

type_synonym 'a line_file = "'a file_line list option"

section \<open>Writing\<close>

datatype write_outcome =
    WriteOk
  | WriteFails goerr
  | SyncFails goerr

definition encode_line :: "('a \<Rightarrow> nat \<times> 'a) \<Rightarrow> 'a \<Rightarrow> 'a file_line" where
  "encode_line enc x = \<lparr>fl_bytes = fst (enc x), fl_value = Some (snd (enc x))\<rparr>"

definition append_line :: "'a file_line \<Rightarrow> 'a line_file \<Rightarrow> 'a line_file" where
  "append_line l file = Some ((case file of None \<Rightarrow> [] | Some ls \<Rightarrow> ls) @ [l])"

section \<open>Reading\<close>

text \<open>
  \<open>bufio.Scanner\<close> with a 2 MiB buffer: it stops at the first line that does not fit with its
  newline. \<open>scan_lines\<close> gives the lines before that one, and whether there was one.
\<close>

definition max_line :: nat where "max_line = 2 * 1024 * 1024"

fun scan_lines :: "'a file_line list \<Rightarrow> 'a file_line list \<times> bool" where
  "scan_lines [] = ([], False)"
| "scan_lines (l # ls) =
     (if max_line \<le> fl_bytes l then ([], True)
      else (case scan_lines ls of (ok, bad) \<Rightarrow> (l # ok, bad)))"

definition token_too_long :: goerr where
  "token_too_long = ErrText ''bufio.Scanner: token too long''"

definition decoded :: "'a file_line list \<Rightarrow> 'a list" where
  "decoded ls = concat (map (\<lambda>l. case fl_value l of None \<Rightarrow> [] | Some e \<Rightarrow> [e]) ls)"

record store_io =
  io_open :: "goerr option"
  io_ctx :: "goerr option"
  io_rewrite :: "goerr option"

definition io_ok :: store_io where
  "io_ok = \<lparr>io_open = None, io_ctx = None, io_rewrite = None\<rparr>"

text \<open>The buffer of \<open>ListRecent\<close>: the oldest event is dropped once \<open>limit\<close> are held.\<close>

definition push_recent :: "nat \<Rightarrow> 'a list \<Rightarrow> 'a \<Rightarrow> 'a list" where
  "push_recent limit events e =
     (if length events < limit then events @ [e]
      else (tl events @ [last events])[length events - 1 := e])"

section \<open>What the file holds\<close>

definition file_lines :: "'a line_file \<Rightarrow> 'a file_line list" where
  "file_lines file = (case file of None \<Rightarrow> [] | Some ls \<Rightarrow> ls)"

definition file_events :: "'a line_file \<Rightarrow> 'a list" where
  "file_events file = decoded (file_lines file)"

definition readable :: "'a line_file \<Rightarrow> bool" where
  "readable file \<longleftrightarrow> list_all (\<lambda>l. fl_bytes l < max_line) (file_lines file)"

lemma scan_lines_spec:
  "scan_lines ls = (takeWhile (\<lambda>l. fl_bytes l < max_line) ls, list_ex (\<lambda>l. max_line \<le> fl_bytes l) ls)"
  by (induction ls) auto

lemma scan_lines_ok: "list_all (\<lambda>l. fl_bytes l < max_line) ls \<Longrightarrow> scan_lines ls = (ls, False)"
  by (induction ls) auto

lemma decoded_append [simp]: "decoded (xs @ ys) = decoded xs @ decoded ys"
  by (simp add: decoded_def)

lemma decoded_encode [simp]: "decoded (map (encode_line enc) es) = map (\<lambda>e. snd (enc e)) es"
  by (induction es) (simp_all add: decoded_def encode_line_def)

lemma file_append [simp]:
  "file_lines (append_line l file) = file_lines file @ [l]"
  by (simp add: file_lines_def append_line_def)

lemma io_ok_simps [simp]: "io_open io_ok = None" "io_ctx io_ok = None" "io_rewrite io_ok = None"
  by (simp_all add: io_ok_def)

lemma push_recent_last_n:
  "0 < n \<Longrightarrow> foldl (push_recent n) [] es = last_n n es"
proof (induction es rule: rev_induct)
  case (snoc e es)
  show ?case
  proof (cases "length es < n")
    case True
    with snoc show ?thesis by (simp add: push_recent_def last_n_short)
  next
    case False
    then have len: "length (last_n n es) = n" by simp
    have "last_n n es \<noteq> []" using snoc.prems len by fastforce
    then have "push_recent n (last_n n es) e = tl (last_n n es) @ [e]"
      using len by (simp add: push_recent_def list_update_append)
    also have "\<dots> = last_n n (es @ [e])"
      using False snoc.prems by (simp add: last_n_def tl_drop Suc_diff_le flip: drop_Suc)
    finally show ?thesis using snoc by simp
  qed
qed (simp add: last_n_def)

end
