(* ===== verification/Postgres.thy ===== *)
theory Postgres
  imports Errors
begin

text \<open>
  What the three Postgres stores share: the generated ids and the columns of their tables. A text
  column takes valid UTF-8 without NUL bytes, a \<open>VARCHAR(n)\<close> column at most \<open>n\<close> characters; anything
  else is an error of the statement. (Blanks beyond the bound, which Postgres cuts off instead, do not
  occur: the values are trimmed before they are saved.)
\<close>

definition pg_generate_id :: "time \<Rightarrow> string result \<Rightarrow> string" where
  "pg_generate_id now random =
     (case random of Inl err \<Rightarrow> ''fallback-'' @ itoa now | Inr b \<Rightarrow> hex_encode b)"

definition pg_text :: "string \<Rightarrow> bool" where
  "pg_text s \<longleftrightarrow> concat (runes s) = s \<and> CHR 0x00 \<notin> set s"

definition pg_varchar :: "nat \<Rightarrow> string \<Rightarrow> bool" where
  "pg_varchar n s \<longleftrightarrow> pg_text s \<and> char_count s \<le> n"

lemma pg_text_Nil [simp]: "pg_text []"
  by (simp add: pg_text_def runes.simps)

lemma pg_varchar_Nil [simp]: "pg_varchar n []"
  by (simp add: pg_varchar_def char_count_def runes.simps)

text \<open>ASCII text without NUL is one character per byte.\<close>

definition ascii_text :: "string \<Rightarrow> bool" where
  "ascii_text s \<longleftrightarrow> list_all (\<lambda>c. 0 < (of_char c :: nat) \<and> (of_char c :: nat) < 128) s"

lemma runes_ascii: "ascii_text s \<Longrightarrow> runes s = map (\<lambda>c. [c]) s"
  by (induction s) (simp_all add: runes.simps ascii_text_def utf8_len_def)

lemma pg_text_ascii: "ascii_text s \<Longrightarrow> pg_text s"
  by (auto simp: pg_text_def runes_ascii list_all_iff ascii_text_def)

lemma char_count_ascii: "ascii_text s \<Longrightarrow> char_count s = length s"
  by (simp add: char_count_def runes_ascii)

lemma pg_varchar_ascii: "ascii_text s \<Longrightarrow> pg_varchar n s \<longleftrightarrow> length s \<le> n"
  by (simp add: pg_varchar_def pg_text_ascii char_count_ascii)

definition too_long :: goerr where
  "too_long = ErrText ''ERROR: value too long for type character varying (SQLSTATE 22001)''"

definition bad_text :: goerr where
  "bad_text = ErrText ''ERROR: invalid byte sequence for encoding (SQLSTATE 22021)''"

text \<open>A \<open>TIMESTAMP\<close> keeps microseconds.\<close>

definition pg_timestamp :: "time \<Rightarrow> time" where
  "pg_timestamp t = t - t mod 1000"

text \<open>The \<open>LIMIT\<close> of a listing: a default for what is not positive, at most 1000.\<close>

definition clamp_limit :: "int \<Rightarrow> int \<Rightarrow> int" where
  "clamp_limit d n = (let l = (if n \<le> 0 then d else n) in if l > 1000 then 1000 else l)"

lemma clamp_limit_bounds: "1 \<le> d \<Longrightarrow> d \<le> 1000 \<Longrightarrow> 1 \<le> clamp_limit d n \<and> clamp_limit d n \<le> 1000"
  by (auto simp: clamp_limit_def Let_def)

text \<open>The error of a statement that writes these columns: bound and value, no bound for \<open>TEXT\<close>.\<close>

definition column_ok :: "nat option \<times> string \<Rightarrow> bool" where
  "column_ok col = (case col of (None, s) \<Rightarrow> pg_text s | (Some n, s) \<Rightarrow> pg_varchar n s)"

lemma column_ok_simps [simp]:
  "column_ok (None, s) = pg_text s" "column_ok (Some n, s) = pg_varchar n s"
  by (simp_all add: column_ok_def)

definition column_error :: "(nat option \<times> string) list \<Rightarrow> goerr option" where
  "column_error cols =
     (if list_all column_ok cols then None
      else Some (if list_all (\<lambda>(b, s). pg_text s) cols then too_long else bad_text))"

lemma column_error_None: "column_error cols = None \<longleftrightarrow> list_all column_ok cols"
  by (simp add: column_error_def)

definition duplicate_key :: goerr where
  "duplicate_key = ErrText ''ERROR: duplicate key value violates unique constraint (SQLSTATE 23505)''"

text \<open>The error of an \<open>INSERT\<close>: of the database itself, of a column, or of the primary key.\<close>

definition insert_error :: "goerr option \<Rightarrow> (nat option \<times> string) list \<Rightarrow> bool \<Rightarrow> goerr option" where
  "insert_error db cols taken =
     (case db of
        Some err \<Rightarrow> Some err
      | None \<Rightarrow> (case column_error cols of
           Some err \<Rightarrow> Some err
         | None \<Rightarrow> if taken then Some duplicate_key else None))"

lemma insert_error_None: "insert_error db cols taken = None \<longleftrightarrow> db = None \<and> list_all column_ok cols \<and> \<not> taken"
  by (auto simp: insert_error_def simp flip: column_error_None split: option.splits)

end
