(* ===== verification/Replay_Audit.thy ===== *)
theory Replay_Audit
  imports Line_File Postgres "HOL-Library.Multiset"
begin

text \<open>
  Package \<open>replayaudit\<close>: the history of replays in a file (\<open>file_store.go\<close>) and in a Postgres table
  (\<open>postgres_store.go\<close>), with filters, two sort orders and pages linked by cursors. \<open>ufold\<close> is the
  representative of a string under Unicode simple case folding (the tables behind
  \<open>strings.EqualFold\<close>); \<open>format_time\<close> and \<open>parse_time\<close> are \<open>Time.Format\<close> and \<open>time.Parse\<close> with
  \<open>RFC3339Nano\<close>. The locale \<open>replay_pager\<close> is what a client of the pages relies on; both stores are
  interpreted in it.
\<close>

record replay_record =
  ra_id :: string
  ra_event :: string
  ra_source :: string
  ra_actor :: string
  ra_mode :: string
  ra_result :: string
  ra_error_code :: string
  ra_status :: int
  ra_request_id :: string
  ra_at :: time

record replay_input =
  ri_event :: string
  ri_source :: string
  ri_actor :: string
  ri_mode :: string
  ri_result :: string
  ri_error_code :: string
  ri_status :: int
  ri_request_id :: string

record list_query =
  lq_limit :: int
  lq_cursor :: string
  lq_actor :: string
  lq_result :: string
  lq_event :: string
  lq_sort :: string

record list_result =
  lr_records :: "replay_record list"
  lr_has_more :: bool
  lr_next :: string

definition no_records :: list_result where
  "no_records = \<lparr>lr_records = [], lr_has_more = False, lr_next = ''''\<rparr>"

type_synonym replay_file = "replay_record line_file"

section \<open>Saving\<close>

definition new_replay_file_store :: "string \<Rightarrow> string result" where
  "new_replay_file_store path =
     (let p = trim_space path
      in if p = '''' then Inl (ErrText ''replay audit store path must not be empty'') else Inr p)"

definition check_replay_input :: "replay_input \<Rightarrow> goerr option" where
  "check_replay_input inp =
     (if trim_space (ri_event inp) = '''' then Some (ErrText ''event id must not be empty'')
      else if trim_space (ri_actor inp) = '''' then Some (ErrText ''actor must not be empty'')
      else if trim_space (ri_mode inp) = '''' then Some (ErrText ''mode must not be empty'')
      else if trim_space (ri_result inp) = '''' then Some (ErrText ''result must not be empty'')
      else None)"

definition new_replay_id :: "string result \<Rightarrow> string result" where
  "new_replay_id random =
     (case random of
        Inl err \<Rightarrow> Inl (Wrapped ''generate audit id: '' err)
      | Inr b \<Rightarrow> Inr (''ra_'' @ hex_encode b))"

definition replay_save ::
  "(replay_record \<Rightarrow> nat \<times> replay_record) \<Rightarrow> write_outcome \<Rightarrow> time \<Rightarrow> string result \<Rightarrow> replay_input
     \<Rightarrow> replay_file \<Rightarrow> replay_record result \<times> replay_file" where
  "replay_save enc out now random inp file =
     (case check_replay_input inp of
        Some err \<Rightarrow> (Inl err, file)
      | None \<Rightarrow>
          (case new_replay_id random of
             Inl err \<Rightarrow> (Inl err, file)
           | Inr i \<Rightarrow>
               (let r = \<lparr>ra_id = i, ra_event = trim_space (ri_event inp),
                         ra_source = trim_space (ri_source inp), ra_actor = trim_space (ri_actor inp),
                         ra_mode = trim_space (ri_mode inp), ra_result = trim_space (ri_result inp),
                         ra_error_code = trim_space (ri_error_code inp), ra_status = ri_status inp,
                         ra_request_id = trim_space (ri_request_id inp), ra_at = now\<rparr>;
                    file1 = append_line (encode_line enc r) file
                in (case out of
                      WriteFails err \<Rightarrow> (Inl (Wrapped ''write replay audit record: '' err), file)
                    | SyncFails err \<Rightarrow> (Inl (Wrapped ''sync replay audit store: '' err), file1)
                    | WriteOk \<Rightarrow> (Inr r, file1)))))"

section \<open>Queries\<close>

definition parse_sort_order :: "string \<Rightarrow> string result" where
  "parse_sort_order raw =
     (let n = to_lower (trim_space raw)
      in if n = '''' then Inr ''desc''
         else if n \<noteq> ''desc'' \<and> n \<noteq> ''asc''
         then Inl (Suffixed (Sentinel ErrInvalidListQuery) '': sort must be asc or desc'')
         else Inr n)"

definition normalize_list_query :: "list_query \<Rightarrow> list_query result" where
  "normalize_list_query q =
     (if lq_limit q \<le> 0 then Inl (Suffixed (Sentinel ErrInvalidListQuery) '': limit must be > 0'')
      else (case parse_sort_order (lq_sort q) of
         Inl err \<Rightarrow> Inl err
       | Inr order \<Rightarrow> Inr \<lparr>lq_limit = lq_limit q, lq_cursor = trim_space (lq_cursor q),
            lq_actor = trim_space (lq_actor q), lq_result = trim_space (lq_result q),
            lq_event = trim_space (lq_event q), lq_sort = order\<rparr>))"

definition matches_record :: "(string \<Rightarrow> string) \<Rightarrow> list_query \<Rightarrow> replay_record \<Rightarrow> bool" where
  "matches_record ufold q r \<longleftrightarrow>
     (lq_actor q \<noteq> '''' \<longrightarrow> ufold (trim_space (ra_actor r)) = ufold (lq_actor q))
     \<and> (lq_result q \<noteq> '''' \<longrightarrow> ufold (trim_space (ra_result r)) = ufold (lq_result q))
     \<and> (lq_event q \<noteq> '''' \<longrightarrow> ufold (trim_space (ra_event r)) = ufold (lq_event q))"

text \<open>The order of the records: instant, then id.\<close>

definition before :: "replay_record \<Rightarrow> replay_record \<Rightarrow> bool" where
  "before a b \<longleftrightarrow> ra_at a < ra_at b \<or> ra_at a = ra_at b \<and> str_less (ra_id a) (ra_id b)"

definition less_in :: "string \<Rightarrow> replay_record \<Rightarrow> replay_record \<Rightarrow> bool" where
  "less_in order a b = (if order = ''asc'' then before a b else before b a)"

fun insert_by :: "('a \<Rightarrow> 'a \<Rightarrow> bool) \<Rightarrow> 'a \<Rightarrow> 'a list \<Rightarrow> 'a list" where
  "insert_by lt x [] = [x]"
| "insert_by lt x (y # ys) = (if lt y x then y # insert_by lt x ys else x # y # ys)"

definition sort_records :: "string \<Rightarrow> replay_record list \<Rightarrow> replay_record list" where
  "sort_records order rs = foldr (insert_by (less_in order)) rs []"

text \<open>The page after a position in the sorted list.\<close>

definition page_from :: "('r \<Rightarrow> string) \<Rightarrow> nat \<Rightarrow> 'r list \<Rightarrow> nat \<Rightarrow> 'r list \<times> bool \<times> string" where
  "page_from cursor n rs start =
     (let page = take n (drop start rs); further = start + n < length rs
      in (page, further, if further \<and> page \<noteq> [] then cursor (last page) else ''''))"

fun index_where :: "('a \<Rightarrow> bool) \<Rightarrow> 'a list \<Rightarrow> nat option" where
  "index_where P [] = None"
| "index_where P (x # xs) = (if P x then Some 0 else map_option Suc (index_where P xs))"

definition replay_list ::
  "(string \<Rightarrow> string) \<Rightarrow> store_io \<Rightarrow> list_query \<Rightarrow> replay_file \<Rightarrow> list_result result" where
  "replay_list ufold io query file =
     (case normalize_list_query query of
        Inl err \<Rightarrow> Inl err
      | Inr q \<Rightarrow>
          (case file of
             None \<Rightarrow> Inr no_records
           | Some ls \<Rightarrow>
               (case io_open io of
                  Some err \<Rightarrow> Inl (Wrapped ''open replay audit store: '' err)
                | None \<Rightarrow>
                    (case scan_lines ls of (ok, bad) \<Rightarrow>
                       if ok \<noteq> [] \<and> io_ctx io \<noteq> None
                       then Inl (Wrapped ''list replay audit: '' (the (io_ctx io)))
                       else if bad then Inl (Wrapped ''scan replay audit store: '' token_too_long)
                       else
                         (let rs = sort_records (lq_sort q) (filter (matches_record ufold q) (decoded ok))
                          in (case (if lq_cursor q = '''' then Some 0
                                    else map_option Suc (index_where (\<lambda>r. ra_id r = lq_cursor q) rs)) of
                                None \<Rightarrow> Inl (Suffixed (Sentinel ErrCursorNotFound) ('': '' @ lq_cursor q))
                              | Some start \<Rightarrow>
                                  if length rs \<le> start then Inr no_records
                                  else (case page_from ra_id (nat (lq_limit q)) rs start of
                                    (page, further, next) \<Rightarrow>
                                      Inr \<lparr>lr_records = page, lr_has_more = further, lr_next = next\<rparr>)))))))"

definition replay_list_recent ::
  "(string \<Rightarrow> string) \<Rightarrow> store_io \<Rightarrow> int \<Rightarrow> replay_file \<Rightarrow> replay_record list result" where
  "replay_list_recent ufold io limit file =
     (case replay_list ufold io
             \<lparr>lq_limit = limit, lq_cursor = '''', lq_actor = '''', lq_result = '''', lq_event = '''',
              lq_sort = ''desc''\<rparr> file of
        Inl err \<Rightarrow> Inl err
      | Inr res \<Rightarrow> Inr (lr_records res))"

section \<open>The Postgres store\<close>

type_synonym replay_table = "replay_record list"

definition pg_replay_record :: "time \<Rightarrow> string result \<Rightarrow> replay_input \<Rightarrow> replay_record" where
  "pg_replay_record now random inp =
     \<lparr>ra_id = pg_generate_id now random, ra_event = ri_event inp, ra_source = ri_source inp,
      ra_actor = ri_actor inp, ra_mode = ri_mode inp, ra_result = ri_result inp,
      ra_error_code = ri_error_code inp, ra_status = ri_status inp,
      ra_request_id = ri_request_id inp, ra_at = now\<rparr>"

definition replay_columns :: "replay_record \<Rightarrow> (nat option \<times> string) list" where
  "replay_columns r =
     [(Some 64, ra_id r), (Some 64, ra_event r), (Some 255, ra_source r), (Some 255, ra_actor r),
      (Some 50, ra_mode r), (Some 50, ra_result r), (Some 100, ra_error_code r),
      (Some 64, ra_request_id r)]"

definition pg_replay_save ::
  "goerr option \<Rightarrow> time \<Rightarrow> string result \<Rightarrow> replay_input \<Rightarrow> replay_table
     \<Rightarrow> replay_record result \<times> replay_table" where
  "pg_replay_save db now random inp tb =
     (let r = pg_replay_record now random inp
      in (case insert_error db (replay_columns r) (ra_id r \<in> ra_id ` set tb) of
            Some err \<Rightarrow> (Inl (Wrapped ''failed to save replay audit to postgres: '' err), tb)
          | None \<Rightarrow> (Inr r, tb @ [r\<lparr>ra_at := pg_timestamp now\<rparr>])))"

text \<open>A cursor is an instant and an id; one that does not parse is ignored.\<close>

definition pg_cursor :: "(string \<Rightarrow> time option) \<Rightarrow> string \<Rightarrow> (time \<times> string) option" where
  "pg_cursor parse_time c =
     (case split_first (CHR ''|'') c of
        (a, Some b) \<Rightarrow> map_option (\<lambda>t. (t, b)) (parse_time a)
      | _ \<Rightarrow> None)"

definition past_cursor :: "string \<Rightarrow> time \<times> string \<Rightarrow> replay_record \<Rightarrow> bool" where
  "past_cursor order c r =
     (case c of (t, i) \<Rightarrow>
        if order = ''asc'' then t < ra_at r \<or> t = ra_at r \<and> str_less i (ra_id r)
        else ra_at r < t \<or> ra_at r = t \<and> str_less (ra_id r) i)"

definition pg_where :: "(string \<Rightarrow> time option) \<Rightarrow> list_query \<Rightarrow> replay_record \<Rightarrow> bool" where
  "pg_where parse_time q r \<longleftrightarrow>
     (lq_actor q \<noteq> '''' \<longrightarrow> ra_actor r = lq_actor q)
     \<and> (lq_result q \<noteq> '''' \<longrightarrow> ra_result r = lq_result q)
     \<and> (lq_event q \<noteq> '''' \<longrightarrow> ra_event r = lq_event q)
     \<and> (lq_cursor q \<noteq> '''' \<longrightarrow>
          (case pg_cursor parse_time (lq_cursor q) of
             None \<Rightarrow> True | Some c \<Rightarrow> past_cursor (lq_sort q) c r))"

definition pg_cursor_of :: "(time \<Rightarrow> string) \<Rightarrow> replay_record \<Rightarrow> string" where
  "pg_cursor_of format_time r = format_time (ra_at r) @ ''|'' @ ra_id r"

text \<open>One row more than the limit is fetched, to see whether there are more.\<close>

definition pg_replay_list ::
  "(time \<Rightarrow> string) \<Rightarrow> (string \<Rightarrow> time option) \<Rightarrow> goerr option \<Rightarrow> list_query \<Rightarrow> replay_table
     \<Rightarrow> list_result result" where
  "pg_replay_list format_time parse_time db q tb =
     (case db of
        Some err \<Rightarrow> Inl (Wrapped ''list replay audits from postgres: '' err)
      | None \<Rightarrow>
          (let n = nat (clamp_limit 50 (lq_limit q));
               rows = take (n + 1) (sort_records (lq_sort q) (filter (pg_where parse_time q) tb));
               further = n < length rows;
               page = (if further then take n rows else rows)
           in Inr \<lparr>lr_records = page, lr_has_more = further,
                   lr_next = (if further \<and> page \<noteq> [] then pg_cursor_of format_time (last page) else '''')\<rparr>))"

section \<open>The order of the records\<close>

lemma mset_insert_by: "mset (insert_by lt x ys) = add_mset x (mset ys)"
  by (induction ys) auto

lemma mset_sort_records: "mset (sort_records order rs) = mset rs"
  by (induction rs) (simp_all add: sort_records_def mset_insert_by)

lemma set_sort_records [simp]: "set (sort_records order rs) = set rs"
  using mset_sort_records [of order rs] by (metis set_mset_mset)

lemma before_trans: "before a b \<Longrightarrow> before b c \<Longrightarrow> before a c"
  by (auto simp: before_def dest: str_less_trans)

lemma less_in_trans: "less_in order a b \<Longrightarrow> less_in order b c \<Longrightarrow> less_in order a c"
  by (auto simp: less_in_def dest: before_trans split: if_splits)

lemma less_in_irrefl [simp]: "\<not> less_in order a a"
  by (simp add: less_in_def before_def)

lemma less_in_asym: "less_in order a b \<Longrightarrow> \<not> less_in order b a"
  using less_in_trans less_in_irrefl by blast

lemma less_in_total: "ra_id a \<noteq> ra_id b \<Longrightarrow> less_in order a b \<or> less_in order b a"
  using str_less_linear [of "ra_id a" "ra_id b"] by (auto simp: less_in_def before_def)

lemma sorted_insert_by:
  assumes "sorted_wrt lt ys" and "\<forall>y \<in> set ys. lt y x \<or> lt x y"
    and "\<And>a b c. lt a b \<Longrightarrow> lt b c \<Longrightarrow> lt a c"
  shows "sorted_wrt lt (insert_by lt x ys)"
  using assms(1,2)
proof (induction ys)
  case (Cons y ys)
  have "set (insert_by lt x ys) = insert x (set ys)"
    using mset_insert_by [of lt x ys] by (metis set_mset_add_mset_insert set_mset_mset)
  with Cons assms(3) show ?case by auto
qed simp

lemma sorted_sort_records:
  "distinct (map ra_id rs) \<Longrightarrow> sorted_wrt (less_in order) (sort_records order rs)"
proof (induction rs)
  case (Cons r rs)
  have "\<forall>y \<in> set (sort_records order rs). less_in order y r \<or> less_in order r y"
    using Cons.prems less_in_total by (force simp: image_iff)
  with Cons less_in_trans show ?case
    by (auto simp: sort_records_def intro!: sorted_insert_by)
qed (simp add: sort_records_def)

lemma sorted_wrt_unique:
  assumes "sorted_wrt R xs" and "sorted_wrt R ys" and "set xs = set ys"
    and asym: "\<And>a b. R a b \<Longrightarrow> \<not> R b a"
  shows "xs = ys"
  using assms(1-3)
proof (induction xs arbitrary: ys)
  case (Cons x xs)
  then obtain y zs where ys: "ys = y # zs" by (cases ys) auto
  have xy: "x = y" using Cons.prems ys asym by (metis list.set_intros(1) set_ConsD sorted_wrt.simps(2))
  have irr: "\<not> R a a" for a using asym by blast
  have "x \<notin> set xs" "y \<notin> set zs" using Cons.prems(1,2) ys irr by auto
  with xy Cons.prems ys have "set xs = set zs" by auto
  with Cons ys xy show ?case by auto
qed simp

lemma distinct_map_filter': "distinct (map f xs) \<Longrightarrow> distinct (map f (filter P xs))"
  by (simp add: distinct_map_filter)

lemma sort_records_filter:
  assumes "distinct (map ra_id rs)"
  shows "sort_records order (filter P rs) = filter P (sort_records order rs)"
proof (rule sorted_wrt_unique [where R = "less_in order"])
  show "sorted_wrt (less_in order) (sort_records order (filter P rs))"
    using assms by (intro sorted_sort_records distinct_map_filter')
  show "sorted_wrt (less_in order) (filter P (sort_records order rs))"
    using sorted_sort_records [OF assms] by (rule sorted_wrt_filter)
qed (auto dest: less_in_asym)

lemma filter_after_nth:
  assumes "sorted_wrt R xs" and "i < length xs" and asym: "\<And>a b. R a b \<Longrightarrow> \<not> R b a"
  shows "filter (R (xs ! i)) xs = drop (Suc i) xs"
proof -
  have xs: "xs = take i xs @ xs ! i # drop (Suc i) xs" using assms(2) by (rule id_take_nth_drop)
  then have s: "sorted_wrt R (take i xs @ xs ! i # drop (Suc i) xs)" using assms(1) by metis
  have "filter (R (xs ! i)) (take i xs) = []"
    using s asym by (auto simp: sorted_wrt_append filter_empty_conv)
  moreover have "filter (R (xs ! i)) (drop (Suc i) xs) = drop (Suc i) xs"
    using s by (intro filter_True) (simp add: sorted_wrt_append)
  moreover have "\<not> R (xs ! i) (xs ! i)" using asym by blast
  moreover have "filter (R (xs ! i)) xs
      = filter (R (xs ! i)) (take i xs @ xs ! i # drop (Suc i) xs)" using xs by simp
  ultimately show ?thesis by simp
qed

section \<open>Pages\<close>

text \<open>A client that follows the cursors while there are more pages; the first argument bounds the number
  of pages.\<close>

fun walk_pages :: "(string \<Rightarrow> ('r list \<times> bool \<times> string) option) \<Rightarrow> nat \<Rightarrow> string \<Rightarrow> 'r list option" where
  "walk_pages page 0 c = None"
| "walk_pages page (Suc k) c =
     (case page c of
        None \<Rightarrow> None
      | Some (rs, further, next) \<Rightarrow>
          if further then map_option ((@) rs) (walk_pages page k next) else Some rs)"

text \<open>The contract of a paged listing: in a good state the first page starts at the beginning and the
  page of a row's cursor starts after that row.\<close>

locale replay_pager =
  fixes ok :: "'st \<Rightarrow> bool"
    and page :: "'st \<Rightarrow> string \<Rightarrow> ('r list \<times> bool \<times> string) option"
    and rows :: "'st \<Rightarrow> 'r list"
    and cursor :: "'st \<Rightarrow> 'r \<Rightarrow> string"
    and lim :: "'st \<Rightarrow> nat"
  assumes lim_pos: "ok st \<Longrightarrow> 0 < lim st"
    and first_page: "ok st \<Longrightarrow> page st '''' = Some (page_from (cursor st) (lim st) (rows st) 0)"
    and next_page: "ok st \<Longrightarrow> i < length (rows st) \<Longrightarrow>
      page st (cursor st (rows st ! i)) = Some (page_from (cursor st) (lim st) (rows st) (Suc i))"
begin

lemma walk_from:
  assumes "ok st" and "page st c = Some (page_from (cursor st) (lim st) (rows st) i)"
    and "length (rows st) - i \<le> k"
  shows "walk_pages (page st) (Suc k) c = Some (drop i (rows st))"
  using assms(2,3)
proof (induction k arbitrary: i c)
  case 0
  then show ?case by (simp add: page_from_def Let_def)
next
  case (Suc k)
  let ?n = "lim st" and ?rs = "rows st"
  have n: "0 < ?n" using lim_pos [OF assms(1)] .
  show ?case
  proof (cases "i + ?n < length ?rs")
    case True
    define j where "j = i + ?n - 1"
    have j: "Suc j = i + ?n" "j < length ?rs" using n True by (simp_all add: j_def)
    have last: "last (take ?n (drop i ?rs)) = ?rs ! j"
      using n True by (simp add: last_conv_nth j_def)
    have "walk_pages (page st) (Suc k) (cursor st (?rs ! j)) = Some (drop (Suc j) ?rs)"
      using Suc.prems(2) n j by (intro Suc.IH next_page [OF assms(1) j(2)]) linarith
    moreover have "take ?n (drop i ?rs) @ drop (Suc j) ?rs = drop i ?rs"
      using append_take_drop_id [of ?n "drop i ?rs"] j(1) by (simp add: add.commute)
    moreover have "take ?n (drop i ?rs) \<noteq> []" using n True by simp
    ultimately show ?thesis
      unfolding walk_pages.simps(2) [of "page st" "Suc k" c]
      using Suc.prems(1) True last by (simp add: page_from_def Let_def del: walk_pages.simps)
  next
    case False
    then show ?thesis
      unfolding walk_pages.simps(2) [of "page st" "Suc k" c]
      using Suc.prems(1) by (simp add: page_from_def Let_def)
  qed
qed

theorem walk_complete: "ok st \<Longrightarrow> walk_pages (page st) (Suc (length (rows st))) '''' = Some (rows st)"
  using walk_from [of st "''''" 0 "length (rows st)"] first_page [of st] by simp

end

text \<open>The file store as a pager: a query and a file.\<close>

record file_pages =
  fp_fold :: "string \<Rightarrow> string"
  fp_query :: list_query
  fp_file :: replay_file

definition fp_page :: "file_pages \<Rightarrow> string \<Rightarrow> (replay_record list \<times> bool \<times> string) option" where
  "fp_page st c =
     (case replay_list (fp_fold st) io_ok ((fp_query st)\<lparr>lq_cursor := c\<rparr>) (fp_file st) of
        Inl err \<Rightarrow> None
      | Inr res \<Rightarrow> Some (lr_records res, lr_has_more res, lr_next res))"

definition fp_order :: "file_pages \<Rightarrow> string" where
  "fp_order st = (case parse_sort_order (lq_sort (fp_query st)) of Inl err \<Rightarrow> '''' | Inr s \<Rightarrow> s)"

definition fp_matches :: "file_pages \<Rightarrow> replay_record \<Rightarrow> bool" where
  "fp_matches st =
     matches_record (fp_fold st)
       \<lparr>lq_limit = lq_limit (fp_query st), lq_cursor = '''', lq_actor = trim_space (lq_actor (fp_query st)),
        lq_result = trim_space (lq_result (fp_query st)), lq_event = trim_space (lq_event (fp_query st)),
        lq_sort = fp_order st\<rparr>"

definition fp_rows :: "file_pages \<Rightarrow> replay_record list" where
  "fp_rows st = sort_records (fp_order st) (filter (fp_matches st) (file_events (fp_file st)))"

definition fp_ok :: "file_pages \<Rightarrow> bool" where
  "fp_ok st \<longleftrightarrow> 0 < lq_limit (fp_query st) \<and> \<not> is_err (parse_sort_order (lq_sort (fp_query st)))
     \<and> readable (fp_file st) \<and> distinct (map ra_id (file_events (fp_file st)))
     \<and> (\<forall>r \<in> set (file_events (fp_file st)). ra_id r \<noteq> '''' \<and> trim_space (ra_id r) = ra_id r)"

lemma matches_record_cursor:
  "matches_record f (q\<lparr>lq_cursor := c\<rparr>) r = matches_record f q r"
  by (simp add: matches_record_def)

lemma index_where_nth:
  "i < length xs \<Longrightarrow> distinct (map f xs) \<Longrightarrow> index_where (\<lambda>x. f x = f (xs ! i)) xs = Some i"
  by (induction xs arbitrary: i) (auto simp: nth_Cons split: nat.splits)

lemma page_from_past: "length rs \<le> start \<Longrightarrow> page_from f n rs start = ([], False, '''')"
  by (simp add: page_from_def)

lemma fp_page_eq:
  assumes "fp_ok st" and "trim_space c = c" and "c = '''' \<or> fp_rows st \<noteq> []"
  shows "fp_page st c =
    (case (if c = '''' then Some 0 else map_option Suc (index_where (\<lambda>r. ra_id r = c) (fp_rows st))) of
       None \<Rightarrow> None
     | Some start \<Rightarrow> Some (page_from ra_id (nat (lq_limit (fp_query st))) (fp_rows st) start))"
proof -
  obtain s where s: "parse_sort_order (lq_sort (fp_query st)) = Inr s"
    using assms(1) by (auto simp: fp_ok_def is_err_def split: sum.splits)
  let ?q = "\<lparr>lq_limit = lq_limit (fp_query st), lq_cursor = c, lq_actor = trim_space (lq_actor (fp_query st)),
        lq_result = trim_space (lq_result (fp_query st)), lq_event = trim_space (lq_event (fp_query st)),
        lq_sort = s\<rparr>"
  have n: "normalize_list_query ((fp_query st)\<lparr>lq_cursor := c\<rparr>) = Inr ?q"
    using assms s by (simp add: normalize_list_query_def fp_ok_def)
  have m: "matches_record (fp_fold st) ?q = fp_matches st"
    using s by (auto simp: fp_matches_def fp_order_def matches_record_def fun_eq_iff)
  have ls: "scan_lines (file_lines (fp_file st)) = (file_lines (fp_file st), False)"
    using assms(1) by (simp add: fp_ok_def readable_def scan_lines_ok)
  show ?thesis
  proof (cases "fp_file st")
    case None
    then have "fp_rows st = []" by (simp add: fp_rows_def file_events_def file_lines_def decoded_def sort_records_def)
    with None n assms(3) show ?thesis
      by (auto simp: fp_page_def replay_list_def no_records_def page_from_def)
  next
    case (Some fl)
    with ls have ls': "scan_lines fl = (fl, False)" by (simp add: file_lines_def)
    have rows: "fp_rows st = sort_records s (filter (fp_matches st) (decoded fl))"
      using Some s by (simp add: fp_rows_def fp_order_def file_events_def file_lines_def)
    show ?thesis
      unfolding fp_page_def replay_list_def n rows using Some ls' m
      by (auto simp: Let_def no_records_def page_from_past split: option.splits prod.splits)
  qed
qed

lemma fp_rows_ids:
  assumes "fp_ok st"
  shows "distinct (map ra_id (fp_rows st))"
    and "r \<in> set (fp_rows st) \<Longrightarrow> ra_id r \<noteq> '''' \<and> trim_space (ra_id r) = ra_id r"
proof -
  have "distinct (map ra_id (filter (fp_matches st) (file_events (fp_file st))))"
    using assms by (auto simp: fp_ok_def intro: distinct_map_filter')
  then show "distinct (map ra_id (fp_rows st))"
    unfolding fp_rows_def by (metis mset_map mset_sort_records mset_eq_imp_distinct_iff)
  show "r \<in> set (fp_rows st) \<Longrightarrow> ra_id r \<noteq> '''' \<and> trim_space (ra_id r) = ra_id r"
    using assms by (auto simp: fp_rows_def fp_ok_def)
qed

interpretation file_pager:
  replay_pager fp_ok fp_page fp_rows "\<lambda>st. ra_id" "\<lambda>st. nat (lq_limit (fp_query st))"
proof
  fix st :: file_pages and i
  assume ok: "fp_ok st"
  show "0 < nat (lq_limit (fp_query st))" using ok by (simp add: fp_ok_def)
  show "fp_page st '''' = Some (page_from ra_id (nat (lq_limit (fp_query st))) (fp_rows st) 0)"
    using fp_page_eq [OF ok, of "''''"] by simp
  assume i: "i < length (fp_rows st)"
  then have id: "ra_id (fp_rows st ! i) \<noteq> ''''" "trim_space (ra_id (fp_rows st ! i)) = ra_id (fp_rows st ! i)"
    using fp_rows_ids(2) [OF ok] nth_mem by blast+
  then show "fp_page st (ra_id (fp_rows st ! i))
      = Some (page_from ra_id (nat (lq_limit (fp_query st))) (fp_rows st) (Suc i))"
    using fp_page_eq [OF ok id(2)] index_where_nth [OF i fp_rows_ids(1) [OF ok]] i
    by (cases "fp_rows st = []") auto
qed

text \<open>The Postgres store as a pager.\<close>

record pg_pages =
  gp_format :: "time \<Rightarrow> string"
  gp_parse :: "string \<Rightarrow> time option"
  gp_query :: list_query
  gp_table :: replay_table

definition gp_page :: "pg_pages \<Rightarrow> string \<Rightarrow> (replay_record list \<times> bool \<times> string) option" where
  "gp_page st c =
     (case pg_replay_list (gp_format st) (gp_parse st) None ((gp_query st)\<lparr>lq_cursor := c\<rparr>) (gp_table st) of
        Inl err \<Rightarrow> None
      | Inr res \<Rightarrow> Some (lr_records res, lr_has_more res, lr_next res))"

definition gp_rows :: "pg_pages \<Rightarrow> replay_record list" where
  "gp_rows st = sort_records (lq_sort (gp_query st))
     (filter (pg_where (gp_parse st) ((gp_query st)\<lparr>lq_cursor := ''''\<rparr>)) (gp_table st))"

definition gp_lim :: "pg_pages \<Rightarrow> nat" where
  "gp_lim st = nat (clamp_limit 50 (lq_limit (gp_query st)))"

definition time_text_ok :: "(time \<Rightarrow> string) \<Rightarrow> (string \<Rightarrow> time option) \<Rightarrow> time \<Rightarrow> bool" where
  "time_text_ok fmt prs t \<longleftrightarrow> prs (fmt t) = Some t \<and> CHR ''|'' \<notin> set (fmt t)"

definition gp_ok :: "pg_pages \<Rightarrow> bool" where
  "gp_ok st \<longleftrightarrow> distinct (map ra_id (gp_table st))
     \<and> (\<forall>r \<in> set (gp_table st). time_text_ok (gp_format st) (gp_parse st) (ra_at r))"

lemma split_first_app: "d \<notin> set a \<Longrightarrow> split_first d (a @ d # b) = (a, Some b)"
  by (induction a) auto

lemma pg_cursor_of_row:
  "time_text_ok fmt prs (ra_at r) \<Longrightarrow> pg_cursor prs (pg_cursor_of fmt r) = Some (ra_at r, ra_id r)"
  using split_first_app [of "CHR ''|''" "fmt (ra_at r)" "ra_id r"]
  by (simp add: pg_cursor_def pg_cursor_of_def time_text_ok_def)

lemma past_cursor_less: "past_cursor order (ra_at a, ra_id a) b \<longleftrightarrow> less_in order a b"
  by (auto simp: past_cursor_def less_in_def before_def)

text \<open>Fetching one row too many decides the page as its position in the whole list does.\<close>

lemma pg_page_from:
  assumes "0 < n"
  shows "(let rows = take (n + 1) (drop start rs); further = n < length rows;
              page = (if further then take n rows else rows)
          in (page, further, if further \<and> page \<noteq> [] then f (last page) else '''')) = page_from f n rs start"
proof -
  have "n < length (take (n + 1) (drop start rs)) \<longleftrightarrow> start + n < length rs" by auto
  moreover have "take n (take (n + 1) (drop start rs)) = take n (drop start rs)" by simp
  moreover have "take (n + 1) (drop start rs) = take n (drop start rs)" if "\<not> start + n < length rs"
    using that by simp
  ultimately show ?thesis unfolding page_from_def Let_def by (cases "start + n < length rs") simp_all
qed

lemma gp_lim_pos: "0 < gp_lim st"
  using clamp_limit_bounds [of 50 "lq_limit (gp_query st)"] by (simp add: gp_lim_def)

lemma gp_page_eq:
  assumes "sort_records (lq_sort (gp_query st))
      (filter (pg_where (gp_parse st) ((gp_query st)\<lparr>lq_cursor := c\<rparr>)) (gp_table st)) = drop start (gp_rows st)"
  shows "gp_page st c = Some (page_from (pg_cursor_of (gp_format st)) (gp_lim st) (gp_rows st) start)"
  unfolding pg_page_from [OF gp_lim_pos, symmetric]
  using assms by (simp add: gp_page_def pg_replay_list_def Let_def gp_lim_def)

interpretation pg_pager:
  replay_pager gp_ok gp_page gp_rows "\<lambda>st. pg_cursor_of (gp_format st)" gp_lim
proof
  fix st :: pg_pages and i
  assume ok: "gp_ok st"
  show "0 < gp_lim st" by (rule gp_lim_pos)
  show "gp_page st '''' = Some (page_from (pg_cursor_of (gp_format st)) (gp_lim st) (gp_rows st) 0)"
    by (rule gp_page_eq) (simp add: gp_rows_def)
  assume i: "i < length (gp_rows st)"
  let ?r = "gp_rows st ! i" and ?q = "gp_query st"
  let ?c = "pg_cursor_of (gp_format st) ?r"
  have "?r \<in> set (gp_table st)" using nth_mem [OF i] by (simp add: gp_rows_def)
  then have c: "pg_cursor (gp_parse st) ?c = Some (ra_at ?r, ra_id ?r)"
    using ok by (auto simp: gp_ok_def intro: pg_cursor_of_row)
  have dist: "distinct (map ra_id (filter (pg_where (gp_parse st) (?q\<lparr>lq_cursor := ''''\<rparr>)) (gp_table st)))"
    using ok by (auto simp: gp_ok_def intro: distinct_map_filter')
  have "?c \<noteq> ''''" by (simp add: pg_cursor_of_def)
  then have "filter (pg_where (gp_parse st) (?q\<lparr>lq_cursor := ?c\<rparr>)) (gp_table st)
      = filter (less_in (lq_sort ?q) ?r) (filter (pg_where (gp_parse st) (?q\<lparr>lq_cursor := ''''\<rparr>)) (gp_table st))"
    using c by (auto simp: pg_where_def past_cursor_less intro!: filter_cong)
  then have "sort_records (lq_sort ?q) (filter (pg_where (gp_parse st) (?q\<lparr>lq_cursor := ?c\<rparr>)) (gp_table st))
      = filter (less_in (lq_sort ?q) ?r) (gp_rows st)"
    using sort_records_filter [OF dist] by (simp add: gp_rows_def)
  also have "\<dots> = drop (Suc i) (gp_rows st)"
    using sorted_sort_records [OF dist] i
    by (intro filter_after_nth less_in_asym) (simp_all add: gp_rows_def)
  finally show "gp_page st ?c
      = Some (page_from (pg_cursor_of (gp_format st)) (gp_lim st) (gp_rows st) (Suc i))"
    by (rule gp_page_eq)
qed

section \<open>What a client sees\<close>

text \<open>
  C1: Following the cursors of the file store ends, and shows every record that matches the query exactly
  once, in the chosen order: as long as the file does not change, at most one page per record is asked
  for.
\<close>

theorem replay_pages_complete:
  assumes "fp_ok st"
  shows "walk_pages (fp_page st) (Suc (length (fp_rows st))) '''' = Some (fp_rows st)
    \<and> set (fp_rows st) = {r \<in> set (file_events (fp_file st)). fp_matches st r}
    \<and> sorted_wrt (less_in (fp_order st)) (fp_rows st)"
proof -
  have "distinct (map ra_id (filter (fp_matches st) (file_events (fp_file st))))"
    using assms by (auto simp: fp_ok_def intro: distinct_map_filter')
  then show ?thesis
    using file_pager.walk_complete [OF assms] sorted_sort_records by (auto simp: fp_rows_def)
qed

definition demo_replay :: "string \<Rightarrow> time \<Rightarrow> replay_record" where
  "demo_replay i t =
     \<lparr>ra_id = i, ra_event = ''e1'', ra_source = ''github'', ra_actor = ''ops'', ra_mode = ''replay'',
      ra_result = ''success'', ra_error_code = '''', ra_status = 200, ra_request_id = '''', ra_at = t\<rparr>"

definition demo_query :: "int \<Rightarrow> list_query" where
  "demo_query n =
     \<lparr>lq_limit = n, lq_cursor = '''', lq_actor = '''', lq_result = '''', lq_event = '''', lq_sort = ''''\<rparr>"

definition demo_pages :: file_pages where
  "demo_pages =
     \<lparr>fp_fold = to_lower, fp_query = demo_query 1,
      fp_file = Some (map (\<lambda>r. \<lparr>fl_bytes = 200, fl_value = Some r\<rparr>)
        [demo_replay ''a'' 5, demo_replay ''b'' 9, demo_replay ''c'' 7])\<rparr>"

theorem replay_pages_complete_witness:
  "walk_pages (fp_page demo_pages) 4 '''' = Some [demo_replay ''b'' 9, demo_replay ''c'' 7, demo_replay ''a'' 5]"
proof -
  have t: "trim_space ''a'' = ''a'' \<and> trim_space ''b'' = ''b'' \<and> trim_space ''c'' = ''c''" by code_simp
  have o: "parse_sort_order '''' = Inr ''desc''" by (simp add: parse_sort_order_def)
  have ok: "fp_ok demo_pages"
    using t by (simp add: fp_ok_def demo_pages_def demo_query_def o readable_def file_lines_def
        file_events_def decoded_def demo_replay_def max_line_def)
  have rows: "fp_rows demo_pages = [demo_replay ''b'' 9, demo_replay ''c'' 7, demo_replay ''a'' 5]"
    by (simp add: fp_rows_def fp_order_def fp_matches_def matches_record_def demo_pages_def demo_query_def
        o file_events_def file_lines_def decoded_def sort_records_def less_in_def before_def demo_replay_def)
  show ?thesis using replay_pages_complete [OF ok] by (simp add: rows numeral_eq_Suc)
qed

text \<open>
  C2: The Postgres store pages as the file store does: with a \<open>RFC3339Nano\<close> text that reads back as the
  instant it was written for, following its cursors shows every matching row exactly once, in order.
\<close>

theorem pg_replay_pages_complete:
  assumes "gp_ok st"
  shows "walk_pages (gp_page st) (Suc (length (gp_rows st))) '''' = Some (gp_rows st)
    \<and> set (gp_rows st)
        = {r \<in> set (gp_table st). pg_where (gp_parse st) ((gp_query st)\<lparr>lq_cursor := ''''\<rparr>) r}"
  using pg_pager.walk_complete [OF assms] by (auto simp: gp_rows_def)

definition demo_pg_pages :: pg_pages where
  "demo_pg_pages =
     \<lparr>gp_format = itoa, gp_parse = parse_int64, gp_query = demo_query 1,
      gp_table = [demo_replay ''a'' 5, demo_replay ''b'' 9, demo_replay ''c'' 7]\<rparr>"

theorem pg_replay_pages_complete_witness:
  "walk_pages (gp_page demo_pg_pages) 4 ''''
     = Some [demo_replay ''b'' 9, demo_replay ''c'' 7, demo_replay ''a'' 5]"
proof -
  have t: "time_text_ok itoa parse_int64 5 \<and> time_text_ok itoa parse_int64 9 \<and> time_text_ok itoa parse_int64 7"
    by code_simp
  have ok: "gp_ok demo_pg_pages" using t by (simp add: gp_ok_def demo_pg_pages_def demo_replay_def)
  have rows: "gp_rows demo_pg_pages = [demo_replay ''b'' 9, demo_replay ''c'' 7, demo_replay ''a'' 5]"
    by (simp add: gp_rows_def pg_where_def demo_pg_pages_def demo_query_def sort_records_def less_in_def
        before_def demo_replay_def)
  show ?thesis using pg_replay_pages_complete [OF ok] by (simp add: rows numeral_eq_Suc)
qed

text \<open>A cursor that does not parse, such as one of the file store, starts again at the first page.\<close>

lemma pg_bad_cursor:
  assumes "pg_cursor (gp_parse st) c = None"
  shows "gp_page st c = gp_page st ''''"
proof -
  have "pg_where (gp_parse st) ((gp_query st)\<lparr>lq_cursor := c\<rparr>)
      = pg_where (gp_parse st) ((gp_query st)\<lparr>lq_cursor := ''''\<rparr>)"
    using assms by (auto simp: pg_where_def fun_eq_iff)
  then show ?thesis by (simp add: gp_page_def pg_replay_list_def)
qed

end
