(* ===== verification/Float64.thy ===== *)
theory Float64
  imports Go_Prelude Complex_Main "HOL-Library.Log_Nat"
begin

text \<open>
  Go's \<open>float64\<close>, as the code computes with it: ratios, percentages and limits. A finite float is
  its value, a rational; \<open>f64\<close> rounds an exact result to 53 significant bits, to nearest with ties to
  even, and every arithmetic operation is the exact one followed by \<open>f64\<close>. The magnitudes that occur
  (counts below \<open>2 ^ 63\<close>, quotients of them and of percentages) neither overflow nor reach the
  subnormal range, so the exponent is unbounded here. Infinities and NaN do not occur: every divisor
  in the code is guarded or a positive constant.
\<close>

type_synonym float64 = rat

definition pow2 :: "int \<Rightarrow> rat" where
  "pow2 e = (if 0 \<le> e then 2 ^ nat e else 1 / 2 ^ nat (- e))"

lemma pow2_pos [simp]: "0 < pow2 e"
  unfolding pow2_def by (cases "0 \<le> e") (simp_all del: power_eq_0_iff)

lemma pow2_powi: "pow2 e = 2 powi e"
  by (simp add: pow2_def power_int_def inverse_eq_divide power_one_over)

lemma pow2_add: "pow2 (a + b) = pow2 a * pow2 b"
  by (simp add: pow2_powi power_int_add)

lemma pow2_mono: "a \<le> b \<Longrightarrow> pow2 a \<le> pow2 b"
  by (simp add: pow2_powi power_int_increasing)

lemma pow2_less: "pow2 a < pow2 b \<Longrightarrow> a < b"
  using pow2_mono [of b a] by linarith

lemma pow2_nat: "0 \<le> e \<Longrightarrow> pow2 e = of_int (2 ^ nat e)"
  by (simp add: pow2_def)

text \<open>Rounding to the nearest integer, ties to even.\<close>

definition round_even :: "rat \<Rightarrow> int" where
  "round_even x =
     (let f = \<lfloor>x\<rfloor>; d = x - of_int f
      in if d < 1 / 2 then f else if d > 1 / 2 then f + 1 else if even f then f else f + 1)"

lemma round_even_bounds: "\<lfloor>x\<rfloor> \<le> round_even x" "round_even x \<le> \<lfloor>x\<rfloor> + 1"
  by (auto simp: round_even_def Let_def)

lemma round_even_mono: "x \<le> y \<Longrightarrow> round_even x \<le> round_even y"
proof -
  assume xy: "x \<le> y"
  show ?thesis
  proof (cases "\<lfloor>x\<rfloor> = \<lfloor>y\<rfloor>")
    case True
    with xy show ?thesis by (auto simp: round_even_def Let_def)
  next
    case False
    with floor_mono [OF xy] have "\<lfloor>x\<rfloor> + 1 \<le> \<lfloor>y\<rfloor>" by simp
    with round_even_bounds [of x] round_even_bounds [of y] show ?thesis by linarith
  qed
qed

lemma round_even_of_int [simp]: "round_even (of_int n) = n"
  by (simp add: round_even_def)

text \<open>The exponent of the leading bit: \<open>2 ^ binade x \<le> x < 2 ^ (binade x + 1)\<close> for positive \<open>x\<close>.\<close>

definition binade :: "rat \<Rightarrow> int" where
  "binade x =
     (case quotient_of x of (a, b) \<Rightarrow>
        let k = int (floorlog 2 (nat a)) - int (floorlog 2 (nat b))
        in if pow2 k \<le> x then k else k - 1)"

lemma floorlog_pow2:
  assumes "0 < n"
  shows "pow2 (int (floorlog 2 n) - 1) \<le> of_nat n" "of_nat n < pow2 (int (floorlog 2 n))"
proof -
  have b: "2 ^ (floorlog 2 n - 1) \<le> n \<and> n < 2 ^ floorlog 2 n"
    using floorlog_bounds [of n 2] assms by simp
  have pos: "0 < floorlog 2 n"
  proof (rule ccontr)
    assume "\<not> 0 < floorlog 2 n"
    with b assms show False by simp
  qed
  then have "pow2 (int (floorlog 2 n) - 1) = of_nat (2 ^ (floorlog 2 n - 1))"
    by (simp add: pow2_def nat_diff_distrib)
  also have "\<dots> \<le> of_nat n" using b of_nat_le_iff by blast
  finally show "pow2 (int (floorlog 2 n) - 1) \<le> of_nat n" .
  have "(of_nat n :: rat) < of_nat (2 ^ floorlog 2 n)" using b of_nat_less_iff by blast
  then show "of_nat n < pow2 (int (floorlog 2 n))" by (simp add: pow2_def)
qed

lemma binade_bounds:
  assumes "0 < x"
  shows "pow2 (binade x) \<le> x" "x < pow2 (binade x + 1)"
proof -
  obtain a b where q: "quotient_of x = (a, b)" by fastforce
  have x: "x = of_int a / of_int b" by (rule quotient_of_div [OF q])
  have b: "0 < b" by (rule quotient_of_denom_pos [OF q])
  have a: "0 < a" using assms x b by (simp add: zero_less_divide_iff)
  define fa fb where "fa = int (floorlog 2 (nat a))" and "fb = int (floorlog 2 (nat b))"
  have A: "pow2 (fa - 1) \<le> of_int a" "of_int a < pow2 fa"
    using floorlog_pow2 [of "nat a"] a by (simp_all add: fa_def)
  have B: "pow2 (fb - 1) \<le> of_int b" "of_int b < pow2 fb"
    using floorlog_pow2 [of "nat b"] b by (simp_all add: fb_def)
  have up: "x < pow2 (fa - fb + 1)"
  proof -
    have "of_int a < pow2 (fa - fb + 1) * pow2 (fb - 1)"
      using A by (simp flip: pow2_add)
    also have "\<dots> \<le> pow2 (fa - fb + 1) * of_int b"
      using B by (simp add: mult_left_mono less_imp_le)
    finally show ?thesis using b by (simp add: x pos_divide_less_eq)
  qed
  have lo: "pow2 (fa - fb - 1) \<le> x"
  proof -
    have "pow2 (fa - fb - 1) * of_int b \<le> pow2 (fa - fb - 1) * pow2 fb"
      using B by (simp add: mult_left_mono less_imp_le)
    also have "\<dots> \<le> of_int a" using A by (simp flip: pow2_add)
    finally show ?thesis using b by (simp add: x pos_le_divide_eq)
  qed
  from up lo show "pow2 (binade x) \<le> x" "x < pow2 (binade x + 1)"
    by (auto simp: binade_def q Let_def fa_def [symmetric] fb_def [symmetric])
qed

definition f64_pos :: "rat \<Rightarrow> float64" where
  "f64_pos x = (let e = binade x - 52 in of_int (round_even (x / pow2 e)) * pow2 e)"

definition f64 :: "rat \<Rightarrow> float64" where
  "f64 x = (if x = 0 then 0 else if x < 0 then - f64_pos (- x) else f64_pos x)"

lemma f64_pos_bounds:
  assumes "0 < x"
  shows "pow2 (binade x) \<le> f64_pos x" "f64_pos x \<le> pow2 (binade x + 1)"
proof -
  let ?e = "binade x - 52"
  have p: "pow2 (binade x) = of_int (2 ^ 52) * pow2 ?e"
    "pow2 (binade x + 1) = of_int (2 ^ 53) * pow2 ?e"
    using pow2_add [of 52 ?e] pow2_add [of 53 ?e] by (simp_all add: pow2_nat add.commute)
  from binade_bounds [OF assms]
  have lo: "of_int (2 ^ 52) \<le> x / pow2 ?e" and hi: "x / pow2 ?e \<le> of_int (2 ^ 53)"
    unfolding p by (simp_all add: pos_le_divide_eq pos_divide_le_eq less_imp_le)
  have "(2 ^ 52 :: int) \<le> round_even (x / pow2 ?e)"
    using round_even_mono [OF lo] by (simp only: round_even_of_int)
  moreover have "round_even (x / pow2 ?e) \<le> 2 ^ 53"
    using round_even_mono [OF hi] by (simp only: round_even_of_int)
  ultimately show "pow2 (binade x) \<le> f64_pos x" "f64_pos x \<le> pow2 (binade x + 1)"
    unfolding p f64_pos_def Let_def
    by (simp_all only: mult_le_cancel_right_pos pow2_pos of_int_le_iff)
qed

lemma f64_pos_mono:
  assumes "0 < x" "x \<le> y"
  shows "f64_pos x \<le> f64_pos y"
proof -
  have y: "0 < y" using assms by simp
  have "pow2 (binade x) < pow2 (binade y + 1)"
    using binade_bounds [OF assms(1)] binade_bounds [OF y] assms by linarith
  then have le: "binade x \<le> binade y" using pow2_less by fastforce
  show ?thesis
  proof (cases "binade x = binade y")
    case True
    have "x / pow2 (binade x - 52) \<le> y / pow2 (binade x - 52)"
      using assms by (simp add: divide_right_mono less_imp_le)
    from round_even_mono [OF this] True show ?thesis
      by (simp add: f64_pos_def Let_def mult_right_mono less_imp_le)
  next
    case False
    with le have "pow2 (binade x + 1) \<le> pow2 (binade y)" by (simp add: pow2_mono)
    with f64_pos_bounds(2) [OF assms(1)] f64_pos_bounds(1) [OF y] show ?thesis by linarith
  qed
qed

lemma f64_pos_pos: "0 < x \<Longrightarrow> 0 < f64_pos x"
  using f64_pos_bounds(1) pow2_pos less_le_trans by blast

lemma f64_mono: "x \<le> y \<Longrightarrow> f64 x \<le> f64 y"
  using f64_pos_mono [of x y] f64_pos_mono [of "- y" "- x"]
    f64_pos_pos [of y] f64_pos_pos [of "- x"]
  by (auto simp: f64_def)

lemma f64_0 [simp]: "f64 0 = 0"
  by (simp add: f64_def)

lemma f64_1 [simp]: "f64 1 = 1"
  by code_simp

lemma f64_nonneg: "0 \<le> x \<Longrightarrow> 0 \<le> f64 x"
  using f64_mono [of 0 x] by simp

lemma f64_le_1: "x \<le> 1 \<Longrightarrow> f64 x \<le> 1"
  using f64_mono [of x 1] by simp

lemma f64_pos_iff: "0 < f64 x \<longleftrightarrow> 0 < x"
  using f64_pos_pos [of x] f64_pos_pos [of "- x"] by (auto simp: f64_def)

text \<open>The arithmetic of the code: each operation rounds its exact result.\<close>

definition f_int :: "int \<Rightarrow> float64" where "f_int n = f64 (of_int n)"
definition f_add :: "float64 \<Rightarrow> float64 \<Rightarrow> float64" where "f_add a b = f64 (a + b)"
definition f_sub :: "float64 \<Rightarrow> float64 \<Rightarrow> float64" where "f_sub a b = f64 (a - b)"
definition f_mul :: "float64 \<Rightarrow> float64 \<Rightarrow> float64" where "f_mul a b = f64 (a * b)"
definition f_div :: "float64 \<Rightarrow> float64 \<Rightarrow> float64" where "f_div a b = f64 (a / b)"

lemma f_int_mono: "m \<le> n \<Longrightarrow> f_int m \<le> f_int n"
  by (simp add: f_int_def f64_mono)

lemma f_int_0 [simp]: "f_int 0 = 0"
  by (simp add: f_int_def)

lemma f_int_nonneg: "0 \<le> n \<Longrightarrow> 0 \<le> f_int n"
  by (simp add: f_int_def f64_nonneg)

lemma f_int_pos: "0 < n \<Longrightarrow> 0 < f_int n"
  by (simp add: f_int_def f64_pos_iff)

lemma f_div_nonneg: "0 \<le> a \<Longrightarrow> 0 \<le> b \<Longrightarrow> 0 \<le> f_div a b"
  by (simp add: f_div_def f64_nonneg)

lemma f_div_le_1: "0 < b \<Longrightarrow> a \<le> b \<Longrightarrow> f_div a b \<le> 1"
  by (simp add: f_div_def f64_le_1)

text \<open>A ratio of counts is in the unit interval.\<close>

lemma ratio_bounds:
  assumes "0 \<le> a" "a \<le> b" "0 < b"
  shows "0 \<le> f_div (f_int a) (f_int b)" "f_div (f_int a) (f_int b) \<le> 1"
  using assms by (simp_all add: f_div_nonneg f_div_le_1 f_int_nonneg f_int_mono f_int_pos)

lemma round_even_error: "\<bar>of_int (round_even x) - x\<bar> \<le> 1 / 2"
proof -
  have "of_int \<lfloor>x\<rfloor> \<le> x" "x < of_int \<lfloor>x\<rfloor> + 1" by linarith+
  then show ?thesis by (auto simp: round_even_def Let_def abs_le_iff)
qed

text \<open>The relative error of a rounding is at most \<open>2 ^ -53\<close>.\<close>

lemma f64_pos_error:
  assumes "0 < x" shows "\<bar>f64_pos x - x\<bar> \<le> x / 2 ^ 53"
proof -
  let ?e = "binade x - 52"
  have p: "0 < pow2 ?e" by simp
  have "of_int (round_even (x / pow2 ?e)) * pow2 ?e - x
      = (of_int (round_even (x / pow2 ?e)) - x / pow2 ?e) * pow2 ?e"
    using p by (simp add: left_diff_distrib less_imp_neq [THEN not_sym])
  then have "\<bar>of_int (round_even (x / pow2 ?e)) * pow2 ?e - x\<bar> \<le> 1 / 2 * pow2 ?e"
    using mult_right_mono [OF round_even_error [of "x / pow2 ?e"], of "pow2 ?e"] p
    by (simp only: abs_mult abs_of_pos less_imp_le)
  then have e: "\<bar>f64_pos x - x\<bar> \<le> pow2 ?e / 2"
    by (simp add: f64_pos_def Let_def)
  have "pow2 ?e * 2 ^ 52 = pow2 (binade x)"
    using pow2_add [of ?e 52] by (simp add: pow2_nat)
  also have "\<dots> \<le> x" by (rule binade_bounds(1) [OF assms])
  finally have "pow2 ?e / 2 \<le> x / 2 ^ 53" by simp
  with e show ?thesis by linarith
qed

lemma f64_strict:
  assumes "0 < x" and "x * (1 + 1 / 2 ^ 53) < y * (1 - 1 / 2 ^ 53)"
  shows "f64 x < f64 y"
proof -
  define d :: rat where "d = 1 / 2 ^ 53"
  then have d: "d = 1 / 2 ^ 53" "0 < d" "d < 1" by simp_all
  have "0 < x * (1 + d)" using assms(1) d by simp
  then have "0 < y * (1 - d)" using assms(2) unfolding d(1) by (rule less_trans)
  then have y: "0 < y" using d by (simp add: zero_less_mult_iff)
  have ex: "f64_pos x - x \<le> x / 2 ^ 53" and ey: "- (f64_pos y - y) \<le> y / 2 ^ 53"
    using abs_le_D1 [OF f64_pos_error [OF assms(1)]] abs_le_D2 [OF f64_pos_error [OF y]] .
  have "x * (1 + d) = x + x / 2 ^ 53" "y * (1 - d) = y - y / 2 ^ 53"
    by (simp_all add: d(1) algebra_simps)
  with ex ey have "f64_pos x \<le> x * (1 + d)" "y * (1 - d) \<le> f64_pos y" by linarith+
  with assms(2) have "f64_pos x < f64_pos y" unfolding d(1) by linarith
  with assms(1) y show ?thesis by (simp add: f64_def)
qed

lemma f64_int_exact:
  assumes "0 \<le> n" "n < 2 ^ 53" shows "f64 (of_int n) = of_int n"
proof (cases "n = 0")
  case False
  with assms have n: "0 < (of_int n :: rat)" by simp
  have "pow2 (binade (of_int n)) \<le> of_int n" by (rule binade_bounds(1) [OF n])
  also have "(of_int n :: rat) < pow2 53"
  proof -
    have "(of_int n :: rat) < of_int (2 ^ 53)" using assms(2) by (simp only: of_int_less_iff)
    then show ?thesis by (simp add: pow2_nat)
  qed
  finally have "binade (of_int n) < 53" by (rule pow2_less)
  then have "binade (of_int n) - 52 = - int (nat (52 - binade (of_int n)))" by simp
  then obtain k where k: "binade (of_int n) - 52 = - int k" by blast
  have pk: "pow2 (- int k) = 1 / 2 ^ k" by (auto simp: pow2_def)
  have "of_int n / pow2 (- int k) = (of_int (n * 2 ^ k) :: rat)" by (simp add: pk)
  then have "f64_pos (of_int n) = of_int n"
    unfolding f64_pos_def Let_def k by (simp only: round_even_of_int) (simp add: pk)
  with n show ?thesis by (simp add: f64_def)
qed simp

lemma f_int_exact: "0 \<le> n \<Longrightarrow> n < 2 ^ 53 \<Longrightarrow> f_int n = of_int n"
  by (simp add: f_int_def f64_int_exact)

text \<open>Percentages keep their order as floats.\<close>

definition percent :: "int \<Rightarrow> float64" where
  "percent n = f_div (f_int n) 100"

lemma percent_less:
  assumes "0 < a" "a < b" "b \<le> 100" shows "percent a < percent b"
proof -
  have ab: "of_int a + 1 \<le> (of_int b :: rat)" using assms by linarith
  have "(of_int b :: rat) \<le> 100" using assms(3) by simp
  with ab have "of_int a / 100 * (1 + 1 / 2 ^ 53) < (of_int b :: rat) / 100 * (1 - 1 / 2 ^ 53)"
    by (simp add: field_simps)
  moreover have "(0 :: rat) < of_int a / 100" using assms by simp
  ultimately show ?thesis
    using assms f64_strict by (simp add: percent_def f_div_def f_int_exact)
qed

lemma percent_pos: "0 < a \<Longrightarrow> 0 < percent a"
  by (simp add: percent_def f_div_def f64_pos_iff f_int_pos)

text \<open>\<open>%.2f\<close> of a non-negative float: the exact value, rounded to two decimals.\<close>

definition format_2f :: "float64 \<Rightarrow> string" where
  "format_2f x =
     (let n = round_even (x * 100)
      in itoa (n div 100) @ ''.'' @ itoa (n mod 100 div 10) @ itoa (n mod 10))"

lemma f64_values:
  "f64 (7 / 10) < f64 (9 / 10)" "f_int 100 = 100" "f_div 1 2 = 1 / 2"
  by code_simp+

section \<open>Conversion to integers\<close>

text \<open>
  \<open>time.Duration(f)\<close>: the integer part; a float outside the range of \<open>int64\<close> gives the smallest
  \<open>int64\<close> (the conversion of amd64, Go leaves it open).
\<close>

definition f_to_int64 :: "float64 \<Rightarrow> int" where
  "f_to_int64 x =
     (let n = (if x < 0 then - \<lfloor>- x\<rfloor> else \<lfloor>x\<rfloor>) in if in_int64 n then n else int64_min)"

end
