(* ===== verification/Net_IP.thy ===== *)
theory Net_IP
  imports Go_Prelude
begin

text \<open>
  What the gateway uses of package \<open>net\<close>: \<open>net.ParseIP\<close>, \<open>net.ParseCIDR\<close>, \<open>IPNet.Contains\<close> and
  \<open>net.SplitHostPort\<close>. An address is its 16 bytes (an IPv4 address in its IPv4-in-IPv6 form), a
  network its number and mask, 4 or 16 bytes each.
\<close>

unbundle bit_operations_syntax

type_synonym ip = "nat list"

section \<open>Parsing addresses\<close>

text \<open>One decimal field of an IPv4 address: 1 to 3 digits, no leading zero, at most 255.\<close>

definition ipv4_field :: "string \<Rightarrow> nat option" where
  "ipv4_field s =
     (if s \<noteq> [] \<and> list_all is_digit s \<and> (length s = 1 \<or> hd s \<noteq> CHR ''0'') \<and> dec_value s \<le> 255
      then Some (nat (dec_value s)) else None)"

definition parse_ipv4 :: "string \<Rightarrow> nat list option" where
  "parse_ipv4 s =
     (case map ipv4_field (split_on CHR ''.'' s) of
        [Some a, Some b, Some c, Some d] \<Rightarrow> Some [a, b, c, d]
      | _ \<Rightarrow> None)"

definition v4_prefix :: "nat list" where
  "v4_prefix = replicate 10 0 @ [255, 255]"

definition hex_digit_val :: "char \<Rightarrow> nat option" where
  "hex_digit_val c =
     (let n = (of_char c :: nat)
      in if 48 \<le> n \<and> n \<le> 57 then Some (n - 48)
         else if 97 \<le> n \<and> n \<le> 102 then Some (n - 87)
         else if 65 \<le> n \<and> n \<le> 70 then Some (n - 55)
         else None)"

definition hex_field :: "string \<Rightarrow> string \<times> string" where
  "hex_field s =
     (takeWhile (\<lambda>c. hex_digit_val c \<noteq> None) s, dropWhile (\<lambda>c. hex_digit_val c \<noteq> None) s)"

definition hex_value :: "string \<Rightarrow> int" where
  "hex_value s = foldl (\<lambda>n c. 16 * n + int (the (hex_digit_val c))) 0 s"

text \<open>
  The groups of an IPv6 address: the bytes read so far, the position of \<open>::\<close> if one was seen, and
  the rest of the text. Each round reads one group, so nine rounds are enough for 16 bytes.
\<close>

fun ipv6_groups :: "nat \<Rightarrow> nat list \<Rightarrow> nat option \<Rightarrow> string \<Rightarrow> (nat list \<times> nat option \<times> string) option"
where
  "ipv6_groups 0 bs ell s = Some (bs, ell, s)"
| "ipv6_groups (Suc n) bs ell s =
     (if 16 \<le> length bs then Some (bs, ell, s)
      else
        let (d, r) = hex_field s
        in if d = [] \<or> 4 < length d then None
           else if r \<noteq> [] \<and> hd r = CHR ''.'' then
             (if ell = None \<and> length bs \<noteq> 12 \<or> 12 < length bs then None
              else (case parse_ipv4 s of None \<Rightarrow> None | Some v \<Rightarrow> Some (bs @ v, ell, [])))
           else
             let bs' = bs @ [nat (hex_value d div 256), nat (hex_value d mod 256)]
             in (case r of
                   [] \<Rightarrow> Some (bs', ell, [])
                 | c # t \<Rightarrow>
                     if c \<noteq> CHR '':'' \<or> t = [] then None
                     else if hd t = CHR '':'' then
                       (if ell \<noteq> None then None
                        else if tl t = [] then Some (bs', Some (length bs'), [])
                        else ipv6_groups n bs' (Some (length bs')) (tl t))
                     else ipv6_groups n bs' ell t))"

definition expand_ellipsis :: "nat list \<Rightarrow> nat option \<Rightarrow> ip option" where
  "expand_ellipsis bs ell =
     (if length bs < 16
      then (case ell of
              None \<Rightarrow> None
            | Some k \<Rightarrow> Some (take k bs @ replicate (16 - length bs) 0 @ drop k bs))
      else if ell \<noteq> None then None else Some bs)"

definition parse_ipv6 :: "string \<Rightarrow> ip option" where
  "parse_ipv6 s =
     (let (ell, t) = (if has_prefix s ''::'' then (Some 0, drop 2 s) else (None, s))
      in if ell \<noteq> None \<and> t = [] then Some (replicate 16 0)
         else (case ipv6_groups 9 [] ell t of
                 None \<Rightarrow> None
               | Some (bs, ell', rest) \<Rightarrow>
                   if rest \<noteq> [] then None else expand_ellipsis bs ell'))"

text \<open>The parser is chosen by the first \<open>.\<close>, \<open>:\<close> or \<open>%\<close>; addresses with a zone are not accepted.\<close>

datatype ip_family = IPv4 | IPv6

definition parse_addr :: "string \<Rightarrow> (ip_family \<times> ip) option" where
  "parse_addr s =
     (case dropWhile (\<lambda>c. c \<notin> set ''.:%'') s of
        [] \<Rightarrow> None
      | c # _ \<Rightarrow>
          if c = CHR ''.'' then map_option (\<lambda>v. (IPv4, v4_prefix @ v)) (parse_ipv4 s)
          else if c = CHR '':'' then map_option (\<lambda>v. (IPv6, v)) (parse_ipv6 s)
          else None)"

definition parse_ip :: "string \<Rightarrow> ip option" where
  "parse_ip s = map_option snd (parse_addr s)"

definition to4 :: "ip \<Rightarrow> nat list option" where
  "to4 a = (if length a = 4 then Some a
            else if length a = 16 \<and> take 12 a = v4_prefix then Some (drop 12 a) else None)"

section \<open>Networks\<close>

record ipnet =
  net_ip :: "nat list"
  net_mask :: "nat list"

definition cidr_mask :: "nat \<Rightarrow> nat \<Rightarrow> nat list" where
  "cidr_mask ones bytes =
     map (\<lambda>i. if 8 * i + 8 \<le> ones then 255
              else if ones \<le> 8 * i then 0 else 256 - 2 ^ (8 - (ones - 8 * i))) [0..<bytes]"

definition mask_bytes :: "nat list \<Rightarrow> nat list \<Rightarrow> nat list" where
  "mask_bytes a m = map2 (\<lambda>x y. x AND y) a m"

definition parse_cidr :: "string \<Rightarrow> ipnet option" where
  "parse_cidr s =
     (case split_first CHR ''/'' s of
        (addr, Some msk) \<Rightarrow>
          (case parse_addr addr of
             None \<Rightarrow> None
           | Some (fam, a) \<Rightarrow>
               let bits = (if fam = IPv4 then 32 else 128)
               in if msk \<noteq> [] \<and> list_all is_digit msk \<and> dec_value msk \<le> bits
                  then (let ones = nat (dec_value msk)
                        in if fam = IPv4
                           then Some \<lparr>net_ip = mask_bytes (drop 12 a) (cidr_mask ones 4),
                                      net_mask = cidr_mask ones 4\<rparr>
                           else Some \<lparr>net_ip = mask_bytes a (cidr_mask ones 16),
                                      net_mask = cidr_mask ones 16\<rparr>)
                  else None)
      | (_, None) \<Rightarrow> None)"

definition net_contains :: "ipnet \<Rightarrow> ip \<Rightarrow> bool" where
  "net_contains n a =
     (let nn = (case to4 (net_ip n) of Some x \<Rightarrow> x | None \<Rightarrow> net_ip n);
          m = (if length (net_mask n) = 16 \<and> length nn = 4 then drop 12 (net_mask n) else net_mask n);
          b = (case to4 a of Some x \<Rightarrow> x | None \<Rightarrow> a)
      in length m = length nn \<and> length b = length nn \<and> mask_bytes nn m = mask_bytes b m)"

section \<open>Host and port\<close>

fun last_index :: "char \<Rightarrow> string \<Rightarrow> nat option" where
  "last_index c [] = None"
| "last_index c (x # s) =
     (case last_index c s of Some i \<Rightarrow> Some (Suc i) | None \<Rightarrow> if x = c then Some 0 else None)"

definition split_host_port :: "string \<Rightarrow> string option" where
  "split_host_port s =
     (case last_index CHR '':'' s of
        None \<Rightarrow> None
      | Some i \<Rightarrow>
          if has_prefix s ''['' then
            (case index_of s '']'' of
               None \<Rightarrow> None
             | Some e \<Rightarrow>
                 if Suc e \<noteq> i then None
                 else if contains (drop 1 s) ''['' \<or> contains (drop (Suc e) s) '']'' then None
                 else Some (take (e - 1) (drop 1 s)))
          else
            (let host = take i s
             in if contains host '':'' \<or> contains s ''['' \<or> contains s '']'' then None else Some host))"

lemma parse_examples:
  "parse_ip ''10.1.2.3'' = Some (v4_prefix @ [10, 1, 2, 3])"
  "parse_ip ''10.1.2'' = None" "parse_ip ''010.1.2.3'' = None"
  "parse_ip ''::1'' = Some (replicate 15 0 @ [1])"
  "parse_ip ''fd00::1:2'' = Some ([253, 0] @ replicate 10 0 @ [0, 1, 0, 2])"
  "parse_cidr ''10.0.0.0/33'' = None" "parse_cidr ''10.0.0.0'' = None"
  "parse_cidr ''10.1.2.3/8'' = Some \<lparr>net_ip = [10, 0, 0, 0], net_mask = [255, 0, 0, 0]\<rparr>"
  "split_host_port ''10.1.2.3:8080'' = Some ''10.1.2.3''"
  "split_host_port ''[::1]:80'' = Some ''::1''" "split_host_port ''::1'' = None"
  by code_simp+

lemma net_contains_example:
  "net_contains \<lparr>net_ip = [10, 0, 0, 0], net_mask = [255, 0, 0, 0]\<rparr> (v4_prefix @ [10, 9, 8, 7])"
  "\<not> net_contains \<lparr>net_ip = [10, 0, 0, 0], net_mask = [255, 0, 0, 0]\<rparr> (v4_prefix @ [11, 9, 8, 7])"
  by code_simp+

end
