(* ===== verification/Config.thy ===== *)
theory Config
  imports Float64 Net_IP "HOL-Library.AList"
begin

text \<open>
  Package \<open>config\<close>, file \<open>config.go\<close>: the configuration record, its loading from the environment
  (\<open>LoadFromEnv\<close> and its helpers) and \<open>Validate\<close>. Each return statement of \<open>Validate\<close> is a
  constructor of \<open>config_error\<close> with the values its message prints. \<open>env\<close> is \<open>os.Getenv\<close> (the empty
  string for an unset variable); \<open>parse_float\<close> is \<open>strconv.ParseFloat\<close>, which also returns NaN and
  infinities. \<open>SourceRateLimits\<close> is an association list with distinct keys, in the order the map is
  ranged over.
\<close>

datatype float_value = Finite rat | NotANumber | PosInf | NegInf

text \<open>\<open>f < q\<close> and \<open>f > q\<close> for a constant \<open>q\<close>: false for NaN.\<close>

definition fv_less :: "float_value \<Rightarrow> rat \<Rightarrow> bool" where
  "fv_less f q = (case f of Finite r \<Rightarrow> r < q | NegInf \<Rightarrow> True | _ \<Rightarrow> False)"

definition fv_greater :: "float_value \<Rightarrow> rat \<Rightarrow> bool" where
  "fv_greater f q = (case f of Finite r \<Rightarrow> q < r | PosInf \<Rightarrow> True | _ \<Rightarrow> False)"

text \<open>\<open>a == b\<close> on floats: NaN differs from itself.\<close>

definition fv_eq :: "float_value \<Rightarrow> float_value \<Rightarrow> bool" where
  "fv_eq a b \<longleftrightarrow> a = b \<and> a \<noteq> NotANumber"

section \<open>The configuration\<close>

record config =
  Environment :: string
  Port :: string
  SlackSigningSecret :: string
  GitHubWebhookSecret :: string
  GitLabWebhookToken :: string
  TeamsClientState :: string
  QueueBuffer :: int
  QueueWorkers :: int
  QueueBulkheadEnabled :: bool
  QueueBulkheadBufferPerSource :: int
  RequestTimeoutSec :: int
  RequireSecrets :: bool
  QueueBackend :: string
  PubSubProjectID :: string
  PubSubTopicID :: string
  AdminAuthEnabled :: bool
  AdminJWTIssuer :: string
  AdminJWTAudience :: string
  AdminJWTSecret :: string
  AdminAllowCIDRs :: "string list"
  TrustedProxyCIDRs :: "string list"
  RateLimitEnabled :: bool
  RateLimitRPM :: int
  AdminRateLimitRPM :: int
  DedupEnabled :: bool
  DedupTTLSeconds :: int
  RedisAddr :: string
  RedisPassword :: string
  RedisDB :: int
  DedupRedisPrefix :: string
  FailedStoreEnabled :: bool
  FailedStorePath :: string
  DatabaseURL :: string
  ReplayAuditEnabled :: bool
  ReplayAuditPath :: string
  SecurityAuditEnabled :: bool
  SecurityAuditPath :: string
  SecurityAuditRetentionDays :: int
  QueueBackpressureEnabled :: bool
  QueueBackpressureSoftLimitPercent :: int
  QueueBackpressureHardLimitPercent :: int
  QueueFailureBudgetPercent :: int
  QueueFailureBudgetWindow :: int
  QueueFailureBudgetMinSamples :: int
  QueueThrottleRetryAfterSec :: int
  SourceRateLimitEnabled :: bool
  SourceRateLimits :: "(string \<times> int) list"
  SourceRateLimitDefault :: int
  SchemaValidationEnabled :: bool
  SchemaPath :: string
  RetryEnabled :: bool
  RetryMaxAttempts :: int
  RetryIntervalSec :: int
  PubSubPublishTimeoutSec :: int
  PubSubPublishGoroutines :: int
  PubSubMaxOutstandingMessages :: int
  PubSubMaxOutstandingBytes :: int
  PubSubFlowControlBehavior :: string
  RateLimitBackend :: string
  RateLimitRedisPrefix :: string
  PIIScrubbingEnabled :: bool
  LogLevel :: string
  ChaosEnabled :: bool
  ChaosErrorRate :: float_value
  ChaosLatencyRate :: float_value
  ChaosLatencyMinMs :: int
  ChaosLatencyMaxMs :: int
section \<open>Reading the environment\<close>

definition env_or_default :: "(string \<Rightarrow> string) \<Rightarrow> string \<Rightarrow> string \<Rightarrow> string" where
  "env_or_default env key fallback = (if env key \<noteq> '''' then env key else fallback)"

definition int_or_default :: "(string \<Rightarrow> string) \<Rightarrow> string \<Rightarrow> int \<Rightarrow> int" where
  "int_or_default env key fallback =
     (let v = env key
      in if v = '''' then fallback
         else (case atoi v of None \<Rightarrow> fallback | Some n \<Rightarrow> n))"

definition float_or_default ::
  "(string \<Rightarrow> float_value option) \<Rightarrow> (string \<Rightarrow> string) \<Rightarrow> string \<Rightarrow> float_value \<Rightarrow> float_value" where
  "float_or_default parse_float env key fallback =
     (let v = env key
      in if v = '''' then fallback
         else (case parse_float v of None \<Rightarrow> fallback | Some f \<Rightarrow> f))"

definition truthy :: "string list" where "truthy = [''1'', ''true'', ''yes'', ''y'']"
definition falsy :: "string list" where "falsy = [''0'', ''false'', ''no'', ''n'']"

definition bool_or_default :: "(string \<Rightarrow> string) \<Rightarrow> string \<Rightarrow> bool \<Rightarrow> bool" where
  "bool_or_default env key fallback =
     (let v = trim_space (to_lower (env key))
      in if v = '''' then fallback
         else if v \<in> set truthy then True
         else if v \<in> set falsy then False
         else fallback)"

definition split_csv :: "string \<Rightarrow> string list" where
  "split_csv v = filter (\<lambda>p. p \<noteq> '''') (map trim_space (split_on CHR '','' v))"

definition split_csv_env :: "(string \<Rightarrow> string) \<Rightarrow> string \<Rightarrow> string list" where
  "split_csv_env env key =
     (let v = trim_space (env key) in if v = '''' then [] else split_csv v)"

text \<open>One \<open>source:limit\<close> pair; pairs that do not parse, and limits that are not positive, are skipped.\<close>

definition parse_rate_pair :: "string \<Rightarrow> (string \<times> int) option" where
  "parse_rate_pair raw =
     (let pair = trim_space raw
      in if pair = '''' then None
         else (case split_first CHR '':'' pair of
                 (_, None) \<Rightarrow> None
               | (a, Some b) \<Rightarrow>
                   (case atoi (trim_space b) of
                      None \<Rightarrow> None
                    | Some limit \<Rightarrow> if limit \<le> 0 then None else Some (trim_space a, limit))))"

definition add_rate_pair :: "(string \<times> int) list \<Rightarrow> string \<Rightarrow> (string \<times> int) list" where
  "add_rate_pair acc raw =
     (case parse_rate_pair raw of None \<Rightarrow> acc | Some (source, limit) \<Rightarrow> AList.update source limit acc)"

definition parse_source_rate_limits :: "string \<Rightarrow> (string \<times> int) list" where
  "parse_source_rate_limits raw =
     (if raw = '''' then [] else foldl add_rate_pair [] (split_on CHR '','' raw))"

definition load_from_env ::
  "(string \<Rightarrow> float_value option) \<Rightarrow> (string \<Rightarrow> string) \<Rightarrow> config" where
  "load_from_env parse_float env =
     \<lparr>Environment = env_or_default env ''ENVIRONMENT'' ''dev'',
      Port = env_or_default env ''PORT'' ''8080'',
      SlackSigningSecret = env ''SLACK_SIGNING_SECRET'',
      GitHubWebhookSecret = env ''GITHUB_WEBHOOK_SECRET'',
      GitLabWebhookToken = env ''GITLAB_WEBHOOK_TOKEN'',
      TeamsClientState = env ''TEAMS_CLIENT_STATE'',
      QueueBuffer = int_or_default env ''QUEUE_BUFFER'' 4096,
      QueueWorkers = int_or_default env ''QUEUE_WORKERS'' 1,
      QueueBulkheadEnabled = bool_or_default env ''QUEUE_BULKHEAD_ENABLED'' False,
      QueueBulkheadBufferPerSource = int_or_default env ''QUEUE_BULKHEAD_BUFFER_PER_SOURCE'' 1024,
      RequestTimeoutSec = int_or_default env ''REQUEST_TIMEOUT_SEC'' 15,
      RequireSecrets = bool_or_default env ''REQUIRE_SECRETS'' True,
      QueueBackend = env_or_default env ''QUEUE_BACKEND'' ''log'',
      PubSubProjectID = env ''PUBSUB_PROJECT_ID'',
      PubSubTopicID = env ''PUBSUB_TOPIC_ID'',
      AdminAuthEnabled = bool_or_default env ''ADMIN_AUTH_ENABLED'' True,
      AdminJWTIssuer = env ''ADMIN_JWT_ISSUER'',
      AdminJWTAudience = env ''ADMIN_JWT_AUDIENCE'',
      AdminJWTSecret = env ''ADMIN_JWT_SECRET'',
      AdminAllowCIDRs = split_csv_env env ''ADMIN_ALLOW_CIDRS'',
      TrustedProxyCIDRs = split_csv_env env ''TRUSTED_PROXY_CIDRS'',
      RateLimitEnabled = bool_or_default env ''RATE_LIMIT_ENABLED'' True,
      RateLimitRPM = int_or_default env ''RATE_LIMIT_RPM'' 300,
      AdminRateLimitRPM = int_or_default env ''ADMIN_RATE_LIMIT_RPM'' 60,
      DedupEnabled = bool_or_default env ''DEDUP_ENABLED'' True,
      DedupTTLSeconds = int_or_default env ''DEDUP_TTL_SEC'' 300,
      RedisAddr = env ''REDIS_ADDR'',
      RedisPassword = env ''REDIS_PASSWORD'',
      RedisDB = int_or_default env ''REDIS_DB'' 0,
      DedupRedisPrefix = env_or_default env ''DEDUP_REDIS_PREFIX'' ''webhook_dedup'',
      FailedStoreEnabled = bool_or_default env ''FAILED_EVENT_STORE_ENABLED'' True,
      FailedStorePath = env_or_default env ''FAILED_EVENT_STORE_PATH'' ''data/failed-events.jsonl'',
      DatabaseURL = env ''DATABASE_URL'',
      ReplayAuditEnabled = bool_or_default env ''REPLAY_AUDIT_ENABLED'' True,
      ReplayAuditPath = env_or_default env ''REPLAY_AUDIT_PATH'' ''data/replay-audit.jsonl'',
      SecurityAuditEnabled = bool_or_default env ''SECURITY_AUDIT_ENABLED'' True,
      SecurityAuditPath = env_or_default env ''SECURITY_AUDIT_PATH'' ''data/security-audit.jsonl'',
      SecurityAuditRetentionDays = int_or_default env ''SECURITY_AUDIT_RETENTION_DAYS'' 30,
      QueueBackpressureEnabled = bool_or_default env ''QUEUE_BACKPRESSURE_ENABLED'' True,
      QueueBackpressureSoftLimitPercent = int_or_default env ''QUEUE_BACKPRESSURE_SOFT_LIMIT_PERCENT'' 70,
      QueueBackpressureHardLimitPercent = int_or_default env ''QUEUE_BACKPRESSURE_HARD_LIMIT_PERCENT'' 90,
      QueueFailureBudgetPercent = int_or_default env ''QUEUE_FAILURE_BUDGET_PERCENT'' 15,
      QueueFailureBudgetWindow = int_or_default env ''QUEUE_FAILURE_BUDGET_WINDOW'' 100,
      QueueFailureBudgetMinSamples = int_or_default env ''QUEUE_FAILURE_BUDGET_MIN_SAMPLES'' 20,
      QueueThrottleRetryAfterSec = int_or_default env ''QUEUE_THROTTLE_RETRY_AFTER_SEC'' 5,
      SourceRateLimitEnabled = bool_or_default env ''SOURCE_RATE_LIMIT_ENABLED'' True,
      SourceRateLimits = parse_source_rate_limits (env ''SOURCE_RATE_LIMITS''),
      SourceRateLimitDefault = int_or_default env ''SOURCE_RATE_LIMIT_DEFAULT'' 100,
      SchemaValidationEnabled = bool_or_default env ''SCHEMA_VALIDATION_ENABLED'' True,
      SchemaPath = env_or_default env ''SCHEMA_PATH'' ''internal/schema/schemas'',
      RetryEnabled = bool_or_default env ''RETRY_ENABLED'' False,
      RetryMaxAttempts = int_or_default env ''RETRY_MAX_ATTEMPTS'' 3,
      RetryIntervalSec = int_or_default env ''RETRY_INTERVAL_SEC'' 10,
      PubSubPublishTimeoutSec = int_or_default env ''PUBSUB_PUBLISH_TIMEOUT_SEC'' 5,
      PubSubPublishGoroutines = int_or_default env ''PUBSUB_PUBLISH_GOROUTINES'' 0,
      PubSubMaxOutstandingMessages = int_or_default env ''PUBSUB_MAX_OUTSTANDING_MESSAGES'' 0,
      PubSubMaxOutstandingBytes = int_or_default env ''PUBSUB_MAX_OUTSTANDING_BYTES'' 0,
      PubSubFlowControlBehavior = env_or_default env ''PUBSUB_FLOW_CONTROL_BEHAVIOR'' ''ignore'',
      RateLimitBackend = env_or_default env ''RATE_LIMIT_BACKEND'' ''memory'',
      RateLimitRedisPrefix = env_or_default env ''RATE_LIMIT_REDIS_PREFIX'' ''rate_limit'',
      PIIScrubbingEnabled = bool_or_default env ''PII_SCRUBBING_ENABLED'' False,
      LogLevel = env_or_default env ''LOG_LEVEL'' ''info'',
      ChaosEnabled = bool_or_default env ''CHAOS_ENABLED'' False,
      ChaosErrorRate = float_or_default parse_float env ''CHAOS_ERROR_RATE'' (Finite 0),
      ChaosLatencyRate = float_or_default parse_float env ''CHAOS_LATENCY_RATE'' (Finite 0),
      ChaosLatencyMinMs = int_or_default env ''CHAOS_LATENCY_MIN_MS'' 100,
      ChaosLatencyMaxMs = int_or_default env ''CHAOS_LATENCY_MAX_MS'' 500\<rparr>"

section \<open>Validation\<close>

definition is_non_prod_environment :: "string \<Rightarrow> bool" where
  "is_non_prod_environment env =
     (let v = to_lower (trim_space env)
      in if v = '''' then False
         else if contains v ''dev'' \<or> contains v ''test'' \<or> contains v ''local'' \<or> contains v ''ci''
         then True
         else v = ''staging'' \<or> v = ''sandbox'')"

definition weak_values :: "string list" where
  "weak_values =
     [''change-me'', ''changeme'', ''secret'', ''password'', ''admin'', ''test'', ''default'',
      ''12345678'', ''123456789'', ''1234567890'', ''qwerty'', ''abc123'', ''password1'',
      ''letmein'', ''welcome'', ''monkey'', ''master'', ''dragon'']"

text \<open>Successive bytes differ by \<open>d\<close> (modulo 256).\<close>

fun stepwise :: "nat \<Rightarrow> string \<Rightarrow> bool" where
  "stepwise d (a # b # s) =
     ((of_char b :: nat) = (of_char a + d) mod 256 \<and> stepwise d (b # s))"
| "stepwise d [a] = True"
| "stepwise d [] = True"

text \<open>
  \<open>strings.Count(v, string(v[0])) == len(v)\<close> holds when all bytes are the same ASCII character:
  the string of a byte above 127 is two bytes long, so it occurs at most \<open>len(v) / 2\<close> times.
\<close>

definition is_weak_secret :: "string \<Rightarrow> bool" where
  "is_weak_secret secret =
     (let v = to_lower (trim_space secret)
      in if v = '''' then True
         else if v \<in> set weak_values then True
         else if (of_char (hd v) :: nat) < 128 \<and> list_all (\<lambda>c. c = hd v) v then True
         else if 3 \<le> length v \<and> (stepwise 1 v \<or> stepwise 255 v) then True
         else False)"

datatype config_error =
    PortEmpty
  | PortInvalid string
  | QueueBufferNotPositive int
  | QueueBufferTooHigh int
  | QueueWorkersRange int
  | BulkheadBufferRange int
  | RequestTimeoutNotPositive int
  | RequestTimeoutTooHigh int
  | RateLimitRange int
  | AdminRateLimitRange int int
  | DedupTTLRange int
  | FailedStorePathEmpty
  | ReplayAuditPathEmpty
  | SecurityAuditPathEmpty
  | RetentionDaysRange int
  | SoftLimitRange int
  | HardLimitRange int
  | HardNotAboveSoft int int
  | FailureBudgetRange int
  | FailureWindowRange int
  | MinSamplesRange int int
  | RetryAfterRange int
  | TrustedProxyInvalid string
  | QueueBackendInvalid string
  | RateLimitBackendInvalid string
  | RedisAddrRequired
  | RedisPrefixBlank
  | PublishTimeoutRange int
  | PublishGoroutinesRange int
  | OutstandingMessagesRange int
  | OutstandingBytesNegative int
  | FlowControlInvalid string
  | ProjectIDRequired
  | TopicIDRequired
  | ProjectIDBlank
  | TopicIDBlank
  | MissingAdminAuth "string list"
  | WeakAdminSecret
  | AdminCIDRInvalid string
  | AdminCIDRsRequired
  | RequireSecretsInProd string
  | MissingSecrets "string list"
  | ChaosErrorRateRange float_value
  | ChaosLatencyRateRange float_value
  | ChaosMinNegative int
  | ChaosMaxRange int
  | ChaosMinAboveMax int int
  | SourceLimitDefaultRange int
  | SourceLimitRange string int

text \<open>The first check that fails, in order.\<close>

fun first_error :: "(bool \<times> 'e) list \<Rightarrow> 'e option" where
  "first_error [] = None"
| "first_error ((bad, e) # cs) = (if bad then Some e else first_error cs)"

definition or_error :: "'e option \<Rightarrow> 'e option \<Rightarrow> 'e option" where
  "or_error a b = (case a of Some e \<Rightarrow> Some e | None \<Rightarrow> b)"

lemma or_error_None [simp]: "or_error a b = None \<longleftrightarrow> a = None \<and> b = None"
  by (simp add: or_error_def split: option.splits)

lemma first_error_None: "first_error cs = None \<longleftrightarrow> list_all (\<lambda>(bad, e). \<not> bad) cs"
  by (induction cs rule: first_error.induct) auto

definition valid_port :: "string \<Rightarrow> bool" where
  "valid_port p = (case atoi p of None \<Rightarrow> False | Some n \<Rightarrow> 1 \<le> n \<and> n \<le> 65535)"

definition validate_server :: "config \<Rightarrow> config_error option" where
  "validate_server c =
     (let workers = (if QueueWorkers c = 0 then 1 else QueueWorkers c);
          per_source = (if QueueBulkheadBufferPerSource c = 0 then 1024
                        else QueueBulkheadBufferPerSource c)
      in first_error
        [(Port c = '''', PortEmpty),
         (\<not> valid_port (Port c), PortInvalid (Port c)),
         (QueueBuffer c \<le> 0, QueueBufferNotPositive (QueueBuffer c)),
         (QueueBuffer c > 1000000, QueueBufferTooHigh (QueueBuffer c)),
         (workers < 1 \<or> workers > 1024, QueueWorkersRange workers),
         (per_source < 1 \<or> per_source > 1000000, BulkheadBufferRange per_source),
         (RequestTimeoutSec c \<le> 0, RequestTimeoutNotPositive (RequestTimeoutSec c)),
         (RequestTimeoutSec c > 300, RequestTimeoutTooHigh (RequestTimeoutSec c))])"

definition validate_stores :: "config \<Rightarrow> config_error option" where
  "validate_stores c =
     (let ttl = (if DedupTTLSeconds c = 0 then 300 else DedupTTLSeconds c)
      in first_error
        [(RateLimitEnabled c \<and> (RateLimitRPM c < 10 \<or> RateLimitRPM c > 100000),
          RateLimitRange (RateLimitRPM c)),
         (RateLimitEnabled c \<and> (AdminRateLimitRPM c < 1 \<or> AdminRateLimitRPM c > RateLimitRPM c),
          AdminRateLimitRange (RateLimitRPM c) (AdminRateLimitRPM c)),
         (ttl < 1 \<or> ttl > 86400, DedupTTLRange (DedupTTLSeconds c)),
         (FailedStoreEnabled c \<and> trim_space (FailedStorePath c) = '''', FailedStorePathEmpty),
         (ReplayAuditEnabled c \<and> trim_space (ReplayAuditPath c) = '''', ReplayAuditPathEmpty),
         (SecurityAuditEnabled c \<and> trim_space (SecurityAuditPath c) = '''', SecurityAuditPathEmpty),
         (SecurityAuditEnabled c
            \<and> (SecurityAuditRetentionDays c < 1 \<or> SecurityAuditRetentionDays c > 3650),
          RetentionDaysRange (SecurityAuditRetentionDays c))])"

definition validate_backpressure :: "config \<Rightarrow> config_error option" where
  "validate_backpressure c =
     (if \<not> QueueBackpressureEnabled c then None
      else
        let soft = QueueBackpressureSoftLimitPercent c; hard = QueueBackpressureHardLimitPercent c;
            window = QueueFailureBudgetWindow c; samples = QueueFailureBudgetMinSamples c
        in first_error
          [(soft < 1 \<or> soft > 99, SoftLimitRange soft),
           (hard < 1 \<or> hard > 100, HardLimitRange hard),
           (hard \<le> soft, HardNotAboveSoft hard soft),
           (QueueFailureBudgetPercent c < 1 \<or> QueueFailureBudgetPercent c > 100,
            FailureBudgetRange (QueueFailureBudgetPercent c)),
           (window < 1 \<or> window > 100000, FailureWindowRange window),
           (samples < 1 \<or> samples > window, MinSamplesRange window samples),
           (QueueThrottleRetryAfterSec c < 1 \<or> QueueThrottleRetryAfterSec c > 300,
            RetryAfterRange (QueueThrottleRetryAfterSec c))])"

definition validate_backends :: "config \<Rightarrow> config_error option" where
  "validate_backends c =
     (let backend = (let b = trim_space (RateLimitBackend c) in if b = '''' then ''memory'' else b)
      in or_error
        (first_error (map (\<lambda>cidr. (parse_cidr cidr = None, TrustedProxyInvalid cidr))
           (TrustedProxyCIDRs c)))
        (first_error
          [(QueueBackend c \<noteq> ''log'' \<and> QueueBackend c \<noteq> ''pubsub'',
            QueueBackendInvalid (QueueBackend c)),
           (backend \<noteq> ''memory'' \<and> backend \<noteq> ''redis'', RateLimitBackendInvalid (RateLimitBackend c)),
           (backend = ''redis'' \<and> trim_space (RedisAddr c) = '''', RedisAddrRequired),
           (trim_space (RateLimitRedisPrefix c) = '''' \<and> RateLimitRedisPrefix c \<noteq> '''',
            RedisPrefixBlank)]))"

definition ascii_blanks :: string where
  "ascii_blanks = [CHR 0x20, CHR 0x09, CHR 0x0A, CHR 0x0D]"

definition validate_pubsub :: "config \<Rightarrow> config_error option" where
  "validate_pubsub c =
     (let timeout = (if PubSubPublishTimeoutSec c = 0 then 5 else PubSubPublishTimeoutSec c);
          behavior = (let b = trim_space (PubSubFlowControlBehavior c)
                      in if b = '''' then ''ignore'' else b);
          on = (QueueBackend c = ''pubsub'')
      in first_error
        [(timeout < 1 \<or> timeout > 300, PublishTimeoutRange (PubSubPublishTimeoutSec c)),
         (PubSubPublishGoroutines c < 0 \<or> PubSubPublishGoroutines c > 1024,
          PublishGoroutinesRange (PubSubPublishGoroutines c)),
         (PubSubMaxOutstandingMessages c < 0 \<or> PubSubMaxOutstandingMessages c > 10000000,
          OutstandingMessagesRange (PubSubMaxOutstandingMessages c)),
         (PubSubMaxOutstandingBytes c < 0, OutstandingBytesNegative (PubSubMaxOutstandingBytes c)),
         (behavior \<noteq> ''ignore'' \<and> behavior \<noteq> ''block'' \<and> behavior \<noteq> ''signal_error'',
          FlowControlInvalid (PubSubFlowControlBehavior c)),
         (on \<and> PubSubProjectID c = '''', ProjectIDRequired),
         (on \<and> PubSubTopicID c = '''', TopicIDRequired),
         (on \<and> contains_any (PubSubProjectID c) ascii_blanks, ProjectIDBlank),
         (on \<and> contains_any (PubSubTopicID c) ascii_blanks, TopicIDBlank)])"

text \<open>The names of the values that are empty.\<close>

definition missing_of :: "(string \<times> string) list \<Rightarrow> string list" where
  "missing_of vs = map fst (filter (\<lambda>(name, v). v = '''') vs)"

definition admin_values :: "config \<Rightarrow> (string \<times> string) list" where
  "admin_values c =
     [(''ADMIN_JWT_ISSUER'', AdminJWTIssuer c), (''ADMIN_JWT_AUDIENCE'', AdminJWTAudience c),
      (''ADMIN_JWT_SECRET'', AdminJWTSecret c)]"

definition secret_values :: "config \<Rightarrow> (string \<times> string) list" where
  "secret_values c =
     [(''SLACK_SIGNING_SECRET'', SlackSigningSecret c),
      (''GITHUB_WEBHOOK_SECRET'', GitHubWebhookSecret c),
      (''GITLAB_WEBHOOK_TOKEN'', GitLabWebhookToken c),
      (''TEAMS_CLIENT_STATE'', TeamsClientState c)]"

definition validate_admin :: "config \<Rightarrow> config_error option" where
  "validate_admin c =
     (if \<not> AdminAuthEnabled c then None
      else or_error
        (first_error
          [(missing_of (admin_values c) \<noteq> [], MissingAdminAuth (missing_of (admin_values c))),
           (length (AdminJWTSecret c) < 32 \<or> is_weak_secret (AdminJWTSecret c), WeakAdminSecret)])
        (or_error
          (first_error (map (\<lambda>cidr. (parse_cidr cidr = None, AdminCIDRInvalid cidr))
             (AdminAllowCIDRs c)))
          (first_error
            [(\<not> is_non_prod_environment (Environment c) \<and> AdminAllowCIDRs c = [],
              AdminCIDRsRequired)])))"

definition validate_chaos :: "config \<Rightarrow> config_error option" where
  "validate_chaos c =
     (if \<not> ChaosEnabled c then None
      else first_error
        [(fv_less (ChaosErrorRate c) 0 \<or> fv_greater (ChaosErrorRate c) 1,
          ChaosErrorRateRange (ChaosErrorRate c)),
         (fv_less (ChaosLatencyRate c) 0 \<or> fv_greater (ChaosLatencyRate c) 1,
          ChaosLatencyRateRange (ChaosLatencyRate c)),
         (ChaosLatencyMinMs c < 0, ChaosMinNegative (ChaosLatencyMinMs c)),
         (ChaosLatencyMaxMs c < 0 \<or> ChaosLatencyMaxMs c > 30000, ChaosMaxRange (ChaosLatencyMaxMs c)),
         (ChaosLatencyMinMs c > ChaosLatencyMaxMs c,
          ChaosMinAboveMax (ChaosLatencyMinMs c) (ChaosLatencyMaxMs c))])"

definition validate_source_limits :: "config \<Rightarrow> config_error option" where
  "validate_source_limits c =
     (if \<not> SourceRateLimitEnabled c then None
      else or_error
        (first_error
          [(SourceRateLimitDefault c \<le> 0 \<or> SourceRateLimitDefault c > 1000000,
            SourceLimitDefaultRange (SourceRateLimitDefault c))])
        (first_error (map (\<lambda>(src, limit).
             (limit \<le> 0 \<or> limit > 1000000, SourceLimitRange src limit)) (SourceRateLimits c))))"

definition validate_required_secrets :: "config \<Rightarrow> config_error option" where
  "validate_required_secrets c =
     first_error [(missing_of (secret_values c) \<noteq> [], MissingSecrets (missing_of (secret_values c)))]"

definition validate :: "config \<Rightarrow> config_error option" where
  "validate c =
     or_error (validate_server c)
       (or_error (validate_stores c)
         (or_error (validate_backpressure c)
           (or_error (validate_backends c)
             (or_error (validate_pubsub c)
               (or_error (validate_admin c)
                 (if \<not> RequireSecrets c then
                    (if \<not> is_non_prod_environment (Environment c)
                     then Some (RequireSecretsInProd (Environment c)) else None)
                  else or_error (validate_required_secrets c)
                    (or_error (validate_chaos c) (validate_source_limits c))))))))"

lemma missing_of_Nil: "missing_of vs = [] \<longleftrightarrow> list_all (\<lambda>(n, v). v \<noteq> '''') vs"
  by (induction vs) (auto simp: missing_of_def)

lemma validate_server_sound:
  "validate_server c = None \<Longrightarrow>
     valid_port (Port c) \<and> 0 < QueueBuffer c \<and> QueueBuffer c \<le> 1000000
     \<and> 0 \<le> QueueWorkers c \<and> QueueWorkers c \<le> 1024
     \<and> 0 < RequestTimeoutSec c \<and> RequestTimeoutSec c \<le> 300"
  by (auto simp: validate_server_def Let_def split: if_splits)

lemma validate_backpressure_sound:
  "validate_backpressure c = None \<Longrightarrow> QueueBackpressureEnabled c \<Longrightarrow>
     1 \<le> QueueBackpressureSoftLimitPercent c
     \<and> QueueBackpressureSoftLimitPercent c < QueueBackpressureHardLimitPercent c
     \<and> QueueBackpressureHardLimitPercent c \<le> 100
     \<and> 1 \<le> QueueFailureBudgetMinSamples c
     \<and> QueueFailureBudgetMinSamples c \<le> QueueFailureBudgetWindow c"
  by (auto simp: validate_backpressure_def Let_def split: if_splits)

lemma validate_admin_sound:
  "validate_admin c = None \<Longrightarrow> AdminAuthEnabled c \<Longrightarrow>
     AdminJWTIssuer c \<noteq> '''' \<and> AdminJWTAudience c \<noteq> '''' \<and> 32 \<le> length (AdminJWTSecret c)
     \<and> \<not> is_weak_secret (AdminJWTSecret c)
     \<and> (\<forall>cidr \<in> set (AdminAllowCIDRs c). parse_cidr cidr \<noteq> None)
     \<and> (is_non_prod_environment (Environment c) \<or> AdminAllowCIDRs c \<noteq> [])"
  by (auto simp: validate_admin_def first_error_None list_all_iff admin_values_def missing_of_Nil
      split: if_splits)

lemma validate_parts:
  "validate c = None \<longleftrightarrow>
     validate_server c = None \<and> validate_stores c = None \<and> validate_backpressure c = None
     \<and> validate_backends c = None \<and> validate_pubsub c = None \<and> validate_admin c = None
     \<and> (if RequireSecrets c
        then validate_required_secrets c = None \<and> validate_chaos c = None
             \<and> validate_source_limits c = None
        else is_non_prod_environment (Environment c))"
  by (auto simp: validate_def)

lemma validate_secrets_sound:
  "validate_required_secrets c = None \<Longrightarrow>
     SlackSigningSecret c \<noteq> '''' \<and> GitHubWebhookSecret c \<noteq> '''' \<and> GitLabWebhookToken c \<noteq> ''''
     \<and> TeamsClientState c \<noteq> ''''"
  by (simp add: validate_required_secrets_def missing_of_Nil secret_values_def split: if_splits)

text \<open>C1: what a configuration that passes \<open>Validate\<close> guarantees: a port in the TCP range, a bounded
  positive queue, soft limit strictly below hard limit, and, with \<open>REQUIRE_SECRETS\<close>, all four webhook
  secrets set; with admin authentication, a secret of at least 32 bytes that is not a weak one, CIDRs
  that parse and, outside non-production environments, at least one of them; and
  \<open>REQUIRE_SECRETS=false\<close> only in a non-production environment.\<close>

theorem validate_sound:
  assumes "validate c = None"
  shows "(\<exists>n. atoi (Port c) = Some n \<and> 1 \<le> n \<and> n \<le> 65535)
    \<and> 0 < QueueBuffer c \<and> QueueBuffer c \<le> 1000000
    \<and> (QueueBackpressureEnabled c \<longrightarrow>
         QueueBackpressureSoftLimitPercent c < QueueBackpressureHardLimitPercent c)
    \<and> (RequireSecrets c \<longrightarrow>
         SlackSigningSecret c \<noteq> '''' \<and> GitHubWebhookSecret c \<noteq> '''' \<and> GitLabWebhookToken c \<noteq> ''''
         \<and> TeamsClientState c \<noteq> '''')
    \<and> (\<not> RequireSecrets c \<longrightarrow> is_non_prod_environment (Environment c))
    \<and> (AdminAuthEnabled c \<longrightarrow>
         32 \<le> length (AdminJWTSecret c) \<and> \<not> is_weak_secret (AdminJWTSecret c)
         \<and> (\<forall>cidr \<in> set (AdminAllowCIDRs c). parse_cidr cidr \<noteq> None)
         \<and> (is_non_prod_environment (Environment c) \<or> AdminAllowCIDRs c \<noteq> []))"
proof -
  note parts = assms [unfolded validate_parts]
  have "valid_port (Port c)" using parts validate_server_sound by blast
  then have "\<exists>n. atoi (Port c) = Some n \<and> 1 \<le> n \<and> n \<le> 65535"
    by (simp add: valid_port_def split: option.splits)
  with parts validate_server_sound [of c] validate_backpressure_sound [of c]
    validate_secrets_sound [of c] validate_admin_sound [of c]
  show ?thesis by (simp split: if_splits)
qed

definition default_config :: config where
  "default_config = (load_from_env (\<lambda>s. None) (\<lambda>k. ''''))\<lparr>AdminAuthEnabled := False\<rparr>"

lemma trim_examples:
  "trim_space ''data/failed-events.jsonl'' = ''data/failed-events.jsonl''"
  "trim_space ''data/replay-audit.jsonl'' = ''data/replay-audit.jsonl''"
  "trim_space ''data/security-audit.jsonl'' = ''data/security-audit.jsonl''"
  "trim_space ''memory'' = ''memory''" "trim_space ''rate_limit'' = ''rate_limit''"
  "trim_space ''ignore'' = ''ignore''"
  by code_simp+

lemma default_parts:
  "valid_port ''8080''" "is_non_prod_environment ''dev''"
  "is_non_prod_environment ''prod-pacific''" "\<not> is_non_prod_environment ''production''"
  by code_simp+

lemma validate_dev:
  "validate (default_config\<lparr>RequireSecrets := False\<rparr>) = None"
  by (simp add: default_config_def load_from_env_def env_or_default_def int_or_default_def
      bool_or_default_def float_or_default_def split_csv_env_def parse_source_rate_limits_def
      validate_parts validate_server_def validate_stores_def validate_backpressure_def
      validate_backends_def validate_pubsub_def validate_admin_def trim_examples default_parts
      contains_any_def)

theorem validate_sound_witness:
  "0 < QueueBuffer (default_config\<lparr>RequireSecrets := False\<rparr>)"
  using validate_sound [OF validate_dev] by blast

definition with_chaos ::
  "bool \<Rightarrow> float_value \<Rightarrow> float_value \<Rightarrow> int \<Rightarrow> int \<Rightarrow> config \<Rightarrow> config" where
  "with_chaos on er lr lo hi c = c\<lparr>ChaosEnabled := on, ChaosErrorRate := er, ChaosLatencyRate := lr,
     ChaosLatencyMinMs := lo, ChaosLatencyMaxMs := hi\<rparr>"

definition with_source_limits :: "bool \<Rightarrow> int \<Rightarrow> (string \<times> int) list \<Rightarrow> config \<Rightarrow> config" where
  "with_source_limits on d limits c =
     c\<lparr>SourceRateLimitEnabled := on, SourceRateLimitDefault := d, SourceRateLimits := limits\<rparr>"

lemma with_chaos_parts:
  "validate_server (with_chaos on er lr lo hi c) = validate_server c"
  "validate_stores (with_chaos on er lr lo hi c) = validate_stores c"
  "validate_backpressure (with_chaos on er lr lo hi c) = validate_backpressure c"
  "validate_backends (with_chaos on er lr lo hi c) = validate_backends c"
  "validate_pubsub (with_chaos on er lr lo hi c) = validate_pubsub c"
  "validate_admin (with_chaos on er lr lo hi c) = validate_admin c"
  "RequireSecrets (with_chaos on er lr lo hi c) = RequireSecrets c"
  "Environment (with_chaos on er lr lo hi c) = Environment c"
  by (simp_all add: with_chaos_def validate_server_def validate_stores_def validate_backpressure_def
      validate_backends_def validate_pubsub_def validate_admin_def admin_values_def cong: if_cong)

lemma with_source_limits_parts:
  "validate_server (with_source_limits se sd sl c) = validate_server c"
  "validate_stores (with_source_limits se sd sl c) = validate_stores c"
  "validate_backpressure (with_source_limits se sd sl c) = validate_backpressure c"
  "validate_backends (with_source_limits se sd sl c) = validate_backends c"
  "validate_pubsub (with_source_limits se sd sl c) = validate_pubsub c"
  "validate_admin (with_source_limits se sd sl c) = validate_admin c"
  "RequireSecrets (with_source_limits se sd sl c) = RequireSecrets c"
  "Environment (with_source_limits se sd sl c) = Environment c"
  by (simp_all add: with_source_limits_def validate_server_def validate_stores_def
      validate_backpressure_def validate_backends_def validate_pubsub_def validate_admin_def
      admin_values_def cong: if_cong)

text \<open>C2: with \<open>REQUIRE_SECRETS=false\<close> the checks after the secrets are not reached: a configuration
  that passes keeps passing with any chaos settings and any per-source rate limits, in range or not.
  And the non-production test is a substring test: an environment named \<open>prod-pacific\<close> passes it.\<close>

theorem validate_skips_chaos:
  assumes "validate c = None" and "\<not> RequireSecrets c"
  shows "validate (with_chaos on er lr lo hi (with_source_limits se sd sl c)) = None
    \<and> is_non_prod_environment ''prod-pacific''"
  using assms default_parts(3)
  by (simp only: validate_parts with_chaos_parts with_source_limits_parts if_False)

theorem validate_skips_chaos_witness:
  "validate (with_chaos True (Finite 7) (Finite 0) 900 (-1)
     (with_source_limits True (-5) [] (default_config\<lparr>RequireSecrets := False\<rparr>))) = None"
  using validate_skips_chaos [OF validate_dev, of True "Finite 7" "Finite 0" 900 "-1" True "-5" "[]"]
  by simp

end
