(* ===== verification/Http.thy ===== *)
theory Http
  imports Errors Config
begin

text \<open>
  Package \<open>httpx\<close>: requests, response writers and handlers, and the middlewares of \<open>middleware.go\<close>
  and \<open>errors.go\<close>. A handler takes a request and a writer together with the state of the process and
  returns or panics; a middleware is a function on handlers. What the process draws while it handles a
  request (clock, counter, random numbers) is part of the request. JSON payloads are the maps given to
  \<open>json.Encoder\<close>.
\<close>

section \<open>Requests and responses\<close>

record draws =
  dr_now :: time
  dr_count :: nat
  dr_trace :: "string result"
  dr_span :: "string result"
  dr_latency :: float64
  dr_delay :: float64
  dr_error :: float64

record request =
  rq_method :: string
  rq_path :: string
  rq_query :: "string \<Rightarrow> string"
  rq_header :: "string \<Rightarrow> string"
  rq_cookie :: "string \<Rightarrow> string option"
  rq_remote :: string
  rq_body :: string
  rq_body_error :: "goerr option"
  rq_ctx_error :: "goerr option"
  rq_deadline :: "time option"
  rq_id :: string
  rq_draws :: draws

datatype body = JsonMap "string \<rightharpoonup> json" | Text string

text \<open>\<open>w_status\<close> is the status on the wire, \<open>w_calls\<close> the explicit calls of \<open>WriteHeader\<close>,
  \<open>w_slept\<close> the time spent in \<open>time.Sleep\<close>.\<close>

record writer =
  w_header :: "string \<rightharpoonup> string"
  w_status :: "int option"
  w_calls :: "int list"
  w_body :: "body list"
  w_slept :: duration

definition new_writer :: writer where
  "new_writer = \<lparr>w_header = Map.empty, w_status = None, w_calls = [], w_body = [], w_slept = 0\<rparr>"

text \<open>Headers set after the status was written do not reach the client.\<close>

definition set_header :: "string \<Rightarrow> string \<Rightarrow> writer \<Rightarrow> writer" where
  "set_header k v w = (if w_status w = None then w\<lparr>w_header := (w_header w)(k \<mapsto> v)\<rparr> else w)"

definition write_header :: "int \<Rightarrow> writer \<Rightarrow> writer" where
  "write_header code w =
     w\<lparr>w_status := (case w_status w of None \<Rightarrow> Some code | Some c \<Rightarrow> Some c),
       w_calls := w_calls w @ [code]\<rparr>"

definition write_body :: "body \<Rightarrow> writer \<Rightarrow> writer" where
  "write_body b w =
     w\<lparr>w_status := (case w_status w of None \<Rightarrow> Some 200 | Some c \<Rightarrow> Some c), w_body := w_body w @ [b]\<rparr>"

definition write_json :: "int \<Rightarrow> (string \<rightharpoonup> json) \<Rightarrow> writer \<Rightarrow> writer" where
  "write_json status payload w =
     write_body (JsonMap payload)
       (write_header status (set_header ''Content-Type'' ''application/json'' w))"

text \<open>\<open>http.Error\<close>\<close>

definition http_error :: "string \<Rightarrow> int \<Rightarrow> writer \<Rightarrow> writer" where
  "http_error msg code w =
     write_body (Text (msg @ [CHR 0x0A]))
       (write_header code (set_header ''X-Content-Type-Options'' ''nosniff''
         (set_header ''Content-Type'' ''text/plain; charset=utf-8'' w)))"

section \<open>Error payloads\<close>

definition err_message :: "goerr \<Rightarrow> string" where
  "err_message e = (case e of AppError c m op i \<Rightarrow> m | _ \<Rightarrow> error_text e)"

definition error_payload :: "string \<Rightarrow> goerr \<Rightarrow> (string \<rightharpoonup> json) \<Rightarrow> (string \<rightharpoonup> json)" where
  "error_payload rid e extras =
     (\<lambda>k. if k = ''error'' then
            Some (JObj [(''code'', JStr (code_text (code_of e))), (''message'', JStr (err_message e))])
          else if k = ''request_id'' then (if rid \<noteq> '''' then Some (JStr rid) else None)
          else extras k)"

definition write_error ::
  "string \<Rightarrow> int \<Rightarrow> goerr option \<Rightarrow> (string \<rightharpoonup> json) \<Rightarrow> writer \<Rightarrow> writer" where
  "write_error rid status err extras w =
     (let e = (case err of
                 Some x \<Rightarrow> x
               | None \<Rightarrow> app_new ''httpx.WriteError'' CodeInternalServerError ''internal server error'' None)
      in write_json status (error_payload rid e extras) w)"

section \<open>Handlers and middlewares\<close>

datatype outcome = Returned | Panicked

type_synonym 'st handler = "request \<Rightarrow> writer \<times> 'st \<Rightarrow> outcome \<times> writer \<times> 'st"
type_synonym 'st middleware = "'st handler \<Rightarrow> 'st handler"
type_synonym 'st reject_hook = "request \<Rightarrow> string \<Rightarrow> int \<Rightarrow> 'st \<Rightarrow> 'st"

definition chain :: "'st handler \<Rightarrow> 'st middleware list \<Rightarrow> 'st handler" where
  "chain h ms = foldr (\<lambda>m h. m h) ms h"

lemma chain_simps [simp]: "chain h [] = h" "chain h (m # ms) = m (chain h ms)"
  by (simp_all add: chain_def)

lemma chain_append: "chain h (ms @ ns) = chain (chain h ns) ms"
  by (simp add: chain_def)

section \<open>Request ids\<close>

definition control_rune :: "string \<Rightarrow> bool" where
  "control_rune r = (case r of [c] \<Rightarrow> (of_char c :: nat) < 32 \<or> (of_char c :: nat) = 127 | _ \<Rightarrow> False)"

definition sanitize_log_value :: "string \<Rightarrow> string" where
  "sanitize_log_value s = concat (filter (\<lambda>r. \<not> control_rune r) (runes s))"

definition generate_trace_id :: "string result \<Rightarrow> string" where
  "generate_trace_id random = (case random of Inl e \<Rightarrow> replicate 32 CHR ''0'' | Inr b \<Rightarrow> hex_encode b)"

definition generate_span_id :: "string result \<Rightarrow> string" where
  "generate_span_id random = (case random of Inl e \<Rightarrow> replicate 16 CHR ''0'' | Inr b \<Rightarrow> hex_encode b)"

definition request_id_of :: "request \<Rightarrow> string" where
  "request_id_of r =
     (let rid = take 128 (sanitize_log_value (trim_space (rq_header r ''X-Request-Id'')))
      in if rid = ''''
         then ''req-'' @ itoa (dr_now (rq_draws r)) @ ''-'' @ itoa (int (dr_count (rq_draws r)))
         else rid)"

definition traceparent_of :: "request \<Rightarrow> string" where
  "traceparent_of r =
     (let tp = sanitize_log_value (trim_space (rq_header r ''Traceparent''))
      in if tp = ''''
         then ''00-'' @ generate_trace_id (dr_trace (rq_draws r)) @ ''-''
                @ generate_span_id (dr_span (rq_draws r)) @ ''-01''
         else tp)"

definition request_id :: "'st middleware" where
  "request_id next r ws =
     (case ws of (w, st) \<Rightarrow>
        (let rid = request_id_of r
         in next (r\<lparr>rq_id := rid\<rparr>)
              (set_header ''Traceparent'' (traceparent_of r) (set_header ''X-Request-Id'' rid w), st)))"

section \<open>Chaos, timeouts, panics, access log\<close>

record chaos_config =
  ch_enabled :: bool
  ch_error :: float_value
  ch_latency :: float_value
  ch_min :: duration
  ch_max :: duration

definition chaos_delay :: "chaos_config \<Rightarrow> draws \<Rightarrow> duration" where
  "chaos_delay cfg d =
     (if ch_max cfg > ch_min cfg
      then ch_min cfg + f_to_int64 (f_mul (dr_delay d) (f_int (ch_max cfg - ch_min cfg)))
      else ch_min cfg)"

definition chaos :: "chaos_config \<Rightarrow> 'st middleware" where
  "chaos cfg next r ws =
     (if \<not> ch_enabled cfg then next r ws
      else (case ws of (w, st) \<Rightarrow>
        (let d = rq_draws r;
             w1 = (if fv_greater (ch_latency cfg) 0 \<and> fv_greater (ch_latency cfg) (dr_latency d)
                   then w\<lparr>w_slept := w_slept w + max 0 (chaos_delay cfg d)\<rparr> else w)
         in if fv_greater (ch_error cfg) 0 \<and> fv_greater (ch_error cfg) (dr_error d)
            then (Returned, http_error ''chaos: injected failure'' 500 w1, st)
            else next r (w1, st))))"

definition request_timeout :: "duration \<Rightarrow> 'st middleware" where
  "request_timeout timeout next r ws =
     (let d = dr_now (rq_draws r) + timeout
      in next (r\<lparr>rq_deadline := Some (case rq_deadline r of None \<Rightarrow> d | Some e \<Rightarrow> min e d)\<rparr>) ws)"

definition recoverer :: "'st middleware" where
  "recoverer next r ws =
     (case next r ws of
        (Returned, w, st) \<Rightarrow> (Returned, w, st)
      | (Panicked, w, st) \<Rightarrow>
          (Returned, write_error (rq_id r) 500
             (Some (app_new ''httpx.Recoverer'' CodeInternalServerError ''internal server error'' None))
             Map.empty w, st))"

text \<open>The status of the log entry is that of the last call of \<open>WriteHeader\<close> made inside, 200 if there
  was none. A panic passes through and is not logged.\<close>

record access_entry =
  ae_id :: string
  ae_method :: string
  ae_path :: string
  ae_status :: int
  ae_remote :: string

definition recorded_status :: "writer \<Rightarrow> writer \<Rightarrow> int" where
  "recorded_status w w' =
     (let calls = drop (length (w_calls w)) (w_calls w') in if calls = [] then 200 else last calls)"

definition access_log :: "(access_entry \<Rightarrow> 'st \<Rightarrow> 'st) \<Rightarrow> 'st middleware" where
  "access_log emit next r ws =
     (case next r ws of
        (Panicked, w, st) \<Rightarrow> (Panicked, w, st)
      | (Returned, w, st) \<Rightarrow>
          (Returned, w,
           emit \<lparr>ae_id = rq_id r, ae_method = rq_method r,
                 ae_path = sanitize_log_value (rq_path r), ae_status = recorded_status (fst ws) w,
                 ae_remote = sanitize_log_value (rq_remote r)\<rparr> st))"

end
