(* ===== verification/Sha256.thy ===== *)
theory Sha256
  imports Go_Prelude
begin

text \<open>
  \<open>crypto/sha256\<close> and \<open>crypto/hmac\<close> of Go's standard library, as FIPS 180-4 and RFC 2104 define
  them: padding, the message schedule, the 64 rounds on 32-bit words, and HMAC with the 64-byte
  block. The signature checks and the fallback event ids are computed with them.
\<close>

unbundle bit_operations_syntax

type_synonym w32 = "32 word"

text \<open>
  The constants are the first 32 fractional bits of the cube roots of the first 64 primes, and, for
  the initial state, of the square roots of the first eight. \<open>int_root\<close> finds the bits of the
  integer root from the highest one down.
\<close>

definition int_root :: "nat \<Rightarrow> int \<Rightarrow> int" where
  "int_root k n = foldl (\<lambda>r b. if (r + 2 ^ b) ^ k \<le> n then r + 2 ^ b else r) 0 (rev [0..<38])"

definition primes_below_312 :: "int list" where
  "primes_below_312 = filter (\<lambda>n. list_all (\<lambda>d. n mod d \<noteq> 0) [2..n - 1]) [2..311]"

definition sha_k :: "w32 list" where
  "sha_k = map (\<lambda>p. word_of_int (int_root 3 (p * 2 ^ 96))) primes_below_312"

definition sha_init :: "w32 list" where
  "sha_init = map (\<lambda>p. word_of_int (int_root 2 (p * 2 ^ 64))) (take 8 primes_below_312)"

definition byte_word :: "char \<Rightarrow> w32" where
  "byte_word c = word_of_nat (of_char c)"

fun be_words :: "string \<Rightarrow> w32 list" where
  "be_words (a # b # c # d # s) =
     (push_bit 24 (byte_word a) OR push_bit 16 (byte_word b) OR push_bit 8 (byte_word c)
        OR byte_word d) # be_words s"
| "be_words _ = []"

definition word_bytes :: "w32 \<Rightarrow> string" where
  "word_bytes w =
     [char_of (unat (drop_bit 24 w)), char_of (unat (drop_bit 16 w)),
      char_of (unat (drop_bit 8 w)), char_of (unat w)]"

text \<open>Padding: a 1 bit, zeros, and the bit length in 8 bytes, to a multiple of 64 bytes.\<close>

definition be64 :: "nat \<Rightarrow> string" where
  "be64 n = map (\<lambda>i. char_of (n div 256 ^ i)) (rev [0..<8])"

definition sha_pad :: "string \<Rightarrow> string" where
  "sha_pad s =
     s @ [CHR 0x80] @ replicate ((119 - length s mod 64) mod 64) (CHR 0x00) @ be64 (8 * length s)"

text \<open>The schedule, kept as the last 16 words with the newest last.\<close>

definition small_s0 :: "w32 \<Rightarrow> w32" where
  "small_s0 x = (word_rotr 7 x XOR word_rotr 18 x) XOR drop_bit 3 x"
definition small_s1 :: "w32 \<Rightarrow> w32" where
  "small_s1 x = (word_rotr 17 x XOR word_rotr 19 x) XOR drop_bit 10 x"
definition big_s0 :: "w32 \<Rightarrow> w32" where
  "big_s0 x = (word_rotr 2 x XOR word_rotr 13 x) XOR word_rotr 22 x"
definition big_s1 :: "w32 \<Rightarrow> w32" where
  "big_s1 x = (word_rotr 6 x XOR word_rotr 11 x) XOR word_rotr 25 x"

fun sha_schedule :: "nat \<Rightarrow> w32 list \<Rightarrow> w32 list" where
  "sha_schedule 0 ws = ws"
| "sha_schedule (Suc n) ws =
     (case ws of
        [] \<Rightarrow> []
      | w0 # rest \<Rightarrow>
          w0 # sha_schedule n
            (rest @ [small_s1 (ws ! 14) + ws ! 9 + small_s0 (ws ! 1) + w0]))"

type_synonym sha_state = "w32 \<times> w32 \<times> w32 \<times> w32 \<times> w32 \<times> w32 \<times> w32 \<times> w32"

definition sha_round :: "w32 \<times> w32 \<Rightarrow> sha_state \<Rightarrow> sha_state" where
  "sha_round kw st =
     (case st of (a, b, c, d, e, f, g, h) \<Rightarrow>
        (let t1 = h + big_s1 e + ((e AND f) XOR (NOT e AND g)) + fst kw + snd kw;
             t2 = big_s0 a + (((a AND b) XOR (a AND c)) XOR (b AND c))
         in (t1 + t2, a, b, c, d + t1, e, f, g)))"

definition sha_block :: "sha_state \<Rightarrow> string \<Rightarrow> sha_state" where
  "sha_block st blk =
     (let ws = sha_schedule 48 (be_words blk)
      in (case fold sha_round (zip sha_k ws) st of (a', b', c', d', e', f', g', h') \<Rightarrow>
         (case st of (a, b, c, d, e, f, g, h) \<Rightarrow>
            (a + a', b + b', c + c', d + d', e + e', f + f', g + g', h + h'))))"

fun sha_blocks :: "nat \<Rightarrow> sha_state \<Rightarrow> string \<Rightarrow> sha_state" where
  "sha_blocks 0 st s = st"
| "sha_blocks (Suc n) st s = sha_blocks n (sha_block st (take 64 s)) (drop 64 s)"

definition sha_digest :: "sha_state \<Rightarrow> string" where
  "sha_digest st =
     (case st of (a, b, c, d, e, f, g, h) \<Rightarrow> concat (map word_bytes [a, b, c, d, e, f, g, h]))"

definition sha_start :: sha_state where
  "sha_start =
     (sha_init ! 0, sha_init ! 1, sha_init ! 2, sha_init ! 3,
      sha_init ! 4, sha_init ! 5, sha_init ! 6, sha_init ! 7)"

definition sha256 :: "string \<Rightarrow> string" where
  "sha256 s = (let p = sha_pad s in sha_digest (sha_blocks (length p div 64) sha_start p))"

definition xor_byte :: "nat \<Rightarrow> char \<Rightarrow> char" where
  "xor_byte n c = char_of (n XOR (of_char c :: nat))"

text \<open>\<open>hmac.New(sha256.New, key)\<close>, \<open>Write(msg)\<close>, \<open>Sum(nil)\<close>.\<close>

definition hmac_key :: "string \<Rightarrow> string" where
  "hmac_key key =
     (let k = (if 64 < length key then sha256 key else key)
      in k @ replicate (64 - length k) (CHR 0x00))"

definition hmac_sha256 :: "string \<Rightarrow> string \<Rightarrow> string" where
  "hmac_sha256 key msg =
     sha256 (map (xor_byte 0x5c) (hmac_key key) @ sha256 (map (xor_byte 0x36) (hmac_key key) @ msg))"

lemma length_sha256 [simp]: "length (sha256 s) = 32"
  by (simp add: sha256_def sha_digest_def word_bytes_def Let_def split: prod.splits)

lemma length_hmac_sha256 [simp]: "length (hmac_sha256 k m) = 32"
  by (simp add: hmac_sha256_def)

end
