(* ===== verification/Resilience.thy ===== *)
theory Resilience
  imports Errors
begin

text \<open>
  Package \<open>resilience\<close>: the circuit breaker (\<open>platform/resilience/circuit_breaker.go\<close>) that
  guards the Pub/Sub publisher and the failed-event store. The fields are those of the struct; the
  state is the source's string. Every operation takes the lock for its whole body, so it is one
  atomic step; \<open>cb_event\<close> is one such step and \<open>cb_run\<close> any interleaving of them by any number of
  goroutines. The lemmas give the breaker's abstract meaning: the failure count is the number of
  failures since the last success, and the breaker rejects exactly while it is open and the recovery
  delay has not passed.
\<close>

record circuit_breaker =
  failures :: int
  last_failure :: time
  threshold :: int
  recovery_delay :: duration
  cb_state :: string

definition new_circuit_breaker :: "int \<Rightarrow> duration \<Rightarrow> circuit_breaker" where
  "new_circuit_breaker thr delay =
     \<lparr>failures = 0, last_failure = zero_time, threshold = thr, recovery_delay = delay,
      cb_state = ''closed''\<rparr>"

definition allow :: "time \<Rightarrow> circuit_breaker \<Rightarrow> bool \<times> circuit_breaker" where
  "allow now cb =
     (if cb_state cb = ''closed'' then (True, cb)
      else if cb_state cb = ''open'' then
        (if recovery_delay cb < time_sub now (last_failure cb)
         then (True, cb\<lparr>cb_state := ''half-open''\<rparr>)
         else (False, cb))
      else if cb_state cb = ''half-open'' then (True, cb)
      else (False, cb))"

definition record_success :: "circuit_breaker \<Rightarrow> circuit_breaker" where
  "record_success cb = cb\<lparr>failures := 0, cb_state := ''closed''\<rparr>"

definition record_failure :: "time \<Rightarrow> circuit_breaker \<Rightarrow> circuit_breaker" where
  "record_failure now cb =
     (let cb1 = cb\<lparr>failures := failures cb + 1, last_failure := now\<rparr>
      in if threshold cb1 \<le> failures cb1 then cb1\<lparr>cb_state := ''open''\<rparr> else cb1)"

text \<open>
  \<open>resilience.Execute\<close>: \<open>r\<close> is what the guarded call returns when it is made; \<open>t1\<close> and \<open>t2\<close> are
  the clock at \<open>Allow\<close> and at \<open>RecordFailure\<close>. The third component says whether the call was made.
\<close>

definition cb_execute ::
  "time \<Rightarrow> time \<Rightarrow> circuit_breaker \<Rightarrow> 'a result \<Rightarrow> 'a result \<times> circuit_breaker \<times> bool" where
  "cb_execute t1 t2 cb r =
     (case allow t1 cb of
        (False, cb1) \<Rightarrow> (Inl (Sentinel ErrCircuitOpen), cb1, False)
      | (True, cb1) \<Rightarrow>
          (case r of
             Inl e \<Rightarrow> (Inl e, record_failure t2 cb1, True)
           | Inr x \<Rightarrow> (Inr x, record_success cb1, True)))"

lemmas cb_defs [model_defs] =
  allow_def record_success_def record_failure_def new_circuit_breaker_def

lemma new_circuit_breaker_sel [simp]:
  "threshold (new_circuit_breaker thr d) = thr"
  "recovery_delay (new_circuit_breaker thr d) = d"
  "cb_state (new_circuit_breaker thr d) = ''closed''"
  "failures (new_circuit_breaker thr d) = 0"
  by (simp_all add: new_circuit_breaker_def)

section \<open>Well-formed breakers\<close>

text \<open>The threshold the code passes is positive, and closed means fewer failures than that.\<close>

definition cb_wf :: "circuit_breaker \<Rightarrow> bool" where
  "cb_wf cb \<longleftrightarrow>
     0 \<le> failures cb \<and> cb_state cb \<in> {''closed'', ''open'', ''half-open''} \<and>
     (cb_state cb = ''closed'' \<longleftrightarrow> failures cb < threshold cb)"

lemma cb_wf_new: "0 < thr \<Longrightarrow> cb_wf (new_circuit_breaker thr d)"
  by (simp add: cb_wf_def new_circuit_breaker_def)

lemma cb_wf_allow: "cb_wf cb \<Longrightarrow> cb_wf (snd (allow now cb))"
  by (auto simp: cb_wf_def allow_def)

lemma cb_wf_success: "cb_wf cb \<Longrightarrow> 0 < threshold cb \<Longrightarrow> cb_wf (record_success cb)"
  by (simp add: cb_wf_def record_success_def)

lemma cb_wf_failure: "cb_wf cb \<Longrightarrow> cb_wf (record_failure now cb)"
  by (auto simp: cb_wf_def record_failure_def Let_def)

section \<open>Runs\<close>

datatype cb_event = EvAllow time | EvSuccess | EvFailure time

fun cb_step :: "circuit_breaker \<Rightarrow> cb_event \<Rightarrow> circuit_breaker" where
  "cb_step cb (EvAllow t) = snd (allow t cb)"
| "cb_step cb EvSuccess = record_success cb"
| "cb_step cb (EvFailure t) = record_failure t cb"

fun cb_run :: "circuit_breaker \<Rightarrow> cb_event list \<Rightarrow> circuit_breaker" where
  "cb_run cb [] = cb"
| "cb_run cb (e # es) = cb_run (cb_step cb e) es"

lemma cb_run_append: "cb_run cb (xs @ ys) = cb_run (cb_run cb xs) ys"
  by (induction xs arbitrary: cb) simp_all

lemma cb_step_const [simp]:
  "threshold (cb_step cb e) = threshold cb"
  "recovery_delay (cb_step cb e) = recovery_delay cb"
  by (cases e; simp add: cb_defs Let_def)+

lemma cb_run_const [simp]:
  "threshold (cb_run cb es) = threshold cb"
  "recovery_delay (cb_run cb es) = recovery_delay cb"
  by (induction es arbitrary: cb) simp_all

lemma cb_wf_run: "cb_wf cb \<Longrightarrow> 0 < threshold cb \<Longrightarrow> cb_wf (cb_run cb es)"
proof (induction es arbitrary: cb)
  case (Cons e es)
  have "cb_wf (cb_step cb e)"
    using Cons.prems by (cases e) (simp_all add: cb_wf_allow cb_wf_success cb_wf_failure)
  with Cons show ?case by simp
qed simp

text \<open>The abstract reading of a run: the failures after the last success.\<close>

fun is_outcome :: "cb_event \<Rightarrow> bool" where
  "is_outcome (EvAllow t) = False"
| "is_outcome _ = True"

fun is_failure :: "cb_event \<Rightarrow> bool" where
  "is_failure (EvFailure t) = True"
| "is_failure _ = False"

definition recent_failures :: "cb_event list \<Rightarrow> nat" where
  "recent_failures es = length (takeWhile is_failure (filter is_outcome (rev es)))"

lemma recent_failures_snoc [simp]:
  "recent_failures (es @ [EvAllow t]) = recent_failures es"
  "recent_failures (es @ [EvSuccess]) = 0"
  "recent_failures (es @ [EvFailure t]) = Suc (recent_failures es)"
  by (simp_all add: recent_failures_def)

lemma cb_run_failures:
  "failures (cb_run (new_circuit_breaker thr d) es) = int (recent_failures es)"
proof (induction es rule: rev_induct)
  case Nil
  show ?case by (simp add: recent_failures_def new_circuit_breaker_def)
next
  case (snoc e es)
  then show ?case
    by (cases e) (simp_all add: cb_run_append cb_defs Let_def)
qed

text \<open>C16: after any sequence of steps by any goroutines, a breaker made with a positive threshold
  counts the failures recorded since the last success, and is closed (so lets every call through)
  exactly while that count is below the threshold.\<close>

theorem breaker_trace_spec:
  assumes "0 < thr"
  shows "failures (cb_run (new_circuit_breaker thr d) es) = int (recent_failures es)
    \<and> (cb_state (cb_run (new_circuit_breaker thr d) es) = ''closed''
         \<longleftrightarrow> int (recent_failures es) < thr)"
proof -
  let ?cb = "cb_run (new_circuit_breaker thr d) es"
  have "cb_wf ?cb"
    using assms by (intro cb_wf_run cb_wf_new) simp_all
  then have "cb_state ?cb = ''closed'' \<longleftrightarrow> failures ?cb < threshold ?cb"
    by (simp add: cb_wf_def)
  then show ?thesis by (simp add: cb_run_failures)
qed

theorem breaker_trace_spec_witness:
  "failures (cb_run (new_circuit_breaker 2 30)
     [EvFailure 1, EvSuccess, EvFailure 2, EvAllow 3, EvFailure 4]) = 2"
  using breaker_trace_spec [of 2 30 "[EvFailure 1, EvSuccess, EvFailure 2, EvAllow 3, EvFailure 4]"]
  by (simp add: recent_failures_def)

lemma allow_false_iff:
  "cb_wf cb \<Longrightarrow> \<not> fst (allow now cb) \<longleftrightarrow>
     cb_state cb = ''open'' \<and> time_sub now (last_failure cb) \<le> recovery_delay cb"
  by (auto simp: allow_def cb_wf_def)

text \<open>A run that ends in an open breaker rejects a call exactly until the recovery delay since
  the last failure has passed; the first call after it is let through as a probe, a success then
  closes the breaker and a failure opens it again.\<close>

theorem breaker_recovery:
  assumes thr: "0 < thr" and op: "cb_state (cb_run (new_circuit_breaker thr d) es) = ''open''"
  defines "cb \<equiv> cb_run (new_circuit_breaker thr d) es"
  shows "(\<not> fst (allow now cb) \<longleftrightarrow> time_sub now (last_failure cb) \<le> d)
    \<and> (d < time_sub now (last_failure cb) \<longrightarrow>
         cb_state (snd (allow now cb)) = ''half-open''
         \<and> cb_state (record_success (snd (allow now cb))) = ''closed''
         \<and> cb_state (record_failure t (snd (allow now cb))) = ''open'')"
proof -
  have wf: "cb_wf cb" and delay: "recovery_delay cb = d" and "threshold cb = thr"
    using thr by (auto simp: cb_def intro!: cb_wf_run cb_wf_new)
  moreover have "cb_state cb = ''open''" using op by (simp add: cb_def)
  ultimately show ?thesis
    by (auto simp: allow_def record_success_def record_failure_def Let_def cb_wf_def)
qed

theorem breaker_recovery_witness:
  "\<not> fst (allow 11 (cb_run (new_circuit_breaker 1 10) [EvFailure 5]))
   \<and> fst (allow 16 (cb_run (new_circuit_breaker 1 10) [EvFailure 5]))"
proof -
  have op: "cb_state (cb_run (new_circuit_breaker 1 10) [EvFailure 5]) = ''open''"
    by (simp add: cb_defs)
  have "last_failure (cb_run (new_circuit_breaker 1 10) [EvFailure 5]) = 5"
    by (simp add: cb_defs)
  then show ?thesis
    using breaker_recovery [OF _ op, of 11] breaker_recovery [OF _ op, of 16]
    by (simp add: time_sub_def int64_min_def int64_max_def)
qed

section \<open>Guarded calls\<close>

lemma cb_execute_result:
  "fst (cb_execute t1 t2 cb r) = (if fst (allow t1 cb) then r else Inl (Sentinel ErrCircuitOpen))"
  by (cases "allow t1 cb"; cases r) (auto simp: cb_execute_def split: bool.splits)

lemma cb_execute_called: "snd (snd (cb_execute t1 t2 cb r)) = fst (allow t1 cb)"
  by (cases "allow t1 cb"; cases r) (auto simp: cb_execute_def split: bool.splits)

lemma cb_execute_state:
  "fst (snd (cb_execute t1 t2 cb r)) =
     cb_run cb (EvAllow t1 # (if fst (allow t1 cb)
                              then [if is_err r then EvFailure t2 else EvSuccess] else []))"
  by (cases "allow t1 cb"; cases r) (auto simp: cb_execute_def split: bool.splits)

end
