(* ===== verification/Fail_Store.thy ===== *)
theory Fail_Store
  imports Line_File Sha256 Resilience
begin

text \<open>
  Package \<open>failstore\<close>: the file store of failed events (\<open>file_store.go\<close>) and the store guarded by a
  circuit breaker (\<open>circuit_breaker.go\<close>). The file is a list of lines, absent before the first save;
  a line is its length in bytes and the event it decodes to (\<open>None\<close> when it is blank or does not
  decode). Encoding an event as a line is a parameter: \<open>enc e\<close> is the length of the line and the
  event read back from it (\<open>json.Marshal\<close> compacts the body). The errors of the file system and of
  the context are arguments.
\<close>

record failed_event =
  ev_id :: string
  ev_source :: string
  ev_reason :: string
  ev_hash :: string
  ev_failed_at :: time
  ev_retry :: int
  ev_headers :: headers
  ev_body :: string

record save_request =
  sr_id :: string
  sr_source :: string
  sr_reason :: string
  sr_headers :: headers
  sr_body :: string

type_synonym event_file = "failed_event line_file"

section \<open>Saving\<close>

definition new_file_store :: "string \<Rightarrow> string result" where
  "new_file_store path =
     (let p = trim_space path
      in if p = '''' then Inl (ErrText ''failed event store path must not be empty'') else Inr p)"

definition hash_body :: "string \<Rightarrow> string" where
  "hash_body body = hex_encode (sha256 body)"

definition clone_store_headers :: "headers \<Rightarrow> headers" where
  "clone_store_headers h = Some (case h of None \<Rightarrow> Map.empty | Some m \<Rightarrow> m)"

text \<open>\<open>random\<close> is what \<open>rand.Read\<close> fills the 8 bytes with, or its error.\<close>

definition new_event_id :: "string result \<Rightarrow> string result" where
  "new_event_id random =
     (case random of
        Inl err \<Rightarrow> Inl (Wrapped ''generate event id: '' err)
      | Inr b \<Rightarrow> Inr (''fev_'' @ hex_encode b))"

definition check_save :: "save_request \<Rightarrow> goerr option" where
  "check_save inp =
     (if trim_space (sr_source inp) = '''' then Some (ErrText ''source must not be empty'')
      else if trim_space (sr_reason inp) = '''' then Some (ErrText ''reason must not be empty'')
      else if sr_body inp = '''' then Some (ErrText ''body must not be empty'')
      else if \<not> json_valid (sr_body inp) then Some (ErrText ''body must be valid JSON'')
      else None)"

definition event_of_request :: "time \<Rightarrow> string \<Rightarrow> save_request \<Rightarrow> failed_event" where
  "event_of_request now eid inp =
     \<lparr>ev_id = eid, ev_source = sr_source inp, ev_reason = sr_reason inp,
      ev_hash = hash_body (sr_body inp), ev_failed_at = now, ev_retry = 0,
      ev_headers = clone_store_headers (sr_headers inp), ev_body = sr_body inp\<rparr>"

text \<open>A failure before the write leaves the file alone; a failed \<open>Sync\<close> comes after it.\<close>

definition fs_save ::
  "(failed_event \<Rightarrow> nat \<times> failed_event) \<Rightarrow> time \<Rightarrow> string result \<Rightarrow> write_outcome \<Rightarrow> save_request
     \<Rightarrow> event_file \<Rightarrow> failed_event result \<times> event_file" where
  "fs_save enc now random out inp file =
     (case check_save inp of
        Some err \<Rightarrow> (Inl err, file)
      | None \<Rightarrow>
          (case (if trim_space (sr_id inp) = '''' then new_event_id random
                 else Inr (trim_space (sr_id inp))) of
             Inl err \<Rightarrow> (Inl err, file)
           | Inr eid \<Rightarrow>
               (let e = event_of_request now eid inp
                in (case out of
                      WriteFails err \<Rightarrow> (Inl (Wrapped ''write failed event: '' err), file)
                    | SyncFails err \<Rightarrow>
                        (Inl (Wrapped ''sync failed event store: '' err),
                         append_line (encode_line enc e) file)
                    | WriteOk \<Rightarrow> (Inr e, append_line (encode_line enc e) file)))))"

section \<open>Reading\<close>

definition scan_error :: goerr where
  "scan_error = Wrapped ''scan failed event store: '' token_too_long"

definition fs_get_by_id :: "store_io \<Rightarrow> string \<Rightarrow> event_file \<Rightarrow> failed_event result" where
  "fs_get_by_id io event_id file =
     (let eid = trim_space event_id
      in if eid = '''' then Inl (ErrText ''event id must not be empty'')
         else (case file of
                 None \<Rightarrow> Inl (Sentinel ErrNotFound)
               | Some ls \<Rightarrow>
                   (case io_open io of
                      Some err \<Rightarrow> Inl (Wrapped ''open failed event store: '' err)
                    | None \<Rightarrow>
                        (case scan_lines ls of
                           (ok, bad) \<Rightarrow>
                             if ok \<noteq> [] \<and> io_ctx io \<noteq> None
                             then Inl (Wrapped ''get failed event by id: '' (the (io_ctx io)))
                             else (case find (\<lambda>e. ev_id e = eid) (decoded ok) of
                                     Some e \<Rightarrow> Inr e
                                   | None \<Rightarrow> if bad then Inl scan_error
                                             else Inl (Sentinel ErrNotFound))))))"

definition dedup_step :: "failed_event list \<Rightarrow> failed_event \<Rightarrow> failed_event list" where
  "dedup_step acc e =
     (if ev_id e \<in> set (map ev_id acc)
      then map (\<lambda>x. if ev_id x = ev_id e then e else x) acc
      else acc @ [e])"

definition deduplicate_events :: "failed_event list \<Rightarrow> failed_event list" where
  "deduplicate_events events = foldl dedup_step [] events"

definition fs_list_recent :: "store_io \<Rightarrow> int \<Rightarrow> event_file \<Rightarrow> failed_event list result" where
  "fs_list_recent io limit file =
     (if limit \<le> 0 then Inl (ErrText ''limit must be > 0'')
      else (case file of
              None \<Rightarrow> Inr []
            | Some ls \<Rightarrow>
                (case io_open io of
                   Some err \<Rightarrow> Inl (Wrapped ''open failed event store: '' err)
                 | None \<Rightarrow>
                     (case scan_lines ls of
                        (ok, bad) \<Rightarrow>
                          if ok \<noteq> [] \<and> io_ctx io \<noteq> None
                          then Inl (Wrapped ''list recent failed events: '' (the (io_ctx io)))
                          else if bad then Inl scan_error
                          else Inr (rev (deduplicate_events
                                 (foldl (push_recent (nat limit)) [] (decoded ok))))))))"

definition read_all :: "store_io \<Rightarrow> event_file \<Rightarrow> failed_event list result" where
  "read_all io file =
     (case file of
        None \<Rightarrow> Inr []
      | Some ls \<Rightarrow>
          (case io_open io of
             Some err \<Rightarrow> Inl (Wrapped ''open failed event store: '' err)
           | None \<Rightarrow> (case scan_lines ls of (ok, bad) \<Rightarrow> if bad then Inl scan_error else Inr (decoded ok))))"

section \<open>Rewriting\<close>

text \<open>The temporary file replaces the store only when every step succeeded.\<close>

definition rewrite_file ::
  "(failed_event \<Rightarrow> nat \<times> failed_event) \<Rightarrow> store_io \<Rightarrow> failed_event list \<Rightarrow> event_file
     \<Rightarrow> goerr option \<times> event_file" where
  "rewrite_file enc io events file =
     (case io_rewrite io of
        Some err \<Rightarrow> (Some err, file)
      | None \<Rightarrow> (None, Some (map (encode_line enc) events)))"

definition fs_delete ::
  "(failed_event \<Rightarrow> nat \<times> failed_event) \<Rightarrow> store_io \<Rightarrow> string \<Rightarrow> event_file
     \<Rightarrow> goerr option \<times> event_file" where
  "fs_delete enc io event_id file =
     (let eid = trim_space event_id
      in if eid = '''' then (Some (ErrText ''event id must not be empty''), file)
         else (case read_all io file of
                 Inl err \<Rightarrow> (Some err, file)
               | Inr events \<Rightarrow>
                   (let kept = filter (\<lambda>e. ev_id e \<noteq> eid) events
                    in if length kept = length events then (Some (Sentinel ErrNotFound), file)
                       else rewrite_file enc io kept file)))"

text \<open>Only the first event with the id is updated.\<close>

fun update_first :: "string \<Rightarrow> int \<Rightarrow> failed_event list \<Rightarrow> failed_event list option" where
  "update_first eid n [] = None"
| "update_first eid n (e # es) =
     (if ev_id e = eid then Some (e\<lparr>ev_retry := n\<rparr> # es)
      else map_option ((#) e) (update_first eid n es))"

definition fs_update_retry_count ::
  "(failed_event \<Rightarrow> nat \<times> failed_event) \<Rightarrow> store_io \<Rightarrow> string \<Rightarrow> int \<Rightarrow> event_file
     \<Rightarrow> goerr option \<times> event_file" where
  "fs_update_retry_count enc io event_id n file =
     (let eid = trim_space event_id
      in if eid = '''' then (Some (ErrText ''event id must not be empty''), file)
         else (case read_all io file of
                 Inl err \<Rightarrow> (Some err, file)
               | Inr events \<Rightarrow>
                   (case update_first eid n events of
                      None \<Rightarrow> (Some (Sentinel ErrNotFound), file)
                    | Some es \<Rightarrow> rewrite_file enc io es file)))"

section \<open>The store behind a circuit breaker\<close>

text \<open>
  \<open>op\<close> is the guarded operation on the wrapped store. Reads are not guarded. The clock readings are
  those of \<open>Allow\<close> and \<open>RecordFailure\<close>.
\<close>

definition guarded ::
  "string \<Rightarrow> time \<Rightarrow> time \<Rightarrow> ('st \<Rightarrow> 'a result \<times> 'st) \<Rightarrow> circuit_breaker \<times> 'st
     \<Rightarrow> 'a result \<times> circuit_breaker \<times> 'st" where
  "guarded pfx t1 t2 op s =
     (case s of (cb, st) \<Rightarrow>
        (case cb_execute t1 t2 cb (fst (op st)) of
           (r, cb', called) \<Rightarrow>
             (map_err (Wrapped pfx) r, cb', if called then snd (op st) else st)))"

definition cbs_save ::
  "time \<Rightarrow> time \<Rightarrow> ('st \<Rightarrow> failed_event result \<times> 'st) \<Rightarrow> circuit_breaker \<times> 'st
     \<Rightarrow> failed_event result \<times> circuit_breaker \<times> 'st" where
  "cbs_save t1 t2 op s = guarded ''circuit breaker save: '' t1 t2 op s"

definition cbs_delete ::
  "time \<Rightarrow> time \<Rightarrow> ('st \<Rightarrow> unit result \<times> 'st) \<Rightarrow> circuit_breaker \<times> 'st
     \<Rightarrow> unit result \<times> circuit_breaker \<times> 'st" where
  "cbs_delete t1 t2 op s = guarded ''circuit breaker delete: '' t1 t2 op s"

definition cbs_update_retry_count ::
  "time \<Rightarrow> time \<Rightarrow> ('st \<Rightarrow> unit result \<times> 'st) \<Rightarrow> circuit_breaker \<times> 'st
     \<Rightarrow> unit result \<times> circuit_breaker \<times> 'st" where
  "cbs_update_retry_count t1 t2 op s = guarded ''circuit breaker update retry count: '' t1 t2 op s"

definition cbs_get_by_id :: "failed_event result \<Rightarrow> failed_event result" where
  "cbs_get_by_id r = map_err (Wrapped ''circuit breaker get by id: '') r"

definition cbs_list_recent :: "failed_event list result \<Rightarrow> failed_event list result" where
  "cbs_list_recent r = map_err (Wrapped ''circuit breaker list recent: '') r"

section \<open>What the file holds\<close>

definition lookup_event :: "string \<Rightarrow> event_file \<Rightarrow> failed_event option" where
  "lookup_event eid file = find (\<lambda>e. ev_id e = eid) (file_events file)"

text \<open>What the codec is relied on for, of the events at hand: their lines fit in the scanner and keep the identity and
  the retry count, and what was read back is written again as it is.\<close>

definition line_ok :: "(failed_event \<Rightarrow> nat \<times> failed_event) \<Rightarrow> failed_event \<Rightarrow> bool" where
  "line_ok enc e \<longleftrightarrow>
     (let e' = snd (enc e)
      in fst (enc e) < max_line \<and> fst (enc e') < max_line \<and> ev_id e' = ev_id e \<and> ev_retry e' = ev_retry e
         \<and> snd (enc e') = e')"

definition codec_ok :: "(failed_event \<Rightarrow> nat \<times> failed_event) \<Rightarrow> failed_event list \<Rightarrow> bool" where
  "codec_ok enc es \<longleftrightarrow> (\<forall>e \<in> set es. line_ok enc e)"

lemma line_okD:
  assumes "line_ok enc e"
  shows "fst (enc e) < max_line" "ev_id (snd (enc e)) = ev_id e" "ev_retry (snd (enc e)) = ev_retry e"
    and "snd (enc (snd (enc e))) = snd (enc e)" "line_ok enc (snd (enc e))"
  using assms by (simp_all add: line_ok_def Let_def)

lemma codec_ok_Cons [simp]: "codec_ok enc (e # es) \<longleftrightarrow> line_ok enc e \<and> codec_ok enc es"
  by (simp add: codec_ok_def)

lemma codec_ok_append [simp]: "codec_ok enc (es @ es') \<longleftrightarrow> codec_ok enc es \<and> codec_ok enc es'"
  by (auto simp: codec_ok_def)

lemma codec_ok_Nil [simp]: "codec_ok enc []"
  by (simp add: codec_ok_def)

text \<open>A file rewritten with such events is readable.\<close>

lemma codec_rewritten:
  "codec_ok enc es \<Longrightarrow> readable (Some (map (encode_line enc) es))"
  by (auto simp: readable_def file_lines_def codec_ok_def encode_line_def list_all_iff dest: line_okD)

lemma fs_get_lookup:
  assumes "readable file" and "trim_space i \<noteq> ''''"
  shows "fs_get_by_id io_ok i file =
    (case lookup_event (trim_space i) file of Some e \<Rightarrow> Inr e | None \<Rightarrow> Inl (Sentinel ErrNotFound))"
  using assms scan_lines_ok [of "file_lines file"]
  by (auto simp: fs_get_by_id_def readable_def lookup_event_def file_events_def file_lines_def
      decoded_def Let_def split: option.splits)

lemma read_all_ok: "readable file \<Longrightarrow> read_all io_ok file = Inr (file_events file)"
  using scan_lines_ok [of "file_lines file"]
  by (auto simp: read_all_def readable_def file_events_def file_lines_def decoded_def
      split: option.splits)

lemma fs_save_events:
  assumes "fs_save enc now rnd WriteOk inp file = (Inr e, file')"
  shows "file_events file' = file_events file @ [snd (enc e)]
    \<and> file_lines file' = file_lines file @ [encode_line enc e]"
  using assms
  by (auto simp: fs_save_def Let_def file_events_def split: option.splits sum.splits)
     (simp_all add: decoded_def encode_line_def)

lemma fs_save_id:
  "fs_save enc now rnd WriteOk inp file = (Inr e, file') \<Longrightarrow> trim_space (sr_id inp) \<noteq> '''' \<Longrightarrow>
     ev_id e = trim_space (sr_id inp)"
  by (auto simp: fs_save_def Let_def event_of_request_def split: option.splits sum.splits)

lemma find_map_same:
  "(\<And>e. e \<in> set es \<Longrightarrow> ev_id (f e) = ev_id e) \<Longrightarrow>
     find (\<lambda>e. ev_id e = i) (map f es) = map_option f (find (\<lambda>e. ev_id e = i) es)"
  by (induction es) auto

lemma find_filter_id:
  "find (\<lambda>e. ev_id e = j) (filter (\<lambda>e. ev_id e \<noteq> i) es)
     = (if j = i then None else find (\<lambda>e. ev_id e = j) es)"
  by (induction es) auto

lemma fs_delete_spec:
  assumes "readable file" and "codec_ok enc (file_events file)" and "trim_space i \<noteq> ''''"
    and "lookup_event (trim_space i) file \<noteq> None"
  shows "\<exists>file'. fs_delete enc io_ok i file = (None, file') \<and> readable file'
    \<and> (\<forall>j. lookup_event j file' = (if j = trim_space i then None
          else map_option (\<lambda>e. snd (enc e)) (lookup_event j file)))"
proof -
  let ?i = "trim_space i" and ?es = "file_events file"
  let ?kept = "filter (\<lambda>e. ev_id e \<noteq> ?i) ?es"
  obtain e where "e \<in> set ?es" "ev_id e = ?i"
    using assms(4) find_Some_set [of _ ?es] by (auto simp: lookup_event_def)
  then have "length ?kept \<noteq> length ?es"
    by (metis (mono_tags, lifting) filter_id_conv filter_True length_filter_less less_irrefl)
  then have d: "fs_delete enc io_ok i file = (None, Some (map (encode_line enc) ?kept))"
    using assms by (simp add: fs_delete_def read_all_ok rewrite_file_def Let_def)
  have "codec_ok enc ?kept" using assms(2) by (auto simp: codec_ok_def)
  then have "readable (Some (map (encode_line enc) ?kept))" by (rule codec_rewritten)
  moreover have "lookup_event j (Some (map (encode_line enc) ?kept))
      = (if j = ?i then None else map_option (\<lambda>e. snd (enc e)) (lookup_event j file))" for j
  proof -
    have "find (\<lambda>e. ev_id e = j) (map (\<lambda>e. snd (enc e)) ?kept)
        = map_option (\<lambda>e. snd (enc e)) (find (\<lambda>e. ev_id e = j) ?kept)"
      using assms(2) by (intro find_map_same) (auto simp: codec_ok_def dest: line_okD)
    then show ?thesis by (simp add: lookup_event_def file_events_def file_lines_def find_filter_id)
  qed
  ultimately show ?thesis using d by blast
qed

text \<open>C1: the file store keeps what it accepts: an event saved under a new id is read back under that
  id (its body compacted by the codec), every other id reads as before, and after \<open>Delete\<close> the id is
  gone and no other event is affected.\<close>

theorem file_store_roundtrip:
  assumes "readable file" and "codec_ok enc (e # file_events file)" and "trim_space (sr_id inp) \<noteq> ''''"
    and "fs_save enc now rnd WriteOk inp file = (Inr e, file1)"
    and "lookup_event (ev_id e) file = None"
  shows "fs_get_by_id io_ok (ev_id e) file1 = Inr (snd (enc e))
    \<and> readable file1
    \<and> (\<forall>j. j \<noteq> ev_id e \<longrightarrow> lookup_event j file1 = lookup_event j file)
    \<and> (\<exists>file2. fs_delete enc io_ok (ev_id e) file1 = (None, file2)
        \<and> fs_get_by_id io_ok (ev_id e) file2 = Inl (Sentinel ErrNotFound)
        \<and> (\<forall>j. j \<noteq> ev_id e \<longrightarrow>
             lookup_event j file2 = map_option (\<lambda>x. snd (enc x)) (lookup_event j file)))"
proof -
  note ev = fs_save_events [OF assms(4)] and id = fs_save_id [OF assms(4,3)]
  have tid: "trim_space (ev_id e) = ev_id e" "ev_id e \<noteq> ''''" using id assms(3) by simp_all
  have sid: "ev_id (snd (enc e)) = ev_id e" using assms(2) line_okD [of enc e] by simp
  have r1: "readable file1" "codec_ok enc (file_events file1)"
    using assms(1,2) ev line_okD [of enc e] by (simp_all add: readable_def encode_line_def)
  have l1: "lookup_event j file1 = (case lookup_event j file of Some x \<Rightarrow> Some x
      | None \<Rightarrow> if ev_id e = j then Some (snd (enc e)) else None)" for j
    by (simp add: lookup_event_def ev find_app sid split: option.splits)
  have g: "fs_get_by_id io_ok (ev_id e) file1 = Inr (snd (enc e))"
    using fs_get_lookup [OF r1(1), of "ev_id e"] tid assms(5) l1 by simp
  obtain file2 where d: "fs_delete enc io_ok (ev_id e) file1 = (None, file2)" "readable file2"
      "\<And>j. lookup_event j file2 = (if j = ev_id e then None
          else map_option (\<lambda>x. snd (enc x)) (lookup_event j file1))"
    using fs_delete_spec [OF r1, of "ev_id e"] tid assms(5) l1 by auto
  have "fs_get_by_id io_ok (ev_id e) file2 = Inl (Sentinel ErrNotFound)"
    using fs_get_lookup [OF d(2), of "ev_id e"] tid d(3) by simp
  with g r1(1) l1 d show ?thesis by (auto split: option.splits)
qed

definition demo_request :: save_request where
  "demo_request = \<lparr>sr_id = ''e1'', sr_source = ''github'', sr_reason = ''down'', sr_headers = None,
     sr_body = ''{}''\<rparr>"

definition small_codec :: "failed_event \<Rightarrow> nat \<times> failed_event" where
  "small_codec e = (100, e)"

lemma small_codec_ok: "codec_ok small_codec es"
  by (simp add: codec_ok_def line_ok_def small_codec_def max_line_def)

lemma demo_request_check: "check_save demo_request = None" "trim_space (sr_id demo_request) = ''e1''"
  by code_simp+

lemma demo_save:
  "fs_save small_codec 5 rnd WriteOk demo_request file
     = (Inr (event_of_request 5 ''e1'' demo_request),
        append_line (encode_line small_codec (event_of_request 5 ''e1'' demo_request)) file)"
  by (simp add: fs_save_def demo_request_check Let_def)

theorem file_store_roundtrip_witness:
  "fs_get_by_id io_ok ''e1'' (snd (fs_save small_codec 5 (Inr ''x'') WriteOk demo_request None))
     = Inr (event_of_request 5 ''e1'' demo_request)"
  using file_store_roundtrip [OF _ small_codec_ok _ demo_save [of "Inr ''x''" None]]
  by (simp add: readable_def file_lines_def demo_request_check lookup_event_def file_events_def
      decoded_def demo_save event_of_request_def small_codec_def)


section \<open>Listing\<close>

lemma dedup_ids:
  "distinct (map ev_id acc) \<Longrightarrow> distinct (map ev_id (dedup_step acc e))"
proof -
  have "map ev_id (map (\<lambda>x. if ev_id x = ev_id e then e else x) acc) = map ev_id acc" by simp
  then show "distinct (map ev_id acc) \<Longrightarrow> ?thesis"
    unfolding dedup_step_def by (simp del: map_map)
qed

lemma find_dedup_step:
  "find (\<lambda>x. ev_id x = i) (dedup_step acc e)
     = (if ev_id e = i then Some e else find (\<lambda>x. ev_id x = i) acc)"
proof -
  have "find (\<lambda>x. ev_id x = i) (map (\<lambda>x. if ev_id x = ev_id e then e else x) acc)
      = (if ev_id e = i \<and> i \<in> ev_id ` set acc then Some e else find (\<lambda>x. ev_id x = i) acc)"
    by (induction acc) auto
  moreover have "find (\<lambda>x. ev_id x = i) acc = None" if "i \<notin> ev_id ` set acc"
    using that by (auto simp: find_None_set)
  ultimately show ?thesis
    by (cases "ev_id e = i") (auto simp: dedup_step_def find_app split: option.splits)
qed

lemma length_dedup_step: "length (dedup_step acc e) \<le> Suc (length acc)"
  by (simp add: dedup_step_def)

lemma deduplicate_spec:
  "distinct (map ev_id (deduplicate_events es)) \<and> length (deduplicate_events es) \<le> length es
   \<and> (\<forall>i. find (\<lambda>x. ev_id x = i) (deduplicate_events es) = find (\<lambda>x. ev_id x = i) (rev es))"
proof (induction es rule: rev_induct)
  case Nil
  then show ?case by (simp add: deduplicate_events_def)
next
  case (snoc e es)
  have s: "deduplicate_events (es @ [e]) = dedup_step (deduplicate_events es) e"
    by (simp add: deduplicate_events_def)
  show ?case
    using snoc length_dedup_step [of "deduplicate_events es" e]
    by (auto simp: s dedup_ids find_dedup_step)
qed

lemma find_distinct:
  "distinct (map ev_id xs) \<Longrightarrow> find (\<lambda>x. ev_id x = i) xs = Some e \<longleftrightarrow> e \<in> set xs \<and> ev_id e = i"
  by (induction xs) (auto simp: rev_image_eqI)

text \<open>C2: \<open>ListRecent\<close> returns at most \<open>limit\<close> events, no id twice; its events are, among the last
  \<open>limit\<close> that decode, the latest version of each id.\<close>

theorem list_recent_spec:
  assumes "readable file" and "0 < limit"
  shows "\<exists>es. fs_list_recent io_ok limit file = Inr es \<and> int (length es) \<le> limit
    \<and> distinct (map ev_id es)
    \<and> (\<forall>e. e \<in> set es \<longleftrightarrow>
         find (\<lambda>x. ev_id x = ev_id e) (rev (last_n (nat limit) (file_events file))) = Some e)"
proof -
  let ?r = "last_n (nat limit) (file_events file)"
  have "fs_list_recent io_ok limit file = Inr (rev (deduplicate_events ?r))"
    using assms scan_lines_ok [of "file_lines file"]
    by (auto simp: fs_list_recent_def readable_def file_lines_def file_events_def
        push_recent_last_n decoded_def deduplicate_events_def last_n_def split: option.splits)
  moreover have "int (length (deduplicate_events ?r)) \<le> limit"
  proof -
    have "length (deduplicate_events ?r) \<le> length ?r" using deduplicate_spec [of ?r] by blast
    also have "\<dots> \<le> nat limit" by simp
    finally show ?thesis using assms(2) by linarith
  qed
  moreover have "distinct (map ev_id (rev (deduplicate_events ?r)))"
    using deduplicate_spec [of ?r] by (simp flip: rev_map)
  moreover have "e \<in> set (deduplicate_events ?r) \<longleftrightarrow>
      find (\<lambda>x. ev_id x = ev_id e) (rev ?r) = Some e" for e
    using deduplicate_spec [of ?r] find_distinct [of "deduplicate_events ?r" "ev_id e" e] by simp
  ultimately show ?thesis by auto
qed

theorem list_recent_spec_witness:
  "\<exists>es. fs_list_recent io_ok 2 (append_line (encode_line small_codec
        (event_of_request 5 ''e1'' demo_request)) None) = Inr es \<and> length es \<le> 2"
  using list_recent_spec [of "append_line (encode_line small_codec
        (event_of_request 5 ''e1'' demo_request)) None" 2]
  by (auto simp: readable_def file_lines_def append_line_def encode_line_def small_codec_def
      max_line_def)

section \<open>Repeated ids and long lines\<close>

lemma update_first_append:
  assumes "i \<notin> ev_id ` set pre"
  shows "update_first i n (pre @ xs) = map_option ((@) pre) (update_first i n xs)"
  using assms
proof (induction pre)
  case Nil
  then show ?case by (cases "update_first i n xs") simp_all
next
  case (Cons e pre)
  then have "ev_id e \<noteq> i" "update_first i n (pre @ xs) = map_option ((@) pre) (update_first i n xs)"
    by auto
  then show ?case by (cases "update_first i n xs") simp_all
qed

text \<open>C3: an id that was saved twice keeps the retry count that \<open>ListRecent\<close> shows, whatever
  \<open>UpdateRetryCount\<close> is told: the update changes the first line with the id, the listing shows the
  last one. A retry loop that lists, tries and updates never sees the count grow.\<close>

theorem duplicate_id_keeps_count:
  assumes "readable file" and "codec_ok enc (e1\<lparr>ev_retry := n\<rparr> # file_events file)" and "trim_space i = i" and "i \<noteq> ''''"
    and "file_events file = pre @ e1 # mid @ [e2]" and "ev_id e1 = i" and "ev_id e2 = i"
    and "i \<notin> ev_id ` set pre"
  shows "\<exists>file'. fs_update_retry_count enc io_ok i n file = (None, file') \<and> readable file'
    \<and> last (file_events file') = snd (enc e2) \<and> ev_retry (last (file_events file')) = ev_retry e2
    \<and> length (file_events file') = length (file_events file)"
proof -
  have u: "update_first i n (file_events file) = Some (pre @ e1\<lparr>ev_retry := n\<rparr> # mid @ [e2])"
    using update_first_append [OF assms(8)] assms(5,6) by simp
  let ?f = "Some (map (encode_line enc) (pre @ e1\<lparr>ev_retry := n\<rparr> # mid @ [e2]))"
  have "fs_update_retry_count enc io_ok i n file = (None, ?f)"
    using assms(1,3,4) u by (simp add: fs_update_retry_count_def read_all_ok rewrite_file_def Let_def)
  moreover have "readable ?f"
    using assms(2,5) by (intro codec_rewritten) simp
  moreover have ev: "file_events ?f = map (\<lambda>e. snd (enc e)) (pre @ e1\<lparr>ev_retry := n\<rparr> # mid @ [e2])"
    unfolding file_events_def file_lines_def option.case by (rule decoded_encode)
  moreover have "ev_retry (snd (enc e2)) = ev_retry e2" using assms(2,5) by (simp add: line_okD)
  ultimately show ?thesis using assms(5) by (simp add: ev)
qed

definition dup_file :: event_file where
  "dup_file = Some (map (encode_line small_codec)
     [event_of_request 5 ''e1'' demo_request, event_of_request 9 ''e1'' demo_request])"

theorem duplicate_id_keeps_count_witness:
  "\<exists>file'. fs_update_retry_count small_codec io_ok ''e1'' 3 dup_file = (None, file')
     \<and> ev_retry (last (file_events file')) = 0"
proof -
  have t: "trim_space ''e1'' = ''e1''" by code_simp
  have r: "readable dup_file"
    by (simp add: dup_file_def readable_def file_lines_def encode_line_def small_codec_def max_line_def)
  have e: "file_events dup_file = [] @ event_of_request 5 ''e1'' demo_request # []
      @ [event_of_request 9 ''e1'' demo_request]"
    by (simp add: dup_file_def file_events_def file_lines_def decoded_def encode_line_def
        small_codec_def)
  from duplicate_id_keeps_count [OF r small_codec_ok t _ e, of 3] show ?thesis
    by (auto simp: event_of_request_def)
qed

text \<open>C4: one line that does not fit the scanner's 2 MiB buffer disables the store: \<open>Save\<close> accepts an
  event of any size, and from then on \<open>ListRecent\<close>, \<open>Delete\<close> and \<open>UpdateRetryCount\<close> fail for every
  id and leave the file as it is, so the line is never removed.\<close>

theorem long_line_disables_store:
  assumes "fs_save enc now rnd WriteOk inp file = (Inr e, file1)" and "max_line \<le> fst (enc e)"
  shows "file_lines file1 = file_lines file @ [encode_line enc e]
    \<and> is_err (read_all io_ok file1)
    \<and> (0 < limit \<longrightarrow> is_err (fs_list_recent io_ok limit file1))
    \<and> (trim_space i \<noteq> '''' \<longrightarrow> fs_delete enc' io_ok i file1 = (Some scan_error, file1)
        \<and> fs_update_retry_count enc' io_ok i n file1 = (Some scan_error, file1))"
proof -
  note ev = fs_save_events [OF assms(1)]
  obtain ls where f: "file1 = Some ls" "max_line \<le> fl_bytes (last ls)" "ls \<noteq> []"
    using assms
    by (auto simp: fs_save_def Let_def append_line_def encode_line_def split: option.splits sum.splits)
  then have "list_ex (\<lambda>l. max_line \<le> fl_bytes l) ls" using last_in_set by (auto simp: list_ex_iff)
  then obtain ok where bad: "scan_lines ls = (ok, True)" by (simp add: scan_lines_spec)
  then have ra: "read_all io_ok file1 = Inl scan_error"
    using f by (simp add: read_all_def)
  have "0 < limit \<Longrightarrow> fs_list_recent io_ok limit file1 = Inl scan_error"
    using bad f by (simp add: fs_list_recent_def)
  then show ?thesis using ev ra by (simp add: fs_delete_def fs_update_retry_count_def Let_def)
qed

definition big_codec :: "failed_event \<Rightarrow> nat \<times> failed_event" where
  "big_codec e = (3 * 1024 * 1024, e)"

theorem long_line_disables_store_witness:
  "is_err (fs_list_recent io_ok 50 (snd (fs_save big_codec 5 (Inr ''x'') WriteOk demo_request None)))"
proof -
  have "fs_save big_codec 5 (Inr ''x'') WriteOk demo_request None
      = (Inr (event_of_request 5 ''e1'' demo_request),
         append_line (encode_line big_codec (event_of_request 5 ''e1'' demo_request)) None)"
    by (simp add: fs_save_def demo_request_check Let_def)
  from long_line_disables_store [OF this, of 50] this show ?thesis
    by (simp add: big_codec_def max_line_def)
qed

section \<open>The breaker counts every error\<close>

lemma guarded_fails:
  assumes "fst (allow t1 cb)" and "op st = (Inl err, st')"
  shows "guarded pfx t1 t2 op (cb, st)
    = (Inl (Wrapped pfx err), record_failure t2 (snd (allow t1 cb)), st')"
  using assms by (cases "allow t1 cb") (simp add: guarded_def cb_execute_def)

text \<open>C5: the breaker takes an unknown id for a failure of the store: as many \<open>Delete\<close> or
  \<open>UpdateRetryCount\<close> calls on ids that do not exist as its threshold open it, and the next \<open>Save\<close> is
  refused without reaching the store, although the store never failed.\<close>

fun repeat_op :: "nat \<Rightarrow> time \<Rightarrow> ('st \<Rightarrow> unit result \<times> 'st) \<Rightarrow> circuit_breaker \<times> 'st \<Rightarrow> circuit_breaker \<times> 'st" where
  "repeat_op 0 t op s = s"
| "repeat_op (Suc n) t op s = repeat_op n t op (snd (cbs_delete t t op s))"

lemma repeat_op_failures:
  assumes "op st = (Inl err, st)"
  shows "cb_state cb = ''closed'' \<Longrightarrow> failures cb + int n \<le> threshold cb \<Longrightarrow> 0 < n \<Longrightarrow>
     snd (repeat_op n t op (cb, st)) = st
     \<and> failures (fst (repeat_op n t op (cb, st))) = failures cb + int n
     \<and> threshold (fst (repeat_op n t op (cb, st))) = threshold cb
     \<and> recovery_delay (fst (repeat_op n t op (cb, st))) = recovery_delay cb
     \<and> last_failure (fst (repeat_op n t op (cb, st))) = t
     \<and> cb_state (fst (repeat_op n t op (cb, st)))
         = (if failures cb + int n = threshold cb then ''open'' else ''closed'')"
proof (induction n arbitrary: cb)
  case (Suc n)
  have g: "cbs_delete t t op (cb, st)
      = (Inl (Wrapped ''circuit breaker delete: '' err), record_failure t cb, st)"
    using guarded_fails [of t cb op st err st] assms Suc.prems(1)
    by (simp add: cbs_delete_def allow_def)
  show ?case
  proof (cases n)
    case 0
    with g Suc.prems show ?thesis by (auto simp: record_failure_def Let_def)
  next
    case (Suc m)
    then have "cb_state (record_failure t cb) = ''closed''"
      using Suc.prems by (auto simp: record_failure_def Let_def)
    with Suc.IH [of "record_failure t cb"] Suc Suc.prems show ?thesis
      by (simp add: g) (auto simp: record_failure_def Let_def)
  qed
qed simp

theorem not_found_opens_breaker:
  assumes "op st = (Inl (Sentinel ErrNotFound), st)" and "0 < thr" and "0 \<le> delay"
    and "delay \<le> int64_max"
  shows "let s = repeat_op (nat thr) t op (new_circuit_breaker thr delay, st)
    in fst (cbs_save t t sv s) = Inl (Wrapped ''circuit breaker save: '' (Sentinel ErrCircuitOpen))
       \<and> snd (snd (cbs_save t t sv s)) = st"
proof -
  obtain cb st' where s: "repeat_op (nat thr) t op (new_circuit_breaker thr delay, st) = (cb, st')"
    by fastforce
  have cb: "st' = st" "cb_state cb = ''open''" "last_failure cb = t" "recovery_delay cb = delay"
    using repeat_op_failures [where op = op and st = st and cb = "new_circuit_breaker thr delay"
        and n = "nat thr" and t = t, OF assms(1)] s assms(2)
    by simp_all
  have "time_sub t t = 0" by (simp add: time_sub_def int64_min_def int64_max_def)
  then have "allow t cb = (False, cb)" using cb assms(3) by (simp add: allow_def)
  then show ?thesis by (simp add: s cb cbs_save_def guarded_def cb_execute_def Let_def)
qed

theorem not_found_opens_breaker_witness:
  "let s = repeat_op (nat 5) 0 (\<lambda>st. (Inl (Sentinel ErrNotFound), st)) (new_circuit_breaker 5 30, [()])
   in fst (cbs_save 0 0 (\<lambda>st. (Inr (event_of_request 0 ''x'' demo_request), st)) s)
      = Inl (Wrapped ''circuit breaker save: '' (Sentinel ErrCircuitOpen))"
  using not_found_opens_breaker [of "\<lambda>st. (Inl (Sentinel ErrNotFound), st)" "[()]" 5 30 0
      "\<lambda>st. (Inr (event_of_request 0 ''x'' demo_request), st)"]
  by (simp add: int64_max_def Let_def)

end
