(* ===== verification/Admin_Text.thy ===== *)
theory Admin_Text
  imports Schema Replay_Audit Http Fail_Store
begin

text \<open>
  The pure parts of the administrative handlers (\<open>handlers/admin.go\<close>): previews of stored bodies with
  their redaction, the parsing and checking of queries and request bodies, and the headers of a replay.
  A panic of the code (a slice out of range) is \<open>None\<close>.

  \<open>lower\<close> is \<open>strings.ToLower\<close> with the tables of package \<open>unicode\<close>, where the code relies on
  positions in its result; elsewhere \<open>to_lower\<close> is exact.
\<close>

section \<open>Redaction\<close>

definition secret_patterns :: "string list" where
  "secret_patterns = map (\<lambda>k. [CHR 0x22] @ k @ [CHR 0x22])
     [''token'', ''secret'', ''password'', ''key'', ''authorization'', ''api_key'', ''api-key'', ''apikey'',
      ''access_token'', ''access-token'', ''client_secret'', ''client-secret'', ''bearer'', ''credential'',
      ''auth_token'', ''auth-token'', ''private_key'', ''private-key'']"

text \<open>The end of a value: the next comma, brace or newline.\<close>

definition value_length :: "string \<Rightarrow> nat" where
  "value_length s = length (takeWhile (\<lambda>c. c \<noteq> CHR '','' \<and> c \<noteq> CHR ''}'' \<and> c \<noteq> CHR 0x0A) s)"

lemma index_of_le: "index_of s p = Some i \<Longrightarrow> i + length p \<le> length s"
  by (induction s arbitrary: i) (auto simp: has_prefix_iff dest: prefix_length_le split: if_splits)

lemma index_of_progress:
  assumes "index_of (drop pos low) p = Some i" and "p \<noteq> []"
  shows "length low - (i + pos + length p) < length low - pos"
proof -
  have "0 < length p" using assms(2) by simp
  with index_of_le [OF assms(1)] show ?thesis unfolding length_drop by linarith
qed

text \<open>The values after the occurrences of one pattern, from a position on. The pattern is searched in the
  lower-case text, the value cut out of the original one.\<close>

function pattern_spans :: "string \<Rightarrow> string \<Rightarrow> string \<Rightarrow> nat \<Rightarrow> (nat \<times> nat) list option" where
  "pattern_spans s low p pos =
     (case index_of (drop pos low) p of
        None \<Rightarrow> Some []
      | Some i \<Rightarrow>
          (let idx = i + pos; nxt = idx + length p
           in if length s < idx \<or> p = [] then None
              else (case index_of (drop idx s) '':'' of
                 None \<Rightarrow> pattern_spans s low p nxt
               | Some c \<Rightarrow>
                   (let start = idx + c + 1; stop = start + value_length (drop start s)
                    in map_option (\<lambda>rest. if start < stop then (start, stop) # rest else rest)
                         (pattern_spans s low p nxt)))))"
  by pat_completeness auto
termination
  by (relation "measure (\<lambda>(s, low, p, pos). length low - pos)") (auto intro: index_of_progress)

declare pattern_spans.simps [simp del]

fun all_spans :: "string \<Rightarrow> string \<Rightarrow> string list \<Rightarrow> (nat \<times> nat) list option" where
  "all_spans s low [] = Some []"
| "all_spans s low (p # ps) =
     (case pattern_spans s low p 0 of
        None \<Rightarrow> None
      | Some a \<Rightarrow> map_option ((@) a) (all_spans s low ps))"

text \<open>Writing the text with the spans replaced; \<open>s[prev:start]\<close> is out of range when a span starts before
  the end of the previous one.\<close>

fun write_redacted :: "string \<Rightarrow> nat \<Rightarrow> (nat \<times> nat) list \<Rightarrow> string option" where
  "write_redacted s prev [] = Some (drop prev s)"
| "write_redacted s prev ((a, b) # rs) =
     (if a < prev then None
      else map_option (\<lambda>t. take (a - prev) (drop prev s) @ ''[REDACTED]'' @ t) (write_redacted s b rs))"

definition redact_secrets :: "(string \<Rightarrow> string) \<Rightarrow> string \<Rightarrow> string option" where
  "redact_secrets lower s =
     (case all_spans s (lower s) secret_patterns of
        None \<Rightarrow> None
      | Some [] \<Rightarrow> Some s
      | Some spans \<Rightarrow> write_redacted s 0 spans)"

section \<open>Previews\<close>

text \<open>The size \<open>utf8.DecodeLastRuneInString\<close> gives: that of the last rune, 1 if it is invalid, 0 for an
  empty string.\<close>

definition last_rune_size :: "string \<Rightarrow> nat" where
  "last_rune_size s =
     (if s = [] then 0
      else (case find (\<lambda>k. k \<le> length s \<and> utf8_len (drop (length s - k) s) = k) [1, 2, 3, 4] of
              Some k \<Rightarrow> k | None \<Rightarrow> 1))"

function trim_partial :: "string \<Rightarrow> string" where
  "trim_partial t =
     (if t = [] then []
      else if last_rune_size t = 0 \<or> length t < last_rune_size t then trim_partial (butlast t)
      else t)"
  by pat_completeness auto
termination by (relation "measure length") auto

declare trim_partial.simps [simp del]

definition body_preview :: "(string \<Rightarrow> string) \<Rightarrow> string \<Rightarrow> nat \<Rightarrow> string option" where
  "body_preview lower body limit =
     (if body = [] \<or> limit = 0 then Some []
      else map_option
        (\<lambda>clean. if length clean \<le> limit then clean else trim_partial (take limit clean) @ ''...truncated'')
        (redact_secrets lower (trim_space body)))"

text \<open>The loop never removes anything: the text is cut at the byte, inside a rune or not.\<close>

lemma last_rune_size_bounds: "s \<noteq> [] \<Longrightarrow> 0 < last_rune_size s \<and> last_rune_size s \<le> length s"
  by (cases s) (auto simp: last_rune_size_def split: option.splits)

lemma trim_partial_id [simp]: "trim_partial t = t"
  using last_rune_size_bounds [of t] by (subst trim_partial.simps) auto

section \<open>Queries\<close>

definition parse_admin_limit :: "string \<Rightarrow> int \<Rightarrow> int \<Rightarrow> int result" where
  "parse_admin_limit raw default_limit max_limit =
     (let s = trim_space raw
      in if s = '''' then Inr default_limit
         else (case atoi s of
            None \<Rightarrow> Inl (ErrText ''limit must be an integer'')
          | Some n \<Rightarrow>
              if n < 1 \<or> n > max_limit
              then Inl (ErrText (''limit must be between 1 and '' @ itoa max_limit))
              else Inr n))"

definition parse_failed_events_limit :: "request \<Rightarrow> int result" where
  "parse_failed_events_limit r = parse_admin_limit (rq_query r ''limit'') 20 100"

definition parse_replay_audit_limit :: "request \<Rightarrow> int result" where
  "parse_replay_audit_limit r = parse_admin_limit (rq_query r ''limit'') 20 100"

definition parse_security_audit_limit :: "request \<Rightarrow> int result" where
  "parse_security_audit_limit r = parse_admin_limit (rq_query r ''limit'') 20 100"

definition parse_replay_audit_query :: "request \<Rightarrow> list_query result" where
  "parse_replay_audit_query r =
     (case parse_replay_audit_limit r of
        Inl err \<Rightarrow> Inl err
      | Inr limit \<Rightarrow>
          (case parse_sort_order (rq_query r ''sort'') of
             Inl err \<Rightarrow> Inl (Wrapped ''parse replay audit sort order: '' err)
           | Inr order \<Rightarrow>
               (let cursor = trim_space (rq_query r ''cursor''); actor = trim_space (rq_query r ''actor'');
                    res = trim_space (rq_query r ''result''); eid = trim_space (rq_query r ''event_id'')
                in if length cursor > 128 then Inl (ErrText ''cursor must be <= 128 characters'')
                   else if length actor > 256 then Inl (ErrText ''actor must be <= 256 characters'')
                   else if length eid > 256 then Inl (ErrText ''event_id must be <= 256 characters'')
                   else if res \<noteq> '''' \<and> to_lower res \<notin> set [''accepted'', ''validated'', ''failed'']
                   then Inl (ErrText ''result must be one of accepted|validated|failed'')
                   else Inr \<lparr>lq_limit = limit, lq_cursor = cursor, lq_actor = actor,
                             lq_result = (if res \<noteq> '''' then to_lower res else res),
                             lq_event = eid, lq_sort = order\<rparr>)))"

section \<open>Request bodies\<close>

text \<open>Fields of a request struct: text (\<open>struct_string\<close>), boolean, list and map of strings.\<close>

fun decode_bools :: "bool \<Rightarrow> json list \<Rightarrow> bool option" where
  "decode_bools cur [] = Some cur"
| "decode_bools cur (JNull # vs) = decode_bools cur vs"
| "decode_bools cur (JBool b # vs) = decode_bools b vs"
| "decode_bools cur (v # vs) = None"

fun decode_members :: "(string \<rightharpoonup> string) \<Rightarrow> (string \<times> json) list \<Rightarrow> (string \<rightharpoonup> string) option" where
  "decode_members m [] = Some m"
| "decode_members m ((k, v) # kvs) =
     (case decode_strings '''' [v] of None \<Rightarrow> None | Some s \<Rightarrow> decode_members (m(k \<mapsto> s)) kvs)"

fun decode_string_maps :: "(string \<rightharpoonup> string) \<Rightarrow> json list \<Rightarrow> (string \<rightharpoonup> string) option" where
  "decode_string_maps cur [] = Some cur"
| "decode_string_maps cur (JNull # vs) = decode_string_maps Map.empty vs"
| "decode_string_maps cur (JObj kvs # vs) =
     (case decode_members cur kvs of None \<Rightarrow> None | Some m \<Rightarrow> decode_string_maps m vs)"
| "decode_string_maps cur (v # vs) = None"

text \<open>The members of the one object in a body of at most \<open>max_bytes\<close>, with no other fields than the named
  ones; \<open>null\<close> leaves the request empty.\<close>

definition admin_members :: "nat \<Rightarrow> string list \<Rightarrow> request \<Rightarrow> (string \<times> json) list option" where
  "admin_members max_bytes names r =
     (if max_bytes < length (rq_body r) \<or> rq_body_error r \<noteq> None then None
      else (case json_parse (rq_body r) of
              Some JNull \<Rightarrow> Some []
            | Some (JObj m) \<Rightarrow>
                if list_all (\<lambda>(k, v). fold_name k \<in> set (map fold_name names)) m then Some m else None
            | _ \<Rightarrow> None))"

record replay_request =
  rr_event_id :: string
  rr_dry_run :: bool
  rr_overrides :: "string \<rightharpoonup> string"

definition decode_replay_request :: "request \<Rightarrow> replay_request option" where
  "decode_replay_request r =
     (case admin_members 262144 [''event_id'', ''dry_run'', ''header_overrides''] r of
        None \<Rightarrow> None
      | Some m \<Rightarrow>
          (case (struct_string m ''event_id'', decode_bools False (field_values m ''dry_run''),
                 decode_string_maps Map.empty (field_values m ''header_overrides'')) of
             (Some i, Some d, Some h) \<Rightarrow> Some \<lparr>rr_event_id = i, rr_dry_run = d, rr_overrides = h\<rparr>
           | _ \<Rightarrow> None))"

record batch_request =
  br_event_ids :: "string list"
  br_dry_run :: bool
  br_overrides :: "string \<rightharpoonup> string"

definition decode_batch_request :: "request \<Rightarrow> batch_request option" where
  "decode_batch_request r =
     (case admin_members 262144 [''event_ids'', ''dry_run'', ''header_overrides''] r of
        None \<Rightarrow> None
      | Some m \<Rightarrow>
          (case (decode_string_list [] (field_values m ''event_ids''),
                 decode_bools False (field_values m ''dry_run''),
                 decode_string_maps Map.empty (field_values m ''header_overrides'')) of
             (Some is, Some d, Some h) \<Rightarrow> Some \<lparr>br_event_ids = is, br_dry_run = d, br_overrides = h\<rparr>
           | _ \<Rightarrow> None))"

definition decode_flag_request :: "request \<Rightarrow> (string \<times> bool) option" where
  "decode_flag_request r =
     (case admin_members 1024 [''flag'', ''enabled''] r of
        None \<Rightarrow> None
      | Some m \<Rightarrow>
          (case (struct_string m ''flag'', decode_bools False (field_values m ''enabled'')) of
             (Some f, Some b) \<Rightarrow> Some (f, b)
           | _ \<Rightarrow> None))"

section \<open>Event ids of a batch\<close>

fun collect_ids :: "string list \<Rightarrow> string list \<Rightarrow> string list result" where
  "collect_ids ids [] = Inr ids"
| "collect_ids ids (raw # raws) =
     (let i = trim_space raw
      in if i = '''' then Inl (ErrText ''event_ids must not contain empty values'')
         else if length i > 256 then Inl (ErrText ''event_ids must contain values <= 256 characters'')
         else collect_ids (if i \<in> set ids then ids else ids @ [i]) raws)"

definition batch_max :: nat where "batch_max = 25"

definition normalize_replay_event_ids :: "string list \<Rightarrow> string list result" where
  "normalize_replay_event_ids raws =
     (if raws = [] then Inl (ErrText ''event_ids must contain at least one event id'')
      else (case collect_ids [] raws of
         Inl err \<Rightarrow> Inl err
       | Inr ids \<Rightarrow>
           if ids = [] then Inl (ErrText ''event_ids must contain at least one event id'')
           else if length ids > batch_max
           then Inl (ErrText ''event_ids must contain at most 25 unique event ids'')
           else Inr ids))"

section \<open>Headers of a replay\<close>

definition replay_header_denylist :: "string list" where
  "replay_header_denylist =
     [''authorization'', ''cookie'', ''x-event-id'', ''traceparent'', ''x-operator'', ''x-user'',
      ''x-replay-source'', ''x-replay-event-id'', ''x-replay-timestamp'', ''x-replay-request-id'',
      ''x-replay-actor'']"

text \<open>The overrides in the order in which the map is ranged over; \<open>quote\<close> is \<open>strconv.Quote\<close>.\<close>

fun add_overrides ::
  "(string \<Rightarrow> string) \<Rightarrow> (string \<rightharpoonup> string) \<Rightarrow> (string \<times> string) list \<Rightarrow> (string \<rightharpoonup> string) result" where
  "add_overrides quote out [] = Inr out"
| "add_overrides quote out ((k, v) # kvs) =
     (let key = trim_space k
      in if key = [] then add_overrides quote out kvs
         else if to_lower key \<in> set replay_header_denylist
         then Inl (ErrText (''header '' @ quote key @ '' is not allowed in replay overrides''))
         else add_overrides quote (out(key \<mapsto> trim_space v)) kvs)"

definition clone_replay_headers ::
  "(string \<Rightarrow> string) \<Rightarrow> headers \<Rightarrow> (string \<times> string) list \<Rightarrow> (string \<rightharpoonup> string) result" where
  "clone_replay_headers quote base overrides =
     add_overrides quote (case base of None \<Rightarrow> Map.empty | Some m \<Rightarrow> m) overrides"

end
