(* ===== verification/Rate_Limit.thy ===== *)
theory Rate_Limit
  imports Http Sha256
begin

text \<open>
  Rate limiting of package \<open>httpx\<close>: the in-memory limiter and the middlewares \<open>RateLimit\<close> and
  \<open>SourceRateLimit\<close> (\<open>middleware.go\<close>), the limiter on Redis (\<open>redis_rate_limiter.go\<close>) and the
  client address the keys are made of. The locale \<open>rate_limiter\<close> is the contract of a limiter: within
  one window it lets through as many requests of a key as the limit, and keys do not disturb each
  other. The Redis commands are parameters.
\<close>

section \<open>Client addresses\<close>

fun parse_cidrs :: "string list \<Rightarrow> ipnet list" where
  "parse_cidrs [] = []"
| "parse_cidrs (c # cs) =
     (case parse_cidr (trim_space c) of None \<Rightarrow> parse_cidrs cs | Some n \<Rightarrow> n # parse_cidrs cs)"

definition ip_in_nets :: "ip \<Rightarrow> ipnet list \<Rightarrow> bool" where
  "ip_in_nets a nets = list_ex (\<lambda>n. net_contains n a) nets"

definition client_ip_no_proxy_trust :: "request \<Rightarrow> string" where
  "client_ip_no_proxy_trust r =
     (case split_host_port (trim_space (rq_remote r)) of
        Some host \<Rightarrow> if host \<noteq> '''' then host
                     else if rq_remote r \<noteq> '''' then rq_remote r else ''unknown''
      | None \<Rightarrow> if rq_remote r \<noteq> '''' then rq_remote r else ''unknown'')"

definition remote_host :: "request \<Rightarrow> string" where
  "remote_host r =
     (case split_host_port (trim_space (rq_remote r)) of
        Some host \<Rightarrow> host | None \<Rightarrow> trim_space (rq_remote r))"

definition client_ip_from_request :: "request \<Rightarrow> ipnet list \<Rightarrow> string" where
  "client_ip_from_request r trusted =
     (if trusted = [] then client_ip_no_proxy_trust r
      else (case parse_ip (remote_host r) of
              None \<Rightarrow> client_ip_no_proxy_trust r
            | Some a \<Rightarrow>
                if \<not> ip_in_nets a trusted then client_ip_no_proxy_trust r
                else
                  (let xff = trim_space (rq_header r ''X-Forwarded-For'');
                       first = trim_space (hd (split_on CHR '','' xff));
                       xr = trim_space (rq_header r ''X-Real-IP'')
                   in if xff \<noteq> '''' \<and> parse_ip first \<noteq> None then first
                      else if parse_ip xr \<noteq> None then xr
                      else client_ip_no_proxy_trust r)))"

definition client_ip :: "request \<Rightarrow> string list \<Rightarrow> string" where
  "client_ip r cidrs = client_ip_from_request r (parse_cidrs cidrs)"

section \<open>The in-memory limiter\<close>

record rate_result =
  rr_allowed :: bool
  rr_remaining :: int
  rr_reset :: time
  rr_limit :: int

record rate_window =
  rw_start :: int
  rw_count :: int

record ip_limiter =
  il_entries :: "string \<rightharpoonup> rate_window"
  il_window :: duration
  il_window_s :: int
  il_hits :: nat
  il_cleanup :: int

definition new_ip_limiter :: "duration \<Rightarrow> int \<Rightarrow> ip_limiter" where
  "new_ip_limiter window cleanup_every =
     (let w = (if window < second then minute else window)
      in \<lparr>il_entries = Map.empty, il_window = w, il_window_s = w div second, il_hits = 0,
          il_cleanup = (if cleanup_every \<le> 0 then 1024 else cleanup_every)\<rparr>)"

definition window_start :: "int \<Rightarrow> time \<Rightarrow> int" where
  "window_start ws t = unix_sec t - go_rem (unix_sec t) ws"

definition cleanup_stale :: "time \<Rightarrow> ip_limiter \<Rightarrow> ip_limiter" where
  "cleanup_stale now l =
     (let threshold = window_start (il_window_s l) now - il_window_s l
      in l\<lparr>il_entries := map_keep (\<lambda>k e. \<not> rw_start e < threshold) (il_entries l)\<rparr>)"

text \<open>The hit counter is a \<open>uint64\<close>.\<close>

definition maybe_cleanup :: "int \<Rightarrow> ip_limiter \<Rightarrow> ip_limiter" where
  "maybe_cleanup current l =
     (let h = (il_hits l + 1) mod 2 ^ 64; l1 = l\<lparr>il_hits := h\<rparr>
      in if int h mod il_cleanup l \<noteq> 0 then l1
         else l1\<lparr>il_entries := map_keep (\<lambda>k e. \<not> current - rw_start e > il_window_s l) (il_entries l)\<rparr>)"

definition allow_with_info :: "string \<Rightarrow> int \<Rightarrow> time \<Rightarrow> ip_limiter \<Rightarrow> rate_result \<times> ip_limiter" where
  "allow_with_info key limit now l =
     (if limit \<le> 0
      then (\<lparr>rr_allowed = False, rr_remaining = 0, rr_reset = zero_time, rr_limit = limit\<rparr>, l)
      else
        let start = window_start (il_window_s l) now;
            reset = time_unix (start + il_window_s l);
            count = (case il_entries l key of
                       Some e \<Rightarrow> if rw_start e = start then Some (rw_count e) else None
                     | None \<Rightarrow> None)
        in (case count of
              None \<Rightarrow>
                (\<lparr>rr_allowed = True, rr_remaining = limit - 1, rr_reset = reset, rr_limit = limit\<rparr>,
                 maybe_cleanup start
                   (l\<lparr>il_entries := (il_entries l)(key \<mapsto> \<lparr>rw_start = start, rw_count = 1\<rparr>)\<rparr>))
            | Some c \<Rightarrow>
                if c \<ge> limit
                then (\<lparr>rr_allowed = False, rr_remaining = 0, rr_reset = reset, rr_limit = limit\<rparr>, l)
                else
                  (\<lparr>rr_allowed = True, rr_remaining = limit - (c + 1), rr_reset = reset, rr_limit = limit\<rparr>,
                   maybe_cleanup start
                     (l\<lparr>il_entries := (il_entries l)(key \<mapsto> \<lparr>rw_start = start, rw_count = c + 1\<rparr>)\<rparr>))))"

definition ip_allow :: "string \<Rightarrow> int \<Rightarrow> time \<Rightarrow> ip_limiter \<Rightarrow> bool \<times> ip_limiter" where
  "ip_allow key limit now l = (case allow_with_info key limit now l of (r, l') \<Rightarrow> (rr_allowed r, l'))"

section \<open>The limiter on Redis\<close>

record redis_limiter =
  rl_has_client :: bool
  rl_prefix :: string
  rl_window :: duration

definition new_redis_limiter :: "bool \<Rightarrow> string \<Rightarrow> duration \<Rightarrow> redis_limiter" where
  "new_redis_limiter has_client pfx window =
     \<lparr>rl_has_client = has_client,
      rl_prefix = (if trim_space pfx = '''' then ''rate_limit'' else trim_space pfx),
      rl_window = (if window < second then minute else window)\<rparr>"

definition redis_window_start :: "redis_limiter \<Rightarrow> time \<Rightarrow> int" where
  "redis_window_start l t =
     (let ws = rl_window l div second; ws' = (if ws \<le> 0 then 60 else ws)
      in unix_sec t - go_rem (unix_sec t) ws')"

definition redis_rate_key :: "redis_limiter \<Rightarrow> int \<Rightarrow> string \<Rightarrow> string" where
  "redis_rate_key l start key =
     rl_prefix l @ '':'' @ itoa start @ '':'' @ hex_encode (sha256 key)"

text \<open>The Lua script over \<open>INCR\<close> and \<open>EXPIRE\<close>; \<open>None\<close> when the call fails.\<close>

definition incr_with_expire ::
  "(string \<Rightarrow> 'db \<Rightarrow> int option \<times> 'db) \<Rightarrow> (string \<Rightarrow> int \<Rightarrow> 'db \<Rightarrow> 'db) \<Rightarrow> string \<Rightarrow> int \<Rightarrow> 'db
     \<Rightarrow> int option \<times> 'db" where
  "incr_with_expire incr expire key ttl db =
     (case incr key db of
        (None, db1) \<Rightarrow> (None, db1)
      | (Some n, db1) \<Rightarrow> (Some n, if n = 1 then expire key ttl db1 else db1))"

definition redis_allow_with_info ::
  "(string \<Rightarrow> 'db \<Rightarrow> int option \<times> 'db) \<Rightarrow> (string \<Rightarrow> int \<Rightarrow> 'db \<Rightarrow> 'db) \<Rightarrow> redis_limiter
     \<Rightarrow> string \<Rightarrow> int \<Rightarrow> time \<Rightarrow> 'db \<Rightarrow> rate_result \<times> 'db" where
  "redis_allow_with_info incr expire l key limit now db =
     (if limit \<le> 0
      then (\<lparr>rr_allowed = False, rr_remaining = 0, rr_reset = zero_time, rr_limit = limit\<rparr>, db)
      else if \<not> rl_has_client l \<or> trim_space key = ''''
      then (\<lparr>rr_allowed = True, rr_remaining = limit, rr_reset = zero_time, rr_limit = limit\<rparr>, db)
      else
        let start = redis_window_start l now;
            reset = time_unix (start + rl_window l div second)
        in (case incr_with_expire incr expire (redis_rate_key l start key) (rl_window l div second) db of
              (None, db') \<Rightarrow>
                (\<lparr>rr_allowed = True, rr_remaining = limit, rr_reset = reset, rr_limit = limit\<rparr>, db')
            | (Some n, db') \<Rightarrow>
                (\<lparr>rr_allowed = (n \<le> limit), rr_remaining = max 0 (limit - n), rr_reset = reset,
                  rr_limit = limit\<rparr>, db')))"

section \<open>The middlewares\<close>

text \<open>A limiter of the process: \<open>Allow\<close>, and \<open>AllowWithInfo\<close> if it has that method.\<close>

record 'st limiter =
  lm_allow :: "string \<Rightarrow> int \<Rightarrow> time \<Rightarrow> 'st \<Rightarrow> bool \<times> 'st"
  lm_info :: "(string \<Rightarrow> int \<Rightarrow> time \<Rightarrow> 'st \<Rightarrow> rate_result \<times> 'st) option"

definition limiter_of ::
  "(string \<Rightarrow> int \<Rightarrow> time \<Rightarrow> 'st \<Rightarrow> rate_result \<times> 'st) \<Rightarrow> 'st limiter" where
  "limiter_of info =
     \<lparr>lm_allow = (\<lambda>key limit now st. case info key limit now st of (r, st') \<Rightarrow> (rr_allowed r, st')),
      lm_info = Some info\<rparr>"

record 'st rate_limit_config =
  rl_enabled :: bool
  rl_general :: int
  rl_admin :: int
  rl_trusted :: "string list"
  rl_on_reject :: "'st reject_hook"
  rl_limiter :: "'st limiter"

definition rate_scope :: "'st rate_limit_config \<Rightarrow> request \<Rightarrow> string \<times> int" where
  "rate_scope cfg r =
     (if has_prefix (rq_path r) ''/admin'' then (''admin'', rl_admin cfg)
      else (''general'', rl_general cfg))"

definition rate_headers :: "rate_result \<Rightarrow> writer \<Rightarrow> writer" where
  "rate_headers res w =
     (let w1 = set_header ''X-RateLimit-Remaining'' (itoa (rr_remaining res))
                 (set_header ''X-RateLimit-Limit'' (itoa (rr_limit res)) w)
      in if is_zero_time (rr_reset res) then w1
         else set_header ''X-RateLimit-Reset'' (itoa (unix_sec (rr_reset res))) w1)"

definition ask_limiter ::
  "'st limiter \<Rightarrow> string \<Rightarrow> int \<Rightarrow> time \<Rightarrow> 'st \<Rightarrow> rate_result \<times> 'st" where
  "ask_limiter lm key limit now st =
     (case lm_info lm of
        Some info \<Rightarrow> info key limit now st
      | None \<Rightarrow> (case lm_allow lm key limit now st of
                   (a, st') \<Rightarrow> (\<lparr>rr_allowed = a, rr_remaining = 0, rr_reset = zero_time,
                                rr_limit = limit\<rparr>, st')))"

definition rate_limited :: "string \<Rightarrow> string \<Rightarrow> request \<Rightarrow> writer \<Rightarrow> writer" where
  "rate_limited op msg r w =
     write_error (rq_id r) 429 (Some (app_new op CodeRateLimitExceeded msg None)) Map.empty
       (set_header ''Retry-After'' ''60'' w)"

definition rate_limit :: "'st rate_limit_config \<Rightarrow> 'st middleware" where
  "rate_limit cfg next r ws =
     (if \<not> rl_enabled cfg then next r ws
      else (case ws of (w, st) \<Rightarrow> (case rate_scope cfg r of (scope, limit) \<Rightarrow>
        (let ip = client_ip r (rl_trusted cfg)
         in (case ask_limiter (rl_limiter cfg) (scope @ ''|'' @ ip) limit (dr_now (rq_draws r)) st of
               (res, st1) \<Rightarrow>
                 (let w1 = rate_headers res w
                  in if \<not> rr_allowed res
                     then (Returned, rate_limited ''httpx.RateLimit'' ''rate limit exceeded'' r w1,
                           rl_on_reject cfg r ''rate_limit_exceeded'' 429 st1)
                     else next r (w1, st1)))))))"

record 'st source_limit_config =
  sl_enabled :: bool
  sl_sources :: "string \<rightharpoonup> int"
  sl_default :: int
  sl_trusted :: "string list"
  sl_on_reject :: "'st reject_hook"
  sl_limiter :: "'st limiter"

definition source_of_route :: "string \<Rightarrow> string" where
  "source_of_route rest = fst (split_first CHR ''/'' (trim_set rest ''/''))"

definition source_from_path :: "string \<Rightarrow> string" where
  "source_from_path path =
     (if has_prefix path ''/webhooks/'' then source_of_route (trim_prefix path ''/webhooks/'')
      else if has_prefix path ''/api/v1/webhooks/''
      then source_of_route (trim_prefix path ''/api/v1/webhooks/'')
      else '''')"

definition source_rate_limit :: "'st source_limit_config \<Rightarrow> 'st middleware" where
  "source_rate_limit cfg next r ws =
     (if \<not> sl_enabled cfg then next r ws
      else
        let source = source_from_path (rq_path r)
        in if source = '''' then next r ws
           else (case ws of (w, st) \<Rightarrow>
             (let deflt = (if sl_default cfg \<le> 0 then 100 else sl_default cfg);
                  limit = (case sl_sources cfg source of None \<Rightarrow> deflt | Some n \<Rightarrow> n);
                  key = ''source|'' @ source @ ''|'' @ client_ip r (sl_trusted cfg)
              in (case lm_allow (sl_limiter cfg) key limit (dr_now (rq_draws r)) st of
                    (ok, st1) \<Rightarrow>
                      if \<not> ok
                      then (Returned,
                            rate_limited ''httpx.SourceRateLimit''
                              (''rate limit exceeded for source: '' @ source) r w,
                            sl_on_reject cfg r source 429 st1)
                      else next r (w, st1)))))"

section \<open>The contract of a limiter\<close>

text \<open>Requests (key, limit, instant) and clean-ups (an instant), in order; the answers to the requests.\<close>

datatype limiter_event = Ask string int time | Clean time

fun event_time :: "limiter_event \<Rightarrow> time" where
  "event_time (Ask k limit t) = t"
| "event_time (Clean t) = t"

fun serve ::
  "(string \<Rightarrow> int \<Rightarrow> time \<Rightarrow> 'st \<Rightarrow> rate_result \<times> 'st) \<Rightarrow> (time \<Rightarrow> 'st \<Rightarrow> 'st) \<Rightarrow> limiter_event list
     \<Rightarrow> 'st \<Rightarrow> (string \<times> bool) list" where
  "serve info clean [] s = []"
| "serve info clean (Ask k limit t # q) s =
     (case info k limit t s of (r, s1) \<Rightarrow> (k, rr_allowed r) # serve info clean q s1)"
| "serve info clean (Clean t # q) s = serve info clean q (clean t s)"

definition answers_for :: "string \<Rightarrow> (string \<times> bool) list \<Rightarrow> bool list" where
  "answers_for k as = map snd (filter (\<lambda>a. fst a = k) as)"

fun asks_for :: "string \<Rightarrow> limiter_event list \<Rightarrow> nat" where
  "asks_for k [] = 0"
| "asks_for k (Ask j limit t # q) = (if j = k then Suc (asks_for k q) else asks_for k q)"
| "asks_for k (Clean t # q) = asks_for k q"

definition same_limit :: "string \<Rightarrow> int \<Rightarrow> limiter_event \<Rightarrow> bool" where
  "same_limit k limit e = (case e of Ask j l t \<Rightarrow> j = k \<longrightarrow> l = limit | Clean t \<Rightarrow> True)"

locale rate_limiter =
  fixes info :: "string \<Rightarrow> int \<Rightarrow> time \<Rightarrow> 'st \<Rightarrow> rate_result \<times> 'st"
    and clean :: "time \<Rightarrow> 'st \<Rightarrow> 'st"
    and win :: "time \<Rightarrow> int"
    and used :: "'st \<Rightarrow> int \<Rightarrow> string \<Rightarrow> int"
    and ok :: "'st \<Rightarrow> bool"
  assumes allowed: "ok s \<Longrightarrow>
        rr_allowed (fst (info k limit t s)) \<longleftrightarrow> 0 < limit \<and> used s (win t) k < limit"
    and used_after: "ok s \<Longrightarrow> used (snd (info k limit t s)) (win t) k'
          = used s (win t) k' + (if k' = k \<and> rr_allowed (fst (info k limit t s)) then 1 else 0)"
    and used_clean: "ok s \<Longrightarrow> used (clean t s) (win t) k = used s (win t) k"
    and ok_after: "ok s \<Longrightarrow> ok (snd (info k limit t s))"
    and ok_clean: "ok s \<Longrightarrow> ok (clean t s)"
begin

lemma first_ones_pass:
  "ok s \<Longrightarrow> 0 < limit \<Longrightarrow> list_all (\<lambda>e. win (event_time e) = w \<and> same_limit k limit e) q \<Longrightarrow>
   answers_for k (serve info clean q s)
     = replicate (min (asks_for k q) (nat (limit - used s w k))) True
       @ replicate (asks_for k q - nat (limit - used s w k)) False"
proof (induction q arbitrary: s)
  case (Cons e q)
  show ?case
  proof (cases e)
    case (Clean t)
    with Cons used_clean [OF Cons.prems(1), of t k] ok_clean [OF Cons.prems(1), of t]
    show ?thesis by simp
  next
    case (Ask j l t)
    obtain r s1 where i: "info j l t s = (r, s1)" by fastforce
    note facts = allowed [OF Cons.prems(1), of j l t] used_after [OF Cons.prems(1), of j l t k]
      ok_after [OF Cons.prems(1), of j l t]
    have w: "win t = w" and l: "j = k \<Longrightarrow> l = limit"
      using Cons.prems(3) Ask by (simp_all add: same_limit_def)
    note ih = Cons.IH [of s1]
    show ?thesis
    proof (cases "j = k \<and> used s w k < limit")
      case True
      then have "nat (limit - used s w k) = Suc (nat (limit - used s1 w k))"
        using facts i w l Cons.prems(2) by (simp add: nat_diff_distrib') (auto simp: nat_eq_iff)
      with True Ask ih facts i w l Cons.prems show ?thesis by (simp add: answers_for_def)
    next
      case False
      then have u: "used s1 w k = used s w k" using facts i w l by auto
      show ?thesis
      proof (cases "j = k")
        case True
        with False have z: "nat (limit - used s w k) = 0" by simp
        with True False Ask ih facts i w l u Cons.prems show ?thesis by (simp add: answers_for_def)
      next
        case F: False
        with Ask ih facts i w u Cons.prems show ?thesis by (simp add: answers_for_def)
      qed
    qed
  qed
qed (simp add: answers_for_def)

end

definition ip_used :: "ip_limiter \<Rightarrow> int \<Rightarrow> string \<Rightarrow> int" where
  "ip_used l w k =
     (case il_entries l k of Some e \<Rightarrow> if rw_start e = w then rw_count e else 0 | None \<Rightarrow> 0)"

lemma il_window_maybe_cleanup [simp]: "il_window_s (maybe_cleanup c l) = il_window_s l"
  by (simp add: maybe_cleanup_def Let_def)

lemma il_window_cleanup_stale [simp]: "il_window_s (cleanup_stale t l) = il_window_s l"
  by (simp add: cleanup_stale_def Let_def)

lemma ip_used_maybe_cleanup: "0 \<le> il_window_s l \<Longrightarrow> ip_used (maybe_cleanup w l) w k = ip_used l w k"
  by (auto simp: maybe_cleanup_def ip_used_def Let_def map_keep_def split: option.splits)

lemma ip_used_cleanup_stale:
  "0 \<le> il_window_s l \<Longrightarrow> w = window_start (il_window_s l) t \<Longrightarrow>
     ip_used (cleanup_stale t l) w k = ip_used l w k"
  by (auto simp: cleanup_stale_def ip_used_def Let_def map_keep_def split: option.splits)

lemma ip_allow_used:
  assumes "0 < il_window_s l"
  shows "rr_allowed (fst (allow_with_info k limit t l))
      \<longleftrightarrow> 0 < limit \<and> ip_used l (window_start (il_window_s l) t) k < limit"
    and "il_window_s (snd (allow_with_info k limit t l)) = il_window_s l"
    and "ip_used (snd (allow_with_info k limit t l)) (window_start (il_window_s l) t) k'
      = ip_used l (window_start (il_window_s l) t) k'
        + (if k' = k \<and> rr_allowed (fst (allow_with_info k limit t l)) then 1 else 0)"
proof -
  let ?w = "window_start (il_window_s l) t"
  show "rr_allowed (fst (allow_with_info k limit t l)) \<longleftrightarrow> 0 < limit \<and> ip_used l ?w k < limit"
    by (auto simp: allow_with_info_def ip_used_def Let_def split: option.splits)
  show "il_window_s (snd (allow_with_info k limit t l)) = il_window_s l"
    by (auto simp: allow_with_info_def Let_def split: option.splits)
  have c: "ip_used (maybe_cleanup ?w l') ?w j = ip_used l' ?w j" if "il_window_s l' = il_window_s l" for l' j
    using that assms by (intro ip_used_maybe_cleanup) simp
  show "ip_used (snd (allow_with_info k limit t l)) ?w k'
      = ip_used l ?w k' + (if k' = k \<and> rr_allowed (fst (allow_with_info k limit t l)) then 1 else 0)"
    by (auto simp: allow_with_info_def Let_def c split: option.splits) (auto simp: ip_used_def)
qed

interpretation ipl: rate_limiter allow_with_info cleanup_stale "window_start ws" ip_used
    "\<lambda>l. il_window_s l = ws \<and> 0 < ws" for ws :: int
  by unfold_locales
     (auto simp: ip_allow_used ip_used_cleanup_stale)

text \<open>C1: the in-memory limiter lets through exactly its limit: of the requests of one key within one
  window, the first \<open>limit\<close> (less those already counted) are allowed and all the others refused,
  whatever requests of other keys and clean-ups come in between.\<close>

theorem ip_limiter_exact:
  assumes "0 < il_window_s l" and "0 < limit"
    and "list_all (\<lambda>e. window_start (il_window_s l) (event_time e) = w \<and> same_limit k limit e) q"
  shows "answers_for k (serve allow_with_info cleanup_stale q l)
    = replicate (min (asks_for k q) (nat (limit - ip_used l w k))) True
      @ replicate (asks_for k q - nat (limit - ip_used l w k)) False"
  using assms by (intro ipl.first_ones_pass [of l "il_window_s l"]) simp_all

theorem ip_limiter_exact_witness:
  "answers_for ''a'' (serve allow_with_info cleanup_stale
     [Ask ''a'' 2 (61 * second), Ask ''b'' 1 (62 * second), Ask ''a'' 2 (63 * second), Clean (64 * second),
      Ask ''a'' 2 (65 * second)] (new_ip_limiter minute 1)) = [True, True, False]"
  using ip_limiter_exact [of "new_ip_limiter minute 1" 2 60 "''a''"
      "[Ask ''a'' 2 (61 * second), Ask ''b'' 1 (62 * second), Ask ''a'' 2 (63 * second), Clean (64 * second),
      Ask ''a'' 2 (65 * second)]"]
  by (simp add: new_ip_limiter_def duration_units window_start_def unix_sec_def go_rem_def
      same_limit_def ip_used_def numeral_2_eq_2)

section \<open>Who chooses the client address\<close>

definition from_trusted :: "request \<Rightarrow> ipnet list \<Rightarrow> bool" where
  "from_trusted r trusted =
     (case parse_ip (remote_host r) of None \<Rightarrow> False | Some a \<Rightarrow> ip_in_nets a trusted)"

lemma split_on_first:
  "CHR '','' \<notin> set a \<Longrightarrow> hd (split_on CHR '','' (a @ CHR '','' # b)) = a"
  by (induction a) (auto split: list.splits)

text \<open>C2: a peer outside the trusted proxies cannot choose its address, no header matters. Behind a
  trusted proxy the leftmost entry of \<open>X-Forwarded-For\<close> decides, that is the one the client sent:
  the address the proxy appended after it is ignored.\<close>

theorem client_address:
  assumes "rq_remote r' = rq_remote r"
  shows "(\<not> from_trusted r (parse_cidrs cidrs) \<longrightarrow>
      client_ip r cidrs = client_ip_no_proxy_trust r \<and> client_ip r' cidrs = client_ip r cidrs)
    \<and> (from_trusted r (parse_cidrs cidrs)
        \<and> trim_space (rq_header r ''X-Forwarded-For'') = claimed @ '','' @ appended
        \<and> CHR '','' \<notin> set claimed \<and> parse_ip (trim_space claimed) \<noteq> None \<longrightarrow>
      client_ip r cidrs = trim_space claimed)"
proof -
  have h: "remote_host r' = remote_host r" "client_ip_no_proxy_trust r' = client_ip_no_proxy_trust r"
    using assms by (simp_all only: remote_host_def client_ip_no_proxy_trust_def)
  have "parse_cidrs cidrs \<noteq> []" if "from_trusted r (parse_cidrs cidrs)"
    using that by (auto simp: from_trusted_def ip_in_nets_def split: option.splits)
  then show ?thesis
    using h
    by (auto simp: client_ip_def client_ip_from_request_def from_trusted_def Let_def split_on_first
        split: option.splits)
qed

definition demo_draws :: draws where
  "demo_draws = \<lparr>dr_now = 61 * second, dr_count = 1, dr_trace = Inr ''t'', dr_span = Inr ''s'',
     dr_latency = 1, dr_delay = 0, dr_error = 1\<rparr>"

definition demo_http :: request where
  "demo_http = \<lparr>rq_method = ''POST'', rq_path = ''/webhooks/github'', rq_query = (\<lambda>k. ''''),
     rq_header = (\<lambda>k. if k = ''X-Forwarded-For'' then ''6.6.6.6, 1.2.3.4'' else ''''),
     rq_cookie = (\<lambda>k. None), rq_remote = ''10.0.0.1:4711'', rq_body = ''{}'', rq_body_error = None,
     rq_ctx_error = None, rq_deadline = None, rq_id = ''r1'', rq_draws = demo_draws\<rparr>"

theorem client_address_witness:
  "client_ip demo_http [''10.0.0.0/8''] = ''6.6.6.6''"
proof -
  have "from_trusted demo_http (parse_cidrs [''10.0.0.0/8''])" by code_simp
  moreover have "trim_space (rq_header demo_http ''X-Forwarded-For'') = ''6.6.6.6'' @ '','' @ '' 1.2.3.4''"
    by code_simp
  moreover have "parse_ip (trim_space ''6.6.6.6'') \<noteq> None" "trim_space ''6.6.6.6'' = ''6.6.6.6''"
    by code_simp+
  ultimately show ?thesis
    using client_address [of demo_http demo_http "[''10.0.0.0/8'']" "''6.6.6.6''" "'' 1.2.3.4''"]
    by simp
qed

end
