(* ===== verification/Signature.thy ===== *)
theory Signature
  imports Errors Sha256
begin

text \<open>
  Package \<open>signature\<close> (\<open>platform/signature/signature.go\<close>): the four provider checks that every
  webhook passes before it is published. A check returns \<open>None\<close> for \<open>nil\<close> and \<open>Some e\<close> for an
  error. The texts of \<open>strconv\<close> errors are not modelled. The main lemmas characterise acceptance
  of each check; \<open>ct_compare\<close> is \<open>subtle.ConstantTimeCompare\<close>, the loop over the bytes.
\<close>

definition ct_compare :: "string \<Rightarrow> string \<Rightarrow> nat" where
  "ct_compare x y =
     (if length x \<noteq> length y then 0
      else (let v = foldl (\<lambda>v (a, b). v OR (word_of_nat (of_char a) XOR word_of_nat (of_char b)))
                      (0 :: 8 word) (zip x y)
            in if v = 0 then 1 else 0))"

definition parse_int_error :: "string \<Rightarrow> goerr" where
  "parse_int_error s = ErrText (''strconv.ParseInt: '' @ s)"

definition validate_slack ::
  "string \<Rightarrow> string \<Rightarrow> string \<Rightarrow> string \<Rightarrow> time \<Rightarrow> duration \<Rightarrow> goerr option" where
  "validate_slack secret timestamp body provided now max_skew =
     (if secret = '''' then Some (ErrText ''slack signing secret is not configured'')
      else if timestamp = '''' \<or> provided = '''' then
        Some (ErrText ''missing slack timestamp or signature'')
      else (case parse_int64 timestamp of
          None \<Rightarrow> Some (Wrapped ''invalid slack timestamp: '' (parse_int_error timestamp))
        | Some ts \<Rightarrow>
            (let t = time_unix ts
             in if max_skew < time_sub now t \<or> max_skew < time_sub t now then
                  Some (ErrText ''slack request timestamp outside allowed skew'')
                else (let base = ''v0:'' @ timestamp @ '':'' @ body;
                          expected = ''v0='' @ hex_encode (hmac_sha256 secret base)
                      in if ct_compare expected provided \<noteq> 1
                         then Some (ErrText ''invalid slack signature'') else None))))"

definition validate_github :: "string \<Rightarrow> string \<Rightarrow> string \<Rightarrow> goerr option" where
  "validate_github secret body provided =
     (if secret = '''' then Some (ErrText ''github webhook secret is not configured'')
      else if provided = '''' then Some (ErrText ''missing github signature'')
      else if \<not> has_prefix provided ''sha256='' then
        Some (ErrText ''github signature format is invalid'')
      else (let expected = ''sha256='' @ hex_encode (hmac_sha256 secret body)
            in if ct_compare expected provided \<noteq> 1
               then Some (ErrText ''invalid github signature'') else None))"

definition validate_gitlab :: "string \<Rightarrow> string \<Rightarrow> goerr option" where
  "validate_gitlab token provided =
     (if token = '''' then Some (ErrText ''gitlab webhook token is not configured'')
      else if provided = '''' then Some (ErrText ''missing gitlab webhook token'')
      else if ct_compare (sha256 token) (sha256 provided) \<noteq> 1
      then Some (ErrText ''invalid gitlab token'') else None)"

definition validate_teams_client_state :: "string \<Rightarrow> string \<Rightarrow> goerr option" where
  "validate_teams_client_state expected provided =
     (if expected = '''' then Some (ErrText ''teams client state is not configured'')
      else if provided = '''' then Some (ErrText ''missing teams client state'')
      else if ct_compare (sha256 expected) (sha256 provided) \<noteq> 1
      then Some (ErrText ''invalid teams client state'') else None)"

section \<open>The constant-time comparison\<close>

lemma word8_of_char_inject: "(word_of_nat (of_char a) :: 8 word) = word_of_nat (of_char b) \<longleftrightarrow> a = b"
proof
  assume "(word_of_nat (of_char a) :: 8 word) = word_of_nat (of_char b)"
  then have "unat (word_of_nat (of_char a) :: 8 word) = unat (word_of_nat (of_char b) :: 8 word)"
    by simp
  then have "(of_char a :: nat) = of_char b"
    by (simp add: unat_of_nat)
  then show "a = b" by (metis char_of_char)
qed simp

lemma or_zero_iff: "(v :: 8 word) OR w = 0 \<longleftrightarrow> v = 0 \<and> w = 0"
proof
  assume h: "v OR w = 0"
  have "\<not> bit v n \<and> \<not> bit w n" for n
  proof -
    have "bit (v OR w) n = False" using h by simp
    then show ?thesis by (simp add: bit_or_iff)
  qed
  then show "v = 0 \<and> w = 0" by (auto intro: bit_eqI)
qed simp

lemma xor_zero_iff: "(v :: 8 word) XOR w = 0 \<longleftrightarrow> v = w"
proof
  assume h: "v XOR w = 0"
  show "v = w"
  proof (rule bit_eqI)
    fix n
    have "bit (v XOR w) n = False" using h by simp
    then show "bit v n = bit w n" by (simp add: bit_xor_iff)
  qed
qed simp

lemma ct_fold_zero:
  "foldl (\<lambda>v (a, b). v OR (word_of_nat (of_char a) XOR word_of_nat (of_char b))) (v :: 8 word) ps = 0
   \<longleftrightarrow> v = 0 \<and> (\<forall>(a, b) \<in> set ps. a = b)"
proof (induction ps arbitrary: v)
  case (Cons p ps)
  obtain a b where p: "p = (a, b)" by (cases p)
  have "(word_of_nat (of_char a) :: 8 word) XOR word_of_nat (of_char b) = 0 \<longleftrightarrow> a = b"
    by (simp only: xor_zero_iff word8_of_char_inject)
  with Cons p show ?case by (auto simp: or_zero_iff)
qed simp

lemma ct_compare_iff: "ct_compare x y = 1 \<longleftrightarrow> x = y"
proof -
  have "(\<forall>(a, b) \<in> set (zip x y). a = b) \<longleftrightarrow> x = y" if "length x = length y"
    using that by (induction x y rule: list_induct2) auto
  then show ?thesis
    unfolding ct_compare_def Let_def ct_fold_zero by (cases "length x = length y") auto
qed

lemma ct_compare_Suc_iff [simp]: "ct_compare x y = Suc 0 \<longleftrightarrow> x = y"
  using ct_compare_iff [of x y] by simp

section \<open>What is accepted\<close>

lemma slack_None:
  assumes "0 \<le> max_skew" and "max_skew < int64_max"
  shows "validate_slack secret timestamp body provided now max_skew = None \<longleftrightarrow>
     secret \<noteq> [] \<and> timestamp \<noteq> [] \<and>
     (\<exists>ts. parse_int64 timestamp = Some ts \<and> \<bar>now - ts * second\<bar> \<le> max_skew) \<and>
     provided = ''v0='' @ hex_encode (hmac_sha256 secret (''v0:'' @ timestamp @ '':'' @ body))"
proof -
  have skew: "max_skew < time_sub now t \<or> max_skew < time_sub t now \<longleftrightarrow> max_skew < \<bar>now - t\<bar>" for t
    using assms by (auto simp: time_sub_greater_iff int64_min_def)
  show ?thesis
    by (auto simp: validate_slack_def Let_def skew ct_compare_iff time_unix_def
        split: option.splits)
qed

lemma github_None:
  "validate_github secret body provided = None \<longleftrightarrow>
     secret \<noteq> [] \<and> provided = ''sha256='' @ hex_encode (hmac_sha256 secret body)"
  by (auto simp: validate_github_def Let_def ct_compare_iff has_prefix_def)

lemma shared_secret_None:
  "validate_gitlab secret provided = None \<longleftrightarrow>
      secret \<noteq> [] \<and> provided \<noteq> [] \<and> sha256 secret = sha256 provided"
  "validate_teams_client_state secret provided = None \<longleftrightarrow>
      secret \<noteq> [] \<and> provided \<noteq> [] \<and> sha256 secret = sha256 provided"
  by (simp_all add: validate_gitlab_def validate_teams_client_state_def ct_compare_iff)

text \<open>C14: a Slack request is accepted exactly when the secret is configured, the timestamp is a
  decimal int64 no further than the allowed skew from the clock in either direction, and the
  signature is the hex HMAC-SHA256 of the versioned base string under the secret.\<close>

theorem validate_slack_accepts_iff:
  assumes "0 \<le> max_skew" and "max_skew < int64_max"
  shows "validate_slack secret timestamp body provided now max_skew = None \<longleftrightarrow>
     secret \<noteq> '''' \<and> timestamp \<noteq> '''' \<and>
     (\<exists>ts. parse_int64 timestamp = Some ts \<and> \<bar>now - ts * second\<bar> \<le> max_skew) \<and>
     provided = ''v0='' @ hex_encode (hmac_sha256 secret (''v0:'' @ timestamp @ '':'' @ body))"
  by (rule slack_None [OF assms])

theorem validate_slack_accepts_iff_witness:
  "validate_slack ''s3cr3t'' ''1700000000'' ''{}''
     (''v0='' @ hex_encode (hmac_sha256 ''s3cr3t'' ''v0:1700000000:{}''))
     (1700000100 * second) (5 * minute) = None"
proof -
  have "parse_int64 ''1700000000'' = Some 1700000000" by code_simp
  then show ?thesis
    using validate_slack_accepts_iff [of "5 * minute" "''s3cr3t''" "''1700000000''" "''{}''"
        "''v0='' @ hex_encode (hmac_sha256 ''s3cr3t'' ''v0:1700000000:{}'')" "1700000100 * second"]
    by (simp add: duration_units int64_max_def)
qed

text \<open>C2: a GitHub request is accepted exactly when the secret is configured and the header is
  \<open>sha256=\<close> and the hex HMAC-SHA256 of the body under the secret.\<close>

theorem validate_github_accepts_iff:
  "validate_github secret body provided = None \<longleftrightarrow>
     secret \<noteq> '''' \<and> provided = ''sha256='' @ hex_encode (hmac_sha256 secret body)"
  by (rule github_None)

text \<open>The GitLab token and the Teams client state are accepted exactly when both the configured
  and the presented value are non-empty and have the same SHA-256 digest; in particular the
  configured value itself is accepted and an unconfigured gateway accepts nothing.\<close>

theorem validate_shared_secret_accepts_iff:
  "(validate_gitlab secret provided = None \<longleftrightarrow>
      secret \<noteq> '''' \<and> provided \<noteq> '''' \<and> sha256 secret = sha256 provided)
   \<and> (validate_teams_client_state secret provided = None \<longleftrightarrow>
      secret \<noteq> '''' \<and> provided \<noteq> '''' \<and> sha256 secret = sha256 provided)"
  by (simp add: shared_secret_None)

lemma validate_gitlab_self: "token \<noteq> '''' \<Longrightarrow> validate_gitlab token token = None"
  by (simp add: validate_gitlab_def ct_compare_iff)

lemma validate_unconfigured:
  "validate_slack '''' ts body sig now skew \<noteq> None"
  "validate_github '''' body sig \<noteq> None"
  "validate_gitlab '''' provided \<noteq> None"
  "validate_teams_client_state '''' provided \<noteq> None"
  by (simp_all add: validate_slack_def validate_github_def validate_gitlab_def
      validate_teams_client_state_def)

end
