(* ===== verification/Dedup.thy ===== *)
theory Dedup
  imports Errors
begin

text \<open>
  Package \<open>dedup\<close>: the in-memory deduplication store (\<open>dedup/memory.go\<close>) and the Redis one
  (\<open>dedup/redis.go\<close>). The locale \<open>dedup_store\<close> is the contract the webhook handler relies on: what
  \<open>Seen\<close> answers and what \<open>Seen\<close>, \<open>Forget\<close> and the periodic clean-up do to the set of keys that
  are live at an instant. The client's lemma, that of all deliveries of a key inside the window only
  the first is let through, is proved in the locale and reaches the properties through the
  interpretation on the in-memory store.

  The clock reads are arguments. The Redis server is a parameter: \<open>setnx\<close> is what \<open>SETNX\<close> with a
  time-to-live answers (\<open>None\<close> when the call fails).
\<close>

section \<open>The contract\<close>

locale dedup_store =
  fixes seen :: "time \<Rightarrow> string \<Rightarrow> 'st \<Rightarrow> bool \<times> 'st"
    and forget :: "string \<Rightarrow> 'st \<Rightarrow> 'st"
    and tick :: "time \<Rightarrow> 'st \<Rightarrow> 'st"
    and live :: "'st \<Rightarrow> time \<Rightarrow> string \<Rightarrow> bool"
    and window :: "'st \<Rightarrow> duration"
    and ready :: "'st \<Rightarrow> bool"
  assumes seen_answer: "ready s \<Longrightarrow> k \<noteq> '''' \<Longrightarrow> fst (seen t k s) = live s t k"
    and seen_live: "ready s \<Longrightarrow> k \<noteq> '''' \<Longrightarrow> live (snd (seen t k s)) t' k' =
          (if k' = k \<and> \<not> live s t k then t' < t + window s else live s t' k')"
    and forget_live: "ready s \<Longrightarrow> k \<noteq> '''' \<Longrightarrow> live (forget k s) t' k' = (k' \<noteq> k \<and> live s t' k')"
    and tick_live: "ready s \<Longrightarrow> t \<le> t' \<Longrightarrow> live (tick t s) t' k' = live s t' k'"
    and live_earlier: "live s t' k' \<Longrightarrow> t \<le> t' \<Longrightarrow> live s t k'"
    and ready_seen: "ready (snd (seen t k s)) = ready s"
    and ready_forget: "ready (forget k s) = ready s"
    and ready_tick: "ready (tick t s) = ready s"
begin

text \<open>A history of the store: deliveries (\<open>Some key\<close>) and clean-ups (\<open>None\<close>), oldest first.\<close>

fun play :: "'st \<Rightarrow> (time \<times> string option) list \<Rightarrow> 'st" where
  "play s [] = s"
| "play s ((t, None) # h) = play (tick t s) h"
| "play s ((t, Some k) # h) = play (snd (seen t k s)) h"

lemma ready_play: "ready (play s h) = ready s"
  by (induction s h rule: play.induct) (simp_all add: ready_seen ready_tick)

lemma live_play:
  "ready s \<Longrightarrow> live s u k \<Longrightarrow> list_all (\<lambda>(t, e). t \<le> u \<and> e \<noteq> Some '''') h \<Longrightarrow>
     live (play s h) u k"
proof (induction s h rule: play.induct)
  case (2 s t h)
  then have "live (tick t s) u k" by (simp add: tick_live)
  with 2 show ?case by (simp add: ready_tick)
next
  case (3 s t j h)
  then have "live s t k" by (auto intro: live_earlier [of s u])
  with 3 have "live (snd (seen t j s)) u k" by (auto simp: seen_live)
  with 3 show ?case by (simp add: ready_seen)
qed simp

lemma only_first_delivery:
  assumes "ready s" and "k \<noteq> ''''" and "\<not> live s t k" and "u < t + window s"
    and "list_all (\<lambda>(t', e). t' \<le> u \<and> e \<noteq> Some '''') h"
  shows "\<not> fst (seen t k s) \<and> fst (seen u k (play (snd (seen t k s)) h))"
proof -
  let ?s1 = "snd (seen t k s)"
  have r: "ready ?s1" using assms by (simp add: ready_seen)
  moreover have "live ?s1 u k" using assms by (simp add: seen_live)
  ultimately have "live (play ?s1 h) u k" using assms by (simp add: live_play)
  with r assms show ?thesis by (simp add: seen_answer ready_play)
qed

lemma forgotten_is_new:
  "ready s \<Longrightarrow> k \<noteq> '''' \<Longrightarrow> \<not> fst (seen t k (forget k s))"
  by (simp add: seen_answer forget_live ready_forget)

end

section \<open>The in-memory store\<close>

record memory =
  mem_enabled :: bool
  mem_ttl :: duration
  mem_seen :: "string \<rightharpoonup> time"

definition new_memory :: "bool \<Rightarrow> duration \<Rightarrow> memory" where
  "new_memory enabled ttl =
     \<lparr>mem_enabled = enabled, mem_ttl = (if ttl \<le> 0 then 5 * minute else ttl), mem_seen = Map.empty\<rparr>"

definition cleanup_expired :: "time \<Rightarrow> memory \<Rightarrow> memory" where
  "cleanup_expired now m = m\<lparr>mem_seen := map_keep (\<lambda>k ts. now < ts) (mem_seen m)\<rparr>"

definition mem_forget :: "string \<Rightarrow> memory \<Rightarrow> memory" where
  "mem_forget key m =
     (if \<not> mem_enabled m \<or> key = '''' then m
      else m\<lparr>mem_seen := (mem_seen m)(key := None)\<rparr>)"

definition mem_do_seen :: "time \<Rightarrow> string \<Rightarrow> memory \<Rightarrow> bool \<times> memory" where
  "mem_do_seen now key m =
     (if \<not> mem_enabled m \<or> key = '''' then (False, m)
      else (let expiry = now + mem_ttl m
            in (case mem_seen m key of
                  Some existing \<Rightarrow>
                    if now < existing then (True, m)
                    else (False, m\<lparr>mem_seen := (mem_seen m)(key \<mapsto> expiry)\<rparr>)
                | None \<Rightarrow> (False, m\<lparr>mem_seen := (mem_seen m)(key \<mapsto> expiry)\<rparr>))))"

text \<open>The abstraction: the keys that are live at an instant.\<close>

definition mem_live :: "memory \<Rightarrow> time \<Rightarrow> string \<Rightarrow> bool" where
  "mem_live m t k = (case mem_seen m k of None \<Rightarrow> False | Some e \<Rightarrow> t < e)"

lemmas mem_defs [model_defs] =
  new_memory_def cleanup_expired_def mem_forget_def mem_do_seen_def mem_live_def

interpretation mem: dedup_store mem_do_seen mem_forget cleanup_expired mem_live mem_ttl mem_enabled
  by unfold_locales
     (auto simp: mem_defs Let_def map_keep_def split: option.splits if_splits)

lemma mem_disabled:
  "\<not> mem_enabled m \<Longrightarrow> mem_do_seen t k m = (False, m)"
  by (simp add: mem_do_seen_def)

text \<open>C1: with the in-memory store enabled, of all deliveries of one key inside the deduplication
  window only the first is let through, whatever other deliveries and clean-ups happen in between;
  after \<open>Forget\<close> the key is new again.\<close>

theorem dedup_window:
  assumes "mem_enabled m" and "k \<noteq> ''''" and "\<not> mem_live m t k" and "u < t + mem_ttl m"
    and "list_all (\<lambda>(t', e). t' \<le> u \<and> e \<noteq> Some '''') h"
  shows "\<not> fst (mem_do_seen t k m)
    \<and> fst (mem_do_seen u k (mem.play (snd (mem_do_seen t k m)) h))
    \<and> \<not> fst (mem_do_seen u k (mem_forget k (mem.play (snd (mem_do_seen t k m)) h)))"
proof -
  have "mem_enabled (mem.play (snd (mem_do_seen t k m)) h)"
    using assms by (simp add: mem.ready_play mem.ready_seen)
  with assms show ?thesis
    by (simp add: mem.only_first_delivery mem.forgotten_is_new)
qed

theorem dedup_window_witness:
  "fst (mem_do_seen 60 ''github:1''
     (mem.play (snd (mem_do_seen 0 ''github:1'' (new_memory True 100)))
        [(10, Some ''slack:7''), (50, None)]))"
  using dedup_window [of "new_memory True 100" "''github:1''" 0 60
      "[(10, Some ''slack:7''), (50, None)]"]
  by (simp add: new_memory_def mem_live_def)

text \<open>Clean-up never changes an answer, it only shrinks the map.\<close>

lemma cleanup_transparent:
  "mem_enabled m \<Longrightarrow> now \<le> t \<Longrightarrow> k \<noteq> '''' \<Longrightarrow>
     fst (mem_do_seen t k (cleanup_expired now m)) = fst (mem_do_seen t k m)"
  by (simp add: mem.seen_answer mem.tick_live mem.ready_tick)

lemma cleanup_shrinks: "dom (mem_seen (cleanup_expired now m)) \<subseteq> dom (mem_seen m)"
  by (simp add: cleanup_expired_def dom_map_keep_subset)

section \<open>The Redis store\<close>

record redis_dedup =
  rd_enabled :: bool
  rd_has_client :: bool
  rd_prefix :: string
  rd_ttl :: duration

definition new_redis :: "bool \<Rightarrow> bool \<Rightarrow> string \<Rightarrow> duration \<Rightarrow> redis_dedup" where
  "new_redis enabled has_client pfx ttl =
     \<lparr>rd_enabled = enabled, rd_has_client = has_client, rd_prefix = pfx,
      rd_ttl = (if ttl \<le> 0 then 5 * minute else ttl)\<rparr>"

definition redis_key :: "redis_dedup \<Rightarrow> string \<Rightarrow> string" where
  "redis_key r key = rd_prefix r @ '':'' @ key"

text \<open>
  \<open>setnx db full_key ttl\<close> is the server's answer (whether the key was set; \<open>None\<close> for an error)
  and the database after the command; \<open>del db full_key\<close> is the database after \<open>DEL\<close>.
\<close>

definition redis_seen ::
  "('db \<Rightarrow> string \<Rightarrow> duration \<Rightarrow> bool option \<times> 'db) \<Rightarrow> string \<Rightarrow> redis_dedup \<Rightarrow> 'db \<Rightarrow> bool \<times> 'db" where
  "redis_seen setnx key r db =
     (if \<not> rd_enabled r \<or> key = '''' \<or> \<not> rd_has_client r then (False, db)
      else (case setnx db (redis_key r key) (rd_ttl r) of
              (None, db') \<Rightarrow> (False, db')
            | (Some was_set, db') \<Rightarrow> (\<not> was_set, db')))"

definition redis_forget ::
  "('db \<Rightarrow> string \<Rightarrow> 'db) \<Rightarrow> string \<Rightarrow> redis_dedup \<Rightarrow> 'db \<Rightarrow> 'db" where
  "redis_forget del key r db =
     (if \<not> rd_enabled r \<or> key = '''' \<or> \<not> rd_has_client r then db else del db (redis_key r key))"

definition redis_stop :: "redis_dedup \<Rightarrow> redis_dedup" where
  "redis_stop r = r\<lparr>rd_enabled := False\<rparr>"

text \<open>The store fails open: an unreachable server never makes an event a duplicate.\<close>

lemma redis_fail_open:
  "fst (setnx db (redis_key r key) (rd_ttl r)) = None \<Longrightarrow> \<not> fst (redis_seen setnx key r db)"
  by (auto simp: redis_seen_def split: prod.splits)

lemma redis_key_inj: "redis_key r k = redis_key r k' \<Longrightarrow> k = k'"
  by (simp add: redis_key_def)

end
