(* ===== verification/Backpressure.thy ===== *)
theory Backpressure
  imports Errors Float64
begin

text \<open>
  The admission logic of \<open>queue/async_publisher.go\<close>: the ring buffer \<open>publishWindow\<close> of the last
  publish results, the options and their defaults, the snapshot, and the decisions
  \<open>isHardLimited\<close> and \<open>shouldThrottle\<close>. The ring buffer refines the list of the last \<open>size\<close>
  results (\<open>window_abs\<close>).
\<close>

section \<open>The window of publish results\<close>

record publish_window =
  pw_results :: "bool list"
  pw_next :: nat
  pw_count :: nat
  pw_failures :: int

definition new_publish_window :: "int \<Rightarrow> publish_window" where
  "new_publish_window sz =
     (let n = (if sz \<le> 0 then 1 else sz)
      in \<lparr>pw_results = replicate (nat n) False, pw_next = 0, pw_count = 0, pw_failures = 0\<rparr>)"

definition window_record :: "bool \<Rightarrow> publish_window \<Rightarrow> publish_window" where
  "window_record success w =
     (if length (pw_results w) = 0 then w
      else
        let w1 = (if pw_count w = length (pw_results w)
                  then (if \<not> pw_results w ! pw_next w
                        then w\<lparr>pw_failures := pw_failures w - 1\<rparr> else w)
                  else w\<lparr>pw_count := pw_count w + 1\<rparr>);
            w2 = w1\<lparr>pw_results := (pw_results w1)[pw_next w1 := success]\<rparr>;
            w3 = (if \<not> success then w2\<lparr>pw_failures := pw_failures w2 + 1\<rparr> else w2)
        in w3\<lparr>pw_next := (pw_next w3 + 1) mod length (pw_results w3)\<rparr>)"

definition failure_ratio :: "publish_window \<Rightarrow> float64" where
  "failure_ratio w =
     (if pw_count w = 0 then 0 else f_div (f_int (pw_failures w)) (f_int (int (pw_count w))))"

text \<open>The specification: the list of the last \<open>n\<close> results.\<close>

definition window_abs :: "publish_window \<Rightarrow> bool list" where
  "window_abs w =
     (if pw_count w < length (pw_results w) then take (pw_count w) (pw_results w)
      else drop (pw_next w) (pw_results w) @ take (pw_next w) (pw_results w))"

definition fails :: "bool list \<Rightarrow> int" where
  "fails rs = int (count_list rs False)"

definition window_wf :: "publish_window \<Rightarrow> bool" where
  "window_wf w \<longleftrightarrow>
     pw_results w \<noteq> [] \<and> pw_next w < length (pw_results w) \<and>
     pw_count w \<le> length (pw_results w) \<and>
     (pw_count w < length (pw_results w) \<longrightarrow> pw_next w = pw_count w) \<and>
     pw_failures w = fails (window_abs w)"

lemma fails_simps [simp]:
  "fails [] = 0" "fails (b # rs) = (if b then 0 else 1) + fails rs"
  "fails (xs @ ys) = fails xs + fails ys"
  by (simp_all add: fails_def)

lemma fails_bounds: "0 \<le> fails rs" "fails rs \<le> int (length rs)"
  by (simp_all add: fails_def count_le_length)

lemma window_abs_length: "window_wf w \<Longrightarrow> length (window_abs w) = pw_count w"
  by (auto simp: window_wf_def window_abs_def)

lemma window_wf_new [simp]: "window_wf (new_publish_window n)"
  by (auto simp: new_publish_window_def window_wf_def window_abs_def Let_def)

lemma window_abs_new [simp]: "window_abs (new_publish_window n) = []"
  by (auto simp: new_publish_window_def window_abs_def Let_def)

lemma window_size_record [simp]:
  "length (pw_results (window_record b w)) = length (pw_results w)"
  by (simp add: window_record_def Let_def)

lemma window_size_new [simp]: "length (pw_results (new_publish_window n)) = nat (max 1 n)"
  by (auto simp: new_publish_window_def Let_def max_def)

lemma list_split_at:
  "i < length xs \<Longrightarrow> xs = take i xs @ xs ! i # drop (Suc i) xs"
  by (rule id_take_nth_drop)

lemma window_record_abs:
  assumes "window_wf w"
  shows "window_abs (window_record b w) = last_n (length (pw_results w)) (window_abs w @ [b])
    \<and> pw_failures (window_record b w) = fails (window_abs (window_record b w))
    \<and> window_wf (window_record b w)"
proof -
  obtain rs i c f where w: "w = \<lparr>pw_results = rs, pw_next = i, pw_count = c, pw_failures = f\<rparr>"
    by (cases w)
  from assms have i: "i < length rs" and c: "c \<le> length rs" and ic: "c < length rs \<Longrightarrow> i = c"
    and f: "f = fails (window_abs w)"
    by (auto simp: window_wf_def w)
  define xs ys x where "xs = take i rs" and "ys = drop (Suc i) rs" and "x = rs ! i"
  have rs: "rs = xs @ x # ys" and li: "length xs = i"
    using list_split_at [OF i] i by (simp_all add: xs_def ys_def x_def)
  consider (last) "c < length rs" "Suc i = length rs" | (grow) "c < length rs" "Suc i < length rs"
    | (wrap) "c = length rs" "Suc i = length rs" | (full) "c = length rs" "Suc i < length rs"
    using c i by linarith
  then show ?thesis
  proof cases
    case last
    then have "ys = []" using rs li by simp
    with last ic f show ?thesis
      by (simp add: w rs li [symmetric] window_record_def Let_def window_abs_def window_wf_def
          last_n_def list_update_append)
  next
    case grow
    with ic f show ?thesis
      by (simp add: w rs li [symmetric] window_record_def Let_def window_abs_def window_wf_def
          last_n_def list_update_append)
  next
    case wrap
    then have "ys = []" using rs li by simp
    with wrap f show ?thesis
      by (simp add: w rs li [symmetric] window_record_def Let_def window_abs_def window_wf_def
          last_n_def list_update_append)
  next
    case full
    with f show ?thesis
      by (simp add: w rs li [symmetric] window_record_def Let_def window_abs_def window_wf_def
          last_n_def list_update_append)
  qed
qed

definition window_run :: "bool list \<Rightarrow> publish_window \<Rightarrow> publish_window" where
  "window_run rs w = fold window_record rs w"

lemma window_run_spec:
  "window_wf (window_run rs (new_publish_window n))
   \<and> length (pw_results (window_run rs (new_publish_window n))) = nat (max 1 n)
   \<and> window_abs (window_run rs (new_publish_window n)) = last_n (nat (max 1 n)) rs"
proof (induction rs rule: rev_induct)
  case Nil
  then show ?case by (simp add: window_run_def last_n_def)
next
  case (snoc r rs)
  let ?w = "window_run rs (new_publish_window n)"
  have "window_run (rs @ [r]) (new_publish_window n) = window_record r ?w"
    by (simp add: window_run_def)
  with snoc window_record_abs [of ?w r] show ?case by (simp add: last_n_snoc)
qed

lemma failure_ratio_unit: "window_wf w \<Longrightarrow> 0 \<le> failure_ratio w \<and> failure_ratio w \<le> 1"
  using fails_bounds [of "window_abs w"] window_abs_length [of w]
    ratio_bounds [of "fails (window_abs w)" "int (pw_count w)"]
  by (auto simp: failure_ratio_def window_wf_def)

text \<open>C1: the ring buffer of publish results implements the list of the last \<open>size\<close> results: after
  any sequence of results it has counted as many as the window can hold, its failure counter is the
  number of failures among the last \<open>size\<close> results, and its ratio is that share, between 0 and 1.\<close>

theorem publish_window_refines:
  "let w = window_run rs (new_publish_window n); kept = last_n (nat (max 1 n)) rs
   in window_abs w = kept \<and> pw_count w = min (nat (max 1 n)) (length rs)
      \<and> pw_failures w = int (count_list kept False)
      \<and> failure_ratio w = (if rs = [] then 0
          else f_div (f_int (int (count_list kept False))) (f_int (int (length kept))))
      \<and> 0 \<le> failure_ratio w \<and> failure_ratio w \<le> 1"
proof -
  let ?w = "window_run rs (new_publish_window n)" and ?n = "nat (max 1 n)"
  have s: "window_wf ?w" "window_abs ?w = last_n ?n rs"
    using window_run_spec [of rs n] by blast+
  have c: "pw_count ?w = min ?n (length rs)"
    using window_abs_length [OF s(1)] s(2) by simp
  have f: "pw_failures ?w = int (count_list (last_n ?n rs) False)"
    using s by (simp add: window_wf_def fails_def)
  have z: "pw_count ?w = 0 \<longleftrightarrow> rs = []" using c by (auto simp: min_def max_def split: if_splits)
  show ?thesis
    using s c f failure_ratio_unit [OF s(1)] z by (simp add: Let_def failure_ratio_def)
qed

section \<open>Options and their defaults\<close>

record backpressure_config =
  bp_enabled :: bool
  bp_soft :: float64
  bp_hard :: float64
  bp_fail_threshold :: float64
  bp_window :: int
  bp_min_samples :: int

text \<open>Which hooks are set; an unset hook is \<open>nil\<close> and is skipped.\<close>

record async_hooks =
  hk_backpressure :: bool
  hk_publish :: bool
  hk_dlq :: bool
  hk_latency :: bool

record async_options =
  ao_backpressure :: backpressure_config
  ao_hooks :: async_hooks
  ao_workers :: int

definition with_default_soft :: "backpressure_config \<Rightarrow> backpressure_config" where
  "with_default_soft b = (if bp_soft b \<le> 0 then b\<lparr>bp_soft := f64 (70 / 100)\<rparr> else b)"

definition with_default_hard :: "backpressure_config \<Rightarrow> backpressure_config" where
  "with_default_hard b =
     (let b1 = (if bp_hard b \<le> 0 then b\<lparr>bp_hard := f64 (90 / 100)\<rparr> else b)
      in if bp_hard b1 \<le> bp_soft b1
         then b1\<lparr>bp_hard := min 1 (f_add (bp_soft b1) (f64 (10 / 100)))\<rparr> else b1)"

definition with_default_budget :: "backpressure_config \<Rightarrow> backpressure_config" where
  "with_default_budget b =
     (let b1 = (if bp_fail_threshold b \<le> 0 then b\<lparr>bp_fail_threshold := f64 (15 / 100)\<rparr> else b);
          b2 = (if bp_window b1 \<le> 0 then b1\<lparr>bp_window := 100\<rparr> else b1);
          b3 = (if bp_min_samples b2 \<le> 0 then b2\<lparr>bp_min_samples := 20\<rparr> else b2)
      in if bp_min_samples b3 > bp_window b3 then b3\<lparr>bp_min_samples := bp_window b3\<rparr> else b3)"

definition with_defaults :: "async_options \<Rightarrow> async_options" where
  "with_defaults ao =
     ao\<lparr>ao_workers := (if ao_workers ao \<le> 0 then 1 else ao_workers ao),
       ao_backpressure :=
         with_default_budget (with_default_hard (with_default_soft (ao_backpressure ao)))\<rparr>"

lemma with_default_soft_pos: "0 < bp_soft (with_default_soft b)"
  by (simp add: with_default_soft_def f64_pos_iff)

lemma with_default_hard_pos: "0 < bp_soft b \<Longrightarrow> 0 < bp_hard (with_default_hard b)"
  by (auto simp: with_default_hard_def Let_def f64_pos_iff f_add_def add_pos_pos)

lemma with_default_keeps [simp]:
  "bp_soft (with_default_hard b) = bp_soft b" "bp_soft (with_default_budget b) = bp_soft b"
  "bp_hard (with_default_budget b) = bp_hard b"
  by (simp_all add: with_default_hard_def with_default_budget_def Let_def)

lemma with_default_hard_idem:
  assumes "0 < bp_soft b"
  shows "with_default_hard (with_default_hard b) = with_default_hard b"
proof -
  have "0 < bp_hard (with_default_hard b)" by (rule with_default_hard_pos [OF assms])
  then show ?thesis
    by (cases "bp_hard b \<le> 0"; cases "bp_hard b \<le> bp_soft b")
       (auto simp: with_default_hard_def Let_def)
qed

lemma with_default_soft_idem: "0 < bp_soft b \<Longrightarrow> with_default_soft b = b"
  by (simp add: with_default_soft_def)

lemma with_default_budget_props:
  "0 < bp_fail_threshold (with_default_budget b) \<and> 1 \<le> bp_min_samples (with_default_budget b)
   \<and> bp_min_samples (with_default_budget b) \<le> bp_window (with_default_budget b)"
  by (auto simp: with_default_budget_def Let_def f64_pos_iff)

lemma with_default_budget_idem:
  "0 < bp_fail_threshold b \<Longrightarrow> 1 \<le> bp_min_samples b \<Longrightarrow> bp_min_samples b \<le> bp_window b \<Longrightarrow>
     with_default_budget b = b"
  by (simp add: with_default_budget_def Let_def)

lemma with_default_hard_budget:
  assumes "0 < bp_soft b"
  shows "with_default_hard (with_default_budget (with_default_hard b))
     = with_default_budget (with_default_hard b)"
proof -
  let ?h = "with_default_hard b" and ?g = "with_default_budget (with_default_hard b)"
  have "bp_hard (with_default_hard ?h) = bp_hard ?h"
    using assms by (simp add: with_default_hard_idem)
  then have "bp_hard (with_default_hard ?g) = bp_hard ?g"
    by (simp add: with_default_hard_def [of ?g] with_default_hard_def [of ?h] Let_def
        split: if_splits)
  then show ?thesis
    by (auto simp: with_default_hard_def [of ?g] Let_def split: if_splits)
qed

text \<open>The defaults leave a usable configuration: at least one worker, positive limits and
  thresholds, a sample minimum the window can reach; and applying them twice, as the bulkhead does
  for each of its queues, changes nothing.\<close>

theorem with_defaults_usable:
  "let r = with_defaults ao; b = ao_backpressure r
   in 1 \<le> ao_workers r \<and> 0 < bp_soft b \<and> 0 < bp_hard b \<and> 0 < bp_fail_threshold b
      \<and> 1 \<le> bp_min_samples b \<and> bp_min_samples b \<le> bp_window b \<and> with_defaults r = r"
proof -
  let ?s = "with_default_soft (ao_backpressure ao)"
  let ?b = "with_default_budget (with_default_hard ?s)"
  have s: "0 < bp_soft ?s" by (rule with_default_soft_pos)
  have h: "0 < bp_hard ?b" using with_default_hard_pos [OF s] by simp
  have g: "0 < bp_fail_threshold ?b" "1 \<le> bp_min_samples ?b" "bp_min_samples ?b \<le> bp_window ?b"
    using with_default_budget_props [of "with_default_hard ?s"] by blast+
  have "with_default_soft ?b = ?b" using s by (simp add: with_default_soft_idem)
  then have "with_default_budget (with_default_hard (with_default_soft ?b)) = ?b"
    using with_default_hard_budget [OF s] with_default_budget_idem [OF g] by simp
  then show ?thesis
    using s h g by (auto simp: with_defaults_def Let_def)
qed

section \<open>The admission decision\<close>

record publisher_snapshot =
  ps_depth :: int
  ps_capacity :: int
  ps_usage :: float64
  ps_failure_ratio :: float64
  ps_samples :: int

definition empty_snapshot :: publisher_snapshot where
  "empty_snapshot =
     \<lparr>ps_depth = 0, ps_capacity = 0, ps_usage = 0, ps_failure_ratio = 0, ps_samples = 0\<rparr>"

definition clamp_ratio :: "float64 \<Rightarrow> float64" where
  "clamp_ratio v = (if v < 0 then 0 else if v > 1 then 1 else v)"

definition normalized_pressure :: "float64 \<Rightarrow> float64 \<Rightarrow> float64 \<Rightarrow> float64" where
  "normalized_pressure v low high =
     (if high \<le> low then (if v \<ge> high then 1 else 0)
      else clamp_ratio (f_div (f_sub v low) (f_sub high low)))"

definition is_hard_limited :: "backpressure_config \<Rightarrow> publisher_snapshot \<Rightarrow> bool" where
  "is_hard_limited bp s = (if \<not> bp_enabled bp then False else ps_usage s \<ge> bp_hard bp)"

definition should_throttle :: "backpressure_config \<Rightarrow> publisher_snapshot \<Rightarrow> bool" where
  "should_throttle bp s =
     (if \<not> bp_enabled bp \<or> ps_capacity s = 0 then False
      else if ps_usage s \<le> bp_soft bp then False
      else if ps_samples s < bp_min_samples bp \<or> ps_failure_ratio s < bp_fail_threshold bp
      then False
      else f_add (normalized_pressure (ps_usage s) (bp_soft bp) (bp_hard bp))
             (normalized_pressure (ps_failure_ratio s) (bp_fail_threshold bp) 1) \<ge> 1)"

definition make_snapshot :: "nat \<Rightarrow> nat \<Rightarrow> publish_window \<Rightarrow> publisher_snapshot" where
  "make_snapshot depth capacity w =
     (let usage = (if capacity > 0 then f_div (f_int (int depth)) (f_int (int capacity)) else 0)
      in \<lparr>ps_depth = int depth, ps_capacity = int capacity, ps_usage = clamp_ratio usage,
          ps_failure_ratio = failure_ratio w, ps_samples = int (pw_count w)\<rparr>)"

lemma clamp_ratio_unit: "0 \<le> clamp_ratio v" "clamp_ratio v \<le> 1"
  by (auto simp: clamp_ratio_def)

lemma clamp_ratio_mono: "u \<le> v \<Longrightarrow> clamp_ratio u \<le> clamp_ratio v"
  by (auto simp: clamp_ratio_def)

lemma normalized_pressure_unit:
  "0 \<le> normalized_pressure v low high" "normalized_pressure v low high \<le> 1"
  by (auto simp: normalized_pressure_def clamp_ratio_unit)

lemma f_sub_pos: "low < high \<Longrightarrow> 0 < f_sub high low"
  by (simp add: f_sub_def f64_pos_iff)

lemma normalized_pressure_mono:
  assumes "u \<le> v"
  shows "normalized_pressure u low high \<le> normalized_pressure v low high"
proof (cases "high \<le> low")
  case True
  with assms show ?thesis by (auto simp: normalized_pressure_def)
next
  case False
  then have p: "0 < f_sub high low" by (simp add: f_sub_pos)
  have "f_sub u low \<le> f_sub v low" using assms by (simp add: f_sub_def f64_mono)
  then have "f_div (f_sub u low) (f_sub high low) \<le> f_div (f_sub v low) (f_sub high low)"
    using p by (simp add: f_div_def f64_mono divide_right_mono less_imp_le)
  with False show ?thesis by (simp add: normalized_pressure_def clamp_ratio_mono)
qed

lemma normalized_pressure_at_low: "low < high \<Longrightarrow> v \<le> low \<Longrightarrow> normalized_pressure v low high = 0"
  using f64_mono [of "v - low" 0] f_sub_pos [of low high] f64_mono [of "f_sub v low / f_sub high low" 0]
  by (auto simp: normalized_pressure_def clamp_ratio_def f_sub_def f_div_def divide_nonpos_pos)

lemma make_snapshot_unit:
  "depth \<le> capacity \<Longrightarrow> 0 \<le> ps_usage (make_snapshot depth capacity w)
     \<and> ps_usage (make_snapshot depth capacity w) \<le> 1"
  by (simp add: make_snapshot_def Let_def clamp_ratio_unit)

lemma usage_mono:
  "d \<le> d' \<Longrightarrow> ps_usage (make_snapshot d c w) \<le> ps_usage (make_snapshot d' c w')"
  by (auto simp: make_snapshot_def Let_def f_div_def f_int_pos
      intro!: clamp_ratio_mono f64_mono divide_right_mono f_int_mono f_int_nonneg)

lemma should_throttle_needs:
  "should_throttle bp s \<Longrightarrow>
     bp_enabled bp \<and> bp_soft bp < ps_usage s \<and> bp_min_samples bp \<le> ps_samples s
     \<and> bp_fail_threshold bp \<le> ps_failure_ratio s"
  by (auto simp: should_throttle_def split: if_splits)

text \<open>The admission decision is monotone: an event that is refused (hard limit or throttle) at
  one snapshot is refused at every snapshot with as many samples, at least the usage and at least the
  failure ratio; and below the soft limit nothing is ever throttled, whatever the failures.\<close>

theorem admission_monotone:
  assumes "is_hard_limited bp s \<or> should_throttle bp s"
    and "ps_usage s \<le> ps_usage s'" and "ps_failure_ratio s \<le> ps_failure_ratio s'"
    and "ps_samples s \<le> ps_samples s'" and "ps_capacity s' \<noteq> 0"
  shows "(is_hard_limited bp s' \<or> should_throttle bp s') \<and> bp_enabled bp
    \<and> (bp_hard bp \<le> ps_usage s' \<or> bp_soft bp < ps_usage s')"
proof (cases "is_hard_limited bp s")
  case True
  with assms(2) show ?thesis by (auto simp: is_hard_limited_def split: if_splits)
next
  case False
  with assms(1) have t: "should_throttle bp s" by simp
  have m: "f_add (normalized_pressure (ps_usage s) (bp_soft bp) (bp_hard bp))
        (normalized_pressure (ps_failure_ratio s) (bp_fail_threshold bp) 1)
      \<le> f_add (normalized_pressure (ps_usage s') (bp_soft bp) (bp_hard bp))
        (normalized_pressure (ps_failure_ratio s') (bp_fail_threshold bp) 1)"
    unfolding f_add_def
    using normalized_pressure_mono [OF assms(2)] normalized_pressure_mono [OF assms(3)]
    by (intro f64_mono add_mono)
  have "should_throttle bp s'"
    using t m assms by (auto simp: should_throttle_def split: if_splits)
  with should_throttle_needs [OF t] should_throttle_needs [OF this] show ?thesis by blast
qed

theorem admission_monotone_witness:
  "should_throttle \<lparr>bp_enabled = True, bp_soft = 1 / 2, bp_hard = 3 / 4, bp_fail_threshold = 1 / 2,
      bp_window = 4, bp_min_samples = 2\<rparr>
     \<lparr>ps_depth = 3, ps_capacity = 5, ps_usage = 5 / 8, ps_failure_ratio = 1, ps_samples = 4\<rparr>"
proof -
  let ?bp = "\<lparr>bp_enabled = True, bp_soft = 1 / 2, bp_hard = 3 / 4, bp_fail_threshold = 1 / 2,
      bp_window = 4, bp_min_samples = 2\<rparr>"
  have "should_throttle ?bp
      \<lparr>ps_depth = 3, ps_capacity = 5, ps_usage = 5 / 8, ps_failure_ratio = 3 / 4, ps_samples = 4\<rparr>"
    by code_simp
  from admission_monotone [OF disjI2 [OF this], of
      "\<lparr>ps_depth = 3, ps_capacity = 5, ps_usage = 5 / 8, ps_failure_ratio = 1, ps_samples = 4\<rparr>"]
  show ?thesis by (auto simp: is_hard_limited_def)
qed

end
