(* ===== verification/Async_Publisher.thy ===== *)
theory Async_Publisher
  imports Backpressure "HOL-Library.Multiset"
begin

text \<open>
  \<open>AsyncPublisher\<close> of \<open>queue/async_publisher.go\<close>: the bounded queue in front of the publisher, its
  workers, the dead-letter hook and \<open>Close\<close>. First the operations on the publisher's state, then the
  interleaving of request goroutines, workers and \<open>Close\<close> as a step function on a \<open>world\<close>, with
  the reachable worlds as an inductive predicate.

  A snapshot and the channel send of one \<open>Publish\<close> are two steps (the read lock is released in
  between), a worker's receive and the end of its publish are two steps. What the wrapped publisher
  answers (success, an error, a panic) and how long it takes are arguments. Hooks are recorded as
  events; they are taken not to panic.
\<close>

section \<open>State\<close>

record queued_event =
  qe_source :: string
  qe_body :: string
  qe_headers :: headers
  qe_created :: time
  qe_deadline :: time

datatype hook_event =
    HookBackpressure string string publisher_snapshot
  | HookPublish string string publisher_snapshot
  | HookDLQ string string headers goerr
  | HookLatency string duration bool

datatype worker = Idle | Busy queued_event | Exited

record async_state =
  as_opts :: async_options
  as_queue :: "queued_event list"
  as_capacity :: nat
  as_closed :: bool
  as_stats :: publish_window
  as_workers :: "worker list"

text \<open>\<open>make(chan queuedEvent, buffer)\<close> panics for a negative buffer: \<open>None\<close>.\<close>

definition new_async_publisher :: "int \<Rightarrow> async_options \<Rightarrow> async_state option" where
  "new_async_publisher buffer options =
     (let opts = with_defaults options
      in if buffer < 0 then None
         else Some \<lparr>as_opts = opts, as_queue = [], as_capacity = nat buffer, as_closed = False,
                    as_stats = new_publish_window (bp_window (ao_backpressure opts)),
                    as_workers = replicate (nat (ao_workers opts)) Idle\<rparr>)"

definition async_snapshot :: "async_state \<Rightarrow> publisher_snapshot" where
  "async_snapshot p = make_snapshot (length (as_queue p)) (as_capacity p) (as_stats p)"

definition emit_backpressure ::
  "async_options \<Rightarrow> string \<Rightarrow> string \<Rightarrow> publisher_snapshot \<Rightarrow> hook_event list" where
  "emit_backpressure opts source act snap =
     (if hk_backpressure (ao_hooks opts) then [HookBackpressure source act snap] else [])"

definition emit_publish ::
  "async_options \<Rightarrow> string \<Rightarrow> string \<Rightarrow> publisher_snapshot \<Rightarrow> hook_event list" where
  "emit_publish opts source res snap =
     (if hk_publish (ao_hooks opts) then [HookPublish source res snap] else [])"

section \<open>Publish\<close>

definition make_event ::
  "time \<Rightarrow> time option \<Rightarrow> string \<Rightarrow> string \<Rightarrow> headers \<Rightarrow> queued_event" where
  "make_event now ctx_deadline source body hdrs =
     \<lparr>qe_source = source, qe_body = body, qe_headers = hdrs, qe_created = now,
      qe_deadline = (case ctx_deadline of Some d \<Rightarrow> d | None \<Rightarrow> zero_time)\<rparr>"

text \<open>The part of \<open>Publish\<close> before the send: \<open>Some err\<close> when it returns, \<open>None\<close> to go on.\<close>

definition publish_check :: "string \<Rightarrow> async_state \<Rightarrow> goerr option \<times> hook_event list" where
  "publish_check source p =
     (if as_closed p then (Some (Sentinel ErrQueueClosed), [])
      else
        let snap = async_snapshot p; bp = ao_backpressure (as_opts p)
        in if is_hard_limited bp snap
           then (Some (Sentinel ErrQueueFull), emit_backpressure (as_opts p) source ''full'' snap)
           else if should_throttle bp snap
           then (Some (Sentinel ErrQueueThrottled),
                 emit_backpressure (as_opts p) source ''throttled'' snap)
           else (None, []))"

text \<open>
  The non-blocking send. On a closed channel it panics. An unbuffered channel takes the event only
  when a worker is waiting for one, and hands it over directly.
\<close>

datatype send_outcome = SendOk | SendFull | SendPanic

fun hand_over :: "queued_event \<Rightarrow> worker list \<Rightarrow> worker list option" where
  "hand_over e [] = None"
| "hand_over e (w # ws) =
     (if w = Idle then Some (Busy e # ws) else map_option ((#) w) (hand_over e ws))"

definition publish_send :: "queued_event \<Rightarrow> async_state \<Rightarrow> send_outcome \<times> async_state" where
  "publish_send e p =
     (if as_closed p then (SendPanic, p)
      else if length (as_queue p) < as_capacity p
      then (SendOk, p\<lparr>as_queue := as_queue p @ [e]\<rparr>)
      else if as_capacity p = 0
      then (case hand_over e (as_workers p) of
              Some ws \<Rightarrow> (SendOk, p\<lparr>as_workers := ws\<rparr>)
            | None \<Rightarrow> (SendFull, p))
      else (SendFull, p))"

text \<open>\<open>Publish\<close> when no other goroutine moves between the check and the send.\<close>

definition async_publish ::
  "queued_event \<Rightarrow> async_state \<Rightarrow> goerr option \<times> hook_event list \<times> async_state" where
  "async_publish e p =
     (case publish_check (qe_source e) p of
        (Some err, hs) \<Rightarrow> (Some err, hs, p)
      | (None, hs) \<Rightarrow>
          (case publish_send e p of
             (SendOk, p') \<Rightarrow> (None, hs, p')
           | (_, p') \<Rightarrow> (Some (Sentinel ErrQueueFull),
               hs @ emit_backpressure (as_opts p) (qe_source e) ''full'' (async_snapshot p), p')))"

definition async_close :: "async_state \<Rightarrow> async_state" where
  "async_close p = p\<lparr>as_closed := True\<rparr>"

definition async_health :: "async_state \<Rightarrow> goerr option" where
  "async_health p =
     (if as_closed p then Some (ErrText ''publisher is closed'')
      else
        let snap = async_snapshot p; bp = ao_backpressure (as_opts p)
        in if ps_usage snap \<ge> bp_hard bp
           then Some (ErrText (''queue buffer usage critical: ''
                        @ format_2f (f_mul (ps_usage snap) 100) @ ''%''))
           else if ps_failure_ratio snap > bp_fail_threshold bp \<and> ps_samples snap \<ge> bp_min_samples bp
           then Some (ErrText (''queue failure ratio high: ''
                        @ format_2f (f_mul (ps_failure_ratio snap) 100) @ ''%''))
           else None)"

section \<open>Workers\<close>

datatype inner_outcome = InnerOk | InnerErr goerr | InnerPanic string

definition publish_deadline :: "time \<Rightarrow> queued_event \<Rightarrow> time" where
  "publish_deadline now e =
     (if is_zero_time (qe_deadline e) then now + 30 * second
      else min (qe_deadline e) (now + 30 * second))"

definition safe_publish :: "nat \<Rightarrow> inner_outcome \<Rightarrow> goerr option" where
  "safe_publish wid out =
     (case out of
        InnerOk \<Rightarrow> None
      | InnerErr e \<Rightarrow> Some (Wrapped ''publish event: '' e)
      | InnerPanic t \<Rightarrow> Some (ErrText (''publish panic on worker '' @ itoa (int wid) @ '': '' @ t)))"

definition result_label :: "goerr option \<Rightarrow> string" where
  "result_label err =
     (case err of
        Some e \<Rightarrow> if errors_is e ErrCircuitOpen then ''circuit_breaker_open'' else ''failed''
      | None \<Rightarrow> ''success'')"

definition record_publish_result :: "bool \<Rightarrow> async_state \<Rightarrow> async_state" where
  "record_publish_result success p = p\<lparr>as_stats := window_record success (as_stats p)\<rparr>"

definition process_queued_event ::
  "nat \<Rightarrow> queued_event \<Rightarrow> inner_outcome \<Rightarrow> duration \<Rightarrow> async_state \<Rightarrow> hook_event list \<times> async_state"
where
  "process_queued_event wid e out latency p =
     (let err = safe_publish wid out;
          hk = ao_hooks (as_opts p);
          h1 = (if hk_latency hk then [HookLatency (qe_source e) latency (err \<noteq> None)] else []);
          p' = record_publish_result (err = None) p;
          snap = async_snapshot p';
          h2 = (case err of
                  Some x \<Rightarrow> if hk_dlq hk
                            then [HookDLQ (qe_source e) (qe_body e) (qe_headers e) x] else []
                | None \<Rightarrow> []);
          h3 = emit_publish (as_opts p) (qe_source e) (result_label err) snap
      in (h1 @ h2 @ h3, p'))"

lemmas async_defs [model_defs] =
  publish_check_def publish_send_def async_publish_def async_close_def process_queued_event_def
  record_publish_result_def async_snapshot_def Let_def

lemma result_label_cases:
  "result_label (safe_publish w out) =
     (case out of InnerOk \<Rightarrow> ''success''
      | InnerErr e \<Rightarrow> if errors_is e ErrCircuitOpen then ''circuit_breaker_open'' else ''failed''
      | InnerPanic t \<Rightarrow> ''failed'')"
  by (cases out) (simp_all add: safe_publish_def result_label_def)

section \<open>The interleaving\<close>

text \<open>
  \<open>wd_senders\<close> holds the goroutines that passed the check and are about to send. The lists
  \<open>wd_accepted\<close>, \<open>wd_taken\<close> and \<open>wd_done\<close> record the events the channel accepted, the workers
  received, and the workers finished (with the error), each in order.
\<close>

record world =
  wd_pub :: async_state
  wd_senders :: "nat \<rightharpoonup> queued_event"
  wd_accepted :: "queued_event list"
  wd_taken :: "queued_event list"
  wd_done :: "(queued_event \<times> goerr option) list"
  wd_hooks :: "hook_event list"
  wd_panicked :: bool

definition init_world :: "async_state \<Rightarrow> world" where
  "init_world p = \<lparr>wd_pub = p, wd_senders = Map.empty, wd_accepted = [], wd_taken = [], wd_done = [],
     wd_hooks = [], wd_panicked = False\<rparr>"

datatype action =
    ACheck nat queued_event
  | ASend nat
  | AClose
  | ATake nat
  | AFinish nat inner_outcome duration
  | AExit nat

definition step_check :: "nat \<Rightarrow> queued_event \<Rightarrow> world \<Rightarrow> world option" where
  "step_check i e s =
     (if wd_senders s i \<noteq> None then None
      else (case publish_check (qe_source e) (wd_pub s) of
              (Some err, hs) \<Rightarrow> Some (s\<lparr>wd_hooks := wd_hooks s @ hs\<rparr>)
            | (None, hs) \<Rightarrow> Some (s\<lparr>wd_senders := (wd_senders s)(i \<mapsto> e)\<rparr>)))"

definition step_send :: "nat \<Rightarrow> world \<Rightarrow> world option" where
  "step_send i s =
     (case wd_senders s i of
        None \<Rightarrow> None
      | Some e \<Rightarrow>
          (let s' = s\<lparr>wd_senders := (wd_senders s)(i := None)\<rparr>
           in (case publish_send e (wd_pub s) of
                 (SendPanic, p) \<Rightarrow> Some (s'\<lparr>wd_panicked := True\<rparr>)
               | (SendFull, p) \<Rightarrow>
                   Some (s'\<lparr>wd_hooks := wd_hooks s @ emit_backpressure (as_opts p) (qe_source e)
                              ''full'' (async_snapshot p)\<rparr>)
               | (SendOk, p) \<Rightarrow>
                   Some (s'\<lparr>wd_pub := p, wd_accepted := wd_accepted s @ [e],
                            wd_taken := wd_taken s
                              @ (if as_queue p = as_queue (wd_pub s) then [e] else [])\<rparr>))))"

definition step_take :: "nat \<Rightarrow> world \<Rightarrow> world option" where
  "step_take i s =
     (let p = wd_pub s
      in if i < length (as_workers p) \<and> as_workers p ! i = Idle
         then (case as_queue p of
                 [] \<Rightarrow> None
               | e # q \<Rightarrow> Some (s\<lparr>wd_pub := p\<lparr>as_queue := q, as_workers := (as_workers p)[i := Busy e]\<rparr>,
                                 wd_taken := wd_taken s @ [e]\<rparr>))
         else None)"

definition step_finish :: "nat \<Rightarrow> inner_outcome \<Rightarrow> duration \<Rightarrow> world \<Rightarrow> world option" where
  "step_finish i out latency s =
     (let p = wd_pub s
      in if i < length (as_workers p)
         then (case as_workers p ! i of
                 Busy e \<Rightarrow>
                   (case process_queued_event (Suc i) e out latency p of
                      (hs, p') \<Rightarrow> Some (s\<lparr>wd_pub := p'\<lparr>as_workers := (as_workers p')[i := Idle]\<rparr>,
                                         wd_done := wd_done s @ [(e, safe_publish (Suc i) out)],
                                         wd_hooks := wd_hooks s @ hs\<rparr>))
               | _ \<Rightarrow> None)
         else None)"

definition step_exit :: "nat \<Rightarrow> world \<Rightarrow> world option" where
  "step_exit i s =
     (let p = wd_pub s
      in if i < length (as_workers p) \<and> as_workers p ! i = Idle \<and> as_closed p \<and> as_queue p = []
         then Some (s\<lparr>wd_pub := p\<lparr>as_workers := (as_workers p)[i := Exited]\<rparr>\<rparr>)
         else None)"

fun world_step :: "action \<Rightarrow> world \<Rightarrow> world option" where
  "world_step (ACheck i e) s = step_check i e s"
| "world_step (ASend i) s = step_send i s"
| "world_step AClose s = Some (s\<lparr>wd_pub := async_close (wd_pub s)\<rparr>)"
| "world_step (ATake i) s = step_take i s"
| "world_step (AFinish i out latency) s = step_finish i out latency s"
| "world_step (AExit i) s = step_exit i s"

fun world_run :: "action list \<Rightarrow> world \<Rightarrow> world option" where
  "world_run [] s = Some s"
| "world_run (a # as) s = (case world_step a s of None \<Rightarrow> None | Some s' \<Rightarrow> world_run as s')"

inductive world_reach :: "int \<Rightarrow> async_options \<Rightarrow> world \<Rightarrow> bool" for buffer options where
  start: "new_async_publisher buffer options = Some p \<Longrightarrow> world_reach buffer options (init_world p)"
| step: "world_reach buffer options s \<Longrightarrow> world_step a s = Some s' \<Longrightarrow> world_reach buffer options s'"

lemma world_run_reach:
  "world_reach b ao s \<Longrightarrow> world_run as s = Some s' \<Longrightarrow> world_reach b ao s'"
  by (induction as arbitrary: s) (auto split: option.splits intro: world_reach.step)

text \<open>\<open>Close\<close> returns when every worker has exited.\<close>

definition close_returned :: "world \<Rightarrow> bool" where
  "close_returned s \<longleftrightarrow> as_closed (wd_pub s) \<and> list_all (\<lambda>w. w = Exited) (as_workers (wd_pub s))"

end
