(* ===== verification/Fail_Store_Pg.thy ===== *)
theory Fail_Store_Pg
  imports Fail_Store Postgres
begin

text \<open>
  The Postgres store of failed events (\<open>failstore/postgres_store.go\<close>). The table is the list of its
  rows; the SQL statements are functions on it, including the bounds of the columns, the
  upsert and the order of \<open>ListRecent\<close>. \<open>db\<close> is the error of the database, if it fails.
\<close>

type_synonym pg_table = "failed_event list"

definition pg_event :: "time \<Rightarrow> string result \<Rightarrow> save_request \<Rightarrow> failed_event" where
  "pg_event now random inp =
     \<lparr>ev_id = (if sr_id inp = '''' then pg_generate_id now random else sr_id inp),
      ev_source = sr_source inp, ev_reason = sr_reason inp,
      ev_hash = hex_encode (sha256 (sr_body inp)), ev_failed_at = now, ev_retry = 0,
      ev_headers = Some (case sr_headers inp of None \<Rightarrow> Map.empty | Some h \<Rightarrow> h),
      ev_body = sr_body inp\<rparr>"

text \<open>\<open>INSERT ... ON CONFLICT (event_id) DO UPDATE SET retry_count = retry_count + 1, failed_at = ...\<close>\<close>

fun pg_upsert :: "failed_event \<Rightarrow> pg_table \<Rightarrow> int \<times> pg_table" where
  "pg_upsert e [] = (0, [e])"
| "pg_upsert e (r # rs) =
     (if ev_id r = ev_id e
      then (ev_retry r + 1, r\<lparr>ev_retry := ev_retry r + 1, ev_failed_at := ev_failed_at e\<rparr> # rs)
      else (case pg_upsert e rs of (n, rs') \<Rightarrow> (n, r # rs')))"

definition event_columns :: "failed_event \<Rightarrow> (nat option \<times> string) list" where
  "event_columns e = [(Some 64, ev_id e), (Some 255, ev_source e), (None, ev_reason e)]"

definition pg_save ::
  "goerr option \<Rightarrow> time \<Rightarrow> string result \<Rightarrow> save_request \<Rightarrow> pg_table
     \<Rightarrow> failed_event result \<times> pg_table" where
  "pg_save db now random inp tb =
     (let e = pg_event now random inp; pfx = ''failed to save event to postgres: ''
      in (case db of
            Some err \<Rightarrow> (Inl (Wrapped pfx err), tb)
          | None \<Rightarrow>
              (case column_error (event_columns e) of
                 Some err \<Rightarrow> (Inl (Wrapped pfx err), tb)
               | None \<Rightarrow> (case pg_upsert (e\<lparr>ev_failed_at := pg_timestamp now\<rparr>) tb of (n, tb') \<Rightarrow> (Inr (e\<lparr>ev_retry := n\<rparr>), tb')))))"

definition pg_get_by_id :: "goerr option \<Rightarrow> string \<Rightarrow> pg_table \<Rightarrow> failed_event result" where
  "pg_get_by_id db eid tb =
     (case db of
        Some err \<Rightarrow> Inl (Wrapped ''failed to get event from postgres: '' err)
      | None \<Rightarrow> (case find (\<lambda>r. ev_id r = eid) tb of
                   None \<Rightarrow> Inl (Sentinel ErrNotFound) | Some r \<Rightarrow> Inr r))"

definition pg_delete :: "goerr option \<Rightarrow> string \<Rightarrow> pg_table \<Rightarrow> goerr option \<times> pg_table" where
  "pg_delete db eid tb =
     (case db of
        Some err \<Rightarrow> (Some (Wrapped ''delete event from postgres: '' err), tb)
      | None \<Rightarrow>
          (let kept = filter (\<lambda>r. ev_id r \<noteq> eid) tb
           in if length kept = length tb then (Some (Sentinel ErrNotFound), tb) else (None, kept)))"

definition pg_update_retry_count ::
  "goerr option \<Rightarrow> string \<Rightarrow> int \<Rightarrow> pg_table \<Rightarrow> goerr option \<times> pg_table" where
  "pg_update_retry_count db eid n tb =
     (case db of
        Some err \<Rightarrow> (Some (Wrapped ''update retry count in postgres: '' err), tb)
      | None \<Rightarrow>
          if eid \<in> ev_id ` set tb
          then (None, map (\<lambda>r. if ev_id r = eid then r\<lparr>ev_retry := n\<rparr> else r) tb)
          else (Some (Sentinel ErrNotFound), tb))"

text \<open>\<open>ORDER BY failed_at DESC LIMIT $1\<close>\<close>

definition pg_list_recent :: "goerr option \<Rightarrow> int \<Rightarrow> pg_table \<Rightarrow> failed_event list result" where
  "pg_list_recent db limit tb =
     (case db of
        Some err \<Rightarrow> Inl (Wrapped ''list events from postgres: '' err)
      | None \<Rightarrow> Inr (take (nat (clamp_limit 100 limit)) (sort_key (\<lambda>r. - ev_failed_at r) tb)))"

definition pg_ok :: "pg_table \<Rightarrow> bool" where
  "pg_ok tb \<longleftrightarrow> distinct (map ev_id tb)"

lemma pg_upsert_ids:
  "map ev_id (snd (pg_upsert e tb)) = (if ev_id e \<in> ev_id ` set tb then map ev_id tb else map ev_id tb @ [ev_id e])"
  by (induction e tb rule: pg_upsert.induct) (auto split: prod.splits)

lemma pg_save_ok: "pg_ok tb \<Longrightarrow> pg_ok (snd (pg_save db now rnd inp tb))"
proof -
  assume ok: "pg_ok tb"
  have "pg_ok (snd (pg_upsert e tb))" for e
    using ok by (auto simp: pg_ok_def pg_upsert_ids)
  with ok show ?thesis by (auto simp: pg_save_def Let_def split: option.splits prod.splits) (metis snd_conv)
qed

lemma pg_delete_find:
  "pg_delete None i tb = (None, tb') \<Longrightarrow>
     find (\<lambda>r. ev_id r = j) tb' = (if j = i then None else find (\<lambda>r. ev_id r = j) tb)"
  by (auto simp: pg_delete_def Let_def find_filter_id split: if_splits)

lemma pg_delete_some: "i \<in> ev_id ` set tb \<Longrightarrow> fst (pg_delete None i tb) = None"
proof -
  assume "i \<in> ev_id ` set tb"
  then have "length (filter (\<lambda>r. ev_id r \<noteq> i) tb) \<noteq> length tb"
    by (metis (mono_tags, lifting) imageE length_filter_less less_irrefl)
  then show ?thesis by (simp add: pg_delete_def Let_def)
qed

lemma pg_delete_ok: "pg_ok tb \<Longrightarrow> pg_ok (snd (pg_delete db i tb))"
  by (auto simp: pg_delete_def pg_ok_def Let_def distinct_map_filter split: option.splits)

lemma pg_update_ids: "map ev_id (snd (pg_update_retry_count db i n tb)) = map ev_id tb"
  by (auto simp: pg_update_retry_count_def split: option.splits)

lemma find_map_update:
  "find (\<lambda>r. ev_id r = j) (map (\<lambda>r. if ev_id r = i then r\<lparr>ev_retry := n\<rparr> else r) tb)
     = map_option (\<lambda>r. if j = i then r\<lparr>ev_retry := n\<rparr> else r) (find (\<lambda>r. ev_id r = j) tb)"
  by (induction tb) auto

lemma pg_update_find:
  "pg_update_retry_count None i n tb = (None, tb') \<Longrightarrow>
     find (\<lambda>r. ev_id r = j) tb'
       = map_option (\<lambda>r. if j = i then r\<lparr>ev_retry := n\<rparr> else r) (find (\<lambda>r. ev_id r = j) tb)"
  by (auto simp: pg_update_retry_count_def find_map_update split: if_splits)

text \<open>The Postgres store refuses an event whose id does not fit its 64-character column, and
  leaves the table as it is: whatever the event, it is not kept.\<close>

theorem pg_long_id_refused:
  assumes "64 < char_count (sr_id inp)"
  shows "is_err (fst (pg_save db now rnd inp tb)) \<and> snd (pg_save db now rnd inp tb) = tb"
proof -
  have "pg_event now rnd inp = e \<Longrightarrow> ev_id e = sr_id inp" for e
    using assms by (auto simp: pg_event_def char_count_def runes.simps)
  then have "column_error (event_columns (pg_event now rnd inp)) \<noteq> None"
    using assms by (auto simp: column_error_None event_columns_def pg_varchar_def)
  then show ?thesis by (auto simp: pg_save_def Let_def split: option.splits)
qed

text \<open>An event saved again under its id is counted, not duplicated: the row keeps its payload, its
  retry count grows by one, and it is the only row with that id.\<close>

theorem pg_save_again:
  assumes "pg_ok tb" and "find (\<lambda>r. ev_id r = sr_id inp) tb = Some r" and "sr_id inp \<noteq> ''''"
    and "pg_varchar 64 (sr_id inp)" and "pg_varchar 255 (sr_source inp)" and "pg_text (sr_reason inp)"
  shows "\<exists>e tb'. pg_save None now rnd inp tb = (Inr e, tb') \<and> ev_retry e = ev_retry r + 1
    \<and> find (\<lambda>x. ev_id x = sr_id inp) tb' = Some (r\<lparr>ev_retry := ev_retry r + 1, ev_failed_at := pg_timestamp now\<rparr>)
    \<and> pg_ok tb' \<and> length tb' = length tb"
proof -
  let ?e = "pg_event now rnd inp"
  have id: "ev_id ?e = sr_id inp" using assms(3) by (simp add: pg_event_def)
  have up: "find (\<lambda>x. ev_id x = ev_id e) tb = Some r \<Longrightarrow>
      fst (pg_upsert e tb) = ev_retry r + 1
      \<and> find (\<lambda>x. ev_id x = ev_id e) (snd (pg_upsert e tb))
          = Some (r\<lparr>ev_retry := ev_retry r + 1, ev_failed_at := ev_failed_at e\<rparr>)
      \<and> length (snd (pg_upsert e tb)) = length tb" for e
    by (induction e tb rule: pg_upsert.induct) (auto split: prod.splits if_splits)
  let ?row = "?e\<lparr>ev_failed_at := pg_timestamp now\<rparr>"
  obtain n tb' where p: "pg_upsert ?row tb = (n, tb')" by fastforce
  have "ev_source ?e = sr_source inp" "ev_reason ?e = sr_reason inp" by (simp_all add: pg_event_def)
  with assms(4-6) id have "column_error (event_columns ?e) = None"
    by (simp add: column_error_None event_columns_def)
  then have s: "pg_save None now rnd inp tb = (Inr (?e\<lparr>ev_retry := n\<rparr>), tb')"
    by (simp add: pg_save_def p)
  moreover have "pg_ok tb'" using pg_save_ok [OF assms(1), of None now rnd inp] s by simp
  ultimately show ?thesis using up [of ?row] assms(2) p id by simp
qed

definition pg_request :: save_request where
  "pg_request = \<lparr>sr_id = ''e1'', sr_source = ''github'', sr_reason = ''down'', sr_headers = None,
     sr_body = ''{}''\<rparr>"

lemma pg_request_fits: "pg_varchar 64 ''e1''" "pg_varchar 255 ''github''" "pg_text ''down''"
  by code_simp+

theorem pg_save_again_witness:
  "\<exists>e tb'. pg_save None 9 (Inr ''x'') pg_request [pg_event 5 (Inr ''x'') pg_request] = (Inr e, tb')
     \<and> ev_retry e = 1"
  using pg_save_again [of "[pg_event 5 (Inr ''x'') pg_request]" pg_request
      "pg_event 5 (Inr ''x'') pg_request" 9 "Inr ''x''"] pg_request_fits
  by (auto simp: pg_ok_def pg_event_def pg_request_def)

theorem pg_long_id_refused_witness:
  "is_err (fst (pg_save None 9 (Inr ''x'') (pg_request\<lparr>sr_id := replicate 70 CHR ''a''\<rparr>) []))"
proof -
  have "64 < char_count (replicate 70 CHR ''a'')" by code_simp
  with pg_long_id_refused [of "pg_request\<lparr>sr_id := replicate 70 CHR ''a''\<rparr>" None 9 "Inr ''x''" "[]"]
  show ?thesis by simp
qed

end
