(* ===== verification/Webhooks.thy ===== *)
theory Webhooks
  imports Rate_Limit Signature Dedup Async_Publisher Fail_Store_Pg
begin

text \<open>
  The webhook handlers (\<open>handlers/webhooks.go\<close>). The collaborators of a handler (schema validator,
  deduplication store, publisher, failed-event store, metrics and security hooks) are the fields of
  \<open>webhook_env\<close>; they act on the state \<open>'st\<close> of the process. \<open>gateway_env\<close> instantiates them with the
  models of the in-memory deduplication, the asynchronous publisher and the Postgres store behind its
  breaker, as \<open>main.go\<close> does.
\<close>

datatype publish_answer = Published | Refused goerr | PublishPanics

record security_event =
  sv_category :: string
  sv_source :: string
  sv_reason :: string
  sv_status :: int
  sv_actor :: string

record 'st dedup_ops =
  dd_seen :: "time \<Rightarrow> string \<Rightarrow> 'st \<Rightarrow> bool \<times> 'st"
  dd_forget :: "string \<Rightarrow> 'st \<Rightarrow> 'st"

record 'st webhook_env =
  wh_cfg :: config
  wh_validate :: "(string \<Rightarrow> string \<Rightarrow> goerr option) option"
  wh_dedup :: "'st dedup_ops option"
  wh_publish :: "request \<Rightarrow> string \<Rightarrow> string \<Rightarrow> headers \<Rightarrow> 'st \<Rightarrow> publish_answer \<times> 'st"
  wh_failed :: "(time \<Rightarrow> save_request \<Rightarrow> 'st \<Rightarrow> failed_event result \<times> 'st) option"
  wh_observe :: "string \<Rightarrow> int \<Rightarrow> 'st \<Rightarrow> 'st"
  wh_security :: "request \<Rightarrow> security_event \<Rightarrow> 'st \<Rightarrow> 'st"

section \<open>Event ids\<close>

definition fallback_event_id :: "string \<Rightarrow> string \<Rightarrow> string" where
  "fallback_event_id source body = source @ ''_'' @ hex_encode (sha256 body)"

definition extract_json_field :: "string \<Rightarrow> string \<Rightarrow> string" where
  "extract_json_field body field =
     (case json_parse body of
        Some (JObj m) \<Rightarrow> (case obj_lookup m field of Some (JStr s) \<Rightarrow> trim_space s | _ \<Rightarrow> '''')
      | _ \<Rightarrow> '''')"

fun first_nonempty :: "string list \<Rightarrow> string \<Rightarrow> string" where
  "first_nonempty [] fallback = fallback"
| "first_nonempty (v # vs) fallback = (if v \<noteq> '''' then v else first_nonempty vs fallback)"

definition derive_event_id :: "string \<Rightarrow> request \<Rightarrow> string \<Rightarrow> string" where
  "derive_event_id source r body =
     (let hdr = (\<lambda>k. trim_space (rq_header r k));
          candidates =
            (if source = ''github'' then [hdr ''X-GitHub-Delivery'']
             else if source = ''gitlab''
             then [hdr ''X-Gitlab-Event-UUID'', hdr ''X-Gitlab-Webhook-UUID'', hdr ''X-Request-Id'']
             else if source = ''slack'' then [extract_json_field body ''event_id'']
             else if source = ''teams'' then [extract_json_field body ''id'']
             else [])
      in first_nonempty candidates (fallback_event_id source body))"

section \<open>Answers\<close>

definition respond_error :: "request \<Rightarrow> int \<Rightarrow> goerr \<Rightarrow> string \<Rightarrow> writer \<Rightarrow> writer" where
  "respond_error r status err eid w =
     write_error (rq_id r) status (Some err)
       (if eid \<noteq> '''' then [''event_id'' \<mapsto> JStr eid] else Map.empty) w"

definition webhook_rejected :: "string \<Rightarrow> string \<Rightarrow> int \<Rightarrow> security_event" where
  "webhook_rejected source reason status =
     \<lparr>sv_category = ''webhook_request_rejected'', sv_source = source, sv_reason = reason,
      sv_status = status, sv_actor = ''''\<rparr>"

text \<open>\<open>rejectMethod\<close> and \<open>rejectUnauthorized\<close>: \<open>None\<close> when the request goes on.\<close>

definition reject_method ::
  "'st webhook_env \<Rightarrow> string \<Rightarrow> string list \<Rightarrow> request \<Rightarrow> writer \<times> 'st \<Rightarrow> (writer \<times> 'st) option" where
  "reject_method env source allowed r ws =
     (if rq_method r \<in> set allowed then None
      else (case ws of (w, st) \<Rightarrow>
        (let allow = join allowed '', '';
             err = app_new ''handlers.rejectMethod'' CodeMethodNotAllowed ''method not allowed''
                     (Some (ErrText (''method='' @ rq_method r @ '' allow='' @ allow)));
             w1 = (if allow \<noteq> '''' then set_header ''Allow'' allow w else w);
             st1 = wh_security env r (webhook_rejected source ''webhook_method_not_allowed'' 405)
                     (wh_observe env source 405 st)
         in Some (respond_error r 405 err '''' w1, st1))))"

definition reject_unauthorized ::
  "'st webhook_env \<Rightarrow> string \<Rightarrow> goerr option \<Rightarrow> request \<Rightarrow> writer \<times> 'st \<Rightarrow> (writer \<times> 'st) option" where
  "reject_unauthorized env source cause r ws =
     (case cause of
        None \<Rightarrow> None
      | Some e \<Rightarrow> (case ws of (w, st) \<Rightarrow>
          (let err = app_new ''handlers.rejectUnauthorized'' CodeUnauthorized
                       ''webhook authentication failed'' (Some e)
           in Some (respond_error r 401 err '''' w,
                    wh_security env r (webhook_rejected source ''webhook_auth_failed'' 401)
                      (wh_observe env source 401 st)))))"

definition max_request_body :: nat where "max_request_body = 1048576"

text \<open>The reader stops with \<open>MaxBytesError\<close> after 1 MiB; otherwise an error of the connection, if any,
  comes after the bytes received.\<close>

definition read_body :: "request \<Rightarrow> (int \<times> goerr) + string" where
  "read_body r =
     (if max_request_body < length (rq_body r)
      then Inl (413, app_new ''handlers.readBody'' CodePayloadTooLarge ''request body too large''
                       (Some (ErrText ''http: request body too large'')))
      else (case rq_body_error r of
              Some e \<Rightarrow> Inl (400, app_new ''handlers.readBody'' CodeInvalidRequestBody
                                    ''invalid request body'' (Some e))
            | None \<Rightarrow> Inr (rq_body r)))"

section \<open>Publishing\<close>

definition forget_dedup_key :: "'st webhook_env \<Rightarrow> string \<Rightarrow> string \<Rightarrow> 'st \<Rightarrow> 'st" where
  "forget_dedup_key env source eid st =
     (case wh_dedup env of
        None \<Rightarrow> st
      | Some d \<Rightarrow> if eid = '''' then st else dd_forget d (source @ '':'' @ eid) st)"

definition persist_failed_event ::
  "'st webhook_env \<Rightarrow> request \<Rightarrow> string \<Rightarrow> string \<Rightarrow> string \<Rightarrow> headers \<Rightarrow> string \<Rightarrow> 'st \<Rightarrow> 'st" where
  "persist_failed_event env r eid source reason hdrs body st =
     (case wh_failed env of
        None \<Rightarrow> st
      | Some save \<Rightarrow>
          snd (save (dr_now (rq_draws r))
                 \<lparr>sr_id = eid, sr_source = source, sr_reason = reason, sr_headers = hdrs, sr_body = body\<rparr> st))"

definition event_headers :: "request \<Rightarrow> string \<Rightarrow> headers" where
  "event_headers r eid =
     (let h0 = [''Content-Type'' \<mapsto> rq_header r ''Content-Type'', ''User-Agent'' \<mapsto> rq_header r ''User-Agent''];
          h1 = (if eid \<noteq> '''' then h0(''X-Event-ID'' \<mapsto> eid) else h0);
          h2 = (if rq_id r \<noteq> '''' then h1(''X-Request-Id'' \<mapsto> rq_id r) else h1);
          tp = trim_space (rq_header r ''Traceparent'')
      in Some (if tp \<noteq> '''' then h2(''Traceparent'' \<mapsto> tp) else h2))"

text \<open>Status, code and \<open>Retry-After\<close> of a refused publish.\<close>

definition refusal :: "config \<Rightarrow> goerr \<Rightarrow> int \<times> app_code \<times> string option" where
  "refusal cfg err =
     (if errors_is err ErrQueueThrottled
      then (429, CodeQueueThrottled,
            Some (itoa (if QueueThrottleRetryAfterSec cfg < 1 then 1 else QueueThrottleRetryAfterSec cfg)))
      else if errors_is err ErrQueueFull then (503, CodeQueueFull, None)
      else (500, CodePublishFailed, None))"

definition accepted_payload :: "string \<Rightarrow> (string \<rightharpoonup> json)" where
  "accepted_payload eid =
     (if eid \<noteq> '''' then [''status'' \<mapsto> JStr ''accepted'', ''event_id'' \<mapsto> JStr eid]
      else [''status'' \<mapsto> JStr ''accepted''])"

definition seen_before :: "'st webhook_env \<Rightarrow> request \<Rightarrow> string \<Rightarrow> string \<Rightarrow> 'st \<Rightarrow> bool \<times> 'st" where
  "seen_before env r source eid st =
     (case wh_dedup env of
        None \<Rightarrow> (False, st)
      | Some d \<Rightarrow> if eid = '''' then (False, st)
                  else dd_seen d (dr_now (rq_draws r)) (source @ '':'' @ eid) st)"

definition publish_refused ::
  "'st webhook_env \<Rightarrow> request \<Rightarrow> string \<Rightarrow> string \<Rightarrow> headers \<Rightarrow> string \<Rightarrow> goerr \<Rightarrow> writer \<times> 'st
     \<Rightarrow> writer \<times> 'st" where
  "publish_refused env r source eid hdrs body err ws =
     (case ws of (w, st) \<Rightarrow> (case refusal (wh_cfg env) err of (status, code, retry_after) \<Rightarrow>
        (let w1 = (case retry_after of Some s \<Rightarrow> set_header ''Retry-After'' s w | None \<Rightarrow> w);
             e = app_new ''handlers.publishAndAck'' code ''failed to enqueue event'' (Some err);
             st1 = persist_failed_event env r eid source (code_text code) hdrs body
                     (forget_dedup_key env source eid st)
         in (respond_error r status e eid w1, wh_observe env source status st1))))"

definition publish_and_ack :: "'st webhook_env \<Rightarrow> string \<Rightarrow> string \<Rightarrow> 'st handler" where
  "publish_and_ack env source body r ws =
     (case ws of (w, st) \<Rightarrow>
        (case (case wh_validate env of None \<Rightarrow> None | Some v \<Rightarrow> v source body) of
           Some e \<Rightarrow>
             (Returned,
              respond_error r 400 (app_new ''handlers.publishAndAck'' CodeInvalidRequestBody
                                     ''schema validation failed'' (Some e)) '''' w,
              wh_observe env source 400 st)
         | None \<Rightarrow>
             (let eid = derive_event_id source r body
              in (case seen_before env r source eid st of
                    (True, st1) \<Rightarrow>
                      (Returned, write_json 202 (accepted_payload eid) w, wh_observe env source 202 st1)
                  | (False, st1) \<Rightarrow>
                      (let hdrs = event_headers r eid
                       in (case wh_publish env r source body hdrs st1 of
                             (PublishPanics, st2) \<Rightarrow> (Panicked, w, st2)
                           | (Refused err, st2) \<Rightarrow>
                               (Returned, publish_refused env r source eid hdrs body err (w, st2))
                           | (Published, st2) \<Rightarrow>
                               (Returned, write_json 202 (accepted_payload eid) w,
                                wh_observe env source 202 st2)))))))"

section \<open>The handlers\<close>

text \<open>What the four handlers share: method, cancelled context, \<open>early\<close> answers without a body, body,
  authentication, \<open>late\<close> answers, publishing.\<close>

definition with_body ::
  "'st webhook_env \<Rightarrow> string \<Rightarrow> (string \<Rightarrow> goerr option) \<Rightarrow> (string \<Rightarrow> 'st handler) \<Rightarrow> 'st handler" where
  "with_body env source check next r ws =
     (case ws of (w, st) \<Rightarrow>
        (case read_body r of
           Inl (status, err) \<Rightarrow> (Returned, respond_error r status err '''' w, wh_observe env source status st)
         | Inr body \<Rightarrow>
             (case reject_unauthorized env source (check body) r (w, st) of
                Some ws1 \<Rightarrow> (Returned, ws1)
              | None \<Rightarrow> next body r (w, st))))"

definition entry ::
  "'st webhook_env \<Rightarrow> string \<Rightarrow> string list \<Rightarrow> 'st handler \<Rightarrow> 'st handler" where
  "entry env source allowed next r ws =
     (case reject_method env source allowed r ws of
        Some ws1 \<Rightarrow> (Returned, ws1)
      | None \<Rightarrow> if rq_ctx_error r \<noteq> None then (Returned, fst ws, wh_observe env source 499 (snd ws))
                else next r ws)"

definition slack_challenge :: "string \<Rightarrow> string option" where
  "slack_challenge body =
     (case json_parse body of
        Some (JObj m) \<Rightarrow>
          (case (struct_string m ''type'', struct_string m ''challenge'') of
             (Some t, Some c) \<Rightarrow> if t = ''url_verification'' \<and> c \<noteq> '''' then Some c else None
           | _ \<Rightarrow> None)
      | _ \<Rightarrow> None)"

definition handle_slack :: "'st webhook_env \<Rightarrow> 'st handler" where
  "handle_slack env r ws =
     entry env ''slack'' [''POST'']
       (\<lambda>r. with_body env ''slack''
         (\<lambda>body. validate_slack (SlackSigningSecret (wh_cfg env)) (rq_header r ''X-Slack-Request-Timestamp'')
                   body (rq_header r ''X-Slack-Signature'') (dr_now (rq_draws r)) (5 * minute))
         (\<lambda>body r ws.
            case slack_challenge body of
              Some c \<Rightarrow> (Returned, write_json 200 [''challenge'' \<mapsto> JStr c] (fst ws),
                          wh_observe env ''slack'' 200 (snd ws))
            | None \<Rightarrow> publish_and_ack env ''slack'' body r ws) r) r ws"

definition handle_github :: "'st webhook_env \<Rightarrow> 'st handler" where
  "handle_github env r ws =
     entry env ''github'' [''POST'']
       (\<lambda>r. with_body env ''github''
         (\<lambda>body. validate_github (GitHubWebhookSecret (wh_cfg env)) body (rq_header r ''X-Hub-Signature-256''))
         (publish_and_ack env ''github'') r) r ws"

definition handle_gitlab :: "'st webhook_env \<Rightarrow> 'st handler" where
  "handle_gitlab env r ws =
     entry env ''gitlab'' [''POST'']
       (\<lambda>r. with_body env ''gitlab''
         (\<lambda>body. validate_gitlab (GitLabWebhookToken (wh_cfg env)) (rq_header r ''X-Gitlab-Token''))
         (publish_and_ack env ''gitlab'') r) r ws"

definition handle_teams :: "'st webhook_env \<Rightarrow> 'st handler" where
  "handle_teams env r ws =
     entry env ''teams'' [''GET'', ''POST'']
       (\<lambda>r ws.
          let token = rq_query r ''validationToken''
          in if token \<noteq> ''''
             then (Returned, write_body (Text token)
                     (write_header 200 (set_header ''Content-Type'' ''text/plain'' (fst ws))),
                   wh_observe env ''teams'' 200 (snd ws))
             else with_body env ''teams''
               (\<lambda>body. validate_teams_client_state (TeamsClientState (wh_cfg env)) (rq_header r ''X-Client-State''))
               (publish_and_ack env ''teams'') r ws) r ws"

section \<open>Security records\<close>

definition security_actor_from_request :: "request \<Rightarrow> string" where
  "security_actor_from_request r =
     first_nonempty [trim_space (rq_header r ''X-Operator''), trim_space (rq_header r ''X-User'')] ''''"

end
