(* ===== verification/Security_Audit.thy ===== *)
theory Security_Audit
  imports Line_File Postgres
begin

text \<open>
  Package \<open>securityaudit\<close>: the stream of security events in a file that is pruned to its retention
  period (\<open>file_store.go\<close>) and in a Postgres table (\<open>postgres_store.go\<close>). The codec of the lines, the
  random bytes of the ids and the errors of the file system, the context and the database are
  arguments, as in the stores of failed events. Records carry the instant at which they were taken.
\<close>

record security_record =
  sa_id :: string
  sa_category :: string
  sa_outcome :: string
  sa_source :: string
  sa_reason :: string
  sa_path :: string
  sa_status :: int
  sa_request_id :: string
  sa_actor :: string
  sa_client_ip :: string
  sa_at :: time

record security_input =
  si_category :: string
  si_outcome :: string
  si_source :: string
  si_reason :: string
  si_path :: string
  si_status :: int
  si_request_id :: string
  si_actor :: string
  si_client_ip :: string

type_synonym security_codec = "security_record \<Rightarrow> nat \<times> security_record"

section \<open>The file store\<close>

record security_store =
  ss_retention :: duration
  ss_prune_interval :: duration
  ss_last_pruned :: time
  ss_file :: "security_record line_file"

text \<open>\<open>newFileStore\<close>; the file is the one the path names.\<close>

definition new_security_store ::
  "string \<Rightarrow> int \<Rightarrow> duration \<Rightarrow> security_record line_file \<Rightarrow> security_store result" where
  "new_security_store path days interval file =
     (if trim_space path = '''' then Inl (ErrText ''security audit store path must not be empty'')
      else if days < 1 then
        Inl (ErrText (''security audit retention days must be >= 1, got '' @ itoa days))
      else Inr \<lparr>ss_retention = wrap64 (days * 24 * hour),
                ss_prune_interval = (if interval \<le> 0 then hour else interval),
                ss_last_pruned = zero_time, ss_file = file\<rparr>)"

definition is_expired :: "duration \<Rightarrow> time \<Rightarrow> security_record \<Rightarrow> bool" where
  "is_expired retention now r \<longleftrightarrow> sa_at r < now - retention"

definition new_security_id :: "string result \<Rightarrow> string result" where
  "new_security_id random =
     (case random of
        Inl err \<Rightarrow> Inl (Wrapped ''generate security audit id: '' err)
      | Inr b \<Rightarrow> Inr (''sa_'' @ hex_encode b))"

definition check_security_input :: "security_input \<Rightarrow> goerr option" where
  "check_security_input inp =
     (if trim_space (si_category inp) = '''' then Some (ErrText ''category must not be empty'')
      else if trim_space (si_outcome inp) = '''' then Some (ErrText ''outcome must not be empty'')
      else if trim_space (si_source inp) = '''' then Some (ErrText ''source must not be empty'')
      else if trim_space (si_reason inp) = '''' then Some (ErrText ''reason must not be empty'')
      else if trim_space (si_path inp) = '''' then Some (ErrText ''path must not be empty'')
      else if si_status inp < 100 \<or> si_status inp > 599 then
        Some (ErrText (''http status must be between 100 and 599, got '' @ itoa (si_status inp)))
      else None)"

definition new_record :: "time \<Rightarrow> string result \<Rightarrow> security_input \<Rightarrow> security_record result" where
  "new_record now random inp =
     (case check_security_input inp of
        Some err \<Rightarrow> Inl err
      | None \<Rightarrow>
          (case new_security_id random of
             Inl err \<Rightarrow> Inl err
           | Inr i \<Rightarrow> Inr
               \<lparr>sa_id = i, sa_category = trim_space (si_category inp),
                sa_outcome = trim_space (si_outcome inp), sa_source = trim_space (si_source inp),
                sa_reason = trim_space (si_reason inp), sa_path = trim_space (si_path inp),
                sa_status = si_status inp, sa_request_id = trim_space (si_request_id inp),
                sa_actor = trim_space (si_actor inp), sa_client_ip = trim_space (si_client_ip inp),
                sa_at = now\<rparr>))"

definition read_records :: "store_io \<Rightarrow> security_record line_file \<Rightarrow> security_record list result" where
  "read_records io file =
     (case file of
        None \<Rightarrow> Inr []
      | Some ls \<Rightarrow>
          (case io_open io of
             Some err \<Rightarrow> Inl (Wrapped ''open security audit store: '' err)
           | None \<Rightarrow>
               (case scan_lines ls of (ok, bad) \<Rightarrow>
                  if ok \<noteq> [] \<and> io_ctx io \<noteq> None
                  then Inl (Wrapped ''read security audit records: '' (the (io_ctx io)))
                  else if bad then Inl (Wrapped ''scan security audit store: '' token_too_long)
                  else Inr (decoded ok))))"

text \<open>\<open>pruneExpiredLocked\<close>: at most once per interval, and the file is only replaced when a record has
  expired (or when there is no file yet).\<close>

definition prune_due :: "time \<Rightarrow> security_store \<Rightarrow> bool" where
  "prune_due now s \<longleftrightarrow>
     is_zero_time (ss_last_pruned s) \<or> \<not> time_sub now (ss_last_pruned s) < ss_prune_interval s"

definition prune_expired ::
  "security_codec \<Rightarrow> store_io \<Rightarrow> time \<Rightarrow> security_store \<Rightarrow> goerr option \<times> security_store" where
  "prune_expired enc io now s =
     (if \<not> prune_due now s then (None, s)
      else (case read_records io (ss_file s) of
         Inl err \<Rightarrow> (Some err, s)
       | Inr records \<Rightarrow>
           (let kept = filter (\<lambda>r. \<not> is_expired (ss_retention s) now r) records
            in if length kept = length records \<and> ss_file s \<noteq> None
               then (None, s\<lparr>ss_last_pruned := now\<rparr>)
               else (case io_rewrite io of
                  Some err \<Rightarrow> (Some err, s)
                | None \<Rightarrow> (None, s\<lparr>ss_last_pruned := now, ss_file := Some (map (encode_line enc) kept)\<rparr>)))))"

text \<open>\<open>Save\<close>; \<open>out\<close> is the outcome of the append.\<close>

definition security_save ::
  "security_codec \<Rightarrow> store_io \<Rightarrow> write_outcome \<Rightarrow> time \<Rightarrow> string result \<Rightarrow> security_input
     \<Rightarrow> security_store \<Rightarrow> security_record result \<times> security_store" where
  "security_save enc io out now random inp s =
     (case new_record now random inp of
        Inl err \<Rightarrow> (Inl err, s)
      | Inr r \<Rightarrow>
          (case prune_expired enc io (sa_at r) s of
             (Some err, s1) \<Rightarrow> (Inl err, s1)
           | (None, s1) \<Rightarrow>
               (let s2 = s1\<lparr>ss_file := append_line (encode_line enc r) (ss_file s1)\<rparr>
                in (case out of
                      WriteFails err \<Rightarrow> (Inl (Wrapped ''write security audit record: '' err), s1)
                    | SyncFails err \<Rightarrow> (Inl (Wrapped ''sync security audit store: '' err), s2)
                    | WriteOk \<Rightarrow> (Inr r, s2)))))"

definition security_list_recent ::
  "store_io \<Rightarrow> time \<Rightarrow> int \<Rightarrow> security_store \<Rightarrow> security_record list result" where
  "security_list_recent io now limit s =
     (if limit \<le> 0 then Inl (ErrText ''limit must be > 0'')
      else (case ss_file s of
         None \<Rightarrow> Inr []
       | Some ls \<Rightarrow>
           (case io_open io of
              Some err \<Rightarrow> Inl (Wrapped ''open security audit store: '' err)
            | None \<Rightarrow>
                (case scan_lines ls of (ok, bad) \<Rightarrow>
                   if ok \<noteq> [] \<and> io_ctx io \<noteq> None
                   then Inl (Wrapped ''list recent security audit: '' (the (io_ctx io)))
                   else if bad then Inl (Wrapped ''scan security audit store: '' token_too_long)
                   else Inr (rev (foldl (push_recent (nat limit)) []
                     (filter (\<lambda>r. \<not> is_expired (ss_retention s) now r) (decoded ok))))))))"

section \<open>What the file store promises\<close>

text \<open>The records that are within their retention at an instant.\<close>

definition live_records :: "time \<Rightarrow> security_store \<Rightarrow> security_record list" where
  "live_records t s = filter (\<lambda>r. \<not> is_expired (ss_retention s) t r) (file_events (ss_file s))"

text \<open>What is asked of the codec for a record: its line fits the scanner, its instant survives, and
  encoding what was read back changes nothing more.\<close>

definition stable_record :: "security_codec \<Rightarrow> security_record \<Rightarrow> bool" where
  "stable_record enc r \<longleftrightarrow>
     fst (enc r) < max_line \<and> sa_at (snd (enc r)) = sa_at r
     \<and> enc (snd (enc r)) = (fst (enc r), snd (enc r))"

definition store_ok :: "security_codec \<Rightarrow> security_store \<Rightarrow> bool" where
  "store_ok enc s \<longleftrightarrow> readable (ss_file s)
     \<and> (\<forall>r \<in> set (file_events (ss_file s)). fst (enc r) < max_line \<and> snd (enc r) = r)"

lemma expired_mono: "is_expired d now r \<Longrightarrow> now \<le> t \<Longrightarrow> is_expired d t r"
  by (simp add: is_expired_def)

lemma file_events_rewritten:
  "(\<And>r. r \<in> set rs \<Longrightarrow> snd (enc r) = r) \<Longrightarrow> file_events (Some (map (encode_line enc) rs)) = rs"
  by (simp add: file_events_def file_lines_def map_idI)

lemma readable_rewritten:
  "(\<And>r. r \<in> set rs \<Longrightarrow> fst (enc r) < max_line) \<Longrightarrow> readable (Some (map (encode_line enc) rs))"
  by (auto simp: readable_def file_lines_def encode_line_def list_all_iff)

lemma file_events_append:
  "file_events (append_line (encode_line enc r) f) = file_events f @ [snd (enc r)]"
  by (simp add: file_events_def) (simp add: decoded_def encode_line_def)

lemma read_records_ok: "readable f \<Longrightarrow> read_records io_ok f = Inr (file_events f)"
  using scan_lines_ok [of "file_lines f"]
  by (auto simp: read_records_def readable_def file_events_def file_lines_def decoded_def
      split: option.splits)

lemma prune_spec:
  assumes "store_ok enc s"
  shows "\<exists>s1. prune_expired enc io_ok now s = (None, s1) \<and> store_ok enc s1
    \<and> ss_retention s1 = ss_retention s
    \<and> (\<forall>t \<ge> now. live_records t s1 = live_records t s)
    \<and> (prune_due now s \<longrightarrow> (\<forall>r \<in> set (file_events (ss_file s1)). \<not> is_expired (ss_retention s) now r))"
proof -
  let ?rs = "file_events (ss_file s)"
  let ?kept = "filter (\<lambda>r. \<not> is_expired (ss_retention s) now r) ?rs"
  have rd: "read_records io_ok (ss_file s) = Inr ?rs"
    using assms by (simp add: store_ok_def read_records_ok)
  have same: "?kept = ?rs" if "length ?kept = length ?rs"
    using that by (metis (no_types, lifting) filter_True length_filter_less less_irrefl)
  have ev: "file_events (Some (map (encode_line enc) ?kept)) = ?kept"
    using assms by (intro file_events_rewritten) (auto simp: store_ok_def)
  have ok: "readable (Some (map (encode_line enc) ?kept))"
    using assms by (intro readable_rewritten) (auto simp: store_ok_def)
  have live: "filter (\<lambda>r. \<not> is_expired (ss_retention s) t r) ?kept = live_records t s" if "now \<le> t" for t
    using that expired_mono [of "ss_retention s" now _ t]
    by (auto simp: live_records_def intro: filter_cong)
  consider "\<not> prune_due now s" | "prune_due now s" "length ?kept = length ?rs" "ss_file s \<noteq> None"
    | "prune_due now s" "length ?kept \<noteq> length ?rs \<or> ss_file s = None" by blast
  then show ?thesis
  proof cases
    case 1
    with assms show ?thesis by (simp add: prune_expired_def)
  next
    case 2
    then have "prune_expired enc io_ok now s = (None, s\<lparr>ss_last_pruned := now\<rparr>)"
      by (simp add: prune_expired_def rd)
    moreover have "\<forall>r \<in> set ?rs. \<not> is_expired (ss_retention s) now r" using same [OF 2(2)] by (metis filter_id_conv)
    ultimately show ?thesis using assms by (simp add: store_ok_def live_records_def)
  next
    case 3
    then have p: "prune_expired enc io_ok now s
        = (None, s\<lparr>ss_last_pruned := now, ss_file := Some (map (encode_line enc) ?kept)\<rparr>)"
      by (auto simp: prune_expired_def rd)
    show ?thesis
      unfolding p using assms ev ok live by (auto simp: store_ok_def live_records_def)
  qed
qed

lemma security_list_live:
  assumes "readable (ss_file s)" and "0 < limit"
  shows "security_list_recent io_ok t limit s = Inr (rev (last_n (nat limit) (live_records t s)))"
  using assms scan_lines_ok [of "file_lines (ss_file s)"]
  by (auto simp: security_list_recent_def readable_def file_lines_def live_records_def file_events_def
      push_recent_last_n decoded_def last_n_def split: option.splits)

text \<open>A series of saves, and the log of what they returned.\<close>

record save_call =
  sc_now :: time
  sc_random :: "string result"
  sc_out :: write_outcome
  sc_input :: security_input

definition save_call_step ::
  "security_codec \<Rightarrow> security_store \<times> security_record list \<Rightarrow> save_call
     \<Rightarrow> security_store \<times> security_record list" where
  "save_call_step enc sl c =
     (case sl of (s, log) \<Rightarrow>
        (case security_save enc io_ok (sc_out c) (sc_now c) (sc_random c) (sc_input c) s of
           (Inl err, s') \<Rightarrow> (s', log)
         | (Inr r, s') \<Rightarrow> (s', log @ [r])))"

definition save_calls ::
  "security_codec \<Rightarrow> save_call list \<Rightarrow> security_store \<Rightarrow> security_store \<times> security_record list" where
  "save_calls enc cs s = foldl (save_call_step enc) (s, []) cs"

definition log_view :: "security_codec \<Rightarrow> duration \<Rightarrow> time \<Rightarrow> security_record list \<Rightarrow> security_record list" where
  "log_view enc d t log = filter (\<lambda>r. \<not> is_expired d t r) (map (\<lambda>r. snd (enc r)) log)"

lemma save_call_step_spec:
  assumes "save_call_step enc (s, log) c = (s', log')" and "store_ok enc s"
    and "\<forall>r \<in> set log'. stable_record enc r" and "\<forall>err. sc_out c \<noteq> SyncFails err"
    and "\<forall>t \<ge> u. live_records t s = log_view enc (ss_retention s) t log" and "u \<le> sc_now c"
  shows "store_ok enc s' \<and> ss_retention s' = ss_retention s
    \<and> (\<forall>t \<ge> sc_now c. live_records t s' = log_view enc (ss_retention s) t log')"
proof (cases "new_record (sc_now c) (sc_random c) (sc_input c)")
  case (Inl err)
  then show ?thesis using assms by (simp add: save_call_step_def security_save_def)
next
  case (Inr r)
  then have at: "sa_at r = sc_now c" by (auto simp: new_record_def split: option.splits sum.splits)
  obtain s1 where p: "prune_expired enc io_ok (sc_now c) s = (None, s1)" "store_ok enc s1"
      "ss_retention s1 = ss_retention s" "\<And>t. sc_now c \<le> t \<Longrightarrow> live_records t s1 = live_records t s"
    using prune_spec [OF assms(2), of "sc_now c"] by blast
  let ?s2 = "s1\<lparr>ss_file := append_line (encode_line enc r) (ss_file s1)\<rparr>"
  from assms(1,4) Inr at p(1)
  consider "s' = s1" "log' = log" | "s' = ?s2" "log' = log @ [r]"
    by (cases "sc_out c") (auto simp: save_call_step_def security_save_def Let_def)
  then show ?thesis
  proof cases
    case 1
    with p assms(5,6) show ?thesis by simp
  next
    case 2
    then have st: "stable_record enc r" using assms(3) by simp
    have fl: "fl_bytes (encode_line enc r) = fst (enc r)" by (simp add: encode_line_def)
    have "store_ok enc ?s2"
      using p(2) st fl by (auto simp: store_ok_def stable_record_def readable_def file_events_append)
    moreover have "live_records t ?s2 = log_view enc (ss_retention s) t (log @ [r])" if "sc_now c \<le> t" for t
      using p(3) p(4) [OF that] assms(5,6) that
      by (simp add: live_records_def log_view_def file_events_append)
    ultimately show ?thesis using 2 p(3) by simp
  qed
qed

lemma save_calls_log: "set log \<subseteq> set (snd (foldl (save_call_step enc) (s, log) cs))"
proof (induction cs arbitrary: s log)
  case (Cons c cs)
  obtain s' log' where c: "save_call_step enc (s, log) c = (s', log')" by fastforce
  then have "set log \<subseteq> set log'" by (auto simp: save_call_step_def split: prod.splits sum.splits)
  with Cons.IH [of log' s'] c show ?case by simp
qed simp

lemma save_calls_spec:
  assumes "foldl (save_call_step enc) (s, log) cs = (s', log')" and "store_ok enc s"
    and "\<forall>r \<in> set log'. stable_record enc r" and "\<forall>c \<in> set cs. \<forall>err. sc_out c \<noteq> SyncFails err"
    and "\<forall>t \<ge> u. live_records t s = log_view enc (ss_retention s) t log"
    and "sorted (u # map sc_now cs)"
  shows "store_ok enc s' \<and> ss_retention s' = ss_retention s
    \<and> (\<forall>t \<ge> last (u # map sc_now cs). live_records t s' = log_view enc (ss_retention s) t log')"
  using assms
proof (induction cs arbitrary: s log u)
  case (Cons c cs)
  obtain s1 log1 where c: "save_call_step enc (s, log) c = (s1, log1)" by fastforce
  have log1: "\<forall>r \<in> set log1. stable_record enc r"
    using save_calls_log [of log1 enc s1 cs] Cons.prems(1,3) c by auto
  note step = save_call_step_spec [OF c Cons.prems(2) log1 _ Cons.prems(5)]
  have "store_ok enc s1 \<and> ss_retention s1 = ss_retention s
      \<and> (\<forall>t \<ge> sc_now c. live_records t s1 = log_view enc (ss_retention s) t log1)"
    using step Cons.prems(4,6) by simp
  with Cons.IH [of s1 log1 "sc_now c"] Cons.prems(1,3,4,6) c show ?case by (simp split: if_splits)
qed simp

text \<open>
  C1: The audit file is a faithful log with retention. After any series of saves in the order of time
  (some of which may be refused or fail to write), \<open>ListRecent\<close> returns the newest \<open>limit\<close> of the
  records saved so far that are within their retention, newest first: pruning never loses one of them,
  and nothing expired is shown.
\<close>

theorem audit_history:
  assumes "new_security_store path days interval None = Inr s0"
    and "save_calls enc cs s0 = (s, log)"
    and "sorted (map sc_now cs)" and "\<forall>c \<in> set cs. sc_now c \<le> t"
    and "\<forall>c \<in> set cs. \<forall>err. sc_out c \<noteq> SyncFails err"
    and "\<forall>r \<in> set log. stable_record enc r" and "0 < limit"
  shows "security_list_recent io_ok t limit s
    = Inr (rev (last_n (nat limit) (log_view enc (ss_retention s0) t log)))"
proof -
  let ?u = "Min (set (t # map sc_now cs))"
  have s0: "store_ok enc s0" "\<forall>t \<ge> ?u. live_records t s0 = log_view enc (ss_retention s0) t []"
    using assms(1)
    by (auto simp: new_security_store_def store_ok_def readable_def file_lines_def file_events_def
        decoded_def live_records_def log_view_def split: if_splits)
  have srt: "sorted (?u # map sc_now cs)" using assms(3) by simp
  have "last (?u # map sc_now cs) \<le> t"
    using assms(4) by (cases "cs = []") (auto simp: last_map)
  with save_calls_spec [OF assms(2) [unfolded save_calls_def] s0(1) assms(6,5) s0(2) srt]
  have "store_ok enc s" "live_records t s = log_view enc (ss_retention s0) t log" by auto
  with security_list_live [of s limit t] assms(7) show ?thesis by (simp add: store_ok_def)
qed

definition demo_security_input :: security_input where
  "demo_security_input =
     \<lparr>si_category = ''request_rejected'', si_outcome = ''rejected'', si_source = ''admin'',
      si_reason = ''admin_jwt_missing'', si_path = ''/admin/configz'', si_status = 401,
      si_request_id = ''r1'', si_actor = '''', si_client_ip = ''10.0.0.1''\<rparr>"

definition demo_save_at :: "time \<Rightarrow> save_call" where
  "demo_save_at t = \<lparr>sc_now = t, sc_random = Inr ''x'', sc_out = WriteOk, sc_input = demo_security_input\<rparr>"

definition plain_codec :: security_codec where
  "plain_codec r = (300, r)"

lemma demo_security_record:
  "new_record t (Inr ''x'') demo_security_input = Inr
     \<lparr>sa_id = ''sa_78'', sa_category = ''request_rejected'', sa_outcome = ''rejected'',
      sa_source = ''admin'', sa_reason = ''admin_jwt_missing'', sa_path = ''/admin/configz'',
      sa_status = 401, sa_request_id = ''r1'', sa_actor = '''', sa_client_ip = ''10.0.0.1'', sa_at = t\<rparr>"
proof -
  have "trim_space ''request_rejected'' = ''request_rejected'' \<and> trim_space ''rejected'' = ''rejected''
      \<and> trim_space ''admin'' = ''admin'' \<and> trim_space ''admin_jwt_missing'' = ''admin_jwt_missing''
      \<and> trim_space ''/admin/configz'' = ''/admin/configz'' \<and> trim_space ''r1'' = ''r1''
      \<and> trim_space ''10.0.0.1'' = ''10.0.0.1'' \<and> hex_encode ''x'' = ''78''"
    by code_simp
  then show ?thesis
    by (simp add: new_record_def check_security_input_def new_security_id_def demo_security_input_def)
qed

definition demo_security_store :: security_store where
  "demo_security_store =
     \<lparr>ss_retention = 24 * hour, ss_prune_interval = hour, ss_last_pruned = zero_time, ss_file = None\<rparr>"

lemma demo_new_store: "new_security_store ''audit'' 1 hour None = Inr demo_security_store"
proof -
  have "trim_space ''audit'' = ''audit''" by code_simp
  then show ?thesis
    by (simp add: new_security_store_def demo_security_store_def duration_units in_int64_def
        int64_min_def int64_max_def)
qed

lemma demo_log:
  "map sa_at (snd (save_calls plain_codec [demo_save_at 0, demo_save_at (30 * hour)] demo_security_store))
     = [0, 30 * hour]"
  by (simp add: save_calls_def save_call_step_def security_save_def demo_save_at_def
      demo_security_record demo_security_store_def prune_expired_def prune_due_def is_zero_time_def
      read_records_def plain_codec_def append_line_def encode_line_def is_expired_def zero_time_def
      time_sub_def int64_min_def int64_max_def max_line_def decoded_def duration_units Let_def)

text \<open>Two records thirty hours apart with a retention of one day: only the second is listed.\<close>

theorem audit_history_witness:
  "case save_calls plain_codec [demo_save_at 0, demo_save_at (30 * hour)] demo_security_store of
     (s, log) \<Rightarrow> (case security_list_recent io_ok (30 * hour) 10 s of
        Inl err \<Rightarrow> False | Inr rs \<Rightarrow> map sa_at rs = [30 * hour])"
proof -
  obtain s log where sl: "save_calls plain_codec [demo_save_at 0, demo_save_at (30 * hour)]
      demo_security_store = (s, log)" by fastforce
  then have log: "map sa_at log = [0, 30 * hour]" using demo_log by simp
  then obtain a b where ab: "log = [a, b]" "sa_at a = 0" "sa_at b = 30 * hour" by auto
  have "security_list_recent io_ok (30 * hour) 10 s
      = Inr (rev (last_n (nat 10) (log_view plain_codec (ss_retention demo_security_store) (30 * hour) log)))"
    by (rule audit_history [OF demo_new_store sl])
      (auto simp: demo_save_at_def stable_record_def plain_codec_def max_line_def duration_units)
  with sl ab show ?thesis
    by (simp add: log_view_def is_expired_def demo_security_store_def plain_codec_def last_n_def
        duration_units)
qed

section \<open>The Postgres store\<close>

type_synonym security_table = "security_record list"

definition pg_security_record :: "time \<Rightarrow> string result \<Rightarrow> security_input \<Rightarrow> security_record" where
  "pg_security_record now random inp =
     \<lparr>sa_id = pg_generate_id now random, sa_category = si_category inp, sa_outcome = si_outcome inp,
      sa_source = si_source inp, sa_reason = si_reason inp, sa_path = si_path inp,
      sa_status = si_status inp, sa_request_id = si_request_id inp, sa_actor = si_actor inp,
      sa_client_ip = si_client_ip inp, sa_at = now\<rparr>"

definition security_columns :: "security_record \<Rightarrow> (nat option \<times> string) list" where
  "security_columns r =
     [(Some 64, sa_id r), (Some 50, sa_category r), (Some 50, sa_outcome r), (Some 255, sa_source r),
      (None, sa_reason r), (None, sa_path r), (Some 64, sa_request_id r), (Some 255, sa_actor r),
      (Some 255, sa_client_ip r)]"

definition pg_security_save ::
  "goerr option \<Rightarrow> time \<Rightarrow> string result \<Rightarrow> security_input \<Rightarrow> security_table
     \<Rightarrow> security_record result \<times> security_table" where
  "pg_security_save db now random inp tb =
     (let r = pg_security_record now random inp
      in (case insert_error db (security_columns r) (sa_id r \<in> sa_id ` set tb) of
            Some err \<Rightarrow> (Inl (Wrapped ''failed to save security audit to postgres: '' err), tb)
          | None \<Rightarrow> (Inr r, tb @ [r\<lparr>sa_at := pg_timestamp now\<rparr>])))"

definition pg_security_list_recent ::
  "goerr option \<Rightarrow> int \<Rightarrow> security_table \<Rightarrow> security_record list result" where
  "pg_security_list_recent db limit tb =
     (case db of
        Some err \<Rightarrow> Inl (Wrapped ''list security audits from postgres: '' err)
      | None \<Rightarrow> Inr (take (nat (clamp_limit 100 limit)) (sort_key (\<lambda>r. - sa_at r) tb)))"

lemma pg_security_save_iff:
  "fst (pg_security_save db now random inp tb) = Inr r \<longleftrightarrow>
     db = None \<and> r = pg_security_record now random inp \<and> list_all column_ok (security_columns r)
     \<and> sa_id r \<notin> sa_id ` set tb"
proof -
  let ?r = "pg_security_record now random inp"
  have "fst (pg_security_save db now random inp tb) = Inr r \<longleftrightarrow>
      insert_error db (security_columns ?r) (sa_id ?r \<in> sa_id ` set tb) = None \<and> r = ?r"
    by (auto simp: pg_security_save_def Let_def split: option.splits)
  then show ?thesis by (auto simp: insert_error_None)
qed

lemma pg_security_refused:
  assumes "\<not> pg_varchar 64 (si_request_id inp) \<or> \<not> pg_varchar 255 (si_source inp)
    \<or> \<not> pg_varchar 255 (si_actor inp) \<or> \<not> pg_text (si_path inp)"
  shows "is_err (fst (pg_security_save db now random inp tb))
    \<and> snd (pg_security_save db now random inp tb) = tb"
proof -
  have "insert_error db (security_columns (pg_security_record now random inp)) taken \<noteq> None" for taken
    using assms by (auto simp: insert_error_None security_columns_def pg_security_record_def)
  then show ?thesis by (auto simp: pg_security_save_def Let_def split: option.splits)
qed

text \<open>A line that does not fit the scanner stops the file store: nothing is listed any more, and every
  save after which a pruning is due fails.\<close>

lemma long_record_stops_audit:
  assumes "list_ex (\<lambda>l. max_line \<le> fl_bytes l) (file_lines (ss_file s))"
  shows "0 < limit \<Longrightarrow> is_err (security_list_recent io_ok t limit s)"
    and "prune_due now s \<Longrightarrow> is_err (fst (security_save enc io_ok out now rnd inp s))"
proof -
  obtain ls ok where f: "ss_file s = Some ls" "scan_lines ls = (ok, True)"
    using assms by (cases "ss_file s") (auto simp: file_lines_def scan_lines_spec)
  show "0 < limit \<Longrightarrow> is_err (security_list_recent io_ok t limit s)"
    using f by (simp add: security_list_recent_def)
  have "prune_due now s \<Longrightarrow> \<exists>e. prune_expired enc io_ok now s = (Some e, s)"
    using f by (simp add: prune_expired_def read_records_def)
  moreover have "sa_at r = now" if "new_record now rnd inp = Inr r" for r
    using that by (auto simp: new_record_def split: option.splits sum.splits)
  ultimately show "prune_due now s \<Longrightarrow> is_err (fst (security_save enc io_ok out now rnd inp s))"
    by (auto simp: security_save_def split: sum.splits)
qed

end
