(* ===== verification/Config_Watch.thy ===== *)
theory Config_Watch
  imports Config Errors
begin

text \<open>
  \<open>config/watcher.go\<close>: parsing a configuration file (\<open>ParseConfig\<close>, \<open>LoadFromMap\<close>), comparing
  configurations and the reload step of the file watcher; and the feature flags of
  \<open>config/flags.go\<close>. A reload is given the text the file had, or \<open>None\<close> when it could not be read;
  the file-system events themselves come from \<open>fsnotify\<close> and are arguments.
\<close>

section \<open>Loading from a file\<close>

definition add_config_line :: "(string \<rightharpoonup> string) \<Rightarrow> string \<Rightarrow> (string \<rightharpoonup> string)" where
  "add_config_line m raw =
     (let line = trim_space raw
      in if line = '''' \<or> has_prefix line ''#'' then m
         else (case split_first CHR ''='' line of
                 (_, None) \<Rightarrow> m
               | (k, Some v) \<Rightarrow> m(trim_space k \<mapsto> trim_space v)))"

definition parse_overrides :: "string \<Rightarrow> (string \<rightharpoonup> string)" where
  "parse_overrides text = foldl add_config_line Map.empty (split_on CHR 0x0A text)"

definition map_get :: "(string \<rightharpoonup> string) \<Rightarrow> string \<Rightarrow> string \<Rightarrow> string" where
  "map_get m key fallback =
     (case m key of Some v \<Rightarrow> if v \<noteq> '''' then v else fallback | None \<Rightarrow> fallback)"

definition map_get_env :: "(string \<rightharpoonup> string) \<Rightarrow> (string \<Rightarrow> string) \<Rightarrow> string \<Rightarrow> string" where
  "map_get_env m env key = (case m key of Some v \<Rightarrow> v | None \<Rightarrow> env key)"

definition map_get_int :: "(string \<rightharpoonup> string) \<Rightarrow> string \<Rightarrow> int \<Rightarrow> int" where
  "map_get_int m key fallback =
     (case m key of
        Some v \<Rightarrow> if v \<noteq> '''' then (case atoi v of Some n \<Rightarrow> n | None \<Rightarrow> fallback) else fallback
      | None \<Rightarrow> fallback)"

definition map_get_bool :: "(string \<rightharpoonup> string) \<Rightarrow> string \<Rightarrow> bool \<Rightarrow> bool" where
  "map_get_bool m key fallback =
     (case m key of
        Some v \<Rightarrow>
          if v \<noteq> '''' then
            (let w = to_lower (trim_space v)
             in if w \<in> set truthy then True else if w \<in> set falsy then False else fallback)
          else fallback
      | None \<Rightarrow> fallback)"

definition map_get_float ::
  "(string \<Rightarrow> float_value option) \<Rightarrow> (string \<rightharpoonup> string) \<Rightarrow> string \<Rightarrow> float_value \<Rightarrow> float_value" where
  "map_get_float parse_float m key fallback =
     (case m key of
        Some v \<Rightarrow> if v \<noteq> '''' then (case parse_float v of Some f \<Rightarrow> f | None \<Rightarrow> fallback) else fallback
      | None \<Rightarrow> fallback)"

definition map_get_csv :: "(string \<rightharpoonup> string) \<Rightarrow> (string \<Rightarrow> string) \<Rightarrow> string \<Rightarrow> string list" where
  "map_get_csv m env key =
     (case m key of
        Some v \<Rightarrow>
          (let w = trim_space v
           in if w = '''' then []
              else if split_csv w \<noteq> [] then split_csv w else split_csv_env env key)
      | None \<Rightarrow> split_csv_env env key)"

definition load_from_map ::
  "(string \<Rightarrow> float_value option) \<Rightarrow> (string \<Rightarrow> string) \<Rightarrow> (string \<rightharpoonup> string) \<Rightarrow> config" where
  "load_from_map parse_float env m =
     \<lparr>Environment = map_get m ''ENVIRONMENT'' ''dev'',
      Port = map_get m ''PORT'' ''8080'',
      SlackSigningSecret = map_get_env m env ''SLACK_SIGNING_SECRET'',
      GitHubWebhookSecret = map_get_env m env ''GITHUB_WEBHOOK_SECRET'',
      GitLabWebhookToken = map_get_env m env ''GITLAB_WEBHOOK_TOKEN'',
      TeamsClientState = map_get_env m env ''TEAMS_CLIENT_STATE'',
      QueueBuffer = map_get_int m ''QUEUE_BUFFER'' 4096,
      QueueWorkers = map_get_int m ''QUEUE_WORKERS'' 1,
      QueueBulkheadEnabled = map_get_bool m ''QUEUE_BULKHEAD_ENABLED'' False,
      QueueBulkheadBufferPerSource = map_get_int m ''QUEUE_BULKHEAD_BUFFER_PER_SOURCE'' 1024,
      RequestTimeoutSec = map_get_int m ''REQUEST_TIMEOUT_SEC'' 15,
      RequireSecrets = map_get_bool m ''REQUIRE_SECRETS'' True,
      QueueBackend = map_get m ''QUEUE_BACKEND'' ''log'',
      PubSubProjectID = map_get_env m env ''PUBSUB_PROJECT_ID'',
      PubSubTopicID = map_get_env m env ''PUBSUB_TOPIC_ID'',
      AdminAuthEnabled = map_get_bool m ''ADMIN_AUTH_ENABLED'' True,
      AdminJWTIssuer = map_get_env m env ''ADMIN_JWT_ISSUER'',
      AdminJWTAudience = map_get_env m env ''ADMIN_JWT_AUDIENCE'',
      AdminJWTSecret = map_get_env m env ''ADMIN_JWT_SECRET'',
      AdminAllowCIDRs = map_get_csv m env ''ADMIN_ALLOW_CIDRS'',
      TrustedProxyCIDRs = map_get_csv m env ''TRUSTED_PROXY_CIDRS'',
      RateLimitEnabled = map_get_bool m ''RATE_LIMIT_ENABLED'' True,
      RateLimitRPM = map_get_int m ''RATE_LIMIT_RPM'' 300,
      AdminRateLimitRPM = map_get_int m ''ADMIN_RATE_LIMIT_RPM'' 60,
      DedupEnabled = map_get_bool m ''DEDUP_ENABLED'' True,
      DedupTTLSeconds = map_get_int m ''DEDUP_TTL_SEC'' 300,
      RedisAddr = map_get_env m env ''REDIS_ADDR'',
      RedisPassword = map_get_env m env ''REDIS_PASSWORD'',
      RedisDB = map_get_int m ''REDIS_DB'' 0,
      DedupRedisPrefix = map_get m ''DEDUP_REDIS_PREFIX'' ''webhook_dedup'',
      FailedStoreEnabled = map_get_bool m ''FAILED_EVENT_STORE_ENABLED'' True,
      FailedStorePath = map_get m ''FAILED_EVENT_STORE_PATH'' ''data/failed-events.jsonl'',
      DatabaseURL = map_get_env m env ''DATABASE_URL'',
      ReplayAuditEnabled = map_get_bool m ''REPLAY_AUDIT_ENABLED'' True,
      ReplayAuditPath = map_get m ''REPLAY_AUDIT_PATH'' ''data/replay-audit.jsonl'',
      SecurityAuditEnabled = map_get_bool m ''SECURITY_AUDIT_ENABLED'' True,
      SecurityAuditPath = map_get m ''SECURITY_AUDIT_PATH'' ''data/security-audit.jsonl'',
      SecurityAuditRetentionDays = map_get_int m ''SECURITY_AUDIT_RETENTION_DAYS'' 30,
      QueueBackpressureEnabled = map_get_bool m ''QUEUE_BACKPRESSURE_ENABLED'' True,
      QueueBackpressureSoftLimitPercent = map_get_int m ''QUEUE_BACKPRESSURE_SOFT_LIMIT_PERCENT'' 70,
      QueueBackpressureHardLimitPercent = map_get_int m ''QUEUE_BACKPRESSURE_HARD_LIMIT_PERCENT'' 90,
      QueueFailureBudgetPercent = map_get_int m ''QUEUE_FAILURE_BUDGET_PERCENT'' 15,
      QueueFailureBudgetWindow = map_get_int m ''QUEUE_FAILURE_BUDGET_WINDOW'' 100,
      QueueFailureBudgetMinSamples = map_get_int m ''QUEUE_FAILURE_BUDGET_MIN_SAMPLES'' 20,
      QueueThrottleRetryAfterSec = map_get_int m ''QUEUE_THROTTLE_RETRY_AFTER_SEC'' 5,
      SourceRateLimitEnabled = map_get_bool m ''SOURCE_RATE_LIMIT_ENABLED'' True,
      SourceRateLimits = parse_source_rate_limits (map_get_env m env ''SOURCE_RATE_LIMITS''),
      SourceRateLimitDefault = map_get_int m ''SOURCE_RATE_LIMIT_DEFAULT'' 100,
      SchemaValidationEnabled = map_get_bool m ''SCHEMA_VALIDATION_ENABLED'' True,
      SchemaPath = map_get m ''SCHEMA_PATH'' ''internal/schema/schemas'',
      RetryEnabled = map_get_bool m ''RETRY_ENABLED'' False,
      RetryMaxAttempts = map_get_int m ''RETRY_MAX_ATTEMPTS'' 3,
      RetryIntervalSec = map_get_int m ''RETRY_INTERVAL_SEC'' 10,
      PubSubPublishTimeoutSec = map_get_int m ''PUBSUB_PUBLISH_TIMEOUT_SEC'' 5,
      PubSubPublishGoroutines = map_get_int m ''PUBSUB_PUBLISH_GOROUTINES'' 0,
      PubSubMaxOutstandingMessages = map_get_int m ''PUBSUB_MAX_OUTSTANDING_MESSAGES'' 0,
      PubSubMaxOutstandingBytes = map_get_int m ''PUBSUB_MAX_OUTSTANDING_BYTES'' 0,
      PubSubFlowControlBehavior = map_get m ''PUBSUB_FLOW_CONTROL_BEHAVIOR'' ''ignore'',
      RateLimitBackend = map_get m ''RATE_LIMIT_BACKEND'' ''memory'',
      RateLimitRedisPrefix = map_get m ''RATE_LIMIT_REDIS_PREFIX'' ''rate_limit'',
      PIIScrubbingEnabled = map_get_bool m ''PII_SCRUBBING_ENABLED'' False,
      LogLevel = map_get m ''LOG_LEVEL'' ''info'',
      ChaosEnabled = map_get_bool m ''CHAOS_ENABLED'' False,
      ChaosErrorRate = map_get_float parse_float m ''CHAOS_ERROR_RATE'' (Finite 0),
      ChaosLatencyRate = map_get_float parse_float m ''CHAOS_LATENCY_RATE'' (Finite 0),
      ChaosLatencyMinMs = map_get_int m ''CHAOS_LATENCY_MIN_MS'' 100,
      ChaosLatencyMaxMs = map_get_int m ''CHAOS_LATENCY_MAX_MS'' 500\<rparr>"

definition parse_config ::
  "(string \<Rightarrow> float_value option) \<Rightarrow> (string \<Rightarrow> string) \<Rightarrow> string \<Rightarrow> config" where
  "parse_config parse_float env text = load_from_map parse_float env (parse_overrides text)"

section \<open>Comparing configurations\<close>

text \<open>\<open>maps.Equal\<close>.\<close>

definition maps_equal :: "(string \<times> int) list \<Rightarrow> (string \<times> int) list \<Rightarrow> bool" where
  "maps_equal a b \<longleftrightarrow> length a = length b \<and> list_all (\<lambda>(k, v). map_of b k = Some v) a"

definition configs_equal :: "config \<Rightarrow> config \<Rightarrow> bool" where
  "configs_equal a b \<longleftrightarrow>
     Environment a = Environment b \<and>
     Port a = Port b \<and>
     QueueBackend a = QueueBackend b \<and>
     QueueBuffer a = QueueBuffer b \<and>
     QueueWorkers a = QueueWorkers b \<and>
     QueueBulkheadEnabled a = QueueBulkheadEnabled b \<and>
     QueueBulkheadBufferPerSource a = QueueBulkheadBufferPerSource b \<and>
     QueueBackpressureEnabled a = QueueBackpressureEnabled b \<and>
     QueueBackpressureSoftLimitPercent a = QueueBackpressureSoftLimitPercent b \<and>
     QueueBackpressureHardLimitPercent a = QueueBackpressureHardLimitPercent b \<and>
     QueueFailureBudgetPercent a = QueueFailureBudgetPercent b \<and>
     QueueFailureBudgetWindow a = QueueFailureBudgetWindow b \<and>
     QueueFailureBudgetMinSamples a = QueueFailureBudgetMinSamples b \<and>
     QueueThrottleRetryAfterSec a = QueueThrottleRetryAfterSec b \<and>
     RequestTimeoutSec a = RequestTimeoutSec b \<and>
     RequireSecrets a = RequireSecrets b \<and>
     RateLimitEnabled a = RateLimitEnabled b \<and>
     RateLimitRPM a = RateLimitRPM b \<and>
     AdminRateLimitRPM a = AdminRateLimitRPM b \<and>
     RateLimitBackend a = RateLimitBackend b \<and>
     RateLimitRedisPrefix a = RateLimitRedisPrefix b \<and>
     DedupEnabled a = DedupEnabled b \<and>
     DedupTTLSeconds a = DedupTTLSeconds b \<and>
     DedupRedisPrefix a = DedupRedisPrefix b \<and>
     SchemaValidationEnabled a = SchemaValidationEnabled b \<and>
     SchemaPath a = SchemaPath b \<and>
     RetryEnabled a = RetryEnabled b \<and>
     RetryMaxAttempts a = RetryMaxAttempts b \<and>
     RetryIntervalSec a = RetryIntervalSec b \<and>
     SourceRateLimitEnabled a = SourceRateLimitEnabled b \<and>
     SourceRateLimitDefault a = SourceRateLimitDefault b \<and>
     PIIScrubbingEnabled a = PIIScrubbingEnabled b \<and>
     AdminAuthEnabled a = AdminAuthEnabled b \<and>
     FailedStoreEnabled a = FailedStoreEnabled b \<and>
     FailedStorePath a = FailedStorePath b \<and>
     ReplayAuditEnabled a = ReplayAuditEnabled b \<and>
     ReplayAuditPath a = ReplayAuditPath b \<and>
     SecurityAuditEnabled a = SecurityAuditEnabled b \<and>
     SecurityAuditPath a = SecurityAuditPath b \<and>
     SecurityAuditRetentionDays a = SecurityAuditRetentionDays b \<and>
     RedisAddr a = RedisAddr b \<and>
     RedisPassword a = RedisPassword b \<and>
     RedisDB a = RedisDB b \<and>
     DatabaseURL a = DatabaseURL b \<and>
     PubSubProjectID a = PubSubProjectID b \<and>
     PubSubTopicID a = PubSubTopicID b \<and>
     PubSubPublishTimeoutSec a = PubSubPublishTimeoutSec b \<and>
     PubSubPublishGoroutines a = PubSubPublishGoroutines b \<and>
     PubSubMaxOutstandingMessages a = PubSubMaxOutstandingMessages b \<and>
     PubSubMaxOutstandingBytes a = PubSubMaxOutstandingBytes b \<and>
     PubSubFlowControlBehavior a = PubSubFlowControlBehavior b \<and>
     AdminJWTSecret a = AdminJWTSecret b \<and>
     AdminJWTIssuer a = AdminJWTIssuer b \<and>
     AdminJWTAudience a = AdminJWTAudience b \<and>
     SlackSigningSecret a = SlackSigningSecret b \<and>
     GitHubWebhookSecret a = GitHubWebhookSecret b \<and>
     GitLabWebhookToken a = GitLabWebhookToken b \<and>
     TeamsClientState a = TeamsClientState b \<and>
     ChaosEnabled a = ChaosEnabled b \<and>
     fv_eq (ChaosErrorRate a) (ChaosErrorRate b) \<and>
     fv_eq (ChaosLatencyRate a) (ChaosLatencyRate b) \<and>
     ChaosLatencyMinMs a = ChaosLatencyMinMs b \<and>
     ChaosLatencyMaxMs a = ChaosLatencyMaxMs b \<and>
     AdminAllowCIDRs a = AdminAllowCIDRs b \<and>
     TrustedProxyCIDRs a = TrustedProxyCIDRs b \<and>
     maps_equal (SourceRateLimits a) (SourceRateLimits b)"

section \<open>The watcher\<close>

record watcher =
  wt_current :: config
  wt_stopped :: bool

definition new_watcher :: "config \<Rightarrow> watcher" where
  "new_watcher cfg = \<lparr>wt_current = cfg, wt_stopped = False\<rparr>"

text \<open>\<open>reload\<close>, with the configuration passed to \<open>onChange\<close> if it is called.\<close>

definition watcher_reload ::
  "(string \<Rightarrow> float_value option) \<Rightarrow> (string \<Rightarrow> string) \<Rightarrow> string option \<Rightarrow> watcher
     \<Rightarrow> watcher \<times> config option" where
  "watcher_reload parse_float env text w =
     (case text of
        None \<Rightarrow> (w, None)
      | Some t \<Rightarrow>
          (let new = parse_config parse_float env t
           in if validate new \<noteq> None then (w, None)
              else if configs_equal (wt_current w) new then (w, None)
              else (w\<lparr>wt_current := new\<rparr>, Some new)))"

definition watcher_get :: "watcher \<Rightarrow> config" where
  "watcher_get w = wt_current w"

text \<open>\<open>LoadFromFile\<close> on the answer of \<open>os.ReadFile\<close>; \<open>ParseConfig\<close> has no error.\<close>

definition load_from_file ::
  "(string \<Rightarrow> float_value option) \<Rightarrow> (string \<Rightarrow> string) \<Rightarrow> string result \<Rightarrow> config result" where
  "load_from_file parse_float env contents =
     (case contents of
        Inl err \<Rightarrow> Inl (Wrapped ''read config file: '' err)
      | Inr t \<Rightarrow> Inr (parse_config parse_float env t))"

text \<open>\<open>Start\<close> gives the path the loop watches; \<open>absolute\<close>, \<open>stat\<close> and \<open>add_dir\<close> are the answers of the system.\<close>

definition watcher_start ::
  "string result \<Rightarrow> (string \<Rightarrow> goerr option) \<Rightarrow> (string \<Rightarrow> goerr option) \<Rightarrow> string \<Rightarrow> string result" where
  "watcher_start absolute stat add_dir path =
     (if path = '''' then Inl (ErrText ''config path is required'')
      else (case absolute of
              Inl err \<Rightarrow> Inl (Wrapped ''resolve config path: '' err)
            | Inr p \<Rightarrow>
                (case stat p of
                   Some err \<Rightarrow> Inl (Wrapped ''config file not found: '' err)
                 | None \<Rightarrow>
                     (case add_dir p of
                        Some err \<Rightarrow> Inl (Wrapped ''watch config directory: '' err)
                      | None \<Rightarrow> Inr p))))"

record fs_event =
  fe_name :: string
  fe_write :: bool
  fe_create :: bool

definition watcher_event ::
  "(string \<Rightarrow> float_value option) \<Rightarrow> (string \<Rightarrow> string) \<Rightarrow> string \<Rightarrow> fs_event \<times> string option
     \<Rightarrow> watcher \<Rightarrow> watcher \<times> config option" where
  "watcher_event parse_float env target ev w =
     (if wt_stopped w then (w, None)
      else if fe_name (fst ev) = target \<and> (fe_write (fst ev) \<or> fe_create (fst ev))
      then watcher_reload parse_float env (snd ev) w else (w, None))"

definition watcher_stop :: "watcher \<Rightarrow> watcher" where
  "watcher_stop w = w\<lparr>wt_stopped := True\<rparr>"

fun watch_loop ::
  "(string \<Rightarrow> float_value option) \<Rightarrow> (string \<Rightarrow> string) \<Rightarrow> string \<Rightarrow> (fs_event \<times> string option) list
     \<Rightarrow> watcher \<Rightarrow> watcher \<times> config list" where
  "watch_loop parse_float env target [] w = (w, [])"
| "watch_loop parse_float env target (e # es) w =
     (case watcher_event parse_float env target e w of
        (w1, called) \<Rightarrow>
          (case watch_loop parse_float env target es w1 of
             (w2, cs) \<Rightarrow> (w2, (case called of None \<Rightarrow> cs | Some c \<Rightarrow> c # cs))))"

lemma watcher_event_spec:
  assumes "watcher_event pf env target e w = (w1, called)"
  shows "(called = None \<and> w1 = w)
    \<or> (called = Some (wt_current w1) \<and> validate (wt_current w1) = None
        \<and> \<not> configs_equal (wt_current w) (wt_current w1))"
  using assms
  by (auto simp: watcher_event_def watcher_reload_def Let_def split: if_splits option.splits)

text \<open>C1: the watcher never serves an unvalidated configuration: whatever the files contain, the
  current configuration is the one it started with or the last one passed to \<open>onChange\<close>, every
  configuration passed to \<open>onChange\<close> satisfies \<open>Validate\<close>, and an unreadable or invalid file changes
  nothing.\<close>

theorem watcher_serves_validated:
  "case watch_loop pf env target es w of (w', called) \<Rightarrow>
     list_all (\<lambda>c. validate c = None) called
     \<and> wt_current w' = (if called = [] then wt_current w else last called)
     \<and> watcher_reload pf env None w = (w, None)
     \<and> (validate (parse_config pf env text) = None \<or> watcher_reload pf env (Some text) w = (w, None))"
proof -
  have "case watch_loop pf env target es w of (w', called) \<Rightarrow>
     list_all (\<lambda>c. validate c = None) called
     \<and> wt_current w' = (if called = [] then wt_current w else last called)"
  proof (induction es arbitrary: w)
    case (Cons e es)
    obtain w1 called where e: "watcher_event pf env target e w = (w1, called)" by fastforce
    from Cons.IH [of w1] watcher_event_spec [OF e] show ?case
      by (auto simp: e split: prod.splits)
  qed simp
  then show ?thesis
    by (auto simp: watcher_reload_def Let_def split: option.splits prod.splits)
qed

text \<open>A reload is \<open>LoadFromFile\<close> followed by the check and the comparison.\<close>

lemma watcher_reload_file:
  "watcher_reload pf env (case contents of Inl e \<Rightarrow> None | Inr t \<Rightarrow> Some t) w =
     (case load_from_file pf env contents of
        Inl e \<Rightarrow> (w, None)
      | Inr new \<Rightarrow>
          if validate new \<noteq> None \<or> configs_equal (watcher_get w) new then (w, None)
          else (w\<lparr>wt_current := new\<rparr>, Some new))"
  by (simp add: watcher_reload_def load_from_file_def watcher_get_def Let_def split: sum.splits)

text \<open>The loop compares the name of an event with the absolute path: a file that is replaced through a symbolic link in
  its directory (the mounted configuration of a container) never matches, and no change is seen.\<close>

lemma replaced_link_unseen:
  assumes "\<forall>e \<in> set es. fe_name (fst e) \<noteq> target"
  shows "watch_loop pf env target es w = (w, [])"
  using assms by (induction es) (simp_all add: watcher_event_def)

lemma maps_equal_refl: "distinct (map fst a) \<Longrightarrow> maps_equal a a"
  by (auto simp: maps_equal_def list_all_iff)

lemma configs_equal_eq:
  "configs_equal a b \<longleftrightarrow>
     a\<lparr>LogLevel := [], SourceRateLimits := []\<rparr> = b\<lparr>LogLevel := [], SourceRateLimits := []\<rparr>
     \<and> maps_equal (SourceRateLimits a) (SourceRateLimits b)
     \<and> ChaosErrorRate a \<noteq> NotANumber \<and> ChaosLatencyRate a \<noteq> NotANumber"
  by (cases a; cases b) (simp add: configs_equal_def fv_eq_def, blast)

text \<open>C2: the comparison that decides whether a reload takes effect looks at every field except the
  log level (and at the rate limits as a map): a file that only changes \<open>LOG_LEVEL\<close> is treated as
  unchanged, so \<open>onChange\<close> is not called.\<close>

theorem reload_ignores_log_level:
  assumes "distinct (map fst (SourceRateLimits (wt_current w)))"
    and "ChaosErrorRate (wt_current w) \<noteq> NotANumber" "ChaosLatencyRate (wt_current w) \<noteq> NotANumber"
    and "parse_config pf env text = (wt_current w)\<lparr>LogLevel := level\<rparr>"
  shows "watcher_reload pf env (Some text) w = (w, None)"
proof -
  have "configs_equal (wt_current w) ((wt_current w)\<lparr>LogLevel := level\<rparr>)"
    using assms by (simp add: configs_equal_eq maps_equal_refl)
  with assms(4) show ?thesis by (simp add: watcher_reload_def Let_def)
qed

definition no_floats :: "string \<Rightarrow> float_value option" where "no_floats s = None"
definition no_env :: "string \<Rightarrow> string" where "no_env k = ''''"

lemma log_level_overrides:
  "parse_overrides ''LOG_LEVEL=debug'' = [''LOG_LEVEL'' \<mapsto> ''debug'']"
proof -
  have "split_on CHR 0x0A ''LOG_LEVEL=debug'' = [''LOG_LEVEL=debug'']"
    and "trim_space ''LOG_LEVEL=debug'' = ''LOG_LEVEL=debug''"
    and "has_prefix ''LOG_LEVEL=debug'' ''#'' = False"
    and "split_first CHR ''='' ''LOG_LEVEL=debug'' = (''LOG_LEVEL'', Some ''debug'')"
    and "trim_space ''LOG_LEVEL'' = ''LOG_LEVEL''" and "trim_space ''debug'' = ''debug''"
    by code_simp+
  then show ?thesis by (simp add: parse_overrides_def add_config_line_def)
qed

lemma no_overrides: "parse_overrides '''' = Map.empty"
  by (simp add: parse_overrides_def add_config_line_def)

lemma log_level_file:
  "parse_config no_floats no_env ''LOG_LEVEL=debug''
     = (parse_config no_floats no_env '''')\<lparr>LogLevel := ''debug''\<rparr>"
  by (simp add: parse_config_def log_level_overrides no_overrides load_from_map_def map_get_def
      map_get_env_def map_get_int_def map_get_bool_def map_get_float_def map_get_csv_def)

theorem reload_ignores_log_level_witness:
  "let w = new_watcher (parse_config no_floats no_env '''')
   in watcher_reload no_floats no_env (Some ''LOG_LEVEL=debug'') w = (w, None)
      \<and> LogLevel (wt_current w) = ''info''"
proof -
  let ?w = "new_watcher (parse_config no_floats no_env '''')"
  have f: "SourceRateLimits (wt_current ?w) = []" "ChaosErrorRate (wt_current ?w) = Finite 0"
      "ChaosLatencyRate (wt_current ?w) = Finite 0" "LogLevel (wt_current ?w) = ''info''"
    by (simp_all add: new_watcher_def parse_config_def no_overrides load_from_map_def
        map_get_env_def map_get_float_def map_get_def no_env_def parse_source_rate_limits_def)
  then show ?thesis
    using reload_ignores_log_level [of ?w no_floats no_env "''LOG_LEVEL=debug''" "''debug''"]
    by (simp add: Let_def log_level_file) (simp add: new_watcher_def)
qed

section \<open>Feature flags\<close>

type_synonym feature_flags = "string \<rightharpoonup> bool"

definition new_feature_flags :: feature_flags where "new_feature_flags = Map.empty"

definition ff_register :: "string \<Rightarrow> bool \<Rightarrow> feature_flags \<Rightarrow> feature_flags" where
  "ff_register name enabled f = f(name \<mapsto> enabled)"

definition ff_is_enabled :: "string \<Rightarrow> feature_flags \<Rightarrow> bool" where
  "ff_is_enabled name f = (case f name of None \<Rightarrow> False | Some b \<Rightarrow> b)"

definition ff_set :: "string \<Rightarrow> bool \<Rightarrow> feature_flags \<Rightarrow> bool \<times> feature_flags" where
  "ff_set name enabled f =
     (case f name of None \<Rightarrow> (False, f) | Some _ \<Rightarrow> (True, f(name \<mapsto> enabled)))"

definition ff_list :: "feature_flags \<Rightarrow> (string \<rightharpoonup> bool)" where "ff_list f = f"

definition ff_all :: "feature_flags \<Rightarrow> string set" where "ff_all f = dom f"

lemma ff_set_spec:
  "fst (ff_set n b f) \<longleftrightarrow> n \<in> ff_all f"
  "ff_all (snd (ff_set n b f)) = ff_all f"
  "ff_is_enabled k (snd (ff_set n b f)) = (if k = n \<and> n \<in> ff_all f then b else ff_is_enabled k f)"
  by (auto simp: ff_set_def ff_all_def ff_is_enabled_def split: option.splits)

lemma ff_register_enabled: "ff_is_enabled k (ff_register n b f) = (if k = n then b else ff_is_enabled k f)"
  by (simp add: ff_is_enabled_def ff_register_def)

end
