(* ===== verification/Admin.thy ===== *)
theory Admin
  imports Admin_Text Webhooks Security_Audit Config_Watch
begin

text \<open>
  The administrative handlers (\<open>handlers/admin.go\<close>): configuration, health, failed events, replays (one
  event and batches), the two audit listings and the feature flags. The collaborators are the fields of
  \<open>admin_env\<close>; a field that is \<open>None\<close> is \<open>nil\<close> in the code. They act on the state \<open>'st\<close> of the process.
  Errors of an audit store are only logged, so saving is a function on the state. The texts of numbers
  and instants, quoting, the order of a map range, cancellation and the library's verification of a
  token are arguments.
\<close>

section \<open>Collaborators\<close>

record admin_texts =
  at_lower :: "string \<Rightarrow> string"
  at_quote :: "string \<Rightarrow> string"
  at_rfc3339 :: "time \<Rightarrow> string"
  at_json_time :: "time \<Rightarrow> string"
  at_json_float :: "float64 \<Rightarrow> string"
  at_range :: "(string \<rightharpoonup> string) \<Rightarrow> (string \<times> string) list"

record 'st failed_ops =
  fo_list :: "request \<Rightarrow> int \<Rightarrow> 'st \<Rightarrow> failed_event list result"
  fo_get :: "request \<Rightarrow> string \<Rightarrow> 'st \<Rightarrow> failed_event result"

record 'st audit_ops =
  au_save :: "request \<Rightarrow> replay_input \<Rightarrow> 'st \<Rightarrow> 'st"
  au_list :: "request \<Rightarrow> list_query \<Rightarrow> 'st \<Rightarrow> list_result result"

record 'st security_ops =
  so_save :: "request \<Rightarrow> security_input \<Rightarrow> 'st \<Rightarrow> 'st"
  so_list :: "request \<Rightarrow> int \<Rightarrow> 'st \<Rightarrow> security_record list result"

record 'st flag_ops =
  fl_get :: "'st \<Rightarrow> feature_flags"
  fl_put :: "feature_flags \<Rightarrow> 'st \<Rightarrow> 'st"

record 'st admin_env =
  ad_cfg :: config
  ad_publish :: "(request \<Rightarrow> string \<Rightarrow> string \<Rightarrow> headers \<Rightarrow> 'st \<Rightarrow> publish_answer \<times> 'st) option"
  ad_snapshot :: "('st \<Rightarrow> publisher_snapshot) option"
  ad_sources :: "('st \<Rightarrow> (string \<times> publisher_snapshot) list) option"
  ad_failed :: "'st failed_ops option"
  ad_audit :: "'st audit_ops option"
  ad_security :: "'st security_ops option"
  ad_flags :: "'st flag_ops option"
  ad_texts :: admin_texts
  ad_ctx_done :: "request \<Rightarrow> nat \<Rightarrow> bool"
  ad_claims :: "string \<Rightarrow> string \<Rightarrow> (string \<rightharpoonup> json) option"

definition admin_error :: "request \<Rightarrow> int \<Rightarrow> goerr \<Rightarrow> writer \<Rightarrow> writer" where
  "admin_error r status err w = write_error (rq_id r) status (Some err) Map.empty w"

abbreviation (input) jint :: "int \<Rightarrow> json" where "jint n \<equiv> JNum (itoa n)"

definition opt_str :: "string \<Rightarrow> string \<Rightarrow> (string \<times> json) list" where
  "opt_str k s = (if s = '''' then [] else [(k, JStr s)])"

section \<open>Configuration and health\<close>

definition configz :: "'st admin_env \<Rightarrow> 'st handler" where
  "configz env r ws =
     (let c = ad_cfg env
      in (Returned, write_json 200 (map_of
           [(''service'', JStr ''ingestion-gateway''),
            (''queue_backend'', JStr (QueueBackend c)),
            (''admin_auth_enabled'', JBool (AdminAuthEnabled c)),
            (''request_timeout_sec'', jint (RequestTimeoutSec c)),
            (''queue_buffer'', jint (QueueBuffer c)),
            (''queue_workers'', jint (QueueWorkers c)),
            (''queue_bulkhead_enabled'', JBool (QueueBulkheadEnabled c)),
            (''queue_bulkhead_buffer_per_source'', jint (QueueBulkheadBufferPerSource c)),
            (''queue_backpressure_enabled'', JBool (QueueBackpressureEnabled c)),
            (''queue_backpressure_soft_limit_percent'', jint (QueueBackpressureSoftLimitPercent c)),
            (''queue_backpressure_hard_limit_percent'', jint (QueueBackpressureHardLimitPercent c)),
            (''queue_failure_budget_percent'', jint (QueueFailureBudgetPercent c)),
            (''queue_failure_budget_window'', jint (QueueFailureBudgetWindow c)),
            (''queue_failure_budget_min_samples'', jint (QueueFailureBudgetMinSamples c)),
            (''queue_throttle_retry_after_sec'', jint (QueueThrottleRetryAfterSec c)),
            (''dedup_enabled'', JBool (DedupEnabled c)),
            (''failed_event_store_enabled'', JBool (FailedStoreEnabled c)),
            (''failed_event_store_path'', JStr (FailedStorePath c)),
            (''replay_audit_enabled'', JBool (ReplayAuditEnabled c)),
            (''replay_audit_path'', JStr (ReplayAuditPath c)),
            (''source_rate_limit_enabled'', JBool (SourceRateLimitEnabled c)),
            (''source_rate_limit_default'', jint (SourceRateLimitDefault c)),
            (''rate_limit_backend'', JStr (RateLimitBackend c)),
            (''pubsub_publish_goroutines'', jint (PubSubPublishGoroutines c)),
            (''pubsub_max_outstanding_messages'', jint (PubSubMaxOutstandingMessages c)),
            (''pubsub_max_outstanding_bytes'', jint (PubSubMaxOutstandingBytes c)),
            (''pubsub_flow_control_behavior'', JStr (PubSubFlowControlBehavior c)),
            (''security_audit_enabled'', JBool (SecurityAuditEnabled c)),
            (''security_audit_path'', JStr (SecurityAuditPath c)),
            (''security_audit_retention_days'', jint (SecurityAuditRetentionDays c))]) (fst ws), snd ws))"

definition health_status :: "publisher_snapshot \<Rightarrow> string" where
  "health_status s =
     (if ps_capacity s > 0 \<and> ps_usage s \<ge> f64 (8 / 10) then ''degraded''
      else if ps_failure_ratio s \<ge> f64 (1 / 10) then ''degraded''
      else if ps_depth s > 0 then ''warning''
      else ''healthy'')"

definition provider_severity :: "publisher_snapshot \<Rightarrow> string" where
  "provider_severity s =
     (if ps_capacity s > 0 \<and> ps_usage s \<ge> f64 (8 / 10) then ''critical''
      else if ps_failure_ratio s \<ge> f64 (1 / 10) then ''critical''
      else if ps_depth s > 0 \<or> ps_usage s > 1 / 2 then ''warning''
      else ''healthy'')"

definition provider_recommendation :: "publisher_snapshot \<Rightarrow> string" where
  "provider_recommendation s =
     (if ps_capacity s > 0 \<and> ps_usage s \<ge> f64 (8 / 10)
      then ''scale this provider or increase backpressure safeguards''
      else if ps_failure_ratio s \<ge> f64 (1 / 10)
      then ''investigate provider failures and validate upstream connectivity''
      else if ps_depth s > 0 then ''monitor queue pressure and review retry behavior''
      else ''healthy; continue monitoring'')"

definition snapshot_fields :: "admin_texts \<Rightarrow> publisher_snapshot \<Rightarrow> (string \<times> json) list" where
  "snapshot_fields t s =
     [(''depth'', jint (ps_depth s)), (''capacity'', jint (ps_capacity s)),
      (''usage_ratio'', JNum (at_json_float t (ps_usage s))),
      (''failure_ratio'', JNum (at_json_float t (ps_failure_ratio s))),
      (''recent_samples'', jint (ps_samples s)), (''status'', JStr (health_status s))]"

text \<open>\<open>HealthSummary\<close>: degraded when the queue or one of the sources is.\<close>

definition health_summary :: "'st admin_env \<Rightarrow> 'st handler" where
  "health_summary env r ws =
     (case ws of (w, st) \<Rightarrow>
        (let t = ad_texts env;
             sources = (case ad_sources env of None \<Rightarrow> [] | Some f \<Rightarrow> f st);
             queue = (case ad_snapshot env of None \<Rightarrow> None | Some f \<Rightarrow> Some (f st));
             degraded = list_ex (\<lambda>s. health_status s = ''degraded'')
                          ((case queue of None \<Rightarrow> [] | Some s \<Rightarrow> [s]) @ map snd sources)
         in (Returned, write_json 200
              [''status'' \<mapsto> JStr (if degraded then ''degraded'' else ''healthy''),
               ''generated_at'' \<mapsto> JStr (at_rfc3339 t (dr_now (rq_draws r))),
               ''queue'' \<mapsto> JObj (case queue of None \<Rightarrow> [] | Some s \<Rightarrow> snapshot_fields t s),
               ''sources'' \<mapsto> JArr (map (\<lambda>(n, s). JObj ((''source'', JStr n) # snapshot_fields t s)) sources)]
              w, st)))"

text \<open>\<open>sort.Strings\<close>\<close>

definition sort_strings :: "string list \<Rightarrow> string list" where
  "sort_strings xs = foldr (insert_by str_less) xs []"

definition combine_status :: "string \<Rightarrow> string \<Rightarrow> string" where
  "combine_status acc s =
     (if s = ''degraded'' then ''degraded''
      else if s = ''warning'' \<and> acc = ''healthy'' then ''warning'' else acc)"

definition provider_health_summary :: "'st admin_env \<Rightarrow> 'st handler" where
  "provider_health_summary env r ws =
     (case ws of (w, st) \<Rightarrow>
        (let t = ad_texts env;
             sources = (case ad_sources env of None \<Rightarrow> [] | Some f \<Rightarrow> f st);
             named = map (\<lambda>n. (n, case map_of sources n of None \<Rightarrow> empty_snapshot | Some s \<Rightarrow> s))
                       (sort_strings (map fst sources));
             stats = map (\<lambda>(n, s). health_status s) named;
             count = (\<lambda>x. jint (int (length (filter ((=) x) stats))))
         in (Returned, write_json 200
              [''status'' \<mapsto> JStr (foldl combine_status ''healthy'' stats),
               ''generated_at'' \<mapsto> JStr (at_rfc3339 t (dr_now (rq_draws r))),
               ''summary'' \<mapsto> JObj [(''total'', jint (int (length stats))), (''healthy'', count ''healthy''),
                                (''warning'', count ''warning''), (''degraded'', count ''degraded'')],
               ''providers'' \<mapsto> JArr (map (\<lambda>(n, s).
                   JObj ((''source'', JStr n) # snapshot_fields t s @
                     [(''severity'', JStr (provider_severity s)),
                      (''recommendation'', JStr (provider_recommendation s))])) named)]
              w, st)))"

section \<open>Failed events\<close>

definition count_by :: "('a \<Rightarrow> string) \<Rightarrow> 'a list \<Rightarrow> string \<Rightarrow> json option" where
  "count_by f xs k =
     (let n = length (filter (\<lambda>x. trim_space (f x) = k) xs)
      in if k = '''' \<or> n = 0 then None else Some (jint (int n)))"

text \<open>A JSON object of counters: its keys in the order of their first occurrence.\<close>

definition counters :: "('a \<Rightarrow> string) \<Rightarrow> 'a list \<Rightarrow> json" where
  "counters f xs =
     JObj (List.map_filter (\<lambda>k. map_option (Pair k) (count_by f xs k)) (remdups (map (\<lambda>x. trim_space (f x)) xs)))"

definition failed_event_summary :: "time \<Rightarrow> failed_event list \<Rightarrow> json" where
  "failed_event_summary now es =
     (let cutoff = now - 24 * hour
      in JObj [(''total_by_source'', counters ev_source es), (''total_by_reason'', counters ev_reason es),
               (''last_24h'', jint (int (length (filter (\<lambda>e.
                  \<not> is_zero_time (ev_failed_at e) \<and> cutoff < ev_failed_at e) es))))])"

definition failed_event_json :: "admin_texts \<Rightarrow> failed_event \<Rightarrow> json option" where
  "failed_event_json t e =
     map_option (\<lambda>preview.
       JObj [(''event_id'', JStr (ev_id e)), (''source'', JStr (ev_source e)),
             (''reason'', JStr (ev_reason e)), (''failed_at'', JStr (at_json_time t (ev_failed_at e))),
             (''payload_hash'', JStr (ev_hash e)), (''body_bytes'', jint (int (length (ev_body e)))),
             (''body_preview'', JStr preview)])
       (body_preview (at_lower t) (ev_body e) 220)"

fun all_some :: "'a option list \<Rightarrow> 'a list option" where
  "all_some [] = Some []"
| "all_some (None # xs) = None"
| "all_some (Some x # xs) = map_option ((#) x) (all_some xs)"

definition list_failure :: "string \<Rightarrow> string \<Rightarrow> goerr \<Rightarrow> goerr" where
  "list_failure op msg err = app_new op CodeReplayReadFailed msg (Some err)"

text \<open>A panic of the redaction leaves the handler before it has written anything.\<close>

definition failed_events :: "'st admin_env \<Rightarrow> 'st handler" where
  "failed_events env r ws =
     (case ws of (w, st) \<Rightarrow>
        (case parse_failed_events_limit r of
           Inl err \<Rightarrow>
             (Returned, admin_error r 400 (app_new ''handlers.admin.failedEvents'' CodeReplayInputInvalid
                          ''invalid failed-event list query'' (Some err)) w, st)
         | Inr limit \<Rightarrow>
             (case ad_failed env of
                None \<Rightarrow>
                  (Returned, write_json 200 [''enabled'' \<mapsto> JBool False, ''events'' \<mapsto> JArr [],
                     ''summary'' \<mapsto> JObj [(''total_by_source'', JObj []), (''total_by_reason'', JObj []),
                                      (''last_24h'', jint 0)]] w, st)
              | Some f \<Rightarrow>
                  (case fo_list f r limit st of
                     Inl err \<Rightarrow>
                       (Returned, admin_error r 500
                          (list_failure ''handlers.admin.failedEvents'' ''failed to load failed events'' err) w, st)
                   | Inr es \<Rightarrow>
                       (case all_some (map (failed_event_json (ad_texts env)) es) of
                          None \<Rightarrow> (Panicked, w, st)
                        | Some summaries \<Rightarrow>
                            (Returned, write_json 200 [''enabled'' \<mapsto> JBool True,
                               ''events'' \<mapsto> JArr summaries,
                               ''summary'' \<mapsto> failed_event_summary (dr_now (rq_draws r)) es] w, st))))))"

section \<open>Replaying one event\<close>

record replay_execution =
  rx_event_id :: string
  rx_dry_run :: bool
  rx_overrides :: "string \<rightharpoonup> string"
  rx_actor :: string
  rx_request_id :: string

record replay_result =
  rp_event_id :: string
  rp_source :: string
  rp_status :: string
  rp_http :: int
  rp_published :: bool
  rp_bytes :: int
  rp_error_code :: string
  rp_message :: string

definition replay_mode :: "bool \<Rightarrow> string" where
  "replay_mode dry = (if dry then ''dry_run'' else ''publish'')"

definition record_replay_audit :: "'st admin_env \<Rightarrow> request \<Rightarrow> replay_input \<Rightarrow> 'st \<Rightarrow> 'st" where
  "record_replay_audit env r inp st = (case ad_audit env of None \<Rightarrow> st | Some a \<Rightarrow> au_save a r inp st)"

definition replay_audit_input ::
  "replay_execution \<Rightarrow> string \<Rightarrow> string \<Rightarrow> string \<Rightarrow> string \<Rightarrow> int \<Rightarrow> replay_input" where
  "replay_audit_input inp eid source res code http =
     \<lparr>ri_event = eid, ri_source = source, ri_actor = rx_actor inp, ri_mode = replay_mode (rx_dry_run inp),
      ri_result = res, ri_error_code = code, ri_status = http, ri_request_id = rx_request_id inp\<rparr>"

text \<open>The end of a failed replay: result, error and audit record.\<close>

definition replay_failure ::
  "'st admin_env \<Rightarrow> request \<Rightarrow> replay_execution \<Rightarrow> string \<Rightarrow> string \<Rightarrow> int \<Rightarrow> int \<Rightarrow> app_code \<Rightarrow> string
     \<Rightarrow> goerr option \<Rightarrow> 'st \<Rightarrow> (replay_result \<times> goerr option) option \<times> 'st" where
  "replay_failure env r inp eid source bytes http code msg cause st =
     (Some (\<lparr>rp_event_id = eid, rp_source = source, rp_status = ''failed'', rp_http = http,
             rp_published = False, rp_bytes = bytes, rp_error_code = code_text code, rp_message = msg\<rparr>,
            Some (app_new ''handlers.admin.executeReplay'' code msg cause)),
      record_replay_audit env r (replay_audit_input inp eid source ''failed'' (code_text code) http) st)"

definition replay_success ::
  "'st admin_env \<Rightarrow> request \<Rightarrow> replay_execution \<Rightarrow> failed_event \<Rightarrow> string \<Rightarrow> int \<Rightarrow> bool \<Rightarrow> 'st
     \<Rightarrow> (replay_result \<times> goerr option) option \<times> 'st" where
  "replay_success env r inp e status http published st =
     (Some (\<lparr>rp_event_id = ev_id e, rp_source = ev_source e, rp_status = status, rp_http = http,
             rp_published = published, rp_bytes = int (length (ev_body e)), rp_error_code = '''',
             rp_message = ''''\<rparr>, None),
      record_replay_audit env r (replay_audit_input inp (ev_id e) (ev_source e) status '''' http) st)"

definition replay_headers ::
  "admin_texts \<Rightarrow> request \<Rightarrow> replay_execution \<Rightarrow> failed_event \<Rightarrow> (string \<rightharpoonup> string) \<Rightarrow> headers" where
  "replay_headers t r inp e h =
     (let h1 = h(''X-Replay-Source'' \<mapsto> ''admin-replay'', ''X-Replay-Event-ID'' \<mapsto> ev_id e,
                 ''X-Replay-Timestamp'' \<mapsto> at_rfc3339 t (dr_now (rq_draws r)));
          h2 = (if rx_request_id inp \<noteq> '''' then h1(''X-Replay-Request-ID'' \<mapsto> rx_request_id inp) else h1)
      in Some (if rx_actor inp \<noteq> '''' then h2(''X-Replay-Actor'' \<mapsto> rx_actor inp) else h2))"

definition publish_refusal :: "goerr \<Rightarrow> app_code \<times> int" where
  "publish_refusal err =
     (if errors_is err ErrQueueThrottled then (CodeQueueThrottled, 429)
      else if errors_is err ErrQueueFull then (CodeQueueFull, 503)
      else (CodeReplayPublishFailed, 500))"

text \<open>\<open>executeReplay\<close>; \<open>None\<close> when the publisher panics.\<close>

definition execute_replay ::
  "'st admin_env \<Rightarrow> 'st failed_ops \<Rightarrow> request \<Rightarrow> replay_execution \<Rightarrow> 'st
     \<Rightarrow> (replay_result \<times> goerr option) option \<times> 'st" where
  "execute_replay env f r inp st =
     (let eid = trim_space (rx_event_id inp)
      in (case fo_get f r eid st of
            Inl err \<Rightarrow>
              if errors_is err ErrNotFound
              then replay_failure env r inp eid '''' 0 404 CodeReplayEventNotFound ''failed event not found''
                     (Some err) st
              else replay_failure env r inp eid '''' 0 500 CodeReplayReadFailed ''failed to load failed event''
                     (Some err) st
          | Inr e \<Rightarrow>
              (let fail = replay_failure env r inp (ev_id e) (ev_source e) (int (length (ev_body e)))
               in (case clone_replay_headers (at_quote (ad_texts env)) (ev_headers e)
                          (at_range (ad_texts env) (rx_overrides inp)) of
                     Inl err \<Rightarrow> fail 400 CodeReplayInputInvalid (error_text err) (Some err) st
                   | Inr h \<Rightarrow>
                       if rx_dry_run inp then replay_success env r inp e ''validated'' 200 False st
                       else (case ad_publish env of
                          None \<Rightarrow> fail 503 CodeReplayConfigInvalid ''publisher is not configured'' None st
                        | Some publish \<Rightarrow>
                            (case publish r (ev_source e) (ev_body e)
                                    (replay_headers (ad_texts env) r inp e h) st of
                               (PublishPanics, st1) \<Rightarrow> (None, st1)
                             | (Refused err, st1) \<Rightarrow>
                                 (case publish_refusal err of (code, http) \<Rightarrow>
                                    fail http code ''failed to publish replay event'' (Some err) st1)
                             | (Published, st1) \<Rightarrow> replay_success env r inp e ''accepted'' 202 True st1))))))"

section \<open>Who replays\<close>

definition ui_client_ip :: "string \<Rightarrow> string" where
  "ui_client_ip remote =
     (let ip = trim_space remote
      in (case split_host_port ip of
            Some host \<Rightarrow> if host \<noteq> '''' then trim_set host ''[]''
                         else if has_prefix ip ''['' \<and> has_suffix ip '']''
                         then trim_suffix (trim_prefix ip ''['') '']'' else ip
          | None \<Rightarrow> if has_prefix ip ''['' \<and> has_suffix ip '']''
                    then trim_suffix (trim_prefix ip ''['') '']'' else ip))"

definition claim_string :: "json option \<Rightarrow> string" where
  "claim_string v = (case v of Some (JStr s) \<Rightarrow> trim_space s | _ \<Rightarrow> '''')"

definition token_actor :: "'st admin_env \<Rightarrow> request \<Rightarrow> string" where
  "token_actor env r =
     (let authz = trim_space (rq_header r ''Authorization'')
      in if has_prefix (to_lower authz) ''bearer ''
         then (let tok = trim_space (drop 7 authz); secret = AdminJWTSecret (ad_cfg env)
               in if tok \<noteq> '''' \<and> secret \<noteq> ''''
                  then (case ad_claims env secret tok of
                          None \<Rightarrow> ''''
                        | Some cl \<Rightarrow>
                            first_nonempty (map (\<lambda>k. claim_string (cl k))
                              [''email'', ''sub'', ''preferred_username'', ''name'']) '''')
                  else '''')
         else '''')"

definition replay_actor :: "'st admin_env \<Rightarrow> request \<Rightarrow> string" where
  "replay_actor env r =
     (let ip = ui_client_ip (rq_remote r)
      in first_nonempty
           [trim_space (rq_header r ''X-Operator''), trim_space (rq_header r ''X-User''), token_actor env r]
           (if ip = '''' then ''unknown'' else ''ip:'' @ ip))"

section \<open>The replay handlers\<close>

text \<open>The text of a decoding error only goes to the log, not into the answer.\<close>

definition decode_error :: goerr where
  "decode_error = ErrText ''decode admin json request''"

definition store_missing :: "string \<Rightarrow> goerr" where
  "store_missing op = app_new op CodeReplayConfigInvalid ''failed-event store is not enabled'' None"

definition publisher_missing :: "string \<Rightarrow> goerr" where
  "publisher_missing op = app_new op CodeReplayConfigInvalid ''publisher is not configured'' None"

definition replay_failed_event :: "'st admin_env \<Rightarrow> 'st handler" where
  "replay_failed_event env r ws =
     (case ws of (w, st) \<Rightarrow>
        (let op = ''handlers.admin.replayFailedEvent'';
             bad = (\<lambda>msg cause. (Returned,
                      admin_error r 400 (app_new op CodeReplayInputInvalid msg cause) w, st))
         in (case ad_failed env of
               None \<Rightarrow> (Returned, admin_error r 503 (store_missing op) w, st)
             | Some f \<Rightarrow>
                 (case decode_replay_request r of
                    None \<Rightarrow> bad ''invalid replay request payload'' (Some decode_error)
                  | Some req \<Rightarrow>
                      if trim_space (rr_event_id req) = '''' then bad ''event_id is required'' None
                      else if \<not> rr_dry_run req \<and> ad_publish env = None
                      then (Returned, admin_error r 503 (publisher_missing op) w, st)
                      else (case execute_replay env f r
                               \<lparr>rx_event_id = trim_space (rr_event_id req), rx_dry_run = rr_dry_run req,
                                rx_overrides = rr_overrides req, rx_actor = replay_actor env r,
                                rx_request_id = rq_id r\<rparr> st of
                         (None, st1) \<Rightarrow> (Panicked, w, st1)
                       | (Some (res, Some err), st1) \<Rightarrow> (Returned, admin_error r (rp_http res) err w, st1)
                       | (Some (res, None), st1) \<Rightarrow>
                           (Returned, write_json (rp_http res)
                              [''status'' \<mapsto> JStr (rp_status res), ''event_id'' \<mapsto> JStr (rp_event_id res),
                               ''source'' \<mapsto> JStr (rp_source res), ''dry_run'' \<mapsto> JBool (rr_dry_run req),
                               ''published'' \<mapsto> JBool (rp_published res), ''bytes'' \<mapsto> jint (rp_bytes res)] w,
                            st1))))))"

record batch_summary =
  bs_requested :: int
  bs_processed :: int
  bs_succeeded :: int
  bs_accepted :: int
  bs_validated :: int
  bs_failed :: int
  bs_published :: int

definition tally :: "replay_result \<Rightarrow> batch_summary \<Rightarrow> batch_summary" where
  "tally res b =
     (let b1 = b\<lparr>bs_processed := bs_processed b + 1\<rparr>
      in if rp_status res = ''validated''
         then b1\<lparr>bs_validated := bs_validated b1 + 1, bs_succeeded := bs_succeeded b1 + 1\<rparr>
         else if rp_status res = ''accepted''
         then b1\<lparr>bs_accepted := bs_accepted b1 + 1, bs_published := bs_published b1 + 1,
                 bs_succeeded := bs_succeeded b1 + 1\<rparr>
         else b1\<lparr>bs_failed := bs_failed b1 + 1\<rparr>)"

text \<open>The loop over the ids: it stops when the request is cancelled (\<open>done n\<close> before the \<open>n\<close>-th event),
  \<open>None\<close> when the publisher panics.\<close>

fun replay_loop ::
  "(string \<Rightarrow> 'st \<Rightarrow> (replay_result \<times> goerr option) option \<times> 'st) \<Rightarrow> (nat \<Rightarrow> bool) \<Rightarrow> nat \<Rightarrow> string list
     \<Rightarrow> replay_result list \<times> batch_summary \<Rightarrow> 'st \<Rightarrow> (replay_result list \<times> batch_summary) option \<times> 'st" where
  "replay_loop ex stop n [] acc st = (Some acc, st)"
| "replay_loop ex stop n (i # is) acc st =
     (if stop n then (Some acc, st)
      else (case ex i st of
         (None, st1) \<Rightarrow> (None, st1)
       | (Some (res, err), st1) \<Rightarrow>
           (case acc of (rs, b) \<Rightarrow> replay_loop ex stop (Suc n) is (rs @ [res], tally res b) st1)))"

definition batch_status :: "batch_summary \<Rightarrow> string" where
  "batch_status b =
     (if bs_failed b = 0 \<and> bs_accepted b > 0 then ''accepted''
      else if bs_failed b = 0 \<and> bs_validated b > 0 then ''validated''
      else if bs_failed b = bs_processed b then ''failed''
      else ''partial_failure'')"

definition batch_http_status :: "bool \<Rightarrow> batch_summary \<Rightarrow> int" where
  "batch_http_status dry b = (if bs_failed b > 0 then 207 else if dry then 200 else 202)"

definition new_summary :: "int \<Rightarrow> batch_summary" where
  "new_summary n =
     \<lparr>bs_requested = n, bs_processed = 0, bs_succeeded = 0, bs_accepted = 0, bs_validated = 0,
      bs_failed = 0, bs_published = 0\<rparr>"

definition replay_result_json :: "replay_result \<Rightarrow> json" where
  "replay_result_json x =
     JObj ([(''event_id'', JStr (rp_event_id x))] @ opt_str ''source'' (rp_source x) @
       [(''status'', JStr (rp_status x)), (''http_status'', jint (rp_http x)),
        (''published'', JBool (rp_published x)), (''bytes'', jint (rp_bytes x))] @
       opt_str ''error_code'' (rp_error_code x) @ opt_str ''message'' (rp_message x))"

definition batch_summary_json :: "batch_summary \<Rightarrow> json" where
  "batch_summary_json b =
     JObj [(''requested'', jint (bs_requested b)), (''processed'', jint (bs_processed b)),
           (''succeeded'', jint (bs_succeeded b)), (''accepted'', jint (bs_accepted b)),
           (''validated'', jint (bs_validated b)), (''failed'', jint (bs_failed b)),
           (''published'', jint (bs_published b))]"

definition replay_failed_events_batch :: "'st admin_env \<Rightarrow> 'st handler" where
  "replay_failed_events_batch env r ws =
     (case ws of (w, st) \<Rightarrow>
        (let op = ''handlers.admin.replayFailedEventsBatch'';
             bad = (\<lambda>cause. (Returned, admin_error r 400 (app_new op CodeReplayInputInvalid
                      ''invalid replay batch request payload'' (Some cause)) w, st))
         in (case ad_failed env of
               None \<Rightarrow> (Returned, admin_error r 503 (store_missing op) w, st)
             | Some f \<Rightarrow>
                 (case decode_batch_request r of
                    None \<Rightarrow> bad decode_error
                  | Some req \<Rightarrow>
                      (case normalize_replay_event_ids (br_event_ids req) of
                         Inl err \<Rightarrow> bad err
                       | Inr ids \<Rightarrow>
                           if \<not> br_dry_run req \<and> ad_publish env = None
                           then (Returned, admin_error r 503 (publisher_missing op) w, st)
                           else (case replay_loop
                                (\<lambda>i. execute_replay env f r
                                   \<lparr>rx_event_id = i, rx_dry_run = br_dry_run req,
                                    rx_overrides = br_overrides req, rx_actor = replay_actor env r,
                                    rx_request_id = rq_id r\<rparr>)
                                (ad_ctx_done env r) 0 ids
                                ([], new_summary (int (length (br_event_ids req)))) st of
                             (None, st1) \<Rightarrow> (Panicked, w, st1)
                           | (Some (rs, b), st1) \<Rightarrow>
                               (Returned, write_json (batch_http_status (br_dry_run req) b)
                                  [''status'' \<mapsto> JStr (batch_status b), ''dry_run'' \<mapsto> JBool (br_dry_run req),
                                   ''summary'' \<mapsto> batch_summary_json b,
                                   ''results'' \<mapsto> JArr (map replay_result_json rs)] w, st1)))))))"

section \<open>The audit listings\<close>

definition replay_record_json :: "admin_texts \<Rightarrow> replay_record \<Rightarrow> json" where
  "replay_record_json t x =
     JObj ([(''audit_id'', JStr (ra_id x)), (''event_id'', JStr (ra_event x)), (''source'', JStr (ra_source x)),
        (''actor'', JStr (ra_actor x)), (''mode'', JStr (ra_mode x)), (''result'', JStr (ra_result x))] @
       opt_str ''error_code'' (ra_error_code x) @ [(''http_status'', jint (ra_status x))] @
       opt_str ''request_id'' (ra_request_id x) @ [(''replayed_at'', JStr (at_json_time t (ra_at x)))])"

definition security_record_json :: "admin_texts \<Rightarrow> security_record \<Rightarrow> json" where
  "security_record_json t x =
     JObj ([(''audit_id'', JStr (sa_id x)), (''category'', JStr (sa_category x)),
        (''outcome'', JStr (sa_outcome x)), (''source'', JStr (sa_source x)), (''reason'', JStr (sa_reason x)),
        (''path'', JStr (sa_path x)), (''http_status'', jint (sa_status x))] @
       opt_str ''request_id'' (sa_request_id x) @ opt_str ''actor'' (sa_actor x) @
       opt_str ''client_ip'' (sa_client_ip x) @ [(''occurred_at'', JStr (at_json_time t (sa_at x)))])"

definition page_json :: "bool \<Rightarrow> string \<Rightarrow> json" where
  "page_json further cursor = JObj [(''has_more'', JBool further), (''next_cursor'', JStr cursor)]"

definition replay_audit :: "'st admin_env \<Rightarrow> 'st handler" where
  "replay_audit env r ws =
     (case ws of (w, st) \<Rightarrow>
        (let op = ''handlers.admin.replayAudit''; bad_query = ''invalid replay-audit list query''
         in (case parse_replay_audit_query r of
               Inl err \<Rightarrow>
                 (Returned, admin_error r 400 (app_new op CodeReplayInputInvalid bad_query (Some err)) w, st)
             | Inr q \<Rightarrow>
                 (case ad_audit env of
                    None \<Rightarrow>
                      (Returned, write_json 200 [''enabled'' \<mapsto> JBool False, ''records'' \<mapsto> JArr [],
                         ''page'' \<mapsto> page_json False ''''] w, st)
                  | Some a \<Rightarrow>
                      (case au_list a r q st of
                         Inl err \<Rightarrow>
                           (if errors_is err ErrInvalidListQuery \<or> errors_is err ErrCursorNotFound
                            then (Returned, admin_error r 400
                                    (app_new op CodeReplayInputInvalid bad_query (Some err)) w, st)
                            else (Returned, admin_error r 500
                                    (list_failure op ''failed to load replay audit history'' err) w, st))
                       | Inr res \<Rightarrow>
                           (Returned, write_json 200 [''enabled'' \<mapsto> JBool True,
                              ''records'' \<mapsto> JArr (map (replay_record_json (ad_texts env)) (lr_records res)),
                              ''page'' \<mapsto> page_json (lr_has_more res) (lr_next res)] w, st))))))"

definition security_audit :: "'st admin_env \<Rightarrow> 'st handler" where
  "security_audit env r ws =
     (case ws of (w, st) \<Rightarrow>
        (let op = ''handlers.admin.securityAudit''
         in (case parse_security_audit_limit r of
               Inl err \<Rightarrow>
                 (Returned, admin_error r 400 (app_new op CodeReplayInputInvalid
                    ''invalid security-audit list query'' (Some err)) w, st)
             | Inr limit \<Rightarrow>
                 (case ad_security env of
                    None \<Rightarrow> (Returned, write_json 200 [''enabled'' \<mapsto> JBool False, ''records'' \<mapsto> JArr []] w, st)
                  | Some s \<Rightarrow>
                      (case so_list s r limit st of
                         Inl err \<Rightarrow>
                           (Returned, admin_error r 500
                              (list_failure op ''failed to load security audit history'' err) w, st)
                       | Inr rs \<Rightarrow>
                           (Returned, write_json 200 [''enabled'' \<mapsto> JBool True,
                              ''records'' \<mapsto> JArr (map (security_record_json (ad_texts env)) rs)] w, st))))))"

section \<open>Feature flags\<close>

definition bool_text :: "bool \<Rightarrow> string" where
  "bool_text b = (if b then ''true'' else ''false'')"

definition flag_change_record :: "'st admin_env \<Rightarrow> request \<Rightarrow> string \<Rightarrow> bool \<Rightarrow> security_input" where
  "flag_change_record env r flag b =
     \<lparr>si_category = ''feature_flag_change'', si_outcome = ''accepted'', si_source = ''admin'',
      si_reason = ''flag:'' @ flag @ ''='' @ bool_text b, si_path = rq_path r, si_status = 200,
      si_request_id = rq_id r, si_actor = replay_actor env r,
      si_client_ip = client_ip r (TrustedProxyCIDRs (ad_cfg env))\<rparr>"

text \<open>The flags of the map in some order; \<open>List\<close> copies the map.\<close>

definition flags_json :: "feature_flags \<Rightarrow> string list \<Rightarrow> json" where
  "flags_json fs names = JObj (List.map_filter (\<lambda>n. map_option (\<lambda>b. (n, JBool b)) (fs n)) names)"

definition update_flag :: "'st admin_env \<Rightarrow> 'st flag_ops \<Rightarrow> 'st handler" where
  "update_flag env ops r ws =
     (case ws of (w, st) \<Rightarrow>
        (let op = ''handlers.admin.featureFlags'';
             bad = (\<lambda>code msg cause. (Returned,
                      admin_error r code (app_new op CodeReplayInputInvalid msg cause) w, st))
         in (case decode_flag_request r of
               None \<Rightarrow> bad 400 ''invalid feature flag update payload'' (Some decode_error)
             | Some (raw, b) \<Rightarrow>
                 (let flag = trim_space raw
                  in if flag = '''' then bad 400 ''flag name is required'' None
                     else (case ff_set flag b (fl_get ops st) of
                        (False, fs) \<Rightarrow>
                          bad 404 (''feature flag '' @ at_quote (ad_texts env) flag @ '' not found'') None
                      | (True, fs) \<Rightarrow>
                          (let st1 = fl_put ops fs st;
                               st2 = (case ad_security env of
                                        None \<Rightarrow> st1
                                      | Some s \<Rightarrow> so_save s r (flag_change_record env r flag b) st1)
                           in (Returned, write_json 200 [''flag'' \<mapsto> JStr flag, ''enabled'' \<mapsto> JBool b] w,
                               st2)))))))"

definition feature_flags_handler :: "string list \<Rightarrow> 'st admin_env \<Rightarrow> 'st handler" where
  "feature_flags_handler names env r ws =
     (case ws of (w, st) \<Rightarrow>
        (case ad_flags env of
           None \<Rightarrow> (Returned, write_json 200 [''enabled'' \<mapsto> JBool False, ''flags'' \<mapsto> JObj []] w, st)
         | Some ops \<Rightarrow>
             if rq_method r = ''POST'' then update_flag env ops r (w, st)
             else (Returned, write_json 200 [''enabled'' \<mapsto> JBool True,
                     ''flags'' \<mapsto> flags_json (fl_get ops st) names] w, st)))"

end
