(* ===== verification/Http_Auth.thy ===== *)
theory Http_Auth
  imports Rate_Limit Signature
begin

text \<open>
  The guards of the administrative routes (\<open>httpx/auth.go\<close>) and the API version middleware
  (\<open>httpx/apiversion.go\<close>). Parsing and verifying a JSON Web Token is the library's: \<open>jwt_parse\<close> gets
  the key function, the accepted methods, issuer, audience and token, and says whether the token is
  valid.
\<close>

definition is_admin_path :: "string \<Rightarrow> bool" where
  "is_admin_path path \<longleftrightarrow> has_prefix path ''/admin'' \<or> has_prefix path ''/api/v1/admin''"

definition is_state_changing_method :: "string \<Rightarrow> bool" where
  "is_state_changing_method m \<longleftrightarrow> m \<in> set [''POST'', ''PUT'', ''PATCH'', ''DELETE'']"

definition reject_security ::
  "request \<Rightarrow> int \<Rightarrow> string \<Rightarrow> 'st reject_hook \<Rightarrow> goerr \<Rightarrow> writer \<times> 'st \<Rightarrow> outcome \<times> writer \<times> 'st" where
  "reject_security r status reason on_reject err ws =
     (case ws of (w, st) \<Rightarrow>
        (Returned, write_error (rq_id r) status (Some err) Map.empty w, on_reject r reason status st))"

section \<open>CSRF tokens\<close>

definition csrf_cookie_name :: string where "csrf_cookie_name = ''__Host-CSRF-Token''"

definition require_csrf :: "bool \<Rightarrow> 'st reject_hook \<Rightarrow> 'st middleware" where
  "require_csrf enabled on_reject next r ws =
     (if \<not> enabled then next r ws
      else if \<not> is_admin_path (rq_path r) \<or> \<not> is_state_changing_method (rq_method r) then next r ws
      else
        let cookie = (case rq_cookie r csrf_cookie_name of None \<Rightarrow> '''' | Some v \<Rightarrow> v);
            header = trim_space (rq_header r ''X-CSRF-Token'');
            err = (\<lambda>msg. app_new ''httpx.RequireCSRF'' CodeForbidden msg None)
        in if cookie = '''' \<or> header = ''''
           then reject_security r 403 ''csrf_missing_token'' on_reject (err ''csrf token required'') ws
           else if ct_compare cookie header \<noteq> 1
           then reject_security r 403 ''csrf_token_mismatch'' on_reject (err ''csrf token mismatch'') ws
           else next r ws)"

definition csrf_token_cookie :: "string result \<Rightarrow> string \<times> string" where
  "csrf_token_cookie random =
     (case random of Inl e \<Rightarrow> (csrf_cookie_name, ''fallback'') | Inr b \<Rightarrow> (csrf_cookie_name, hex_encode b))"

section \<open>The address allow list\<close>

record 'st admin_cidr_config =
  ac_enabled :: bool
  ac_cidrs :: "string list"
  ac_trusted :: "string list"
  ac_on_reject :: "'st reject_hook"

text \<open>The text of the client's address in the last error is that of \<open>net.IP.String\<close>: \<open>ip_text\<close>.\<close>

definition require_admin_cidr_allowlist ::
  "(ip \<Rightarrow> string) \<Rightarrow> 'st admin_cidr_config \<Rightarrow> 'st middleware" where
  "require_admin_cidr_allowlist ip_text cfg next r ws =
     (let nets = parse_cidrs (ac_cidrs cfg);
          err = (\<lambda>cause. app_new ''httpx.RequireAdminCIDRAllowlist'' CodeForbidden ''forbidden''
                           (Some (ErrText cause)))
      in if \<not> ac_enabled cfg \<or> ac_cidrs cfg = [] then next r ws
         else if nets = [] then next r ws
         else if \<not> is_admin_path (rq_path r) then next r ws
         else
           let caddr = client_ip_from_request r (parse_cidrs (ac_trusted cfg))
           in (case parse_ip caddr of
                 None \<Rightarrow> reject_security r 403 ''admin_cidr_invalid_ip'' (ac_on_reject cfg)
                           (err (''invalid client ip: '' @ caddr)) ws
               | Some a \<Rightarrow>
                   if list_ex (\<lambda>n. net_contains n a) nets then next r ws
                   else reject_security r 403 ''admin_cidr_forbidden'' (ac_on_reject cfg)
                          (err (''ip '' @ ip_text a @ '' outside admin allowlist'')) ws))"

section \<open>Bearer tokens\<close>

record 'st jwt_config =
  jw_enabled :: bool
  jw_issuer :: string
  jw_audience :: string
  jw_secret :: string
  jw_on_reject :: "'st reject_hook"

type_synonym jwt_parser =
  "(string \<Rightarrow> string result) \<Rightarrow> string list \<Rightarrow> string \<Rightarrow> string \<Rightarrow> string \<Rightarrow> bool result"

definition jwt_key :: "string \<Rightarrow> string \<Rightarrow> string result" where
  "jwt_key secret alg =
     (if alg \<noteq> ''HS256'' then Inl (ErrText (''unexpected signing method '' @ alg)) else Inr secret)"

definition validate_token :: "jwt_parser \<Rightarrow> 'st jwt_config \<Rightarrow> string \<Rightarrow> goerr option" where
  "validate_token jwt_parse cfg token =
     (case jwt_parse (jwt_key (jw_secret cfg)) [''HS256''] (jw_issuer cfg) (jw_audience cfg) token of
        Inl e \<Rightarrow> Some (Wrapped ''parse token: '' e)
      | Inr valid \<Rightarrow> if valid then None else Some (ErrText ''token invalid''))"

definition bearer_token :: "request \<Rightarrow> string option" where
  "bearer_token r =
     (let authz = trim_space (rq_header r ''Authorization'')
      in if authz = '''' \<or> \<not> has_prefix (to_lower authz) ''bearer '' then None
         else (let tok = trim_space (drop 7 authz) in if tok = '''' then None else Some tok))"

definition require_admin_jwt :: "jwt_parser \<Rightarrow> 'st jwt_config \<Rightarrow> 'st middleware" where
  "require_admin_jwt jwt_parse cfg next r ws =
     (if \<not> jw_enabled cfg then next r ws
      else if \<not> is_admin_path (rq_path r) then next r ws
      else (case bearer_token r of
              None \<Rightarrow> reject_security r 401 ''admin_jwt_missing'' (jw_on_reject cfg)
                        (app_new ''httpx.RequireAdminJWT'' CodeMissingBearerToken ''missing bearer token''
                           None) ws
            | Some tok \<Rightarrow>
                (case validate_token jwt_parse cfg tok of
                   Some e \<Rightarrow> reject_security r 401 ''admin_jwt_invalid'' (jw_on_reject cfg)
                               (app_new ''httpx.RequireAdminJWT'' CodeInvalidToken ''invalid token'' (Some e)) ws
                 | None \<Rightarrow> next r ws)))"

section \<open>API versions\<close>

record 'st api_version_config =
  av_enabled :: bool
  av_sunset :: time
  av_version :: string
  av_on_mismatch :: "(writer \<Rightarrow> request \<Rightarrow> string \<Rightarrow> writer) option"

definition default_sunset :: time where
  "default_sunset = 1798761600 * second"

definition version_routes :: "(string \<times> string \<times> string) list" where
  "version_routes =
     [(''/webhooks/'', ''/api/v1/webhooks/'', ''webhooks''), (''/admin/'', ''/api/v1/admin/'', ''admin'')]"

text \<open>\<open>rfc1123\<close> is the format of the sunset date.\<close>

fun version_headers ::
  "(time \<Rightarrow> string) \<Rightarrow> time \<Rightarrow> string \<Rightarrow> string \<Rightarrow> (string \<times> string \<times> string) list \<Rightarrow> writer \<Rightarrow> writer" where
  "version_headers rfc1123 sunset version path [] w = w"
| "version_headers rfc1123 sunset version path ((legacy, versioned, api) # ms) w =
     (if has_prefix path legacy \<and> \<not> has_prefix path versioned
      then set_header ''X-API-Version'' ''legacy''
             (set_header ''Link''
                (''</api/'' @ version @ ''/'' @ api @ trim_prefix path legacy @ ''>; rel=\"successor-version\"'')
                (set_header ''Sunset'' (rfc1123 sunset) (set_header ''Deprecation'' ''true'' w)))
      else if has_prefix path versioned then set_header ''X-API-Version'' version w
      else version_headers rfc1123 sunset version path ms w)"

definition version_mismatch_text :: "string \<Rightarrow> string \<Rightarrow> string" where
  "version_mismatch_text requested version =
     ''unsupported API version: '' @ requested @ '' (current: '' @ version @ '')''"

definition api_version :: "(time \<Rightarrow> string) \<Rightarrow> 'st api_version_config \<Rightarrow> 'st middleware" where
  "api_version rfc1123 cfg next r ws =
     (if \<not> av_enabled cfg then next r ws
      else (case ws of (w, st) \<Rightarrow>
        (let sunset = (if is_zero_time (av_sunset cfg) then default_sunset else av_sunset cfg);
             version = (if av_version cfg = '''' then ''v1'' else av_version cfg);
             w1 = version_headers rfc1123 sunset version (rq_path r) version_routes w;
             requested = rq_header r ''X-API-Version''
         in if requested \<noteq> '''' \<and> requested \<noteq> ''legacy'' \<and> requested \<noteq> version
            then (case av_on_mismatch cfg of
                    Some f \<Rightarrow> (Returned, f w1 r requested, st)
                  | None \<Rightarrow> (Returned, http_error (version_mismatch_text requested version) 406 w1, st))
            else next r (w1, st))))"

section \<open>What the guards let through\<close>

definition jwt_accepts :: "jwt_parser \<Rightarrow> 'st jwt_config \<Rightarrow> request \<Rightarrow> bool" where
  "jwt_accepts jwt_parse cfg r \<longleftrightarrow>
     (case bearer_token r of None \<Rightarrow> False | Some tok \<Rightarrow> validate_token jwt_parse cfg tok = None)"

definition cidr_accepts :: "'st admin_cidr_config \<Rightarrow> request \<Rightarrow> bool" where
  "cidr_accepts cfg r \<longleftrightarrow>
     parse_cidrs (ac_cidrs cfg) = []
     \<or> (case parse_ip (client_ip_from_request r (parse_cidrs (ac_trusted cfg))) of
          None \<Rightarrow> False | Some a \<Rightarrow> list_ex (\<lambda>n. net_contains n a) (parse_cidrs (ac_cidrs cfg)))"

lemma reject_security_status:
  "w_status w = None \<Longrightarrow> \<exists>w'. reject_security r status reason f err (w, st)
      = (Returned, w', f r reason status st) \<and> w_status w' = Some status"
  by (simp add: reject_security_def write_error_def write_json_def write_body_def write_header_def
      set_header_def Let_def)

lemma jwt_pass: "jwt_accepts p cfg r \<Longrightarrow> require_admin_jwt p cfg next r ws = next r ws"
  by (auto simp: require_admin_jwt_def jwt_accepts_def split: option.splits)

lemma cidr_pass: "cidr_accepts cfg r \<Longrightarrow> require_admin_cidr_allowlist t cfg next r ws = next r ws"
  by (auto simp: require_admin_cidr_allowlist_def cidr_accepts_def Let_def list_ex_iff
      split: option.splits)

lemma jwt_block:
  "jw_enabled cfg \<Longrightarrow> is_admin_path (rq_path r) \<Longrightarrow> \<not> jwt_accepts p cfg r \<Longrightarrow>
     \<exists>reason err. \<forall>next ws. require_admin_jwt p cfg next r ws
       = reject_security r 401 reason (jw_on_reject cfg) err ws"
  by (cases "bearer_token r"; cases "validate_token p cfg (the (bearer_token r))")
     (auto simp: require_admin_jwt_def jwt_accepts_def)

lemma cidr_block:
  "ac_enabled cfg \<Longrightarrow> is_admin_path (rq_path r) \<Longrightarrow> \<not> cidr_accepts cfg r \<Longrightarrow>
     \<exists>reason err. \<forall>next ws. require_admin_cidr_allowlist t cfg next r ws
       = reject_security r 403 reason (ac_on_reject cfg) err ws"
  by (cases "parse_ip (client_ip_from_request r (parse_cidrs (ac_trusted cfg)))"; cases "ac_cidrs cfg")
     (auto simp: require_admin_cidr_allowlist_def cidr_accepts_def Let_def)


definition no_hook :: "'st reject_hook" where
  "no_hook r reason status st = st"


text \<open>The successor link of a legacy route lacks the slash after \<open>webhooks\<close>.\<close>

lemma successor_link_loses_slash:
  "w_status w = None \<Longrightarrow>
     w_header (version_headers f d ''v1'' (''/webhooks/'' @ source) version_routes w) ''Link''
       = Some (''</api/v1/webhooks'' @ source @ ''>; rel=\"successor-version\"'')"
proof -
  have "has_prefix (''/webhooks/'' @ source) ''/webhooks/''"
    "trim_prefix (''/webhooks/'' @ source) ''/webhooks/'' = source"
    by (rule has_prefix_append trim_prefix_append)+
  moreover have "\<not> has_prefix (''/webhooks/'' @ source) ''/api/v1/webhooks/''"
    by (simp add: has_prefix_def)
  ultimately show "w_status w = None \<Longrightarrow> ?thesis"
    by (simp add: version_routes_def set_header_def del: append.simps)
qed

end
