(* ===== verification/Async_Safety.thy ===== *)
theory Async_Safety
  imports Async_Publisher
begin

text \<open>
  What holds in every reachable interleaving of the asynchronous publisher: the bound on the queue,
  the conservation of events, the dead letters, the drain after \<open>Close\<close>, and the one interleaving
  the code does not exclude, a send on the closed channel.
\<close>

section \<open>The invariant\<close>

fun busy_of :: "worker \<Rightarrow> queued_event list" where
  "busy_of (Busy e) = [e]"
| "busy_of Idle = []"
| "busy_of Exited = []"

definition busy_events :: "worker list \<Rightarrow> queued_event list" where
  "busy_events ws = concat (map busy_of ws)"

fun dlq_of :: "hook_event \<Rightarrow> (string \<times> string \<times> headers \<times> goerr) list" where
  "dlq_of (HookDLQ s b h x) = [(s, b, h, x)]"
| "dlq_of (HookBackpressure s a n) = []"
| "dlq_of (HookPublish s r n) = []"
| "dlq_of (HookLatency s d f) = []"

definition dead_letters :: "hook_event list \<Rightarrow> (string \<times> string \<times> headers \<times> goerr) list" where
  "dead_letters hs = concat (map dlq_of hs)"

definition failed_deliveries ::
  "(queued_event \<times> goerr option) list \<Rightarrow> (string \<times> string \<times> headers \<times> goerr) list" where
  "failed_deliveries ds =
     concat (map (\<lambda>(e, r). case r of None \<Rightarrow> [] | Some x \<Rightarrow> [(qe_source e, qe_body e, qe_headers e, x)]) ds)"

lemma dead_letters_simps [simp]:
  "dead_letters [] = []" "dead_letters (xs @ ys) = dead_letters xs @ dead_letters ys"
  "dead_letters (emit_backpressure opts s a n) = []"
  "dead_letters (emit_publish opts s a n) = []"
  by (simp_all add: dead_letters_def emit_backpressure_def emit_publish_def)

lemma failed_deliveries_snoc [simp]:
  "failed_deliveries [] = []"
  "failed_deliveries (ds @ [(e, r)]) =
     failed_deliveries ds @ (case r of None \<Rightarrow> [] | Some x \<Rightarrow> [(qe_source e, qe_body e, qe_headers e, x)])"
  by (simp_all add: failed_deliveries_def)

lemma busy_events_update:
  assumes "i < length ws"
  shows "mset (busy_events (ws[i := w])) + mset (busy_of (ws ! i))
     = mset (busy_events ws) + mset (busy_of w)"
proof -
  have "ws = take i ws @ ws ! i # drop (Suc i) ws" by (rule id_take_nth_drop [OF assms])
  then have "busy_events ws
      = busy_events (take i ws) @ busy_of (ws ! i) @ busy_events (drop (Suc i) ws)"
    by (metis busy_events_def concat.simps(2) concat_append list.simps(9) map_append)
  moreover have "busy_events (ws[i := w])
      = busy_events (take i ws) @ busy_of w @ busy_events (drop (Suc i) ws)"
    by (simp add: upd_conv_take_nth_drop [OF assms] busy_events_def)
  ultimately show ?thesis by simp
qed

lemma hand_over_busy:
  "hand_over e ws = Some ws' \<Longrightarrow>
     mset (busy_events ws') = mset (busy_events ws) + {#e#} \<and> length ws' = length ws
     \<and> (Exited \<in> set ws' \<longrightarrow> Exited \<in> set ws)"
  by (induction ws arbitrary: ws') (auto simp: busy_events_def split: if_splits)

definition stats_ok :: "world \<Rightarrow> bool" where
  "stats_ok s \<longleftrightarrow>
     window_wf (as_stats (wd_pub s)) \<and>
     window_abs (as_stats (wd_pub s)) =
       last_n (length (pw_results (as_stats (wd_pub s)))) (map (\<lambda>(e, r). r = None) (wd_done s))"

definition world_inv :: "world \<Rightarrow> bool" where
  "world_inv s \<longleftrightarrow>
     length (as_queue (wd_pub s)) \<le> as_capacity (wd_pub s)
     \<and> wd_accepted s = wd_taken s @ as_queue (wd_pub s)
     \<and> mset (wd_taken s) = mset (busy_events (as_workers (wd_pub s))) + mset (map fst (wd_done s))
     \<and> (Exited \<in> set (as_workers (wd_pub s)) \<longrightarrow> as_closed (wd_pub s) \<and> as_queue (wd_pub s) = [])
     \<and> as_workers (wd_pub s) \<noteq> []
     \<and> stats_ok s
     \<and> (hk_dlq (ao_hooks (as_opts (wd_pub s))) \<longrightarrow> dead_letters (wd_hooks s) = failed_deliveries (wd_done s))"

lemma world_inv_init:
  assumes "new_async_publisher b ao = Some p"
  shows "world_inv (init_world p)"
proof -
  have "0 < ao_workers (with_defaults ao)" by (simp add: with_defaults_def)
  then have "nat (ao_workers (with_defaults ao)) \<noteq> 0" by simp
  with assms show ?thesis
    by (auto simp: new_async_publisher_def Let_def world_inv_def init_world_def busy_events_def
        stats_ok_def last_n_def split: if_splits)
qed

lemma publish_check_pure: "dead_letters (snd (publish_check src p)) = []"
  by (auto simp: publish_check_def Let_def split: if_splits)

lemma step_check_inv: "world_inv s \<Longrightarrow> step_check i e s = Some s' \<Longrightarrow> world_inv s'"
  using publish_check_pure [of "qe_source e" "wd_pub s"]
  by (auto simp: step_check_def world_inv_def stats_ok_def split: if_splits prod.splits option.splits)

lemma step_send_inv: "world_inv s \<Longrightarrow> step_send i s = Some s' \<Longrightarrow> world_inv s'"
  by (auto simp: step_send_def world_inv_def stats_ok_def publish_send_def Let_def
      dest!: hand_over_busy split: if_splits prod.splits option.splits send_outcome.splits)

lemma step_take_inv: "world_inv s \<Longrightarrow> step_take i s = Some s' \<Longrightarrow> world_inv s'"
proof -
  assume inv: "world_inv s" and st: "step_take i s = Some s'"
  let ?p = "wd_pub s"
  from st obtain e q where c: "i < length (as_workers ?p)" "as_workers ?p ! i = Idle"
      "as_queue ?p = e # q"
      "s' = s\<lparr>wd_pub := ?p\<lparr>as_queue := q, as_workers := (as_workers ?p)[i := Busy e]\<rparr>,
              wd_taken := wd_taken s @ [e]\<rparr>"
    by (auto simp: step_take_def Let_def split: if_splits list.splits)
  have b: "mset (busy_events ((as_workers ?p)[i := Busy e])) = mset (busy_events (as_workers ?p)) + {#e#}"
    using busy_events_update [OF c(1), of "Busy e"] c(2) by simp
  have "Exited \<notin> set (as_workers ?p)" using inv c(3) by (auto simp: world_inv_def)
  then have "Exited \<notin> set ((as_workers ?p)[i := Busy e])"
    using set_update_subset_insert [of "as_workers ?p" i "Busy e"] by auto
  with inv b c(3) show ?thesis by (simp add: c(4) world_inv_def stats_ok_def)
qed

lemma process_parts:
  "process_queued_event w e out latency p = (hs, p') \<Longrightarrow>
     p' = p\<lparr>as_stats := window_record (safe_publish w out = None) (as_stats p)\<rparr>
     \<and> (hk_dlq (ao_hooks (as_opts p)) \<longrightarrow> dead_letters hs = (case safe_publish w out of
          None \<Rightarrow> [] | Some x \<Rightarrow> [(qe_source e, qe_body e, qe_headers e, x)]))"
  by (auto simp: process_queued_event_def Let_def record_publish_result_def split: option.splits)
     (auto simp: dead_letters_def emit_publish_def)

lemma step_finish_inv: "world_inv s \<Longrightarrow> step_finish i out latency s = Some s' \<Longrightarrow> world_inv s'"
proof -
  assume inv: "world_inv s" and st: "step_finish i out latency s = Some s'"
  let ?p = "wd_pub s" and ?r = "safe_publish (Suc i) out"
  from st obtain e hs p' where c: "i < length (as_workers ?p)" "as_workers ?p ! i = Busy e"
      "process_queued_event (Suc i) e out latency ?p = (hs, p')"
      "s' = s\<lparr>wd_pub := p'\<lparr>as_workers := (as_workers p')[i := Idle]\<rparr>,
              wd_done := wd_done s @ [(e, ?r)], wd_hooks := wd_hooks s @ hs\<rparr>"
    by (auto simp: step_finish_def Let_def split: if_splits worker.splits prod.splits)
  note pp = process_parts [OF c(3)]
  have b: "mset (busy_events ((as_workers ?p)[i := Idle])) + {#e#} = mset (busy_events (as_workers ?p))"
    using busy_events_update [OF c(1), of Idle] c(2) by simp
  have ex: "Exited \<in> set ((as_workers ?p)[i := Idle]) \<Longrightarrow> Exited \<in> set (as_workers ?p)"
    using set_update_subset_insert [of "as_workers ?p" i Idle] by auto
  have so: "stats_ok s'"
    using inv pp window_record_abs [of "as_stats ?p" "?r = None"]
    by (simp add: c(4) world_inv_def stats_ok_def last_n_snoc)
  have dl: "hk_dlq (ao_hooks (as_opts ?p)) \<longrightarrow>
      dead_letters (wd_hooks s @ hs) = failed_deliveries (wd_done s @ [(e, ?r)])"
    using inv pp by (simp add: world_inv_def)
  have bal: "mset (wd_taken s)
      = mset (busy_events ((as_workers ?p)[i := Idle])) + mset (map fst (wd_done s @ [(e, ?r)]))"
    using inv b by (simp add: world_inv_def)
  from inv so dl bal ex pp show ?thesis by (auto simp: c(4) world_inv_def)
qed

lemma step_exit_inv: "world_inv s \<Longrightarrow> step_exit i s = Some s' \<Longrightarrow> world_inv s'"
  using busy_events_update [of i "as_workers (wd_pub s)" Exited]
  by (auto simp: step_exit_def world_inv_def stats_ok_def Let_def split: if_splits)

lemma step_close_inv: "world_inv s \<Longrightarrow> world_inv (s\<lparr>wd_pub := async_close (wd_pub s)\<rparr>)"
  by (simp add: world_inv_def stats_ok_def async_close_def)

lemma world_step_inv: "world_inv s \<Longrightarrow> world_step a s = Some s' \<Longrightarrow> world_inv s'"
  by (cases a)
     (auto intro: step_check_inv step_send_inv step_take_inv step_finish_inv step_exit_inv
       step_close_inv)

lemma world_reach_inv: "world_reach b ao s \<Longrightarrow> world_inv s"
  by (induction rule: world_reach.induct) (auto intro: world_inv_init world_step_inv)

definition same_setup :: "world \<Rightarrow> world \<Rightarrow> bool" where
  "same_setup s s' \<longleftrightarrow>
     as_opts (wd_pub s') = as_opts (wd_pub s) \<and> as_capacity (wd_pub s') = as_capacity (wd_pub s)
     \<and> (as_closed (wd_pub s) \<longrightarrow> as_closed (wd_pub s'))"

lemma setup_check: "step_check i e s = Some s' \<Longrightarrow> same_setup s s'"
  by (auto simp: step_check_def same_setup_def split: if_splits prod.splits option.splits)

lemma publish_send_setup:
  "publish_send e p = (r, p') \<Longrightarrow>
     as_opts p' = as_opts p \<and> as_capacity p' = as_capacity p \<and> as_closed p' = as_closed p"
  by (auto simp: publish_send_def split: if_splits option.splits)

lemma setup_send: "step_send i s = Some s' \<Longrightarrow> same_setup s s'"
  by (auto simp: step_send_def same_setup_def Let_def dest: publish_send_setup
      split: option.splits prod.splits send_outcome.splits)

lemma setup_take: "step_take i s = Some s' \<Longrightarrow> same_setup s s'"
  by (auto simp: step_take_def same_setup_def Let_def split: if_splits list.splits)

lemma setup_finish: "step_finish i out latency s = Some s' \<Longrightarrow> same_setup s s'"
  by (auto simp: step_finish_def same_setup_def Let_def dest!: process_parts
      split: if_splits worker.splits prod.splits)

lemma setup_exit: "step_exit i s = Some s' \<Longrightarrow> same_setup s s'"
  by (auto simp: step_exit_def same_setup_def Let_def split: if_splits)

lemma setup_close: "same_setup s (s\<lparr>wd_pub := async_close (wd_pub s)\<rparr>)"
  by (simp add: same_setup_def async_close_def)

lemma world_step_setup: "world_step a s = Some s' \<Longrightarrow> same_setup s s'"
  by (cases a) (auto intro: setup_check setup_send setup_take setup_finish setup_exit setup_close)

lemmas world_step_const = world_step_setup [unfolded same_setup_def]

lemma world_reach_const:
  "world_reach b ao s \<Longrightarrow> 0 \<le> b \<and> as_capacity (wd_pub s) = nat b \<and> as_opts (wd_pub s) = with_defaults ao"
  by (induction rule: world_reach.induct)
     (auto simp: new_async_publisher_def init_world_def Let_def dest!: world_step_const
       split: if_splits)

text \<open>C1: in every interleaving of request goroutines, workers and \<open>Close\<close>, the queue never holds
  more than its buffer, workers receive the accepted events in the order they were accepted, and each
  accepted event is in exactly one place: waiting in the queue, being published, or finished.\<close>

theorem async_conservation:
  assumes "world_reach buffer ao s"
  shows "length (as_queue (wd_pub s)) \<le> nat buffer
    \<and> wd_accepted s = wd_taken s @ as_queue (wd_pub s)
    \<and> mset (wd_accepted s) = mset (as_queue (wd_pub s))
        + mset (busy_events (as_workers (wd_pub s))) + mset (map fst (wd_done s))"
  using world_reach_inv [OF assms] world_reach_const [OF assms]
  by (simp add: world_inv_def)

text \<open>C18: with the dead-letter hook set, the dead letters are exactly the events whose publish failed
  (an error or a panic of the wrapped publisher), each once with its own body, headers and error, in
  the order they failed; and the failure statistics are those of the last results.\<close>

theorem async_dead_letters:
  assumes "world_reach buffer ao s" and "hk_dlq (ao_hooks ao)"
  shows "dead_letters (wd_hooks s) = failed_deliveries (wd_done s)
    \<and> window_abs (as_stats (wd_pub s)) =
        last_n (length (pw_results (as_stats (wd_pub s)))) (map (\<lambda>(e, r). r = None) (wd_done s))"
  using world_reach_inv [OF assms(1)] world_reach_const [OF assms(1)] assms(2)
  by (simp add: world_inv_def stats_ok_def with_defaults_def)

section \<open>Draining\<close>

fun worker_weight :: "worker \<Rightarrow> nat" where
  "worker_weight Idle = 1"
| "worker_weight (Busy e) = 2"
| "worker_weight Exited = 0"

definition drain_work :: "world \<Rightarrow> nat" where
  "drain_work s = 2 * length (as_queue (wd_pub s)) + sum_list (map worker_weight (as_workers (wd_pub s)))"

fun worker_action :: "action \<Rightarrow> bool" where
  "worker_action (ATake i) = True"
| "worker_action (AFinish i r d) = True"
| "worker_action (AExit i) = True"
| "worker_action (ACheck i e) = False"
| "worker_action (ASend i) = False"
| "worker_action AClose = False"

lemma weight_update:
  "i < length ws \<Longrightarrow>
     sum_list (map worker_weight (ws[i := w])) + worker_weight (ws ! i)
     = sum_list (map worker_weight ws) + worker_weight w"
  by (induction ws arbitrary: i) (auto split: nat.splits)

lemma worker_action_decreases:
  "worker_action a \<Longrightarrow> world_step a s = Some s' \<Longrightarrow> drain_work s' < drain_work s"
proof (cases a)
  case (ATake i)
  assume "world_step a s = Some s'"
  with ATake obtain e q where "i < length (as_workers (wd_pub s))" "as_workers (wd_pub s) ! i = Idle"
      "as_queue (wd_pub s) = e # q" "wd_pub s' = (wd_pub s)\<lparr>as_queue := q,
         as_workers := (as_workers (wd_pub s))[i := Busy e]\<rparr>"
    by (auto simp: step_take_def Let_def split: if_splits list.splits)
  with weight_update [of i "as_workers (wd_pub s)" "Busy e"] show ?thesis
    by (simp add: drain_work_def)
next
  case (AFinish i r d)
  assume "world_step a s = Some s'"
  with AFinish weight_update [of i "as_workers (wd_pub s)" Idle] show ?thesis
    by (auto simp: step_finish_def drain_work_def Let_def process_queued_event_def
        record_publish_result_def split: if_splits worker.splits)
next
  case (AExit i)
  assume "world_step a s = Some s'"
  with AExit weight_update [of i "as_workers (wd_pub s)" Exited] show ?thesis
    by (auto simp: step_exit_def drain_work_def Let_def split: if_splits)
qed auto

lemma worker_action_enabled:
  assumes "as_closed (wd_pub s)" and "\<not> list_all (\<lambda>w. w = Exited) (as_workers (wd_pub s))"
  shows "\<exists>a s'. worker_action a \<and> world_step a s = Some s'"
proof -
  let ?ws = "as_workers (wd_pub s)"
  from assms(2) obtain i where i: "i < length ?ws" "?ws ! i \<noteq> Exited"
    by (auto simp: list_all_length)
  show ?thesis
  proof (cases "?ws ! i")
    case Idle
    show ?thesis
    proof (cases "as_queue (wd_pub s)")
      case Nil
      with Idle i assms(1) have "\<exists>s'. world_step (AExit i) s = Some s'"
        by (simp add: step_exit_def Let_def)
      then show ?thesis using worker_action.simps(3) by blast
    next
      case (Cons e q)
      with Idle i have "\<exists>s'. world_step (ATake i) s = Some s'"
        by (simp add: step_take_def Let_def)
      then show ?thesis using worker_action.simps(1) by blast
    qed
  next
    case (Busy e)
    with i have "\<exists>s'. world_step (AFinish i InnerOk 0) s = Some s'"
      by (simp add: step_finish_def Let_def split: prod.splits)
    then show ?thesis using worker_action.simps(2) by blast
  qed (use i in simp)
qed

lemma worker_step_stays_closed:
  "as_closed (wd_pub s) \<Longrightarrow> world_step a s = Some s' \<Longrightarrow> as_closed (wd_pub s')"
  using world_step_const by blast

lemma drains:
  "as_closed (wd_pub s) \<Longrightarrow> \<exists>as s'. length as \<le> drain_work s \<and> list_all worker_action as
     \<and> world_run as s = Some s' \<and> close_returned s'"
proof (induction "drain_work s" arbitrary: s rule: less_induct)
  case less
  show ?case
  proof (cases "list_all (\<lambda>w. w = Exited) (as_workers (wd_pub s))")
    case True
    with less.prems have "world_run [] s = Some s \<and> close_returned s"
      by (simp add: close_returned_def)
    moreover have "length [] \<le> drain_work s" "list_all worker_action []" by simp_all
    ultimately show ?thesis by blast
  next
    case False
    with worker_action_enabled less.prems obtain a s1
      where a: "worker_action a" "world_step a s = Some s1" by blast
    have d: "drain_work s1 < drain_work s" by (rule worker_action_decreases [OF a])
    with less.hyps worker_step_stays_closed [OF less.prems a(2)] obtain as s'
      where r: "length as \<le> drain_work s1" "list_all worker_action as"
        "world_run as s1 = Some s'" "close_returned s'" by blast
    have "length (a # as) \<le> drain_work s" "list_all worker_action (a # as)"
        "world_run (a # as) s = Some s'"
      using r a d by simp_all
    with r(4) show ?thesis by blast
  qed
qed

text \<open>C3: \<open>Close\<close> drains the queue. Once the publisher is closed, the workers reach the point where
  \<open>Close\<close> returns in at most \<open>drain_work\<close> steps of their own, no other order of worker steps is
  longer (each one decreases the measure), and when \<open>Close\<close> has returned the queue is empty and every
  accepted event has been published or has failed.\<close>

theorem close_drains:
  assumes "world_reach buffer ao s" and "as_closed (wd_pub s)"
  shows "(\<exists>as s'. length as \<le> drain_work s \<and> list_all worker_action as
            \<and> world_run as s = Some s' \<and> close_returned s')
    \<and> (\<forall>a s'. worker_action a \<longrightarrow> world_step a s = Some s' \<longrightarrow> drain_work s' < drain_work s)
    \<and> (close_returned s \<longrightarrow>
         as_queue (wd_pub s) = [] \<and> mset (wd_accepted s) = mset (map fst (wd_done s)))"
proof -
  have inv: "world_inv s" by (rule world_reach_inv [OF assms(1)])
  have "close_returned s \<Longrightarrow>
      as_queue (wd_pub s) = [] \<and> mset (wd_accepted s) = mset (map fst (wd_done s))"
  proof -
    assume "close_returned s"
    then have all: "\<forall>w \<in> set (as_workers (wd_pub s)). w = Exited"
      by (simp add: close_returned_def list_all_iff)
    then have "busy_events (as_workers (wd_pub s)) = []"
      by (auto simp: busy_events_def)
    moreover have "Exited \<in> set (as_workers (wd_pub s))"
      using all inv by (cases "as_workers (wd_pub s)") (auto simp: world_inv_def)
    ultimately show ?thesis using inv by (simp add: world_inv_def)
  qed
  with drains [OF assms(2)] worker_action_decreases show ?thesis by blast
qed

section \<open>Concrete runs\<close>

definition demo_event :: queued_event where
  "demo_event = make_event 0 None ''github'' ''{}'' None"

definition demo_options :: async_options where
  "demo_options =
     \<lparr>ao_backpressure = \<lparr>bp_enabled = False, bp_soft = 1 / 2, bp_hard = 3 / 4,
        bp_fail_threshold = 1 / 4, bp_window = 4, bp_min_samples = 2\<rparr>,
      ao_hooks = \<lparr>hk_backpressure = True, hk_publish = False, hk_dlq = True, hk_latency = False\<rparr>,
      ao_workers = 1\<rparr>"

definition demo_world :: world where
  "demo_world = init_world (the (new_async_publisher 1 demo_options))"

lemma demo_world_reach: "world_reach 1 demo_options demo_world"
  unfolding demo_world_def
  by (rule world_reach.start) (simp add: new_async_publisher_def Let_def)

definition demo_run :: "action list \<Rightarrow> world" where
  "demo_run as = the (world_run as demo_world)"

lemma demo_run_reach: "world_run as demo_world \<noteq> None \<Longrightarrow> world_reach 1 demo_options (demo_run as)"
  using world_run_reach [OF demo_world_reach] by (auto simp: demo_run_def)

definition demo_failing :: "action list" where
  "demo_failing = [ACheck 0 demo_event, ASend 0, ATake 0, AFinish 0 (InnerErr (ErrText ''down'')) 5]"

lemma demo_with_defaults: "with_defaults demo_options = demo_options"
  by code_simp

lemma demo_world_value: "demo_world = init_world
   \<lparr>as_opts = demo_options, as_queue = [], as_capacity = 1, as_closed = False,
    as_stats = new_publish_window 4, as_workers = [Idle]\<rparr>"
  by (simp add: demo_world_def new_async_publisher_def demo_with_defaults Let_def)
     (simp add: demo_options_def)

lemmas demo_defs = demo_failing_def demo_run_def demo_world_value demo_options_def demo_event_def
  make_event_def init_world_def step_check_def step_send_def step_take_def step_finish_def
  step_exit_def publish_check_def publish_send_def is_hard_limited_def should_throttle_def
  process_queued_event_def record_publish_result_def safe_publish_def emit_publish_def
  emit_backpressure_def async_close_def

lemma demo_failing_done:
  "world_run demo_failing demo_world \<noteq> None
   \<and> wd_done (demo_run demo_failing) =
       [(demo_event, Some (Wrapped ''publish event: '' (ErrText ''down'')))]
   \<and> length (wd_accepted (demo_run demo_failing)) = 1"
  by (simp add: demo_defs Let_def)

theorem async_conservation_witness:
  "length (wd_accepted (demo_run demo_failing)) = 1
   \<and> length (as_queue (wd_pub (demo_run demo_failing))) \<le> 1"
  using async_conservation [OF demo_run_reach, of demo_failing] demo_failing_done by simp

theorem async_dead_letters_witness:
  "dead_letters (wd_hooks (demo_run demo_failing)) =
     [(''github'', ''{}'', None, Wrapped ''publish event: '' (ErrText ''down''))]"
  using async_dead_letters [OF demo_run_reach, of demo_failing] demo_failing_done
  by (simp add: demo_options_def failed_deliveries_def) (simp add: demo_event_def make_event_def)

definition demo_closing :: "action list" where
  "demo_closing = [ACheck 0 demo_event, ASend 0, AClose, ATake 0, AFinish 0 InnerOk 5, AExit 0]"

lemma demo_closing_done:
  "world_run demo_closing demo_world \<noteq> None \<and> as_closed (wd_pub (demo_run demo_closing))
   \<and> close_returned (demo_run demo_closing)"
  by (simp add: demo_defs demo_closing_def close_returned_def Let_def)

theorem close_drains_witness:
  "as_queue (wd_pub (demo_run demo_closing)) = []
   \<and> mset (wd_accepted (demo_run demo_closing)) = mset (map fst (wd_done (demo_run demo_closing)))"
  using close_drains [OF demo_run_reach, of demo_closing] demo_closing_done by simp

section \<open>A send on the closed channel\<close>

text \<open>C4: the code does not exclude a send on the closed channel: \<open>Publish\<close> releases the read lock
  between its closed check and the send. Whenever an event passes the check on an open publisher, a
  \<open>Close\<close> before its send makes the send panic, and the event is lost: it is neither accepted nor
  refused.\<close>

theorem send_after_close_panics:
  assumes "publish_check (qe_source e) p = (None, hs)"
  shows "\<exists>s. world_run [ACheck i e, AClose, ASend i] (init_world p) = Some s \<and> wd_panicked s
    \<and> wd_accepted s = [] \<and> wd_hooks s = [] \<and> as_queue (wd_pub s) = as_queue p"
  using assms
  by (simp add: init_world_def step_check_def step_send_def publish_send_def async_close_def Let_def)

theorem send_after_close_panics_witness:
  "\<exists>s. world_run [ACheck 0 demo_event, AClose, ASend 0] demo_world = Some s \<and> wd_panicked s"
proof -
  let ?p = "\<lparr>as_opts = demo_options, as_queue = [], as_capacity = 1, as_closed = False,
    as_stats = new_publish_window 4, as_workers = [Idle]\<rparr>"
  have "publish_check (qe_source demo_event) ?p = (None, [])"
    by (simp add: publish_check_def is_hard_limited_def should_throttle_def demo_options_def Let_def)
  from send_after_close_panics [OF this, of 0] show ?thesis
    unfolding demo_world_value by blast
qed

lemma closed_accepts_nothing:
  "as_closed (wd_pub s) \<Longrightarrow> step_send i s = Some s' \<Longrightarrow> wd_accepted s' = wd_accepted s"
  by (auto simp: step_send_def publish_send_def Let_def split: option.splits)

end
