(* ===== verification/Gateway.thy ===== *)
theory Gateway
  imports Webhooks Http_Auth Async_Safety
begin

text \<open>
  The gateway as \<open>cmd/server/main.go\<close> puts it together: the webhook handlers over the in-memory
  deduplication, the asynchronous publisher and the Postgres store of failed events behind its
  breaker; the middleware chain of \<open>HandlerBuilder.Build\<close>; and the small helpers of the file. The
  properties that span the components are stated on this composition.
\<close>

section \<open>Helpers of main\<close>

definition security_source_from_path :: "string \<Rightarrow> string" where
  "security_source_from_path path =
     (if has_prefix path ''/admin'' then ''admin''
      else if has_prefix path ''/api/v1/webhooks/'' then
        (let s = trim_set (trim_prefix path ''/api/v1/webhooks/'') ''/'' in if s \<noteq> '''' then s else ''http'')
      else if has_prefix path ''/webhooks/'' then
        (let s = trim_set (trim_prefix path ''/webhooks/'') ''/'' in if s \<noteq> '''' then s else ''http'')
      else ''http'')"

text \<open>\<open>deferredHandler\<close>: without a handler the request is answered with nothing.\<close>

definition deferred_serve :: "'st handler option \<Rightarrow> 'st handler" where
  "deferred_serve h r ws = (case h of Some f \<Rightarrow> f r ws | None \<Rightarrow> (Returned, ws))"

text \<open>The middlewares in front of the token check.\<close>

definition outer_guards ::
  "config \<Rightarrow> 'st limiter \<Rightarrow> 'st reject_hook \<Rightarrow> (ip \<Rightarrow> string) \<Rightarrow> (time \<Rightarrow> string) \<Rightarrow> 'st middleware list"
where
  "outer_guards cfg lmt sec ip_text rfc =
     [api_version rfc
        \<lparr>av_enabled = True, av_sunset = default_sunset, av_version = ''v1'',
         av_on_mismatch = Some (\<lambda>w r requested. http_error (version_mismatch_text requested ''v1'') 406 w)\<rparr>,
      chaos \<lparr>ch_enabled = ChaosEnabled cfg, ch_error = ChaosErrorRate cfg,
             ch_latency = ChaosLatencyRate cfg, ch_min = ChaosLatencyMinMs cfg * 1000000,
             ch_max = ChaosLatencyMaxMs cfg * 1000000\<rparr>,
      request_timeout (RequestTimeoutSec cfg * second),
      request_id,
      rate_limit \<lparr>rl_enabled = RateLimitEnabled cfg, rl_general = RateLimitRPM cfg,
                  rl_admin = AdminRateLimitRPM cfg, rl_trusted = TrustedProxyCIDRs cfg,
                  rl_on_reject = sec, rl_limiter = lmt\<rparr>,
      source_rate_limit \<lparr>sl_enabled = SourceRateLimitEnabled cfg,
                         sl_sources = map_of (SourceRateLimits cfg),
                         sl_default = SourceRateLimitDefault cfg, sl_trusted = TrustedProxyCIDRs cfg,
                         sl_on_reject = (\<lambda>r source status.
                           sec r (''source_rate_limit_exceeded:'' @ source) status),
                         sl_limiter = lmt\<rparr>,
      require_admin_cidr_allowlist ip_text
        \<lparr>ac_enabled = AdminAuthEnabled cfg, ac_cidrs = AdminAllowCIDRs cfg,
         ac_trusted = TrustedProxyCIDRs cfg, ac_on_reject = sec\<rparr>]"

definition build_handler ::
  "config \<Rightarrow> 'st limiter \<Rightarrow> 'st reject_hook \<Rightarrow> (access_entry \<Rightarrow> 'st \<Rightarrow> 'st) \<Rightarrow> jwt_parser
     \<Rightarrow> (ip \<Rightarrow> string) \<Rightarrow> (time \<Rightarrow> string) \<Rightarrow> 'st middleware \<Rightarrow> 'st handler \<Rightarrow> 'st handler" where
  "build_handler cfg lmt sec emit jwt_parse ip_text rfc tracing mux =
     chain mux
       (outer_guards cfg lmt sec ip_text rfc @
        [require_admin_jwt jwt_parse
           \<lparr>jw_enabled = AdminAuthEnabled cfg, jw_issuer = AdminJWTIssuer cfg,
            jw_audience = AdminJWTAudience cfg, jw_secret = AdminJWTSecret cfg, jw_on_reject = sec\<rparr>,
         recoverer,
         access_log emit,
         tracing])"

section \<open>The webhook handlers on their stores\<close>

record gateway =
  gw_dedup :: memory
  gw_pub :: async_state
  gw_store :: "circuit_breaker \<times> pg_table"
  gw_observed :: "(string \<times> int) list"
  gw_rejected :: "security_event list"

definition gateway_dedup :: "gateway dedup_ops" where
  "gateway_dedup =
     \<lparr>dd_seen = (\<lambda>t k st. case mem_do_seen t k (gw_dedup st) of (b, m) \<Rightarrow> (b, st\<lparr>gw_dedup := m\<rparr>)),
      dd_forget = (\<lambda>k st. st\<lparr>gw_dedup := mem_forget k (gw_dedup st)\<rparr>)\<rparr>"

definition request_event :: "request \<Rightarrow> string \<Rightarrow> string \<Rightarrow> headers \<Rightarrow> queued_event" where
  "request_event r source body hdrs = make_event (dr_now (rq_draws r)) (rq_deadline r) source body hdrs"

definition gateway_publish ::
  "request \<Rightarrow> string \<Rightarrow> string \<Rightarrow> headers \<Rightarrow> gateway \<Rightarrow> publish_answer \<times> gateway" where
  "gateway_publish r source body hdrs st =
     (case async_publish (request_event r source body hdrs) (gw_pub st) of
        (None, hs, p) \<Rightarrow> (Published, st\<lparr>gw_pub := p\<rparr>)
      | (Some err, hs, p) \<Rightarrow> (Refused err, st\<lparr>gw_pub := p\<rparr>))"

definition gateway_save ::
  "string result \<Rightarrow> goerr option \<Rightarrow> time \<Rightarrow> save_request \<Rightarrow> gateway \<Rightarrow> failed_event result \<times> gateway" where
  "gateway_save rnd db now inp st =
     (case cbs_save now now (pg_save db now rnd inp) (gw_store st) of
        (res, s) \<Rightarrow> (res, st\<lparr>gw_store := s\<rparr>))"

text \<open>The hook \<open>OnDLQ\<close> of the asynchronous publisher: the key of the dead letter is forgotten and the
  event saved.\<close>

definition dlq_event_id :: "headers \<Rightarrow> string" where
  "dlq_event_id hdrs = trim_space (get_str (case hdrs of None \<Rightarrow> Map.empty | Some m \<Rightarrow> m) ''X-Event-ID'')"

definition gateway_dlq ::
  "string result \<Rightarrow> goerr option \<Rightarrow> time \<Rightarrow> string \<Rightarrow> string \<Rightarrow> headers \<Rightarrow> gateway \<Rightarrow> gateway" where
  "gateway_dlq rnd db now source body hdrs st =
     (let eid = dlq_event_id hdrs;
          st1 = (if eid \<noteq> '''' then dd_forget gateway_dedup (source @ '':'' @ eid) st else st)
      in snd (gateway_save rnd db now
           \<lparr>sr_id = eid, sr_source = source, sr_reason = ''async_publish_failed'', sr_headers = hdrs,
            sr_body = body\<rparr> st1))"

definition gateway_env ::
  "config \<Rightarrow> (string \<Rightarrow> string \<Rightarrow> goerr option) option \<Rightarrow> string result \<Rightarrow> goerr option
     \<Rightarrow> gateway webhook_env" where
  "gateway_env cfg validator rnd db =
     \<lparr>wh_cfg = cfg, wh_validate = validator, wh_dedup = Some gateway_dedup,
      wh_publish = gateway_publish, wh_failed = Some (gateway_save rnd db),
      wh_observe = (\<lambda>s n st. st\<lparr>gw_observed := gw_observed st @ [(s, n)]\<rparr>),
      wh_security = (\<lambda>r ev st. st\<lparr>gw_rejected := gw_rejected st @ [ev]\<rparr>)\<rparr>"

lemma gateway_env_simps [simp]:
  "wh_cfg (gateway_env cfg v rnd db) = cfg" "wh_validate (gateway_env cfg v rnd db) = v"
  "wh_dedup (gateway_env cfg v rnd db) = Some gateway_dedup"
  "wh_publish (gateway_env cfg v rnd db) = gateway_publish"
  "wh_failed (gateway_env cfg v rnd db) = Some (gateway_save rnd db)"
  "wh_observe (gateway_env cfg v rnd db) s n st = st\<lparr>gw_observed := gw_observed st @ [(s, n)]\<rparr>"
  "wh_security (gateway_env cfg v rnd db) r ev st = st\<lparr>gw_rejected := gw_rejected st @ [ev]\<rparr>"
  by (simp_all add: gateway_env_def)

definition webhook_sources :: "string list" where
  "webhook_sources = [''slack'', ''github'', ''gitlab'', ''teams'']"

definition webhook_handler :: "string \<Rightarrow> 'st webhook_env \<Rightarrow> 'st handler" where
  "webhook_handler source env =
     (if source = ''slack'' then handle_slack env
      else if source = ''github'' then handle_github env
      else if source = ''gitlab'' then handle_gitlab env
      else handle_teams env)"

text \<open>What the provider has to prove, by source.\<close>

definition authentic :: "config \<Rightarrow> string \<Rightarrow> request \<Rightarrow> bool" where
  "authentic cfg source r \<longleftrightarrow>
     (if source = ''slack'' then
        SlackSigningSecret cfg \<noteq> []
        \<and> (\<exists>ts. parse_int64 (rq_header r ''X-Slack-Request-Timestamp'') = Some ts
            \<and> \<bar>dr_now (rq_draws r) - ts * second\<bar> \<le> 5 * minute)
        \<and> rq_header r ''X-Slack-Signature'' = ''v0='' @ hex_encode (hmac_sha256 (SlackSigningSecret cfg)
            (''v0:'' @ rq_header r ''X-Slack-Request-Timestamp'' @ '':'' @ rq_body r))
      else if source = ''github'' then
        GitHubWebhookSecret cfg \<noteq> []
        \<and> rq_header r ''X-Hub-Signature-256''
            = ''sha256='' @ hex_encode (hmac_sha256 (GitHubWebhookSecret cfg) (rq_body r))
      else if source = ''gitlab'' then
        GitLabWebhookToken cfg \<noteq> [] \<and> rq_header r ''X-Gitlab-Token'' \<noteq> []
        \<and> sha256 (GitLabWebhookToken cfg) = sha256 (rq_header r ''X-Gitlab-Token'')
      else
        TeamsClientState cfg \<noteq> [] \<and> rq_header r ''X-Client-State'' \<noteq> []
        \<and> sha256 (TeamsClientState cfg) = sha256 (rq_header r ''X-Client-State''))"

definition well_formed :: "string \<Rightarrow> request \<Rightarrow> bool" where
  "well_formed source r \<longleftrightarrow>
     rq_method r \<in> (if source = ''teams'' then {''GET'', ''POST''} else {''POST''})
     \<and> rq_ctx_error r = None \<and> length (rq_body r) \<le> max_request_body \<and> rq_body_error r = None"

text \<open>States that differ only in the metrics and in the recorded rejections.\<close>

definition quiet :: "gateway \<Rightarrow> gateway \<Rightarrow> bool" where
  "quiet st st' \<longleftrightarrow> gw_dedup st' = gw_dedup st \<and> gw_pub st' = gw_pub st \<and> gw_store st' = gw_store st"

lemma with_body_cases:
  assumes "with_body (gateway_env cfg v rnd db) source check next r (w, st) = (out, w', st')"
  shows "quiet st st' \<and> out = Returned
    \<or> length (rq_body r) \<le> max_request_body \<and> rq_body_error r = None \<and> check (rq_body r) = None
      \<and> next (rq_body r) r (w, st) = (out, w', st')"
  using assms
  by (auto simp: with_body_def read_body_def reject_unauthorized_def quiet_def Let_def
      split: if_splits option.splits)

lemma entry_cases:
  assumes "entry (gateway_env cfg v rnd db) source allowed next r (w, st) = (out, w', st')"
  shows "quiet st st' \<and> out = Returned
    \<or> rq_method r \<in> set allowed \<and> rq_ctx_error r = None \<and> next r (w, st) = (out, w', st')"
  using assms
  by (auto simp: entry_def reject_method_def quiet_def Let_def split: if_splits)

lemma webhook_cases:
  assumes "webhook_handler source (gateway_env cfg v rnd db) r (w, st) = (out, w', st')"
    and "source \<in> set webhook_sources"
  shows "quiet st st' \<and> out = Returned
    \<or> well_formed source r \<and> authentic cfg source r
      \<and> publish_and_ack (gateway_env cfg v rnd db) source (rq_body r) r (w, st) = (out, w', st')"
proof -
  have skew: "(0 :: int) \<le> 5 * minute" "5 * minute < int64_max"
    by (simp_all add: duration_units int64_max_def)
  consider "source = ''slack''" | "source = ''github''" | "source = ''gitlab''" | "source = ''teams''"
    using assms(2) by (auto simp: webhook_sources_def)
  then show ?thesis
  proof cases
    case 1
    with assms(1) show ?thesis
      by (auto simp: webhook_handler_def handle_slack_def well_formed_def authentic_def quiet_def
          slack_None [OF skew] dest!: entry_cases with_body_cases split: option.splits)
  next
    case 2
    with assms(1) show ?thesis
      by (auto simp: webhook_handler_def handle_github_def well_formed_def authentic_def
          github_None dest!: entry_cases with_body_cases)
  next
    case 3
    with assms(1) show ?thesis
      by (auto simp: webhook_handler_def handle_gitlab_def well_formed_def authentic_def
          shared_secret_None dest!: entry_cases with_body_cases)
  next
    case 4
    with assms(1) show ?thesis
      by (auto simp: webhook_handler_def handle_teams_def well_formed_def authentic_def quiet_def
          shared_secret_None Let_def dest!: entry_cases with_body_cases split: if_splits)
  qed
qed

text \<open>A request that the handler takes to \<open>publishAndAck\<close>.\<close>

definition publishes :: "config \<Rightarrow> string \<Rightarrow> request \<Rightarrow> bool" where
  "publishes cfg source r \<longleftrightarrow>
     source \<in> set webhook_sources \<and> well_formed source r \<and> authentic cfg source r
     \<and> (source = ''slack'' \<longrightarrow> slack_challenge (rq_body r) = None)
     \<and> (source = ''teams'' \<longrightarrow> rq_query r ''validationToken'' = '''')"

lemma with_body_pass:
  "length (rq_body r) \<le> max_request_body \<Longrightarrow> rq_body_error r = None \<Longrightarrow> check (rq_body r) = None \<Longrightarrow>
     with_body env source check next r ws = next (rq_body r) r ws"
  by (cases ws) (simp add: with_body_def read_body_def reject_unauthorized_def)

lemma entry_pass:
  "rq_method r \<in> set allowed \<Longrightarrow> rq_ctx_error r = None \<Longrightarrow> entry env source allowed next r ws = next r ws"
  by (simp add: entry_def reject_method_def)

lemma webhook_reaches:
  assumes "publishes cfg source r"
  shows "webhook_handler source (gateway_env cfg v rnd db) r ws
    = publish_and_ack (gateway_env cfg v rnd db) source (rq_body r) r ws"
proof -
  have skew: "(0 :: int) \<le> 5 * minute" "5 * minute < int64_max"
    by (simp_all add: duration_units int64_max_def)
  have ts: "rq_header r ''X-Slack-Request-Timestamp'' \<noteq> []"
    if "parse_int64 (rq_header r ''X-Slack-Request-Timestamp'') = Some n" for n
    using that by (auto simp: parse_int64_def)
  consider "source = ''slack''" | "source = ''github''" | "source = ''gitlab''" | "source = ''teams''"
    using assms by (auto simp: publishes_def webhook_sources_def)
  then show ?thesis
    by cases
      (use assms ts in \<open>auto simp: publishes_def webhook_handler_def handle_slack_def handle_github_def
        handle_gitlab_def handle_teams_def well_formed_def authentic_def slack_None [OF skew] github_None
        shared_secret_None with_body_pass entry_pass\<close>)
qed

section \<open>What a publish does to the stores\<close>

definition held :: "async_state \<Rightarrow> queued_event multiset" where
  "held p = mset (as_queue p) + mset (busy_events (as_workers p))"

lemma async_publish_held:
  assumes "async_publish e p = (res, hs, p')"
  shows "if res = None then held p' = held p + {#e#}
    else p' = p \<and> the res \<in> Sentinel ` {ErrQueueClosed, ErrQueueFull, ErrQueueThrottled}"
  using assms hand_over_busy [of e "as_workers p"]
  by (auto simp: async_publish_def publish_check_def publish_send_def held_def Let_def
      split: if_splits option.splits)

lemma first_nonempty_ne: "d \<noteq> '''' \<Longrightarrow> first_nonempty vs d \<noteq> ''''"
  by (induction vs) auto

lemma derive_event_id_ne [simp]: "derive_event_id source r body \<noteq> ''''"
  by (simp add: derive_event_id_def Let_def first_nonempty_ne fallback_event_id_def)

lemma gateway_save_frame:
  "gw_dedup (snd (gateway_save rnd db now inp st)) = gw_dedup st"
  "gw_pub (snd (gateway_save rnd db now inp st)) = gw_pub st"
  "gw_store (snd (gateway_save rnd db now inp st))
     = snd (cbs_save now now (pg_save db now rnd inp) (gw_store st))"
  by (simp_all add: gateway_save_def split: prod.splits)

text \<open>The key under which a request is deduplicated, and the event it would queue.\<close>

definition dedup_key :: "string \<Rightarrow> request \<Rightarrow> string" where
  "dedup_key source r = source @ '':'' @ derive_event_id source r (rq_body r)"

definition webhook_event :: "string \<Rightarrow> request \<Rightarrow> queued_event" where
  "webhook_event source r =
     request_event r source (rq_body r) (event_headers r (derive_event_id source r (rq_body r)))"

definition dead_request :: "string \<Rightarrow> request \<Rightarrow> app_code \<Rightarrow> save_request" where
  "dead_request source r code =
     (let eid = derive_event_id source r (rq_body r)
      in \<lparr>sr_id = eid, sr_source = source, sr_reason = code_text code,
          sr_headers = event_headers r eid, sr_body = rq_body r\<rparr>)"

definition schema_ok :: "(string \<Rightarrow> string \<Rightarrow> goerr option) option \<Rightarrow> string \<Rightarrow> request \<Rightarrow> bool" where
  "schema_ok v source r \<longleftrightarrow> (case v of None \<Rightarrow> True | Some f \<Rightarrow> f source (rq_body r) = None)"

lemma write_json_status [simp]:
  "w_status w = None \<Longrightarrow> w_status (write_json code p w) = Some code"
  by (simp add: write_json_def write_body_def write_header_def set_header_def)

lemma set_header_status [simp]: "w_status (set_header k x w) = w_status w"
  by (simp add: set_header_def)

lemma respond_error_status [simp]:
  "w_status w = None \<Longrightarrow> w_status (respond_error r code e eid w) = Some code"
  by (simp add: respond_error_def write_error_def Let_def)

lemma gateway_refused:
  assumes "publish_refused (gateway_env cfg v rnd db) r source eid hdrs body err (w, st) = (w', st')"
    and "w_status w = None" and "eid \<noteq> ''''"
  shows "gw_dedup st' = mem_forget (source @ '':'' @ eid) (gw_dedup st) \<and> gw_pub st' = gw_pub st
    \<and> w_status w' \<in> Some ` {429, 503, 500}
    \<and> (\<exists>code. gw_store st' = snd (cbs_save (dr_now (rq_draws r)) (dr_now (rq_draws r))
         (pg_save db (dr_now (rq_draws r)) rnd
            \<lparr>sr_id = eid, sr_source = source, sr_reason = code_text code, sr_headers = hdrs, sr_body = body\<rparr>)
         (gw_store st)))"
proof -
  obtain status code ra where rf: "refusal cfg err = (status, code, ra)" by (metis prod_cases3)
  then have "status \<in> {429, 503, 500}" by (auto simp: refusal_def split: if_splits)
  then show ?thesis
    using assms(2,3) assms(1) [symmetric] rf
    by (cases ra)
       (auto simp: publish_refused_def persist_failed_event_def forget_dedup_key_def gateway_dedup_def
        gateway_save_frame Let_def)
qed

lemma publish_and_ack_cases:
  assumes "publish_and_ack (gateway_env cfg v rnd db) source (rq_body r) r (w, st) = (out, w', st')"
    and "w_status w = None"
  defines "seen \<equiv> mem_do_seen (dr_now (rq_draws r)) (dedup_key source r) (gw_dedup st)"
  shows "out = Returned \<and>
    (quiet st st' \<and> w_status w' = Some 400 \<and> \<not> schema_ok v source r
     \<or> schema_ok v source r \<and> fst seen \<and> gw_dedup st' = snd seen \<and> gw_pub st' = gw_pub st
       \<and> gw_store st' = gw_store st \<and> w_status w' = Some 202
     \<or> schema_ok v source r \<and> \<not> fst seen \<and> gw_dedup st' = snd seen
       \<and> held (gw_pub st') = held (gw_pub st) + {#webhook_event source r#}
       \<and> gw_store st' = gw_store st \<and> w_status w' = Some 202
     \<or> schema_ok v source r \<and> \<not> fst seen \<and> gw_dedup st' = mem_forget (dedup_key source r) (snd seen)
       \<and> gw_pub st' = gw_pub st \<and> w_status w' \<in> Some ` {429, 503, 500}
       \<and> (\<exists>code. gw_store st' = snd (cbs_save (dr_now (rq_draws r)) (dr_now (rq_draws r))
            (pg_save db (dr_now (rq_draws r)) rnd (dead_request source r code)) (gw_store st))))"
proof (cases "schema_ok v source r")
  case False
  then obtain f e where "v = Some f" "f source (rq_body r) = Some e"
    by (auto simp: schema_ok_def split: option.splits)
  with assms False show ?thesis
    by (auto simp: publish_and_ack_def quiet_def)
next
  case True
  then have val: "(case v of None \<Rightarrow> None | Some f \<Rightarrow> f source (rq_body r)) = None"
    by (auto simp: schema_ok_def split: option.splits)
  let ?eid = "derive_event_id source r (rq_body r)"
  obtain b m where s: "mem_do_seen (dr_now (rq_draws r)) (dedup_key source r) (gw_dedup st) = (b, m)"
    by fastforce
  then have sb: "seen_before (gateway_env cfg v rnd db) r source ?eid st = (b, st\<lparr>gw_dedup := m\<rparr>)"
    by (simp add: seen_before_def gateway_dedup_def dedup_key_def)
  show ?thesis
  proof (cases b)
    case b: True
    with assms sb val s True show ?thesis
      by (auto simp: publish_and_ack_def Let_def)
  next
    case nb: False
    obtain res hs p where a: "async_publish (webhook_event source r) (gw_pub st) = (res, hs, p)"
      by (metis prod_cases3)
    note ah = async_publish_held [OF a]
    show ?thesis
    proof (cases res)
      case None
      with assms sb val s nb a ah True show ?thesis
        by (auto simp: publish_and_ack_def gateway_publish_def webhook_event_def Let_def)
    next
      case (Some err)
      let ?st1 = "st\<lparr>gw_dedup := m\<rparr>\<lparr>gw_pub := p\<rparr>"
      obtain w1 st1 where rf: "publish_refused (gateway_env cfg v rnd db) r source ?eid
          (event_headers r ?eid) (rq_body r) err (w, ?st1) = (w1, st1)" by fastforce
      have "out = Returned" "w' = w1" "st' = st1"
        using assms(1) sb val nb a Some rf
        by (simp_all add: publish_and_ack_def gateway_publish_def webhook_event_def Let_def)
      moreover note gateway_refused [OF rf assms(2) derive_event_id_ne]
      ultimately show ?thesis
        using s nb a ah True Some assms(3) by (auto simp: dedup_key_def dead_request_def Let_def)
    qed
  qed
qed

section \<open>Properties of the composition\<close>

text \<open>C1: only authentic events are queued. A webhook call changes the publisher only when the request
  is complete, within 1 MiB and proven by the provider's signature, token or client state; then
  exactly one event is added, with that source and body and the derived event id, and the answer is
  202.\<close>

theorem webhook_event_authentic:
  assumes "source \<in> set webhook_sources"
    and "webhook_handler source (gateway_env cfg v rnd db) r (new_writer, st) = (out, w', st')"
    and "gw_pub st' \<noteq> gw_pub st"
  shows "well_formed source r \<and> authentic cfg source r \<and> schema_ok v source r
    \<and> held (gw_pub st') = held (gw_pub st) + {#webhook_event source r#}
    \<and> qe_source (webhook_event source r) = source \<and> qe_body (webhook_event source r) = rq_body r
    \<and> get_str (the (qe_headers (webhook_event source r))) ''X-Event-ID''
        = derive_event_id source r (rq_body r)
    \<and> w_status w' = Some 202"
proof -
  have ev: "qe_source (webhook_event source r) = source" "qe_body (webhook_event source r) = rq_body r"
    "get_str (the (qe_headers (webhook_event source r))) ''X-Event-ID''
      = derive_event_id source r (rq_body r)"
    by (simp_all add: webhook_event_def request_event_def make_event_def event_headers_def Let_def
        get_str_def)
  have nw: "w_status new_writer = None" by (simp add: new_writer_def)
  from webhook_cases [OF assms(2,1)] assms(3) have p: "well_formed source r" "authentic cfg source r"
      "publish_and_ack (gateway_env cfg v rnd db) source (rq_body r) r (new_writer, st) = (out, w', st')"
    by (auto simp: quiet_def)
  from publish_and_ack_cases [OF p(3) nw] p(1,2) ev assms(3) show ?thesis
    by (auto simp: quiet_def)
qed

lemma dedup_key_ne [simp]: "dedup_key source r \<noteq> ''''"
  by (simp add: dedup_key_def)

lemma save_stores:
  assumes "fst (allow now (fst s))" and "pg_varchar 64 (sr_id inp)" and "sr_id inp \<noteq> ''''"
    and "pg_varchar 255 (sr_source inp)" and "pg_text (sr_reason inp)"
  shows "sr_id inp \<in> ev_id ` set (snd (snd (cbs_save now now (pg_save None now rnd inp) s)))"
proof -
  let ?e = "pg_event now rnd inp" and ?row = "pg_event now rnd inp\<lparr>ev_failed_at := pg_timestamp now\<rparr>"
  have "column_error (event_columns ?e) = None"
    using assms by (simp add: column_error_None event_columns_def pg_event_def)
  then have t: "snd (pg_save None now rnd inp tb) = snd (pg_upsert ?row tb)" for tb
    by (simp add: pg_save_def Let_def split: prod.splits)
  have "ev_id ?row \<in> set (map ev_id (snd (pg_upsert ?row tb)))" for tb
    by (simp only: pg_upsert_ids) auto
  moreover have "ev_id ?row = sr_id inp" using assms(3) by (simp add: pg_event_def)
  ultimately show ?thesis
    using assms(1)
    by (cases s) (auto simp: cbs_save_def guarded_def cb_execute_def t split: prod.splits sum.splits)
qed

lemma source_length: "source \<in> set webhook_sources \<Longrightarrow> pg_varchar 255 source"
  by (auto simp: webhook_sources_def pg_varchar_ascii ascii_text_def)

lemma code_text_pg [simp]: "pg_text (code_text c)"
  by (rule pg_text_ascii) (cases c; simp add: ascii_text_def)


section \<open>Deduplication over a history\<close>

text \<open>Webhook calls and dead letters in order; in between the workers may bring the publisher to any
  state.\<close>

datatype gw_event = Hit string request | Moved async_state | Dead time string string headers

fun gw_run ::
  "config \<Rightarrow> (string \<Rightarrow> string \<Rightarrow> goerr option) option \<Rightarrow> string result \<Rightarrow> goerr option
     \<Rightarrow> gw_event list \<Rightarrow> gateway \<Rightarrow> gateway" where
  "gw_run cfg v rnd db [] st = st"
| "gw_run cfg v rnd db (Hit source r # h) st =
     gw_run cfg v rnd db h
       (snd (snd (webhook_handler source (gateway_env cfg v rnd db) r (new_writer, st))))"
| "gw_run cfg v rnd db (Moved p # h) st = gw_run cfg v rnd db h (st\<lparr>gw_pub := p\<rparr>)"
| "gw_run cfg v rnd db (Dead t source body hdrs # h) st =
     gw_run cfg v rnd db h (gateway_dlq rnd db t source body hdrs st)"

text \<open>Events up to the instant \<open>u\<close>, none of them a dead letter under the key \<open>k\<close>.\<close>

definition hit_before :: "time \<Rightarrow> string \<Rightarrow> gw_event \<Rightarrow> bool" where
  "hit_before u k e \<longleftrightarrow>
     (case e of
        Hit source r \<Rightarrow> source \<in> set webhook_sources \<and> dr_now (rq_draws r) \<le> u
      | Moved p \<Rightarrow> True
      | Dead t source body hdrs \<Rightarrow> source @ '':'' @ dlq_event_id hdrs \<noteq> k)"

lemma hit_dedup:
  assumes "source \<in> set webhook_sources"
  shows "let d = gw_dedup st; now = dr_now (rq_draws r); k = dedup_key source r;
      d' = gw_dedup (snd (snd (webhook_handler source (gateway_env cfg v rnd db) r (new_writer, st))))
    in d' = d \<or> d' = snd (mem_do_seen now k d)
      \<or> \<not> fst (mem_do_seen now k d) \<and> d' = mem_forget k (snd (mem_do_seen now k d))"
proof -
  obtain out w' st' where h: "webhook_handler source (gateway_env cfg v rnd db) r (new_writer, st)
      = (out, w', st')" by (metis prod_cases3)
  have nw: "w_status new_writer = None" by (simp add: new_writer_def)
  from webhook_cases [OF h assms] show ?thesis
  proof
    assume "quiet st st' \<and> out = Returned"
    then show ?thesis by (simp add: h quiet_def Let_def)
  next
    assume p: "well_formed source r \<and> authentic cfg source r
      \<and> publish_and_ack (gateway_env cfg v rnd db) source (rq_body r) r (new_writer, st) = (out, w', st')"
    from publish_and_ack_cases [OF p [THEN conjunct2, THEN conjunct2] nw] show ?thesis
      by (auto simp: h quiet_def Let_def)
  qed
qed

lemma hit_keeps_live:
  assumes "mem_enabled (gw_dedup st)" and "mem_live (gw_dedup st) u k"
    and "source \<in> set webhook_sources" and "dr_now (rq_draws r) \<le> u"
  shows "let d' = gw_dedup (snd (snd (webhook_handler source (gateway_env cfg v rnd db) r (new_writer, st))))
    in mem_enabled d' \<and> mem_live d' u k"
proof -
  let ?now = "dr_now (rq_draws r)" and ?j = "dedup_key source r" and ?d = "gw_dedup st"
  have lv: "mem_live ?d ?now k" using mem.live_earlier [OF assms(2,4)] .
  have r: "mem_enabled (snd (mem_do_seen ?now ?j ?d))" using assms(1) by (simp add: mem.ready_seen)
  have s: "mem_live (snd (mem_do_seen ?now ?j ?d)) u k"
    using mem.seen_live [OF assms(1) dedup_key_ne, of ?now source r u k] assms(2) lv by auto
  have f: "mem_live (mem_forget ?j (snd (mem_do_seen ?now ?j ?d))) u k"
    if "\<not> fst (mem_do_seen ?now ?j ?d)"
  proof -
    have "?j \<noteq> k" using that lv mem.seen_answer [OF assms(1) dedup_key_ne, of ?now source r] by auto
    then show ?thesis using mem.forget_live [OF r dedup_key_ne, of source r u k] s by simp
  qed
  from hit_dedup [OF assms(3), of st r cfg v rnd db] show ?thesis
    using assms(1,2) r s f by (auto simp: Let_def mem.ready_forget)
qed

lemma run_keeps_live:
  "mem_enabled (gw_dedup st) \<Longrightarrow> mem_live (gw_dedup st) u k \<Longrightarrow> list_all (hit_before u k) h \<Longrightarrow>
     mem_enabled (gw_dedup (gw_run cfg v rnd db h st))
     \<and> mem_live (gw_dedup (gw_run cfg v rnd db h st)) u k"
proof (induction h arbitrary: st)
  case (Cons e h)
  show ?case
  proof (cases e)
    case (Hit source r)
    then show ?thesis
      using hit_keeps_live [OF Cons.prems(1,2), of source r cfg v rnd db] Cons.IH Cons.prems(3)
      by (simp add: hit_before_def Let_def)
  next
    case (Moved p)
    then show ?thesis using Cons by simp
  next
    case (Dead t source body hdrs)
    have "mem_live (mem_forget (source @ CHR '':'' # dlq_event_id hdrs) (gw_dedup st)) u k"
      using mem.forget_live [OF Cons.prems(1), of "source @ CHR '':'' # dlq_event_id hdrs" u k] Cons.prems Dead
      by (auto simp: hit_before_def)
    then show ?thesis
      using Cons Dead
      by (simp add: gateway_dlq_def Let_def gateway_save_frame gateway_dedup_def mem.ready_forget)
  qed
qed simp

text \<open>C2: an event is queued once. After a webhook call that queued an event, another delivery with the
  same key inside the deduplication window queues nothing and stores nothing, whatever calls of any
  provider, accepted or refused, steps of the workers and dead letters of other events come in
  between; if it is authentic and valid it is answered 202. (A dead letter of the event itself makes
  its key new again.)\<close>

theorem webhook_exactly_once:
  assumes "mem_enabled (gw_dedup st)" and "source \<in> set webhook_sources"
    and "webhook_handler source (gateway_env cfg v rnd db) r1 (new_writer, st) = (o1, w1, st1)"
    and "gw_pub st1 \<noteq> gw_pub st"
    and "list_all (hit_before (dr_now (rq_draws r2)) (dedup_key source r1)) h"
    and "dr_now (rq_draws r2) < dr_now (rq_draws r1) + mem_ttl (gw_dedup st)"
    and "dedup_key source r2 = dedup_key source r1"
    and "webhook_handler source (gateway_env cfg v rnd db) r2
           (new_writer, gw_run cfg v rnd db h st1) = (o2, w2, st2)"
  shows "gw_pub st2 = gw_pub (gw_run cfg v rnd db h st1)
    \<and> gw_store st2 = gw_store (gw_run cfg v rnd db h st1)
    \<and> (publishes cfg source r2 \<and> schema_ok v source r2 \<longrightarrow> w_status w2 = Some 202)"
proof -
  let ?u = "dr_now (rq_draws r2)" and ?k = "dedup_key source r1"
  let ?m = "gw_run cfg v rnd db h st1"
  have nw: "w_status new_writer = None" by (simp add: new_writer_def)
  from webhook_cases [OF assms(3,2)] assms(4) have p:
      "publish_and_ack (gateway_env cfg v rnd db) source (rq_body r1) r1 (new_writer, st) = (o1, w1, st1)"
    by (auto simp: quiet_def)
  from publish_and_ack_cases [OF p nw] assms(4)
  have d1: "gw_dedup st1 = snd (mem_do_seen (dr_now (rq_draws r1)) ?k (gw_dedup st))"
      "\<not> fst (mem_do_seen (dr_now (rq_draws r1)) ?k (gw_dedup st))"
    by (auto simp: quiet_def)
  then have "mem_enabled (gw_dedup st1)" "mem_live (gw_dedup st1) ?u ?k"
    using mem.seen_live [OF assms(1) dedup_key_ne, of "dr_now (rq_draws r1)" source r1 ?u ?k]
      mem.seen_answer [OF assms(1) dedup_key_ne, of "dr_now (rq_draws r1)" source r1] assms(1,6)
    by (simp_all add: mem.ready_seen)
  from run_keeps_live [OF this assms(5), of cfg v rnd db]
  have seen: "fst (mem_do_seen ?u (dedup_key source r2) (gw_dedup ?m))"
    using mem.seen_answer [of "gw_dedup ?m" "dedup_key source r2" ?u] assms(7) dedup_key_ne [of source r2]
    by simp
  have stay: "gw_pub st2 = gw_pub ?m \<and> gw_store st2 = gw_store ?m"
    using webhook_cases [OF assms(8,2)]
  proof
    assume "well_formed source r2 \<and> authentic cfg source r2 \<and>
        publish_and_ack (gateway_env cfg v rnd db) source (rq_body r2) r2 (new_writer, ?m) = (o2, w2, st2)"
    then have p2: "publish_and_ack (gateway_env cfg v rnd db) source (rq_body r2) r2 (new_writer, ?m)
        = (o2, w2, st2)" by blast
    from publish_and_ack_cases [OF this nw] seen show ?thesis by (auto simp: quiet_def)
  qed (simp add: quiet_def)
  have "w_status w2 = Some 202" if "publishes cfg source r2" "schema_ok v source r2"
  proof -
    have "publish_and_ack (gateway_env cfg v rnd db) source (rq_body r2) r2 (new_writer, ?m) = (o2, w2, st2)"
      using assms(8) webhook_reaches [OF that(1)] by metis
    from publish_and_ack_cases [OF this nw] seen that(2) show ?thesis by auto
  qed
  with stay show ?thesis by blast
qed

section \<open>Concrete runs\<close>

definition gw_config :: config where
  "gw_config = default_config\<lparr>GitHubWebhookSecret := ''s3cr3t''\<rparr>"

definition github_request :: "string \<Rightarrow> time \<Rightarrow> request" where
  "github_request delivery now = demo_http
     \<lparr>rq_header := (\<lambda>k. if k = ''X-Hub-Signature-256''
                        then ''sha256='' @ hex_encode (hmac_sha256 ''s3cr3t'' ''{}'')
                        else if k = ''X-GitHub-Delivery'' then delivery else ''''),
      rq_draws := demo_draws\<lparr>dr_now := now\<rparr>\<rparr>"

definition gw_start :: gateway where
  "gw_start = \<lparr>gw_dedup = new_memory True (5 * minute), gw_pub = wd_pub demo_world,
     gw_store = (new_circuit_breaker 5 (30 * second), []), gw_observed = [], gw_rejected = []\<rparr>"

lemma gw_start_simps [simp]:
  "mem_enabled (gw_dedup gw_start)" "mem_ttl (gw_dedup gw_start) = 5 * minute"
  "mem_seen (gw_dedup gw_start) = Map.empty"
  by (simp_all add: gw_start_def new_memory_def duration_units)

lemma github_request_simps [simp]:
  "rq_body (github_request d n) = ''{}''" "dr_now (rq_draws (github_request d n)) = n"
  "rq_deadline (github_request d n) = None"
  by (simp_all add: github_request_def demo_http_def)

lemma github_publishes: "publishes gw_config ''github'' (github_request d n)"
  by (simp add: publishes_def webhook_sources_def well_formed_def authentic_def github_request_def
      demo_http_def gw_config_def max_request_body_def)

lemma github_key:
  "trim_space d = d \<Longrightarrow> d \<noteq> '''' \<Longrightarrow> dedup_key ''github'' (github_request d n) = ''github:'' @ d"
  by (simp add: dedup_key_def derive_event_id_def github_request_def Let_def)

lemma gw_first_accepted:
  "\<exists>w1 st1. webhook_handler ''github'' (gateway_env gw_config None (Inr ''x'') None)
      (github_request ''d1'' n) (new_writer, gw_start) = (Returned, w1, st1)
    \<and> gw_pub st1 \<noteq> gw_pub gw_start \<and> w_status w1 = Some 202"
proof -
  let ?r = "github_request ''d1'' n"
  have "publish_check ''github'' (wd_pub demo_world) = (None, [])"
    by (simp add: demo_defs)
  then have p: "async_publish (webhook_event ''github'' ?r) (gw_pub gw_start)
      = (None, [], (gw_pub gw_start)\<lparr>as_queue := [webhook_event ''github'' ?r]\<rparr>)"
    by (simp add: async_publish_def gw_start_def webhook_event_def request_event_def make_event_def
        publish_send_def demo_world_value init_world_def)
  obtain m where m: "mem_do_seen n (dedup_key ''github'' ?r) (gw_dedup gw_start) = (False, m)"
    by (simp add: mem_do_seen_def Let_def dedup_key_def)
  have ne: "(gw_pub gw_start)\<lparr>as_queue := [webhook_event ''github'' ?r]\<rparr> \<noteq> gw_pub gw_start"
    by (simp add: gw_start_def demo_world_value init_world_def)
  show ?thesis
    using p m ne webhook_reaches [OF github_publishes, of None "Inr ''x''" None "''d1''" n "(new_writer, gw_start)"]
    by (simp add: publish_and_ack_def seen_before_def gateway_dedup_def gateway_publish_def dedup_key_def
        webhook_event_def Let_def) (simp add: new_writer_def)
qed

theorem webhook_event_authentic_witness:
  "\<exists>w1 st1. webhook_handler ''github'' (gateway_env gw_config None (Inr ''x'') None)
      (github_request ''d1'' 5) (new_writer, gw_start) = (Returned, w1, st1)
    \<and> held (gw_pub st1) = held (gw_pub gw_start) + {#webhook_event ''github'' (github_request ''d1'' 5)#}"
  using gw_first_accepted [of 5]
    webhook_event_authentic [of "''github''" gw_config None "Inr ''x''" None "github_request ''d1'' 5" gw_start]
  by (fastforce simp: webhook_sources_def)


theorem webhook_exactly_once_witness:
  "\<exists>w1 st1 o2 w2 st2. webhook_handler ''github'' (gateway_env gw_config None (Inr ''x'') None)
      (github_request ''d1'' 5) (new_writer, gw_start) = (Returned, w1, st1)
    \<and> webhook_handler ''github'' (gateway_env gw_config None (Inr ''x'') None)
      (github_request ''d1'' (2 * minute))
      (new_writer, gw_run gw_config None (Inr ''x'') None
         [Hit ''github'' (github_request ''d2'' minute), Moved (wd_pub demo_world)] st1) = (o2, w2, st2)
    \<and> gw_pub st2 = wd_pub demo_world \<and> w_status w2 = Some 202"
proof -
  obtain w1 st1 where h1: "webhook_handler ''github'' (gateway_env gw_config None (Inr ''x'') None)
      (github_request ''d1'' 5) (new_writer, gw_start) = (Returned, w1, st1)"
    "gw_pub st1 \<noteq> gw_pub gw_start" using gw_first_accepted by blast
  let ?h = "[Hit ''github'' (github_request ''d2'' minute), Moved (wd_pub demo_world)]"
  obtain o2 w2 st2 where h2: "webhook_handler ''github'' (gateway_env gw_config None (Inr ''x'') None)
      (github_request ''d1'' (2 * minute)) (new_writer, gw_run gw_config None (Inr ''x'') None ?h st1)
      = (o2, w2, st2)" by (metis prod_cases3)
  have src: "''github'' \<in> set webhook_sources" by (simp add: webhook_sources_def)
  have t: "trim_space ''d1'' = ''d1''" by code_simp
  have hb: "list_all (hit_before (dr_now (rq_draws (github_request ''d1'' (2 * minute))))
      (dedup_key ''github'' (github_request ''d1'' 5))) ?h"
    by (simp add: hit_before_def webhook_sources_def duration_units)
  have k: "dedup_key ''github'' (github_request ''d1'' (2 * minute))
      = dedup_key ''github'' (github_request ''d1'' 5)"
    using github_key [OF t] by simp
  have b: "dr_now (rq_draws (github_request ''d1'' (2 * minute)))
      < dr_now (rq_draws (github_request ''d1'' 5)) + mem_ttl (gw_dedup gw_start)"
    by (simp add: duration_units)
  from webhook_exactly_once [OF gw_start_simps(1) src h1(1,2) hb b k h2] github_publishes h1(1) h2
  show ?thesis by (auto simp: schema_ok_def)
qed

end
