(* ===== verification/Admin_Safety.thy ===== *)
theory Admin_Safety
  imports Admin Gateway
begin

text \<open>
  Properties of the administrative handlers: dry runs, the headers and the books of a replay, the
  listing of failed events, and the replay of a stored dead letter on the gateway that
  \<open>cmd/server/main.go\<close> puts together.
\<close>

section \<open>Dry runs\<close>

lemma replay_failure_frame [simp]:
  "replay_failure (env\<lparr>ad_publish := p\<rparr>) = replay_failure env"
  "replay_success (env\<lparr>ad_publish := p\<rparr>) = replay_success env"
  by (simp_all add: replay_failure_def replay_success_def record_replay_audit_def fun_eq_iff)

lemma execute_replay_dry:
  "rx_dry_run inp \<Longrightarrow> execute_replay (env\<lparr>ad_publish := p\<rparr>) f r inp = execute_replay env f r inp"
  by (rule ext) (simp add: execute_replay_def Let_def split: sum.splits)

lemma replay_actor_frame [simp]: "replay_actor (env\<lparr>ad_publish := p\<rparr>) r = replay_actor env r"
  by (simp add: replay_actor_def token_actor_def Let_def)

text \<open>A dry run never publishes: whatever publisher is there, or none at all, the answer and the state
  after a dry run of one event or of a batch are the same.
\<close>

theorem dry_run_never_publishes:
  "(\<forall>req. decode_replay_request r = Some req \<and> rr_dry_run req \<longrightarrow>
      replay_failed_event (env\<lparr>ad_publish := p\<rparr>) r ws = replay_failed_event env r ws)
   \<and> (\<forall>req. decode_batch_request r = Some req \<and> br_dry_run req \<longrightarrow>
      replay_failed_events_batch (env\<lparr>ad_publish := p\<rparr>) r ws = replay_failed_events_batch env r ws)"
proof (intro conjI allI impI)
  fix req assume "decode_replay_request r = Some req \<and> rr_dry_run req"
  then show "replay_failed_event (env\<lparr>ad_publish := p\<rparr>) r ws = replay_failed_event env r ws"
    by (cases ws) (simp add: replay_failed_event_def Let_def execute_replay_dry split: option.splits)
next
  fix req assume "decode_batch_request r = Some req \<and> br_dry_run req"
  then show "replay_failed_events_batch (env\<lparr>ad_publish := p\<rparr>) r ws = replay_failed_events_batch env r ws"
    by (cases ws)
       (simp add: replay_failed_events_batch_def Let_def execute_replay_dry split: option.splits sum.splits)
qed

section \<open>Headers of a replay\<close>

lemma override_headers_denied:
  "add_overrides quote out kvs = Inr h \<Longrightarrow> to_lower k \<in> set replay_header_denylist \<Longrightarrow> h k = out k"
proof (induction quote out kvs rule: add_overrides.induct)
  case (2 quote out k' v kvs)
  show ?case
  proof (cases "trim_space k' = []")
    case True
    with 2 show ?thesis by simp
  next
    case False
    with "2.prems" have d: "to_lower (trim_space k') \<notin> set replay_header_denylist"
      by (auto simp: Let_def split: if_splits)
    with False "2.prems" have "add_overrides quote (out(trim_space k' \<mapsto> trim_space v)) kvs = Inr h" by simp
    from "2.IH"(2) [OF refl False d this "2.prems"(2)] d "2.prems"(2) show ?thesis by auto
  qed
qed simp

definition base_headers :: "headers \<Rightarrow> (string \<rightharpoonup> string)" where
  "base_headers h = (case h of None \<Rightarrow> Map.empty | Some m \<Rightarrow> m)"

text \<open>An operator cannot forge the identity of a replayed event: the overrides leave every protected
  header as it was stored, and the replay markers are those of the gateway.
\<close>

theorem replay_headers_protected:
  assumes "clone_replay_headers quote (ev_headers e) overrides = Inr h"
    and "replay_headers t r inp e h = Some sent"
  shows "sent ''X-Replay-Source'' = Some ''admin-replay'' \<and> sent ''X-Replay-Event-ID'' = Some (ev_id e)
    \<and> sent ''X-Event-ID'' = base_headers (ev_headers e) ''X-Event-ID''
    \<and> sent ''Traceparent'' = base_headers (ev_headers e) ''Traceparent''
    \<and> sent ''Authorization'' = base_headers (ev_headers e) ''Authorization''
    \<and> (rx_actor inp \<noteq> '''' \<longrightarrow> sent ''X-Replay-Actor'' = Some (rx_actor inp))"
proof -
  have "to_lower ''X-Event-ID'' \<in> set replay_header_denylist"
    "to_lower ''Traceparent'' \<in> set replay_header_denylist"
    "to_lower ''Authorization'' \<in> set replay_header_denylist"
    by code_simp+
  then have "h ''X-Event-ID'' = base_headers (ev_headers e) ''X-Event-ID''"
    "h ''Traceparent'' = base_headers (ev_headers e) ''Traceparent''"
    "h ''Authorization'' = base_headers (ev_headers e) ''Authorization''"
    using assms(1) override_headers_denied
    by (auto simp: clone_replay_headers_def base_headers_def)
  with assms(2) show ?thesis by (auto simp: replay_headers_def Let_def split: if_splits)
qed

section \<open>Batches\<close>

lemma collect_ids_spec:
  assumes "collect_ids ids raws = Inr out" and "distinct ids" and "\<forall>i \<in> set ids. i \<noteq> '''' \<and> length i \<le> 256"
  shows "distinct out \<and> (\<forall>i \<in> set out. i \<noteq> '''' \<and> length i \<le> 256)
    \<and> set out = set ids \<union> trim_space ` set raws"
  using assms
proof (induction ids raws rule: collect_ids.induct)
  case (2 ids raw raws)
  then show ?case by (cases "trim_space raw \<in> set ids") (auto simp: Let_def split: if_splits)
qed simp

text \<open>The ids of a batch: an accepted list is not empty, holds at most 25 ids, none twice, none empty
  or longer than 256 bytes, and exactly the trimmed ids of the request.
\<close>

theorem batch_ids_spec:
  assumes "normalize_replay_event_ids raws = Inr ids"
  shows "distinct ids \<and> 0 < length ids \<and> length ids \<le> 25 \<and> set ids = trim_space ` set raws
    \<and> (\<forall>i \<in> set ids. i \<noteq> '''' \<and> length i \<le> 256)"
  using assms collect_ids_spec [of "[]" raws ids]
  by (auto simp: normalize_replay_event_ids_def batch_max_def split: if_splits sum.splits)

lemma execute_replay_result:
  "execute_replay env f r inp st = (Some (res, err), st') \<Longrightarrow>
     rp_status res \<in> {''failed'', ''validated'', ''accepted''}
     \<and> (rp_published res \<longleftrightarrow> rp_status res = ''accepted'')
     \<and> (err = None \<longleftrightarrow> rp_status res \<noteq> ''failed'')
     \<and> (rx_dry_run inp \<longrightarrow> rp_status res \<noteq> ''accepted'')
     \<and> (\<not> rx_dry_run inp \<longrightarrow> rp_status res \<noteq> ''validated'')"
  by (auto simp: execute_replay_def replay_failure_def replay_success_def Let_def
      split: sum.splits if_splits option.splits prod.splits publish_answer.splits)

definition count_status :: "string \<Rightarrow> replay_result list \<Rightarrow> int" where
  "count_status s rs = int (length (filter (\<lambda>x. rp_status x = s) rs))"

definition summary_of :: "int \<Rightarrow> replay_result list \<Rightarrow> batch_summary" where
  "summary_of n rs =
     (let a = count_status ''accepted'' rs; v = count_status ''validated'' rs
      in \<lparr>bs_requested = n, bs_processed = int (length rs), bs_succeeded = a + v, bs_accepted = a,
          bs_validated = v, bs_failed = int (length rs) - (a + v), bs_published = a\<rparr>)"

lemma tally_summary: "tally res (summary_of n rs) = summary_of n (rs @ [res])"
  by (auto simp: tally_def summary_of_def count_status_def Let_def)

lemma replay_loop_spec:
  assumes "replay_loop ex stop n ids (rs, summary_of q rs) st = (Some (rs', b), st')"
    and "\<And>i s res err s'. ex i s = (Some (res, err), s') \<Longrightarrow> P res"
  shows "b = summary_of q rs' \<and> (\<exists>new. rs' = rs @ new \<and> length new \<le> length ids \<and> list_all P new
    \<and> ((\<forall>k. \<not> stop k) \<longrightarrow> length new = length ids))"
  using assms(1)
proof (induction ids arbitrary: n rs st)
  case (Cons i ids)
  show ?case
  proof (cases "stop n")
    case True
    with Cons.prems show ?thesis by auto
  next
    case False
    with Cons.prems obtain res err s1 where ex: "ex i st = (Some (res, err), s1)"
      and rest: "replay_loop ex stop (Suc n) ids (rs @ [res], summary_of q (rs @ [res])) s1 = (Some (rs', b), st')"
      by (auto simp: tally_summary split: prod.splits option.splits)
    from Cons.IH [OF rest] obtain new where new: "b = summary_of q rs'" "rs' = (rs @ [res]) @ new"
        "length new \<le> length ids" "list_all P new" "(\<forall>k. \<not> stop k) \<longrightarrow> length new = length ids" by blast
    then show ?thesis using assms(2) [OF ex] by (intro conjI exI [of _ "res # new"]) auto
  qed
qed simp

lemma new_summary_of: "new_summary q = summary_of q []"
  by (simp add: new_summary_def summary_of_def count_status_def)

lemma count_accepted_published:
  "list_all (\<lambda>x. rp_published x \<longleftrightarrow> rp_status x = ''accepted'') rs \<Longrightarrow>
     count_status ''accepted'' rs = int (length (filter rp_published rs))"
  unfolding count_status_def by (induction rs) auto

text \<open>The books of a batch balance. When nothing cancels it, every id of the batch is replayed once and has
  its result; the counters of the answer are those of the results, and the published events are the
  accepted ones.
\<close>

theorem batch_accounting:
  assumes "replay_loop (\<lambda>i. execute_replay env f r (inp i)) stop 0 ids ([], new_summary q) st
      = (Some (rs, b), st')"
  shows "bs_processed b = int (length rs) \<and> length rs \<le> length ids
    \<and> bs_succeeded b + bs_failed b = bs_processed b \<and> bs_accepted b + bs_validated b = bs_succeeded b
    \<and> bs_published b = int (length (filter rp_published rs)) \<and> 0 \<le> bs_failed b
    \<and> ((\<forall>n. \<not> stop n) \<longrightarrow> length rs = length ids)
    \<and> (batch_status b = ''accepted'' \<longrightarrow> bs_failed b = 0 \<and> 0 < bs_published b)"
proof -
  let ?P = "\<lambda>res. rp_published res \<longleftrightarrow> rp_status res = ''accepted''"
  have P: "?P res" if "execute_replay env f r (inp i) s = (Some (res, err), s')" for i s res err s'
    using execute_replay_result [OF that] by blast
  note spec = replay_loop_spec [OF assms [unfolded new_summary_of], of ?P, OF P]
  then have b: "b = summary_of q rs" and rs: "length rs \<le> length ids" "list_all ?P rs"
    "(\<forall>n. \<not> stop n) \<longrightarrow> length rs = length ids"
    by simp_all
  have "count_status ''accepted'' rs + count_status ''validated'' rs \<le> int (length rs)"
    unfolding count_status_def by (induction rs) auto
  with b rs count_accepted_published [OF rs(2)] show ?thesis
    by (auto simp: summary_of_def Let_def batch_status_def split: if_splits)
qed

text \<open>A batch that is cancelled before its first event is answered as accepted, with the status failed.\<close>

lemma batch_cancelled:
  assumes "stop 0" and "replay_loop ex stop 0 ids ([], new_summary q) st = (Some (rs, b), st')"
  shows "rs = [] \<and> batch_status b = ''failed'' \<and> batch_http_status False b = 202"
  using assms
  by (cases ids) (auto simp: new_summary_def batch_status_def batch_http_status_def)

section \<open>Redaction\<close>

text \<open>Two secrets in the order opposite to the patterns; nested secrets; a secret with a comma.\<close>

definition poison_body :: string where
  "poison_body = ''{\"secret\":\"a\",\"token\":\"b\"}''"

lemma redact_examples:
  "redact_secrets to_lower poison_body = None"
  "redact_secrets to_lower ''{\"token\":{\"secret\":\"b\"}}'' = None"
  "redact_secrets to_lower ''{\"token\":\"a\",\"secret\":\"b\"}''
     = Some ''{\"token\":[REDACTED],\"secret\":[REDACTED]}''"
  "redact_secrets to_lower ''{\"password\":\"a,b\"}'' = Some ''{\"password\":[REDACTED],b\"}''"
  by code_simp+

lemma redact_lower_same: "lower s = lower' s \<Longrightarrow> redact_secrets lower s = redact_secrets lower' s"
  by (simp add: redact_secrets_def)

lemma all_some_None: "None \<in> set xs \<Longrightarrow> all_some xs = None"
  by (induction xs rule: all_some.induct) auto


section \<open>The console of the gateway\<close>

text \<open>The process with its three tables of the administration: the gateway, the replay audit and the
  security audit in Postgres, and the feature flags. The random ids of the tables and the error of the
  database are arguments.\<close>

record console =
  cs_gateway :: gateway
  cs_replays :: replay_table
  cs_security :: security_table
  cs_flags :: feature_flags

definition console_publish ::
  "request \<Rightarrow> string \<Rightarrow> string \<Rightarrow> headers \<Rightarrow> console \<Rightarrow> publish_answer \<times> console" where
  "console_publish r source body hdrs st =
     (case gateway_publish r source body hdrs (cs_gateway st) of (a, g) \<Rightarrow> (a, st\<lparr>cs_gateway := g\<rparr>))"

definition console_env ::
  "config \<Rightarrow> admin_texts \<Rightarrow> (string \<Rightarrow> time option) \<Rightarrow> (string \<Rightarrow> string \<Rightarrow> (string \<rightharpoonup> json) option)
     \<Rightarrow> (request \<Rightarrow> nat \<Rightarrow> bool) \<Rightarrow> string result \<Rightarrow> goerr option \<Rightarrow> console admin_env" where
  "console_env cfg texts parse_time claims ctx_done rnd db =
     \<lparr>ad_cfg = cfg, ad_publish = Some console_publish,
      ad_snapshot = Some (\<lambda>st. async_snapshot (gw_pub (cs_gateway st))), ad_sources = None,
      ad_failed = Some
        \<lparr>fo_list = (\<lambda>r n st. cbs_list_recent (pg_list_recent db n (snd (gw_store (cs_gateway st))))),
         fo_get = (\<lambda>r i st. cbs_get_by_id (pg_get_by_id db i (snd (gw_store (cs_gateway st)))))\<rparr>,
      ad_audit = Some
        \<lparr>au_save = (\<lambda>r inp st. st\<lparr>cs_replays :=
            snd (pg_replay_save db (dr_now (rq_draws r)) rnd inp (cs_replays st))\<rparr>),
         au_list = (\<lambda>r q st. pg_replay_list (at_rfc3339 texts) parse_time db q (cs_replays st))\<rparr>,
      ad_security = Some
        \<lparr>so_save = (\<lambda>r inp st. st\<lparr>cs_security :=
            snd (pg_security_save db (dr_now (rq_draws r)) rnd inp (cs_security st))\<rparr>),
         so_list = (\<lambda>r n st. pg_security_list_recent db n (cs_security st))\<rparr>,
      ad_flags = Some \<lparr>fl_get = cs_flags, fl_put = (\<lambda>fs st. st\<lparr>cs_flags := fs\<rparr>)\<rparr>,
      ad_texts = texts, ad_ctx_done = ctx_done, ad_claims = claims\<rparr>"

lemma console_publish_cases:
  assumes "console_publish r source body hdrs st = (a, st')"
  shows "a = Published \<and> gw_store (cs_gateway st') = gw_store (cs_gateway st)
      \<and> gw_dedup (cs_gateway st') = gw_dedup (cs_gateway st) \<and> cs_security st' = cs_security st
      \<and> held (gw_pub (cs_gateway st')) = held (gw_pub (cs_gateway st)) + {#request_event r source body hdrs#}
    \<or> (\<exists>err. a = Refused err \<and> st' = st)"
proof -
  obtain res hs p where p: "async_publish (request_event r source body hdrs) (gw_pub (cs_gateway st)) = (res, hs, p)"
    by (cases "async_publish (request_event r source body hdrs) (gw_pub (cs_gateway st))")
  from async_publish_held [OF p] assms p show ?thesis
    by (cases res) (auto simp: console_publish_def gateway_publish_def)
qed

lemma publish_refusal_status: "snd (publish_refusal err) \<in> {429, 503, 500}"
  by (simp add: publish_refusal_def)

lemma admin_error_status: "w_status w = None \<Longrightarrow> w_status (admin_error r n err w) = Some n"
  by (simp add: admin_error_def write_error_def write_json_status)

lemma console_env_simps [simp]:
  "ad_texts (console_env cfg texts pt cl dn rnd db) = texts"
  "ad_cfg (console_env cfg texts pt cl dn rnd db) = cfg"
  "ad_publish (console_env cfg texts pt cl dn rnd db) = Some console_publish"
  by (simp_all add: console_env_def)

text \<open>C19: a stored dead letter reaches the queue again through the administration: the replay is answered 202
  and the queue holds one more event, with the stored source and body and the headers of the replay, or it
  is refused (429, 503 or 500) and the queue is as it was. The store, the deduplication and the
  security audit are untouched: the event stays in the store.
\<close>

theorem dead_letter_replay:
  assumes "decode_replay_request r = Some req" and "\<not> rr_dry_run req"
    and "trim_space (rr_event_id req) = i" and "i \<noteq> ''''"
    and "find (\<lambda>x. ev_id x = i) (snd (gw_store (cs_gateway st))) = Some e"
    and "clone_replay_headers (at_quote texts) (ev_headers e) (at_range texts (rr_overrides req)) = Inr h"
    and "w_status w = None"
    and "replay_failed_event (console_env cfg texts pt cl dn rnd None) r (w, st) = (out, w', st')"
  shows "out = Returned \<and> gw_store (cs_gateway st') = gw_store (cs_gateway st)
    \<and> gw_dedup (cs_gateway st') = gw_dedup (cs_gateway st) \<and> cs_security st' = cs_security st
    \<and> (w_status w' = Some 202
        \<and> (\<exists>inp. rx_request_id inp = rq_id r
            \<and> rx_actor inp = replay_actor (console_env cfg texts pt cl dn rnd None) r \<and> held (gw_pub (cs_gateway st'))
            = held (gw_pub (cs_gateway st))
              + {#request_event r (ev_source e) (ev_body e) (replay_headers texts r inp e h)#})
      \<or> the (w_status w') \<in> {429, 503, 500} \<and> gw_pub (cs_gateway st') = gw_pub (cs_gateway st))"
proof -
  let ?env = "console_env cfg texts pt cl dn rnd None"
  let ?inp = "\<lparr>rx_event_id = i, rx_dry_run = False, rx_overrides = rr_overrides req,
      rx_actor = replay_actor ?env r, rx_request_id = rq_id r\<rparr>"
  have i: "trim_space i = i" using assms(3) by auto
  obtain a st1 where p: "console_publish r (ev_source e) (ev_body e) (replay_headers texts r ?inp e h) st
      = (a, st1)" by fastforce
  obtain f where f: "ad_failed ?env = Some f" "fo_get f r i st = Inr e"
    using assms(5) by (auto simp: console_env_def pg_get_by_id_def cbs_get_by_id_def)
  obtain u where u: "ad_audit ?env = Some u"
      "\<And>inp s. cs_gateway (au_save u r inp s) = cs_gateway s \<and> cs_security (au_save u r inp s) = cs_security s"
    by (auto simp: console_env_def)
  from console_publish_cases [OF p] show ?thesis
  proof
    assume pub: "a = Published \<and> gw_store (cs_gateway st1) = gw_store (cs_gateway st)
      \<and> gw_dedup (cs_gateway st1) = gw_dedup (cs_gateway st) \<and> cs_security st1 = cs_security st
      \<and> held (gw_pub (cs_gateway st1)) = held (gw_pub (cs_gateway st))
          + {#request_event r (ev_source e) (ev_body e) (replay_headers texts r ?inp e h)#}"
    then have ex: "execute_replay ?env f r ?inp st = replay_success ?env r ?inp e ''accepted'' 202 True st1"
      using assms(6) i f p by (simp add: execute_replay_def Let_def)
    have h: "w_status w' = Some 202" "out = Returned" "cs_gateway st' = cs_gateway st1"
      "cs_security st' = cs_security st1"
      using assms(8,1-4,7) f(1) u
      by (auto simp: replay_failed_event_def ex replay_success_def record_replay_audit_def Let_def
        write_json_status)
    with pub h show ?thesis by (auto intro!: exI [of _ ?inp])
  next
    assume "\<exists>err. a = Refused err \<and> st1 = st"
    then obtain err where r: "a = Refused err" "st1 = st" by blast
    obtain code n where c: "publish_refusal err = (code, n)" by fastforce
    from r have ex: "execute_replay ?env f r ?inp st = replay_failure ?env r ?inp (ev_id e) (ev_source e)
        (int (length (ev_body e))) n code ''failed to publish replay event'' (Some err) st"
      using assms(6) i f p by (simp add: execute_replay_def Let_def c)
    have "the (w_status w') = snd (publish_refusal err) \<and> out = Returned
        \<and> cs_gateway st' = cs_gateway st \<and> cs_security st' = cs_security st"
      using assms(8,1-4,7) f(1) u c
      by (auto simp: replay_failed_event_def ex replay_failure_def record_replay_audit_def Let_def
        admin_error_status)
    with publish_refusal_status show ?thesis by auto
  qed
qed

section \<open>Concrete runs\<close>

definition demo_texts :: admin_texts where
  "demo_texts = \<lparr>at_lower = to_lower, at_quote = (\<lambda>s. s), at_rfc3339 = itoa, at_json_time = itoa,
     at_json_float = (\<lambda>x. ''0''), at_range = (\<lambda>m. [])\<rparr>"

definition demo_console :: console where
  "demo_console = \<lparr>cs_gateway = gw_start\<lparr>gw_store := (new_circuit_breaker 5 (30 * second),
       [pg_event 5 (Inr ''x'') pg_request])\<rparr>, cs_replays = [], cs_security = [],
     cs_flags = new_feature_flags\<rparr>"

definition demo_admin :: "console admin_env" where
  "demo_admin = console_env gw_config demo_texts (\<lambda>s. None) (\<lambda>s t. None) (\<lambda>r n. False) (Inr ''x'') None"

definition post :: "string \<Rightarrow> request" where
  "post body = demo_http\<lparr>rq_body := body\<rparr>"

lemma demo_parse:
  "json_parse ''{\"event_id\":\"e1\"}'' = Some (JObj [(''event_id'', JStr ''e1'')])"
  "json_parse ''{\"event_id\":\"e1\",\"dry_run\":true}''
     = Some (JObj [(''event_id'', JStr ''e1''), (''dry_run'', JBool True)])"
  "json_parse ''{\"event_ids\":[\"e1\",\"e2\"],\"dry_run\":true}''
     = Some (JObj [(''event_ids'', JArr [JStr ''e1'', JStr ''e2'']), (''dry_run'', JBool True)])"
  by code_simp+

lemma demo_fields:
  "fold_name ''event_id'' = ''event_id''" "fold_name ''dry_run'' = ''dry_run''"
  "fold_name ''event_ids'' = ''event_ids''" "fold_name ''header_overrides'' = ''header_overrides''"
  by code_simp+

lemma demo_bodies:
  "decode_replay_request (post ''{\"event_id\":\"e1\"}'')
     = Some \<lparr>rr_event_id = ''e1'', rr_dry_run = False, rr_overrides = Map.empty\<rparr>"
  "decode_replay_request (post ''{\"event_id\":\"e1\",\"dry_run\":true}'')
     = Some \<lparr>rr_event_id = ''e1'', rr_dry_run = True, rr_overrides = Map.empty\<rparr>"
  "decode_batch_request (post ''{\"event_ids\":[\"e1\",\"e2\"],\"dry_run\":true}'')
     = Some \<lparr>br_event_ids = [''e1'', ''e2''], br_dry_run = True, br_overrides = Map.empty\<rparr>"
  by (simp_all add: decode_replay_request_def decode_batch_request_def admin_members_def post_def
      demo_http_def demo_parse demo_fields field_values_def struct_string_def del: fold_name.simps)

theorem dead_letter_replay_witness:
  "\<exists>out w' st'. replay_failed_event demo_admin (post ''{\"event_id\":\"e1\"}'') (new_writer, demo_console)
      = (out, w', st') \<and> out = Returned \<and> the (w_status w') \<in> {202, 429, 503, 500}"
proof -
  obtain out w' st' where r: "replay_failed_event demo_admin (post ''{\"event_id\":\"e1\"}'')
      (new_writer, demo_console) = (out, w', st')" by (metis prod_cases3)
  have t: "trim_space ''e1'' = ''e1''" by code_simp
  from dead_letter_replay [OF demo_bodies(1), where i = "''e1''" and w = new_writer
      and st = demo_console and texts = demo_texts, OF _ _ _ _ _ _ r [unfolded demo_admin_def]] t r
  show ?thesis
    by (fastforce simp: demo_console_def pg_event_def pg_request_def clone_replay_headers_def
      demo_texts_def new_writer_def)
qed

theorem dry_run_never_publishes_witness:
  "replay_failed_event (demo_admin\<lparr>ad_publish := None\<rparr>) (post ''{\"event_id\":\"e1\",\"dry_run\":true}'')
      (new_writer, demo_console)
    = replay_failed_event demo_admin (post ''{\"event_id\":\"e1\",\"dry_run\":true}'') (new_writer, demo_console)
   \<and> replay_failed_events_batch (demo_admin\<lparr>ad_publish := None\<rparr>)
      (post ''{\"event_ids\":[\"e1\",\"e2\"],\"dry_run\":true}'') (new_writer, demo_console)
    = replay_failed_events_batch demo_admin
      (post ''{\"event_ids\":[\"e1\",\"e2\"],\"dry_run\":true}'') (new_writer, demo_console)"
  using dry_run_never_publishes [where r = "post ''{\"event_id\":\"e1\",\"dry_run\":true}''" and env = demo_admin and p = None]
    dry_run_never_publishes [where r = "post ''{\"event_ids\":[\"e1\",\"e2\"],\"dry_run\":true}''" and env = demo_admin and p = None]
  by (simp add: demo_bodies)

theorem replay_headers_protected_witness:
  "let e = (pg_event 5 (Inr ''x'') pg_request)\<lparr>ev_headers := Some [''X-Event-ID'' \<mapsto> ''e1'']\<rparr>;
       inp = \<lparr>rx_event_id = ''e1'', rx_dry_run = False, rx_overrides = Map.empty, rx_actor = ''ops'',
              rx_request_id = ''r1''\<rparr>
   in \<exists>h sent. clone_replay_headers (\<lambda>s. s) (ev_headers e) [(''X-Priority'', ''1'')] = Inr h
     \<and> replay_headers demo_texts demo_http inp e h = Some sent
     \<and> sent ''X-Event-ID'' = Some ''e1'' \<and> sent ''X-Replay-Actor'' = Some ''ops''"
proof -
  let ?e = "(pg_event 5 (Inr ''x'') pg_request)\<lparr>ev_headers := Some [''X-Event-ID'' \<mapsto> ''e1'']\<rparr>"
  let ?inp = "\<lparr>rx_event_id = ''e1'', rx_dry_run = False, rx_overrides = Map.empty, rx_actor = ''ops'',
              rx_request_id = ''r1''\<rparr>"
  have t: "trim_space ''X-Priority'' = ''X-Priority''" "trim_space ''1'' = ''1''"
    "to_lower ''X-Priority'' \<notin> set replay_header_denylist" by code_simp+
  obtain h where h: "clone_replay_headers (\<lambda>s. s) (ev_headers ?e) [(''X-Priority'', ''1'')] = Inr h"
    using t by (simp add: clone_replay_headers_def)
  obtain sent where s: "replay_headers demo_texts demo_http ?inp ?e h = Some sent"
    by (simp add: replay_headers_def Let_def)
  from replay_headers_protected [OF h s] h s show ?thesis by (simp add: base_headers_def)
qed

theorem batch_ids_spec_witness:
  "normalize_replay_event_ids ['' e1 '', ''e2'', ''e1''] = Inr [''e1'', ''e2'']
    \<and> set [''e1'', ''e2''] = trim_space ` set ['' e1 '', ''e2'', ''e1'']"
proof -
  have "trim_space '' e1 '' = ''e1''" "trim_space ''e2'' = ''e2''" "trim_space ''e1'' = ''e1''" by code_simp+
  then have n: "normalize_replay_event_ids ['' e1 '', ''e2'', ''e1''] = Inr [''e1'', ''e2'']"
    by (simp add: normalize_replay_event_ids_def batch_max_def Let_def)
  with batch_ids_spec [OF n] show ?thesis by blast
qed

theorem batch_accounting_witness:
  "\<exists>rs b st. replay_loop (\<lambda>i. execute_replay demo_admin (the (ad_failed demo_admin)) demo_http
        \<lparr>rx_event_id = i, rx_dry_run = True, rx_overrides = Map.empty, rx_actor = ''ops'',
         rx_request_id = ''r1''\<rparr>) (\<lambda>n. False) 0 [''e1'', ''e2''] ([], new_summary 2) demo_console
      = (Some (rs, b), st)
    \<and> bs_processed b = 2 \<and> bs_succeeded b + bs_failed b = 2 \<and> bs_published b = 0"
proof -
  let ?inp = "\<lambda>i. \<lparr>rx_event_id = i, rx_dry_run = True, rx_overrides = Map.empty, rx_actor = ''ops'',
         rx_request_id = ''r1''\<rparr>"
  let ?ex = "\<lambda>i. execute_replay demo_admin (the (ad_failed demo_admin)) demo_http (?inp i)"
  have ex: "\<exists>res err st'. ?ex i st = (Some (res, err), st') \<and> \<not> rp_published res" for i st
    by (auto simp: execute_replay_def Let_def replay_failure_def replay_success_def split: sum.splits)
  obtain r1 e1 s1 where 1: "?ex ''e1'' demo_console = (Some (r1, e1), s1)" "\<not> rp_published r1" using ex by blast
  obtain r2 e2 s2 where 2: "?ex ''e2'' s1 = (Some (r2, e2), s2)" "\<not> rp_published r2" using ex by blast
  have l: "replay_loop ?ex (\<lambda>n. False) 0 [''e1'', ''e2''] ([], new_summary 2) demo_console
      = (Some ([r1, r2], tally r2 (tally r1 (new_summary 2))), s2)"
    by (simp add: 1 2)
  from batch_accounting [OF l] l 1(2) 2(2) show ?thesis by fastforce
qed


end
