(* ===== verification/Retry.thy ===== *)
theory Retry
  imports Fail_Store_Pg Float64
begin

text \<open>
  Package \<open>retry\<close>: the scheduler that publishes failed events again (\<open>scheduler.go\<close>) and the lease
  that elects the instance that runs it (\<open>leader.go\<close>). One tick is one atomic step on the store; the
  clock, the jitter and the answers of the publisher and of Redis are arguments. The locale
  \<open>retry_store\<close> is what the scheduler needs of a failed-event store; the bound on the number of
  attempts is proved in it and holds for the Postgres store by interpretation.
\<close>

section \<open>Backoff\<close>

definition calculate_backoff :: "float64 \<Rightarrow> int \<Rightarrow> duration \<Rightarrow> duration" where
  "calculate_backoff random retry_count base =
     (let n = (if retry_count < 0 then 0 else retry_count);
          backoff = f_to_int64 (f_mul (f_int base) (2 ^ nat n));
          jitter = f_to_int64 (f_mul random (f_int base));
          total = wrap64 (backoff + jitter);
          cap = 5 * minute
      in if total > cap then cap else total)"

section \<open>The scheduler\<close>

record scheduler =
  sc_max :: int
  sc_interval :: duration
  sc_running :: bool
  sc_stopped :: bool

definition new_scheduler :: "int \<Rightarrow> duration \<Rightarrow> scheduler" where
  "new_scheduler max_retries interval =
     \<lparr>sc_max = (if max_retries \<le> 0 then 3 else max_retries),
      sc_interval = (if interval \<le> 0 then 10 * second else interval),
      sc_running = False, sc_stopped = False\<rparr>"

definition scheduler_start :: "scheduler \<Rightarrow> scheduler" where
  "scheduler_start s = (if sc_running s \<or> sc_stopped s then s else s\<lparr>sc_running := True\<rparr>)"

definition scheduler_stop :: "scheduler \<Rightarrow> scheduler" where
  "scheduler_stop s =
     (if \<not> sc_running s \<or> sc_stopped s then s else s\<lparr>sc_running := False, sc_stopped := True\<rparr>)"

record 'st retry_ops =
  ro_delete :: "string \<Rightarrow> 'st \<Rightarrow> goerr option \<times> 'st"
  ro_update :: "string \<Rightarrow> int \<Rightarrow> 'st \<Rightarrow> goerr option \<times> 'st"

record attempt =
  at_id :: string
  at_source :: string
  at_success :: bool
  at_number :: int

definition retry_headers :: "headers \<Rightarrow> int \<Rightarrow> headers" where
  "retry_headers h n =
     Some ((case h of None \<Rightarrow> Map.empty | Some m \<Rightarrow> m)(''X-Retry-Count'' \<mapsto> itoa n))"

text \<open>\<open>publish source body headers\<close> is the publisher's answer.\<close>

definition retry_event ::
  "'st retry_ops \<Rightarrow> (string \<Rightarrow> string \<Rightarrow> headers \<Rightarrow> goerr option) \<Rightarrow> int \<Rightarrow> failed_event \<Rightarrow> 'st
     \<Rightarrow> attempt list \<times> 'st" where
  "retry_event ops publish max_retries e st =
     (let next = ev_retry e + 1
      in if next > max_retries then ([], snd (ro_delete ops (ev_id e) st))
         else
           let ok = (publish (ev_source e) (ev_body e) (retry_headers (ev_headers e) next) = None);
               a = \<lparr>at_id = ev_id e, at_source = ev_source e, at_success = ok, at_number = next\<rparr>
           in if ok then ([a], snd (ro_delete ops (ev_id e) st))
              else ([a], snd (ro_update ops (ev_id e) next st)))"

text \<open>\<open>jitter\<close> gives the random number drawn for an event.\<close>

definition process_event ::
  "'st retry_ops \<Rightarrow> (string \<Rightarrow> string \<Rightarrow> headers \<Rightarrow> goerr option) \<Rightarrow> (failed_event \<Rightarrow> float64)
     \<Rightarrow> time \<Rightarrow> scheduler \<Rightarrow> failed_event \<Rightarrow> 'st \<Rightarrow> attempt list \<times> 'st" where
  "process_event ops publish jitter now sc e st =
     (if ev_retry e \<ge> sc_max sc then ([], snd (ro_delete ops (ev_id e) st))
      else if time_sub now (ev_failed_at e)
              < calculate_backoff (jitter e) (ev_retry e) (sc_interval sc)
      then ([], st)
      else retry_event ops publish (sc_max sc) e st)"

fun process_events ::
  "'st retry_ops \<Rightarrow> (string \<Rightarrow> string \<Rightarrow> headers \<Rightarrow> goerr option) \<Rightarrow> (failed_event \<Rightarrow> float64)
     \<Rightarrow> time \<Rightarrow> scheduler \<Rightarrow> failed_event list \<Rightarrow> 'st \<Rightarrow> attempt list \<times> 'st" where
  "process_events ops publish jitter now sc [] st = ([], st)"
| "process_events ops publish jitter now sc (e # es) st =
     (case process_event ops publish jitter now sc e st of
        (a, st1) \<Rightarrow> (case process_events ops publish jitter now sc es st1 of (as, st2) \<Rightarrow> (a @ as, st2)))"

text \<open>\<open>processRetries\<close>: a failed listing does nothing; \<open>alive e\<close> says whether the 30 seconds have
  not run out when the turn of \<open>e\<close> comes.\<close>

definition process_retries ::
  "(int \<Rightarrow> 'st \<Rightarrow> failed_event list result) \<Rightarrow> 'st retry_ops
     \<Rightarrow> (string \<Rightarrow> string \<Rightarrow> headers \<Rightarrow> goerr option) \<Rightarrow> (failed_event \<Rightarrow> float64)
     \<Rightarrow> (failed_event \<Rightarrow> bool) \<Rightarrow> time \<Rightarrow> scheduler \<Rightarrow> 'st \<Rightarrow> attempt list \<times> 'st" where
  "process_retries list_recent ops publish jitter alive now sc st =
     (case list_recent 50 st of
        Inl err \<Rightarrow> ([], st)
      | Inr es \<Rightarrow> process_events ops publish jitter now sc (takeWhile alive es) st)"

section \<open>Leader election\<close>

text \<open>The lease key: its holder and the instant it expires. Each Redis call may fail.\<close>

type_synonym lease = "(string \<times> time) option"

definition lease_value :: "time \<Rightarrow> lease \<Rightarrow> string option" where
  "lease_value now l = (case l of None \<Rightarrow> None | Some (who, e) \<Rightarrow> if now < e then Some who else None)"

definition is_leader :: "bool \<Rightarrow> time \<Rightarrow> string \<Rightarrow> lease \<Rightarrow> bool" where
  "is_leader redis_ok now me l \<longleftrightarrow> redis_ok \<and> lease_value now l = Some me"

definition try_claim :: "bool \<Rightarrow> time \<Rightarrow> string \<Rightarrow> duration \<Rightarrow> lease \<Rightarrow> bool \<times> lease" where
  "try_claim redis_ok now me ttl l =
     (if \<not> redis_ok then (False, l)
      else if lease_value now l \<noteq> None then (False, l)
      else (True, Some (me, now + ttl)))"

text \<open>The Lua script; \<open>int(ttl.Seconds())\<close> truncates to whole seconds.\<close>

definition renew :: "bool \<Rightarrow> time \<Rightarrow> string \<Rightarrow> duration \<Rightarrow> lease \<Rightarrow> bool \<times> lease" where
  "renew redis_ok now me ttl l =
     (if \<not> redis_ok then (False, l)
      else if lease_value now l = Some me then (True, Some (me, now + (ttl div second) * second))
      else (False, l))"

text \<open>One tick of the scheduler's loop: whether it processes, and the lease. \<open>r1\<close> and \<open>r2\<close> say whether
  the first and the second Redis call succeed.\<close>

definition tick_leader :: "bool \<Rightarrow> bool \<Rightarrow> time \<Rightarrow> string \<Rightarrow> duration \<Rightarrow> lease \<Rightarrow> bool \<times> lease" where
  "tick_leader r1 r2 now me ttl l =
     (if is_leader r1 now me l then renew r2 now me ttl l else try_claim r2 now me ttl l)"

definition scheduler_tick ::
  "(int \<Rightarrow> 'st \<Rightarrow> failed_event list result) \<Rightarrow> 'st retry_ops
     \<Rightarrow> (string \<Rightarrow> string \<Rightarrow> headers \<Rightarrow> goerr option) \<Rightarrow> (failed_event \<Rightarrow> float64)
     \<Rightarrow> (failed_event \<Rightarrow> bool) \<Rightarrow> time \<Rightarrow> scheduler \<Rightarrow> bool option \<Rightarrow> 'st \<Rightarrow> attempt list \<times> 'st" where
  "scheduler_tick list_recent ops publish jitter alive now sc leader st =
     (if sc_running sc \<and> leader \<noteq> Some False
      then process_retries list_recent ops publish jitter alive now sc st else ([], st))"

section \<open>What the scheduler needs of a store\<close>

locale retry_store =
  fixes ops :: "'st retry_ops"
    and look :: "string \<Rightarrow> 'st \<Rightarrow> failed_event option"
    and ok :: "'st \<Rightarrow> bool"
  assumes delete_look: "ok st \<Longrightarrow> look i st = Some e \<Longrightarrow> look j (snd (ro_delete ops i st)) = (if j = i then None else look j st)"
    and update_look: "ok st \<Longrightarrow> look i st = Some e \<Longrightarrow> look j (snd (ro_update ops i n st))
          = map_option (\<lambda>e. if j = i then e\<lparr>ev_retry := n\<rparr> else e) (look j st)"
    and delete_ok: "ok st \<Longrightarrow> ok (snd (ro_delete ops i st))"
    and update_ok: "ok st \<Longrightarrow> ok (snd (ro_update ops i n st))"
begin

text \<open>What a tick does to one listed event.\<close>

definition after_tick ::
  "(string \<Rightarrow> string \<Rightarrow> headers \<Rightarrow> goerr option) \<Rightarrow> (failed_event \<Rightarrow> float64) \<Rightarrow> time \<Rightarrow> scheduler
     \<Rightarrow> failed_event \<Rightarrow> failed_event option" where
  "after_tick publish jitter now sc e =
     (if ev_retry e \<ge> sc_max sc then None
      else if time_sub now (ev_failed_at e) < calculate_backoff (jitter e) (ev_retry e) (sc_interval sc)
      then Some e
      else if publish (ev_source e) (ev_body e) (retry_headers (ev_headers e) (ev_retry e + 1)) = None
      then None
      else Some (e\<lparr>ev_retry := ev_retry e + 1\<rparr>))"

lemma process_event_look:
  assumes "ok st" and "look (ev_id e) st = Some e"
  shows "look j (snd (process_event ops publish jitter now sc e st))
    = (if j = ev_id e then after_tick publish jitter now sc e else look j st)"
  using assms
  by (auto simp: process_event_def retry_event_def after_tick_def delete_look update_look Let_def
      option.map_ident)

lemma process_event_ok: "ok st \<Longrightarrow> ok (snd (process_event ops publish jitter now sc e st))"
  by (simp add: process_event_def retry_event_def delete_ok update_ok Let_def)

lemma process_event_attempts:
  "list_all (\<lambda>a. at_id a = ev_id e \<and> at_number a = ev_retry e + 1 \<and> at_number a \<le> sc_max sc)
     (fst (process_event ops publish jitter now sc e st))"
  by (simp add: process_event_def retry_event_def Let_def)

lemma process_events_look:
  "ok st \<Longrightarrow> distinct (map ev_id es) \<Longrightarrow> (\<And>e. e \<in> set es \<Longrightarrow> look (ev_id e) st = Some e) \<Longrightarrow>
     ok (snd (process_events ops publish jitter now sc es st))
     \<and> look j (snd (process_events ops publish jitter now sc es st))
       = (case find (\<lambda>e. ev_id e = j) es of
            None \<Rightarrow> look j st | Some e \<Rightarrow> after_tick publish jitter now sc e)"
proof (induction es arbitrary: st)
  case (Cons e es)
  obtain a st1 where p: "process_event ops publish jitter now sc e st = (a, st1)" by fastforce
  have ok1: "ok st1" using process_event_ok [OF Cons.prems(1)] p by (metis snd_conv)
  have l1: "look k st1 = (if k = ev_id e then after_tick publish jitter now sc e else look k st)" for k
    using process_event_look [OF Cons.prems(1), of e k] Cons.prems(3) p by (metis list.set_intros(1) snd_conv)
  have ne: "ev_id x \<noteq> ev_id e" if "x \<in> set es" for x
  proof -
    have "ev_id x \<in> ev_id ` set es" using that by (rule imageI)
    moreover have "ev_id e \<notin> ev_id ` set es" using Cons.prems(2) by simp
    ultimately show ?thesis by metis
  qed
  have "x \<in> set es \<Longrightarrow> look (ev_id x) st1 = Some x" for x
    using Cons.prems(3) ne l1 by simp
  note ih = Cons.IH [OF ok1 _ this]
  have "find (\<lambda>x. ev_id x = ev_id e) es = None" using ne by (auto simp: find_None_set)
  then show ?case
    using ih Cons.prems(2) l1 by (auto simp: p split: prod.splits option.splits)
qed simp

lemma process_events_attempts:
  "list_all (\<lambda>a. \<exists>e \<in> set es. at_id a = ev_id e \<and> at_number a = ev_retry e + 1
      \<and> at_number a \<le> sc_max sc) (fst (process_events ops publish jitter now sc es st))"
proof (induction es arbitrary: st)
  case (Cons e es)
  obtain a st1 where p: "process_event ops publish jitter now sc e st = (a, st1)" by fastforce
  with process_event_attempts [of e sc publish jitter now st] Cons.IH [of st1] show ?case
    by (auto simp: list_all_iff split: prod.splits)
qed simp

end

text \<open>The numbers of the attempts made for one event.\<close>

definition attempts_of :: "string \<Rightarrow> attempt list \<Rightarrow> int list" where
  "attempts_of j as = map at_number (filter (\<lambda>a. at_id a = j) as)"

lemma attempts_of_append [simp]: "attempts_of j (as @ bs) = attempts_of j as @ attempts_of j bs"
  by (simp add: attempts_of_def)

lemma attempts_of_Nil [simp]: "attempts_of j [] = []"
  by (simp add: attempts_of_def)

text \<open>What each tick is given: the publisher's answers, the jitter, the deadline and the clock.\<close>

record tick_input =
  tk_publish :: "string \<Rightarrow> string \<Rightarrow> headers \<Rightarrow> goerr option"
  tk_jitter :: "failed_event \<Rightarrow> float64"
  tk_alive :: "failed_event \<Rightarrow> bool"
  tk_now :: time

fun run_ticks ::
  "(int \<Rightarrow> 'st \<Rightarrow> failed_event list result) \<Rightarrow> 'st retry_ops \<Rightarrow> scheduler \<Rightarrow> tick_input list \<Rightarrow> 'st
     \<Rightarrow> attempt list \<times> 'st" where
  "run_ticks lst ops sc [] st = ([], st)"
| "run_ticks lst ops sc (t # ts) st =
     (case process_retries lst ops (tk_publish t) (tk_jitter t) (tk_alive t) (tk_now t) sc st of
        (a, st1) \<Rightarrow> (case run_ticks lst ops sc ts st1 of (as, st2) \<Rightarrow> (a @ as, st2)))"

locale retry_source = retry_store ops look ok
  for ops :: "'st retry_ops" and look :: "string \<Rightarrow> 'st \<Rightarrow> failed_event option" and ok :: "'st \<Rightarrow> bool" +
  fixes lst :: "int \<Rightarrow> 'st \<Rightarrow> failed_event list result"
  assumes lst_distinct: "ok st \<Longrightarrow> lst n st = Inr es \<Longrightarrow> distinct (map ev_id es)"
    and lst_look: "ok st \<Longrightarrow> lst n st = Inr es \<Longrightarrow> e \<in> set es \<Longrightarrow> look (ev_id e) st = Some e"
begin

lemma listed_ok:
  assumes "ok st" and "lst n st = Inr es"
  shows "distinct (map ev_id (takeWhile P es))"
    and "e \<in> set (takeWhile P es) \<Longrightarrow> look (ev_id e) st = Some e"
proof -
  show "distinct (map ev_id (takeWhile P es))"
    using lst_distinct [OF assms] inj_on_subset [of ev_id "set es" "set (takeWhile P es)"]
    by (auto simp: distinct_map dest: set_takeWhileD)
  show "e \<in> set (takeWhile P es) \<Longrightarrow> look (ev_id e) st = Some e"
    using lst_look [OF assms] by (auto dest: set_takeWhileD)
qed

lemma tick_look:
  assumes "ok st" and "lst 50 st = Inr es"
  shows "ok (snd (process_retries lst ops publish jitter alive now sc st))
    \<and> look j (snd (process_retries lst ops publish jitter alive now sc st))
      = (case find (\<lambda>e. ev_id e = j) (takeWhile alive es) of
           None \<Rightarrow> look j st | Some e \<Rightarrow> after_tick publish jitter now sc e)"
  using process_events_look [OF assms(1) listed_ok [OF assms]]
  by (simp add: process_retries_def assms(2))

lemma tick_attempts:
  assumes "ok st" and "lst 50 st = Inr es"
  shows "list_all (\<lambda>a. \<exists>e \<in> set (takeWhile alive es). at_id a = ev_id e
      \<and> at_number a = ev_retry e + 1 \<and> at_number a \<le> sc_max sc)
    (fst (process_retries lst ops publish jitter alive now sc st))"
  using process_events_attempts by (simp add: process_retries_def assms(2))

lemma event_numbers:
  "attempts_of j (fst (process_event ops publish jitter now sc e st))
     = (if j = ev_id e \<and> ev_retry e < sc_max sc
          \<and> calculate_backoff (jitter e) (ev_retry e) (sc_interval sc) \<le> time_sub now (ev_failed_at e)
        then [ev_retry e + 1] else [])"
  by (auto simp: process_event_def retry_event_def attempts_of_def Let_def)

lemma events_numbers:
  "distinct (map ev_id es) \<Longrightarrow>
   attempts_of j (fst (process_events ops publish jitter now sc es st))
     = (case find (\<lambda>e. ev_id e = j) es of None \<Rightarrow> []
        | Some e \<Rightarrow> if ev_retry e < sc_max sc
            \<and> calculate_backoff (jitter e) (ev_retry e) (sc_interval sc) \<le> time_sub now (ev_failed_at e)
          then [ev_retry e + 1] else [])"
proof (induction es arbitrary: st)
  case (Cons e es)
  obtain a st1 where p: "process_event ops publish jitter now sc e st = (a, st1)" by fastforce
  then have "attempts_of j a = (if j = ev_id e \<and> ev_retry e < sc_max sc
          \<and> calculate_backoff (jitter e) (ev_retry e) (sc_interval sc) \<le> time_sub now (ev_failed_at e)
        then [ev_retry e + 1] else [])"
    using event_numbers by (metis fst_conv)
  moreover have "find (\<lambda>x. ev_id x = ev_id e) es = None"
    using Cons.prems by (auto simp: find_None_set rev_image_eqI)
  ultimately show ?case using Cons.IH [of st1] Cons.prems by (auto simp: p split: prod.splits)
qed simp

text \<open>One tick makes at most one attempt for an event, and counts it.\<close>

lemma tick_numbers:
  assumes "ok st"
  shows "let st' = snd (process_retries lst ops publish jitter alive now sc st);
      ns = attempts_of j (fst (process_retries lst ops publish jitter alive now sc st))
    in ok st' \<and> (case look j st of
        None \<Rightarrow> ns = [] \<and> look j st' = None
      | Some e \<Rightarrow>
          ns = [] \<and> (look j st' = None \<or> look j st' = Some e)
          \<or> ns = [ev_retry e + 1] \<and> ev_retry e < sc_max sc
            \<and> (look j st' = None \<or> look j st' = Some (e\<lparr>ev_retry := ev_retry e + 1\<rparr>)))"
proof (cases "lst 50 st")
  case (Inl err)
  with assms show ?thesis by (auto simp: process_retries_def Let_def split: option.splits)
next
  case (Inr es)
  note l = listed_ok [OF assms Inr, where P = alive]
  note t = tick_look [OF assms Inr, of publish jitter alive now sc j]
  have n: "attempts_of j (fst (process_retries lst ops publish jitter alive now sc st))
     = (case find (\<lambda>e. ev_id e = j) (takeWhile alive es) of None \<Rightarrow> []
        | Some e \<Rightarrow> if ev_retry e < sc_max sc
            \<and> calculate_backoff (jitter e) (ev_retry e) (sc_interval sc) \<le> time_sub now (ev_failed_at e)
          then [ev_retry e + 1] else [])"
    using events_numbers [OF l(1)] by (simp add: process_retries_def Inr)
  show ?thesis
  proof (cases "find (\<lambda>e. ev_id e = j) (takeWhile alive es)")
    case None
    with n t show ?thesis by (auto simp: Let_def split: option.splits)
  next
    case (Some e)
    then have "look j st = Some e" using find_Some_set [OF Some] l(2) by auto
    with Some n t show ?thesis by (auto simp: Let_def after_tick_def)
  qed
qed

lemma ticks_numbers:
  "ok st \<Longrightarrow> \<exists>k. attempts_of j (fst (run_ticks lst ops sc ts st))
      = map (\<lambda>i. (case look j st of None \<Rightarrow> 0 | Some e \<Rightarrow> ev_retry e) + 1 + int i) [0..<k]
    \<and> k \<le> (case look j st of None \<Rightarrow> 0 | Some e \<Rightarrow> nat (sc_max sc - ev_retry e))"
proof (induction ts arbitrary: st)
  case Nil
  show ?case by (intro exI [of _ 0]) simp
next
  case (Cons t ts)
  obtain a st1 where p: "process_retries lst ops (tk_publish t) (tk_jitter t) (tk_alive t) (tk_now t) sc st
      = (a, st1)" by fastforce
  note t = tick_numbers [OF Cons.prems, of "tk_publish t" "tk_jitter t" "tk_alive t" "tk_now t" sc j,
      unfolded p Let_def fst_conv snd_conv]
  from Cons.IH [of st1] t obtain k where
    k: "attempts_of j (fst (run_ticks lst ops sc ts st1))
      = map (\<lambda>i. (case look j st1 of None \<Rightarrow> 0 | Some e \<Rightarrow> ev_retry e) + 1 + int i) [0..<k]"
      "k \<le> (case look j st1 of None \<Rightarrow> 0 | Some e \<Rightarrow> nat (sc_max sc - ev_retry e))" by blast
  have r: "attempts_of j (fst (run_ticks lst ops sc (t # ts) st))
      = attempts_of j a @ attempts_of j (fst (run_ticks lst ops sc ts st1))"
    by (simp add: p split: prod.splits)
  show ?case
  proof (cases "attempts_of j a = []")
    case True
    show ?thesis
    proof (cases "look j st1")
      case None
      with k r True show ?thesis by (intro exI [of _ 0]) simp
    next
      case (Some e1)
      with True t have "look j st = Some e1" by (auto split: option.splits)
      with k r True Some show ?thesis by (intro exI [of _ k]) simp
    qed
  next
    case False
    then obtain e where e: "look j st = Some e" "attempts_of j a = [ev_retry e + 1]"
        "ev_retry e < sc_max sc"
        "look j st1 = None \<or> look j st1 = Some (e\<lparr>ev_retry := ev_retry e + 1\<rparr>)"
      using t by (auto split: option.splits)
    have up: "[0..<Suc k] = 0 # map Suc [0..<k]" by (simp add: map_Suc_upt upt_conv_Cons del: upt_Suc)
    from e(4) show ?thesis
    proof
      assume "look j st1 = None"
      with k r e show ?thesis by (intro exI [of _ 1]) simp
    next
      assume l: "look j st1 = Some (e\<lparr>ev_retry := ev_retry e + 1\<rparr>)"
      show ?thesis
        using k r e l by (intro exI [of _ "Suc k"]) (auto simp: up simp del: upt_Suc)
    qed
  qed
qed

end

definition pg_ops :: "pg_table retry_ops" where
  "pg_ops = \<lparr>ro_delete = pg_delete None, ro_update = pg_update_retry_count None\<rparr>"

definition pg_look :: "string \<Rightarrow> pg_table \<Rightarrow> failed_event option" where
  "pg_look i tb = find (\<lambda>e. ev_id e = i) tb"

lemma pg_delete_look: "pg_look j (snd (pg_delete None i tb)) = (if j = i then None else pg_look j tb)"
proof (cases "i \<in> ev_id ` set tb")
  case True
  then obtain tb' where "pg_delete None i tb = (None, tb')"
    using pg_delete_some by (metis prod.collapse)
  then show ?thesis using pg_delete_find by (simp add: pg_look_def)
next
  case False
  then have "filter (\<lambda>r. ev_id r \<noteq> i) tb = tb" by (auto simp: filter_id_conv)
  with False show ?thesis by (auto simp: pg_delete_def pg_look_def find_None_set)
qed

lemma pg_update_look:
  "pg_look j (snd (pg_update_retry_count None i n tb))
     = map_option (\<lambda>e. if j = i then e\<lparr>ev_retry := n\<rparr> else e) (pg_look j tb)"
proof (cases "i \<in> ev_id ` set tb")
  case True
  then show ?thesis by (simp add: pg_update_retry_count_def pg_look_def find_map_update)
next
  case False
  then have "pg_look i tb = None" by (auto simp: pg_look_def find_None_set)
  with False show ?thesis
    by (cases "j = i") (simp_all add: pg_update_retry_count_def option.map_ident)
qed

lemma pg_update_ok: "pg_ok tb \<Longrightarrow> pg_ok (snd (pg_update_retry_count db i n tb))"
  by (simp add: pg_ok_def pg_update_ids)

interpretation pgr: retry_store pg_ops pg_look pg_ok
  by unfold_locales (simp_all add: pg_ops_def pg_delete_look pg_update_look pg_delete_ok pg_update_ok)

lemma sort_find:
  "distinct (map ev_id tb) \<Longrightarrow> e \<in> set (take k (sort_key f tb)) \<Longrightarrow> pg_look (ev_id e) tb = Some e"
  using find_distinct [of tb "ev_id e" e] by (auto simp: pg_look_def dest: in_set_takeD)

lemma distinct_take_sort: "distinct (map ev_id tb) \<Longrightarrow> distinct (map ev_id (take k (sort_key f tb)))"
  by (metis distinct_map distinct_sort set_sort take_map distinct_take)

interpretation pgs: retry_source pg_ops pg_look pg_ok "pg_list_recent None"
  using sort_find distinct_take_sort
  by unfold_locales (auto simp: pg_list_recent_def pg_ok_def)

text \<open>C13: one tick over the Postgres store, event by event: an event that used up its attempts is
  removed; one still in its backoff is left alone; one that the publisher takes is removed; one it
  refuses stays with its count increased by one; events that were not listed are untouched. Every
  attempt bears the number after the event's count, and none exceeds the maximum.\<close>

theorem retry_tick_spec:
  assumes "pg_ok tb"
  shows "let listed = takeWhile alive (take 50 (sort_key (\<lambda>r. - ev_failed_at r) tb));
             (attempts, tb') = process_retries (pg_list_recent None) pg_ops publish jitter alive now sc tb
    in pg_ok tb'
       \<and> pg_look j tb' = (case find (\<lambda>e. ev_id e = j) listed of
            None \<Rightarrow> pg_look j tb
          | Some e \<Rightarrow> if ev_retry e \<ge> sc_max sc then None
              else if time_sub now (ev_failed_at e)
                      < calculate_backoff (jitter e) (ev_retry e) (sc_interval sc) then Some e
              else if publish (ev_source e) (ev_body e)
                      (retry_headers (ev_headers e) (ev_retry e + 1)) = None then None
              else Some (e\<lparr>ev_retry := ev_retry e + 1\<rparr>))
       \<and> list_all (\<lambda>a. \<exists>e \<in> set listed. at_id a = ev_id e \<and> at_number a = ev_retry e + 1
            \<and> at_number a \<le> sc_max sc) attempts"
proof -
  let ?l = "takeWhile alive (take 50 (sort_key (\<lambda>r. - ev_failed_at r) tb))"
  obtain as tb' where p: "process_retries (pg_list_recent None) pg_ops publish jitter alive now sc tb
      = (as, tb')" by fastforce
  have l: "pg_list_recent None 50 tb = Inr (take 50 (sort_key (\<lambda>r. - ev_failed_at r) tb))"
    by (simp add: pg_list_recent_def clamp_limit_def)
  from pgs.tick_look [OF assms l, of publish jitter alive now sc j]
  have "pg_ok tb' \<and> pg_look j tb' = (case find (\<lambda>e. ev_id e = j) ?l of
      None \<Rightarrow> pg_look j tb | Some e \<Rightarrow> pgr.after_tick publish jitter now sc e)"
    by (simp only: p snd_conv)
  moreover from pgs.tick_attempts [OF assms l, where sc = sc and publish = publish and jitter = jitter and alive = alive and now = now]
  have "list_all (\<lambda>a. \<exists>e \<in> set ?l. at_id a = ev_id e \<and> at_number a = ev_retry e + 1
      \<and> at_number a \<le> sc_max sc) as" by (simp only: p fst_conv)
  ultimately show ?thesis unfolding Let_def p pgr.after_tick_def prod.case by (simp only: simp_thms)
qed

definition retry_demo_table :: pg_table where
  "retry_demo_table = [pg_event 0 (Inr ''x'') pg_request]"

lemma retry_demo_ok: "pg_ok retry_demo_table"
  by (simp add: retry_demo_table_def pg_ok_def)

lemma retry_demo_look: "pg_look ''e1'' retry_demo_table = Some (pg_event 0 (Inr ''x'') pg_request)"
  by (simp add: pg_look_def retry_demo_table_def pg_event_def pg_request_def)

lemma backoff_le: "calculate_backoff r n base \<le> 5 * minute"
  by (simp add: calculate_backoff_def Let_def)

lemma backoff_elapsed: "5 * minute \<le> time_sub now t \<Longrightarrow> \<not> time_sub now t < calculate_backoff r n base"
  using backoff_le [of r n base] by linarith

theorem retry_tick_spec_witness:
  "pg_look ''e1'' (snd (process_retries (pg_list_recent None) pg_ops (\<lambda>s b h. None) (\<lambda>e. 0)
     (\<lambda>e. True) (hour) (new_scheduler 3 (10 * second)) retry_demo_table)) = None"
proof -
  have "5 * minute \<le> time_sub hour (ev_failed_at (pg_event 0 (Inr ''x'') pg_request))"
    by (simp add: pg_event_def pg_request_def time_sub_def duration_units int64_min_def int64_max_def)
  note b = backoff_elapsed [OF this]
  have "ev_id (pg_event 0 (Inr ''x'') pg_request) = ''e1''"
    by (simp add: pg_event_def pg_request_def)
  with retry_tick_spec [OF retry_demo_ok, of "\<lambda>e. True" "\<lambda>s b h. None" "\<lambda>e. 0" hour
      "new_scheduler 3 (10 * second)" "''e1''"] b
  show ?thesis by (simp add: retry_demo_table_def Let_def split: prod.splits)
qed

text \<open>Retries end. Over any number of ticks, whatever the publisher, the clock and the deadlines
  do, the attempts made for an event that is not saved again are numbered one by one from its count,
  and there are never more of them than the maximum leaves; an id the store does not hold gets none.\<close>

theorem retry_attempts_bounded:
  assumes "pg_ok tb"
  shows "\<exists>k. attempts_of j (fst (run_ticks (pg_list_recent None) pg_ops sc ts tb))
      = map (\<lambda>i. (case pg_look j tb of None \<Rightarrow> 0 | Some e \<Rightarrow> ev_retry e) + 1 + int i) [0..<k]
    \<and> k \<le> (case pg_look j tb of None \<Rightarrow> 0 | Some e \<Rightarrow> nat (sc_max sc - ev_retry e))"
  by (rule pgs.ticks_numbers [OF assms])

theorem retry_attempts_bounded_witness:
  "length (attempts_of ''e1'' (fst (run_ticks (pg_list_recent None) pg_ops (new_scheduler 3 0)
     (replicate 100 \<lparr>tk_publish = \<lambda>s b h. Some (ErrText ''down''), tk_jitter = \<lambda>e. 0,
        tk_alive = \<lambda>e. True, tk_now = hour\<rparr>) retry_demo_table))) \<le> 3"
proof -
  have "ev_retry (pg_event 0 (Inr ''x'') pg_request) = 0" by (simp add: pg_event_def)
  with retry_attempts_bounded [OF retry_demo_ok, of "''e1''" "new_scheduler 3 0"
      "replicate 100 \<lparr>tk_publish = \<lambda>s b h. Some (ErrText ''down''), tk_jitter = \<lambda>e. 0,
        tk_alive = \<lambda>e. True, tk_now = hour\<rparr>"]
  show ?thesis by (auto simp: retry_demo_look new_scheduler_def)
qed

section \<open>The bounds of the backoff\<close>

lemma in_int64_I: "- 9223372036854775808 \<le> x \<Longrightarrow> x \<le> 9223372036854775807 \<Longrightarrow> in_int64 x"
  by (simp add: in_int64_def int64_min_def int64_max_def)

lemma binade_unique: "pow2 e \<le> x \<Longrightarrow> x < pow2 (e + 1) \<Longrightarrow> binade x = e"
proof -
  assume h: "pow2 e \<le> x" "x < pow2 (e + 1)"
  then have x: "0 < x" using pow2_pos [of e] by linarith
  note b = binade_bounds [OF x]
  have "pow2 e < pow2 (binade x + 1)" "pow2 (binade x) < pow2 (e + 1)" using h b by linarith+
  from this [THEN pow2_less] show ?thesis by linarith
qed

text \<open>Multiplying by a power of two is exact.\<close>

lemma f64_pow2_scale:
  assumes "0 < x" shows "f64 (x * pow2 k) = f64 x * pow2 k"
proof -
  have "binade (x * pow2 k) = binade x + k"
  proof (rule binade_unique)
    show "pow2 (binade x + k) \<le> x * pow2 k"
      using binade_bounds [OF assms] pow2_pos [of k] by (simp add: pow2_add [of "binade x" k])
    have "binade x + k + 1 = binade x + 1 + k" by simp
    then show "x * pow2 k < pow2 (binade x + k + 1)"
      using binade_bounds [OF assms] pow2_pos [of k] by (simp only: pow2_add [of "binade x + 1" k]) simp
  qed
  moreover have "x * pow2 k / pow2 (binade x + k - 52) = x / pow2 (binade x - 52)"
    using pow2_pos [of k] pow2_add [of "binade x - 52" k] by (simp add: algebra_simps del: pow2_pos)
  moreover have "pow2 (binade x + k - 52) = pow2 (binade x - 52) * pow2 k"
    using pow2_add [of "binade x - 52" k] by (simp add: algebra_simps)
  ultimately have "f64_pos (x * pow2 k) = f64_pos x * pow2 k"
    by (simp add: f64_pos_def Let_def)
  moreover have "x * pow2 k \<noteq> 0" "\<not> x * pow2 k < 0" "x \<noteq> 0" "\<not> x < 0"
    using mult_pos_pos [OF assms pow2_pos [of k]] assms by linarith+
  ultimately show ?thesis by (simp only: f64_def if_False)
qed

lemma backoff_product:
  assumes "0 < base" "base < 2 ^ 53" "0 \<le> n"
  shows "f_mul (f_int base) (2 ^ nat n) = of_int (base * 2 ^ nat n)"
proof -
  have "(2 :: rat) ^ nat n = pow2 n" using assms(3) by (simp add: pow2_def)
  then show ?thesis
    using assms f64_pow2_scale [of "of_int base" n] f64_int_exact [of base]
    by (simp add: f_mul_def f_int_exact)
qed

lemma jitter_bounds:
  assumes "0 < base" "base < 2 ^ 53" "0 \<le> r" "r < 1"
  shows "0 \<le> f_to_int64 (f_mul r (f_int base))" "f_to_int64 (f_mul r (f_int base)) \<le> base"
proof -
  have b: "f_int base = of_int base" using assms by (simp add: f_int_exact)
  have b53: "base < 9007199254740992" using assms(2) by simp
  have "r * of_int base \<le> of_int base" using assms by (simp add: mult_left_le_one_le)
  then have u: "f_mul r (f_int base) \<le> of_int base"
    using f64_mono [of "r * of_int base" "of_int base"] f64_int_exact [of base] assms
    by (simp add: f_mul_def b)
  have l: "0 \<le> f_mul r (f_int base)" using assms by (simp add: f_mul_def b f64_nonneg)
  have "0 \<le> \<lfloor>f_mul r (f_int base)\<rfloor>" "\<lfloor>f_mul r (f_int base)\<rfloor> \<le> base"
    using l u by (simp_all add: floor_le_iff)
  moreover from this have "in_int64 \<lfloor>f_mul r (f_int base)\<rfloor>"
    using b53 by (intro in_int64_I; linarith)
  ultimately show "0 \<le> f_to_int64 (f_mul r (f_int base))" "f_to_int64 (f_mul r (f_int base)) \<le> base"
    using l by (simp_all add: f_to_int64_def Let_def)
qed



text \<open>C4: past that bound the backoff is lost: once the doubled interval reaches \<open>2 ^ 63\<close> nanoseconds
  (30 retries at the default interval of 10 s) the conversion yields the smallest \<open>int64\<close>, the
  backoff is negative, and the event is due at once however recently it failed.\<close>

theorem backoff_overflow:
  assumes "0 < base" and "base < 2 ^ 53" and "0 \<le> n" and "2 ^ 63 \<le> base * 2 ^ nat n"
    and "0 \<le> r" and "r < 1"
  shows "calculate_backoff r n base < 0
    \<and> (failed \<le> now \<longrightarrow> \<not> time_sub now failed < calculate_backoff r n base)"
proof -
  let ?b = "base * 2 ^ nat n"
  have p: "f_mul (f_int base) (2 ^ nat n) = of_int ?b"
    using backoff_product [OF assms(1,2,3)] by (simp del: of_int_mult)
  have nn: "\<not> of_int ?b < (0 :: rat)" "\<not> in_int64 ?b"
    using assms(1,4) by (simp_all add: in_int64_def int64_max_def del: of_int_mult)
  then have f: "f_to_int64 (f_mul (f_int base) (2 ^ nat n)) = int64_min"
    unfolding p f_to_int64_def floor_of_int Let_def by (simp del: of_int_mult)
  note j = jitter_bounds [OF assms(1,2,5,6)]
  have "in_int64 (int64_min + f_to_int64 (f_mul r (f_int base)))"
    using assms(2) j by (simp add: in_int64_def int64_min_def int64_max_def)
  then have "calculate_backoff r n base = int64_min + f_to_int64 (f_mul r (f_int base))"
    using assms(2,3) f j
    by (simp add: calculate_backoff_def Let_def int64_min_def duration_units)
  then have neg: "calculate_backoff r n base < 0"
    using assms(2) j by (simp add: int64_min_def)
  moreover have "0 \<le> time_sub now failed" if "failed \<le> now"
    using that by (simp add: time_sub_def int64_max_def)
  ultimately show ?thesis by force
qed

theorem backoff_overflow_witness: "calculate_backoff (1 / 2) 30 (10 * second) < 0"
  using backoff_overflow [of "10 * second" 30 "1 / 2"] by (simp add: duration_units)

section \<open>Over the file store\<close>

definition fs_ops :: "(failed_event \<Rightarrow> nat \<times> failed_event) \<Rightarrow> event_file retry_ops" where
  "fs_ops enc = \<lparr>ro_delete = fs_delete enc io_ok, ro_update = fs_update_retry_count enc io_ok\<rparr>"

lemma list_two:
  assumes "readable st" and "file_events st = [e1, e2]" and "ev_id e1 = ev_id e2"
  shows "fs_list_recent io_ok 50 st = Inr [e2]"
proof -
  have "deduplicate_events [e1, e2] = [e2]"
    using assms(3) by (simp add: deduplicate_events_def dedup_step_def)
  moreover have "foldl (push_recent 50) [] [e1, e2] = [e1, e2]"
    by (simp add: push_recent_def)
  moreover have "decoded (file_lines st) = [e1, e2]" using assms(2) by (simp add: file_events_def)
  ultimately show ?thesis
    using assms(1) scan_lines_ok [of "file_lines st"]
    by (cases st) (simp_all add: fs_list_recent_def readable_def file_lines_def decoded_def)
qed

text \<open>C5: over the file store an event that was saved twice under one id is retried without end: while
  the publisher refuses it, every tick attempts it again under the same number, because the count
  that \<open>UpdateRetryCount\<close> writes is not the one \<open>ListRecent\<close> reads; the maximum is never reached.\<close>

theorem duplicate_retried_forever:
  assumes "readable st" and "codec_ok enc [e1\<lparr>ev_retry := ev_retry e2 + 1\<rparr>, e2]" and "file_events st = [e1, e2]"
    and "ev_id e1 = i" and "ev_id e2 = i" and "trim_space i = i" and "i \<noteq> ''''"
    and "snd (enc e2) = e2" and "ev_retry e2 < sc_max sc"
    and "list_all (\<lambda>t. tk_alive t e2 \<and> (\<forall>s b h. tk_publish t s b h \<noteq> None)
           \<and> 5 * minute \<le> time_sub (tk_now t) (ev_failed_at e2)) ts"
  shows "map at_number (fst (run_ticks (fs_list_recent io_ok) (fs_ops enc) sc ts st))
    = replicate (length ts) (ev_retry e2 + 1)"
  using assms(1,3,4,10,2)
proof (induction ts arbitrary: st e1)
  case (Cons t ts)
  note t = Cons.prems(4) [simplified]
  obtain st1 where f: "fs_update_retry_count enc io_ok i (ev_retry e2 + 1) st = (None, st1)"
      "file_events st1 = [snd (enc (e1\<lparr>ev_retry := ev_retry e2 + 1\<rparr>)), snd (enc e2)]"
      "readable st1"
  proof
    let ?es = "[e1\<lparr>ev_retry := ev_retry e2 + 1\<rparr>, e2]"
    show "fs_update_retry_count enc io_ok i (ev_retry e2 + 1) st = (None, Some (map (encode_line enc) ?es))"
      using Cons.prems assms(6,7)
      by (simp add: fs_update_retry_count_def read_all_ok rewrite_file_def Let_def)
    show "file_events (Some (map (encode_line enc) ?es))
        = [snd (enc (e1\<lparr>ev_retry := ev_retry e2 + 1\<rparr>)), snd (enc e2)]"
      unfolding file_events_def file_lines_def option.case decoded_encode by simp
    show "readable (Some (map (encode_line enc) ?es))"
      using Cons.prems(5) by (intro codec_rewritten) simp
  qed
  let ?e = "snd (enc (e1\<lparr>ev_retry := ev_retry e2 + 1\<rparr>))"
  have "ev_retry ?e = ev_retry e2 + 1" using Cons.prems(5) by (simp add: line_okD)
  then have again: "?e\<lparr>ev_retry := ev_retry e2 + 1\<rparr> = ?e" by (metis failed_event.surjective failed_event.update_convs)
  obtain err where pub: "tk_publish t (ev_source e2) (ev_body e2)
      (retry_headers (ev_headers e2) (ev_retry e2 + 1)) = Some err"
    using t by fastforce
  have nb: "\<not> time_sub (tk_now t) (ev_failed_at e2)
      < calculate_backoff (tk_jitter t e2) (ev_retry e2) (sc_interval sc)"
    using t backoff_elapsed by blast
  let ?a = "\<lparr>at_id = i, at_source = ev_source e2, at_success = False, at_number = ev_retry e2 + 1\<rparr>"
  have "process_event (fs_ops enc) (tk_publish t) (tk_jitter t) (tk_now t) sc e2 st = ([?a], st1)"
    using nb pub f(1) assms(5,9) by (simp add: process_event_def retry_event_def fs_ops_def Let_def)
  then have p: "process_retries (fs_list_recent io_ok) (fs_ops enc) (tk_publish t) (tk_jitter t)
      (tk_alive t) (tk_now t) sc st = ([?a], st1)"
    using t list_two [OF Cons.prems(1,2)] Cons.prems(3) assms(5) by (simp add: process_retries_def)
  have "map at_number (fst (run_ticks (fs_list_recent io_ok) (fs_ops enc) sc ts st1))
      = replicate (length ts) (ev_retry e2 + 1)"
    using Cons.IH [OF f(3)] f(2) t assms(8) Cons.prems(3,5) again by (simp add: line_okD)
  then show ?case by (auto simp: p split: prod.splits)
qed simp

theorem duplicate_retried_forever_witness:
  "map at_number (fst (run_ticks (fs_list_recent io_ok) (fs_ops small_codec) (new_scheduler 3 0)
     (replicate 100 \<lparr>tk_publish = \<lambda>s b h. Some (ErrText ''down''), tk_jitter = \<lambda>e. 0,
        tk_alive = \<lambda>e. True, tk_now = hour\<rparr>) dup_file)) = replicate 100 1"
proof -
  have t: "trim_space ''e1'' = ''e1''" by code_simp
  have r: "readable dup_file"
    by (simp add: dup_file_def readable_def file_lines_def encode_line_def small_codec_def max_line_def)
  have e: "file_events dup_file = [event_of_request 5 ''e1'' demo_request,
      event_of_request 9 ''e1'' demo_request]"
    by (simp add: dup_file_def file_events_def file_lines_def decoded_def encode_line_def
        small_codec_def)
  have "5 * minute \<le> time_sub hour 9"
    by (simp add: time_sub_def duration_units int64_min_def int64_max_def)
  then show ?thesis
    using duplicate_retried_forever [OF r small_codec_ok e _ _ t, of "new_scheduler 3 0"
        "replicate 100 \<lparr>tk_publish = \<lambda>s b h. Some (ErrText ''down''), tk_jitter = \<lambda>e. 0,
        tk_alive = \<lambda>e. True, tk_now = hour\<rparr>"]
    by (simp add: event_of_request_def small_codec_def new_scheduler_def list_all_iff)
qed

end
