(* ===== verification/Assembly.thy ===== *)
theory Assembly
  imports Admin_Safety Retry
begin

text \<open>
  The rest of \<open>cmd/server/main.go\<close>: which stores \<open>run\<close> builds from the configuration, the recording of
  security events by the handlers and the middlewares, the feature flags it registers, the TLS files,
  and the redaction of the database address; then the process as a whole, with the security audit that
  the rejected requests are written to. The metrics and the log lines are left out.
\<close>

section \<open>Wiring\<close>

text \<open>
  What an interface variable holds after a constructor was called: nothing, a store, or the nil pointer
  of the concrete type that the failed constructor returned, which is not the nil interface.
\<close>

datatype wired = WiredNone | WiredStore | WiredNilPointer

definition wire_store :: "bool \<Rightarrow> goerr option \<Rightarrow> wired" where
  "wire_store enabled failure =
     (if \<not> enabled then WiredNone else if failure = None then WiredStore else WiredNilPointer)"

text \<open>What the libraries answer while the process starts.\<close>

record boot =
  bt_telemetry :: "goerr option"
  bt_pool :: "goerr option"
  bt_failed :: "goerr option"
  bt_replay :: "goerr option"
  bt_security :: "goerr option"
  bt_publisher :: "goerr option"
  bt_metrics :: "goerr option"
  bt_schema :: "goerr option"

datatype dedup_kind = DedupRedis string duration | DedupMemory duration
datatype limiter_kind = LimitRedis string | LimitMemory

record wiring =
  wi_dedup :: dedup_kind
  wi_postgres :: bool
  wi_failed :: wired
  wi_replay :: wired
  wi_security :: wired
  wi_schema :: bool
  wi_limiter :: limiter_kind
  wi_retry :: "scheduler option"
  wi_leader :: bool
  wi_flags :: feature_flags

definition dedup_ttl :: "config \<Rightarrow> duration" where
  "dedup_ttl cfg =
     (let ttl = wrap64 (DedupTTLSeconds cfg * second) in if ttl \<le> 0 then 5 * minute else ttl)"

definition register_flags :: "config \<Rightarrow> feature_flags" where
  "register_flags cfg =
     foldl (\<lambda>f (name, on). ff_register name on f) new_feature_flags
       [(''dedup.enabled'', DedupEnabled cfg), (''rate_limit.enabled'', RateLimitEnabled cfg),
        (''schema_validation.enabled'', SchemaValidationEnabled cfg), (''retry.enabled'', RetryEnabled cfg),
        (''source_rate_limit.enabled'', SourceRateLimitEnabled cfg),
        (''queue_bulkhead.enabled'', QueueBulkheadEnabled cfg)]"

definition wire_limiter :: "config \<Rightarrow> limiter_kind" where
  "wire_limiter cfg =
     (if RateLimitBackend cfg = ''redis'' \<and> RedisAddr cfg \<noteq> '''' then LimitRedis (RateLimitRedisPrefix cfg)
      else LimitMemory)"

text \<open>The start of \<open>run\<close>: the exit status, or what it built when the server begins to listen.\<close>

definition run_setup :: "config \<Rightarrow> boot \<Rightarrow> int + wiring" where
  "run_setup cfg b =
     (if validate cfg \<noteq> None \<or> bt_telemetry b \<noteq> None then Inl 1
      else if DatabaseURL cfg \<noteq> '''' \<and> bt_pool b \<noteq> None then Inl 1
      else if bt_publisher b \<noteq> None \<or> bt_metrics b \<noteq> None then Inl 1
      else
        let redis = RedisAddr cfg \<noteq> '''';
            failed = wire_store (FailedStoreEnabled cfg) (bt_failed b)
        in Inr
          \<lparr>wi_dedup = (if redis then DedupRedis (DedupRedisPrefix cfg) (dedup_ttl cfg)
                       else DedupMemory (dedup_ttl cfg)),
           wi_postgres = (DatabaseURL cfg \<noteq> ''''),
           wi_failed = failed,
           wi_replay = wire_store (ReplayAuditEnabled cfg) (bt_replay b),
           wi_security = wire_store (SecurityAuditEnabled cfg) (bt_security b),
           wi_schema = (SchemaValidationEnabled cfg \<and> bt_schema b = None),
           wi_limiter = wire_limiter cfg,
           wi_retry = (if RetryEnabled cfg \<and> failed \<noteq> WiredNone
                       then Some (scheduler_start (new_scheduler (RetryMaxAttempts cfg)
                              (wrap64 (RetryIntervalSec cfg * second)))) else None),
           wi_leader = (RetryEnabled cfg \<and> failed \<noteq> WiredNone \<and> redis),
           wi_flags = register_flags cfg\<rparr>)"

definition file_store_warning :: "config \<Rightarrow> bool" where
  "file_store_warning cfg \<longleftrightarrow>
     is_non_prod_environment (Environment cfg) \<and> DatabaseURL cfg = ''''
     \<and> (FailedStoreEnabled cfg \<or> ReplayAuditEnabled cfg \<or> SecurityAuditEnabled cfg)"

text \<open>\<open>envOrTLS\<close>: the file must exist; with both files the server speaks TLS.\<close>

definition env_or_tls :: "(string \<Rightarrow> string) \<Rightarrow> (string \<Rightarrow> bool) \<Rightarrow> string \<Rightarrow> string" where
  "env_or_tls env exists_file key =
     (let v = env key in if v = '''' then '''' else if exists_file v then v else '''')"

definition listens_tls :: "(string \<Rightarrow> string) \<Rightarrow> (string \<Rightarrow> bool) \<Rightarrow> bool" where
  "listens_tls env exists_file \<longleftrightarrow>
     env_or_tls env exists_file ''TLS_CERT_FILE'' \<noteq> '''' \<and> env_or_tls env exists_file ''TLS_KEY_FILE'' \<noteq> ''''"

section \<open>The database address in the log\<close>

text \<open>The regular expression \<open>password=[^\s\'"]+\<close>.\<close>

definition password_char :: "char \<Rightarrow> bool" where
  "password_char c \<longleftrightarrow>
     c \<notin> {CHR 0x09, CHR 0x0A, CHR 0x0C, CHR 0x0D, CHR 0x20, CHR 0x27, CHR 0x22}"

function redact_passwords :: "string \<Rightarrow> string" where
  "redact_passwords [] = []"
| "redact_passwords (c # s) =
     (let v = takeWhile password_char (drop 9 (c # s))
      in if has_prefix (c # s) ''password='' \<and> v \<noteq> []
         then ''password=[REDACTED]'' @ redact_passwords (drop (9 + length v) (c # s))
         else c # redact_passwords s)"
  by pat_completeness auto
termination
  by (relation "measure length") auto

definition redact_dsn :: "string \<Rightarrow> string" where
  "redact_dsn s =
     (case index_of s ''://'' of
        Some i \<Rightarrow>
          (case index_of (drop (i + 3) s) ''@'' of
             Some j \<Rightarrow> take (i + 3) s @ ''[REDACTED]@'' @ drop (j + 1) (drop (i + 3) s)
           | None \<Rightarrow> if contains s ''password='' then redact_passwords s else s)
      | None \<Rightarrow> if contains s ''password='' then redact_passwords s else s)"

section \<open>Security events\<close>

text \<open>\<open>SecurityAuditRecord\<close> of \<open>handlers/webhooks.go\<close>.\<close>

definition security_audit_record :: "request \<Rightarrow> security_event \<Rightarrow> security_input" where
  "security_audit_record r ev =
     \<lparr>si_category = trim_space (sv_category ev), si_outcome = ''rejected'',
      si_source = trim_space (sv_source ev), si_reason = trim_space (sv_reason ev), si_path = rq_path r,
      si_status = sv_status ev, si_request_id = rq_id r,
      si_actor = (let a = trim_space (sv_actor ev) in if a = '''' then security_actor_from_request r else a),
      si_client_ip = ''''\<rparr>"

text \<open>\<open>recordSecurityEvent\<close>: what is blank is filled in from the request, then the record is saved.\<close>

definition or_else :: "string \<Rightarrow> string \<Rightarrow> string" where
  "or_else s d = (if trim_space s = '''' then d else s)"

definition complete_event :: "config \<Rightarrow> request \<Rightarrow> security_input \<Rightarrow> security_input" where
  "complete_event cfg r inp =
     inp\<lparr>si_source := (let s = trim_space (si_source inp)
                       in if s = '''' then security_source_from_path (rq_path r) else s),
         si_outcome := or_else (si_outcome inp) ''rejected'',
         si_path := or_else (si_path inp) (rq_path r),
         si_request_id := or_else (si_request_id inp) (rq_id r),
         si_client_ip := or_else (si_client_ip inp) (client_ip r (TrustedProxyCIDRs cfg))\<rparr>"

definition record_security_event ::
  "config \<Rightarrow> 'st security_ops option \<Rightarrow> request \<Rightarrow> security_input \<Rightarrow> 'st \<Rightarrow> 'st" where
  "record_security_event cfg store r inp st =
     (case store of None \<Rightarrow> st | Some ops \<Rightarrow> so_save ops r (complete_event cfg r inp) st)"

text \<open>The hook of the webhook handlers and the one of the middlewares.\<close>

definition webhook_security_hook ::
  "config \<Rightarrow> 'st security_ops option \<Rightarrow> request \<Rightarrow> security_event \<Rightarrow> 'st \<Rightarrow> 'st" where
  "webhook_security_hook cfg store r ev st =
     record_security_event cfg store r
       ((security_audit_record r ev)\<lparr>si_client_ip := client_ip r (TrustedProxyCIDRs cfg)\<rparr>) st"

definition security_reject :: "config \<Rightarrow> 'st security_ops option \<Rightarrow> 'st reject_hook" where
  "security_reject cfg store r reason status st =
     record_security_event cfg store r
       \<lparr>si_category = ''request_rejected'', si_outcome = ''rejected'',
        si_source = security_source_from_path (rq_path r), si_reason = reason, si_path = rq_path r,
        si_status = status, si_request_id = '''', si_actor = '''', si_client_ip = ''''\<rparr> st"

section \<open>The process\<close>

text \<open>The webhook handlers on the state of the administration, their rejections written to the security
  audit in Postgres.\<close>

definition on_gateway :: "(gateway \<Rightarrow> 'a \<times> gateway) \<Rightarrow> console \<Rightarrow> 'a \<times> console" where
  "on_gateway f st = (case f (cs_gateway st) of (a, g) \<Rightarrow> (a, st\<lparr>cs_gateway := g\<rparr>))"

definition console_security :: "string result \<Rightarrow> goerr option \<Rightarrow> console security_ops" where
  "console_security rnd db =
     \<lparr>so_save = (\<lambda>r inp st. st\<lparr>cs_security :=
          snd (pg_security_save db (dr_now (rq_draws r)) rnd inp (cs_security st))\<rparr>),
      so_list = (\<lambda>r n st. pg_security_list_recent db n (cs_security st))\<rparr>"

definition process_env ::
  "config \<Rightarrow> (string \<Rightarrow> string \<Rightarrow> goerr option) option \<Rightarrow> string result \<Rightarrow> goerr option
     \<Rightarrow> console webhook_env" where
  "process_env cfg validator rnd db =
     \<lparr>wh_cfg = cfg, wh_validate = validator,
      wh_dedup = Some
        \<lparr>dd_seen = (\<lambda>t k. on_gateway (dd_seen gateway_dedup t k)),
         dd_forget = (\<lambda>k st. st\<lparr>cs_gateway := dd_forget gateway_dedup k (cs_gateway st)\<rparr>)\<rparr>,
      wh_publish = console_publish,
      wh_failed = Some (\<lambda>now inp. on_gateway (gateway_save rnd db now inp)),
      wh_observe = (\<lambda>s n st. st\<lparr>cs_gateway := wh_observe (gateway_env cfg validator rnd db) s n (cs_gateway st)\<rparr>),
      wh_security = webhook_security_hook cfg (Some (console_security rnd db))\<rparr>"

lemma process_env_simps [simp]:
  "wh_cfg (process_env cfg v rnd db) = cfg"
  "wh_validate (process_env cfg v rnd db) = v"
  "wh_publish (process_env cfg v rnd db) = console_publish"
  "wh_observe (process_env cfg v rnd db) s n st
     = st\<lparr>cs_gateway := (cs_gateway st)\<lparr>gw_observed := gw_observed (cs_gateway st) @ [(s, n)]\<rparr>\<rparr>"
  "wh_security (process_env cfg v rnd db) = webhook_security_hook cfg (Some (console_security rnd db))"
  by (simp_all add: process_env_def)

section \<open>Rejected deliveries in the security audit\<close>

text \<open>The row of a delivery that failed its authentication, and whether the table takes it.\<close>

definition rejection_input :: "config \<Rightarrow> string \<Rightarrow> request \<Rightarrow> security_input" where
  "rejection_input cfg source r =
     \<lparr>si_category = ''webhook_request_rejected'', si_outcome = ''rejected'', si_source = source,
      si_reason = ''webhook_auth_failed'', si_path = rq_path r, si_status = 401,
      si_request_id = rq_id r, si_actor = security_actor_from_request r,
      si_client_ip = client_ip r (TrustedProxyCIDRs cfg)\<rparr>"

definition audit_takes :: "config \<Rightarrow> string result \<Rightarrow> goerr option \<Rightarrow> request \<Rightarrow> security_table \<Rightarrow> bool" where
  "audit_takes cfg rnd db r tb \<longleftrightarrow>
     db = None \<and> pg_varchar 64 (pg_generate_id (dr_now (rq_draws r)) rnd)
     \<and> pg_varchar 64 (rq_id r) \<and> pg_text (rq_path r) \<and> pg_varchar 255 (security_actor_from_request r)
     \<and> pg_varchar 255 (client_ip r (TrustedProxyCIDRs cfg))
     \<and> pg_generate_id (dr_now (rq_draws r)) rnd \<notin> sa_id ` set tb"

lemma or_else_same [simp]: "or_else s s = s"
  by (simp add: or_else_def)

lemma rejection_words:
  "trim_space ''webhook_request_rejected'' = ''webhook_request_rejected''"
  "trim_space ''webhook_auth_failed'' = ''webhook_auth_failed''" "trim_space ''rejected'' = ''rejected''"
  "trim_space ''slack'' = ''slack''" "trim_space ''github'' = ''github''"
  "trim_space ''gitlab'' = ''gitlab''" "trim_space ''teams'' = ''teams''"
  by code_simp+

lemma source_trim: "source \<in> set webhook_sources \<Longrightarrow> trim_space source = source \<and> source \<noteq> []"
  by (auto simp: webhook_sources_def rejection_words)

lemma rejection_hook:
  assumes "source \<in> set webhook_sources"
  shows "webhook_security_hook cfg (Some ops) r (webhook_rejected source ''webhook_auth_failed'' 401) st
    = so_save ops r (rejection_input cfg source r) st"
  using source_trim [OF assms]
  by (simp add: webhook_security_hook_def record_security_event_def security_audit_record_def
      webhook_rejected_def complete_event_def rejection_input_def rejection_words or_else_def Let_def)

lemma rejection_columns:
  assumes "source \<in> set webhook_sources"
  shows "list_all column_ok (security_columns (pg_security_record now rnd (rejection_input cfg source r)))
    \<longleftrightarrow> pg_varchar 64 (pg_generate_id now rnd) \<and> pg_varchar 64 (rq_id r) \<and> pg_text (rq_path r)
      \<and> pg_varchar 255 (security_actor_from_request r) \<and> pg_varchar 255 (client_ip r (TrustedProxyCIDRs cfg))"
proof -
  have "pg_varchar 255 source" using assms by (simp add: source_length)
  moreover have "pg_varchar 50 ''webhook_request_rejected''" "pg_varchar 50 ''rejected''"
      "pg_text ''webhook_auth_failed''"
    by (simp_all add: pg_varchar_ascii pg_text_ascii ascii_text_def)
  ultimately show ?thesis
    by (auto simp: security_columns_def pg_security_record_def rejection_input_def)
qed

lemma pg_security_save_table:
  "snd (pg_security_save db now rnd inp tb)
     = (if db = None \<and> list_all column_ok (security_columns (pg_security_record now rnd inp))
           \<and> pg_generate_id now rnd \<notin> sa_id ` set tb
        then tb @ [(pg_security_record now rnd inp)\<lparr>sa_at := pg_timestamp now\<rparr>] else tb)"
proof -
  let ?e = "insert_error db (security_columns (pg_security_record now rnd inp))
      (sa_id (pg_security_record now rnd inp) \<in> sa_id ` set tb)"
  have i: "sa_id (pg_security_record now rnd inp) = pg_generate_id now rnd"
    by (simp add: pg_security_record_def)
  have "snd (pg_security_save db now rnd inp tb)
      = (if ?e = None then tb @ [(pg_security_record now rnd inp)\<lparr>sa_at := pg_timestamp now\<rparr>] else tb)"
    by (cases ?e) (simp_all add: pg_security_save_def Let_def)
  then show ?thesis by (simp add: insert_error_None i)
qed

text \<open>What the handlers do with a complete request that is not authentic.\<close>

definition rejects :: "'st webhook_env \<Rightarrow> string \<Rightarrow> request \<Rightarrow> 'st \<Rightarrow> outcome \<times> writer \<times> 'st \<Rightarrow> bool" where
  "rejects env source r st res \<longleftrightarrow>
     (case res of (out, w', st') \<Rightarrow> out = Returned \<and> w_status w' = Some 401
        \<and> st' = wh_security env r (webhook_rejected source ''webhook_auth_failed'' 401)
            (wh_observe env source 401 st))"

lemma with_body_rejects:
  assumes "length (rq_body r) \<le> max_request_body" and "rq_body_error r = None"
    and "check (rq_body r) \<noteq> None" and "w_status w = None"
  shows "rejects env source r st (with_body env source check nxt r (w, st))"
  using assms by (auto simp: rejects_def with_body_def read_body_def reject_unauthorized_def Let_def)

lemma webhook_rejects:
  fixes env :: "'st webhook_env"
  assumes "source \<in> set webhook_sources" and "well_formed source r" and "\<not> authentic (wh_cfg env) source r"
    and "source = ''teams'' \<longrightarrow> rq_query r ''validationToken'' = []" and "w_status w = None"
  shows "rejects env source r st (webhook_handler source env r (w, st))"
proof -
  have skew: "(0 :: int) \<le> 5 * minute" "5 * minute < int64_max"
    by (simp_all add: duration_units int64_max_def)
  have body: "length (rq_body r) \<le> max_request_body" "rq_body_error r = None" "rq_ctx_error r = None"
    using assms(2) by (simp_all add: well_formed_def)
  note rej = with_body_rejects [OF body(1,2) _ assms(5)]
  consider "source = ''slack''" | "source = ''github''" | "source = ''gitlab''" | "source = ''teams''"
    using assms(1) by (auto simp: webhook_sources_def)
  then show ?thesis
  proof cases
    case 1
    then show ?thesis
      using assms(2,3) body
      by (simp add: webhook_handler_def handle_slack_def well_formed_def entry_pass authentic_def)
         (rule rej, auto simp: slack_None [OF skew])
  next
    case 2
    then show ?thesis
      using assms(2,3) body
      by (simp add: webhook_handler_def handle_github_def well_formed_def entry_pass authentic_def)
         (rule rej, auto simp: github_None)
  next
    case 3
    then show ?thesis
      using assms(2,3) body
      by (simp add: webhook_handler_def handle_gitlab_def well_formed_def entry_pass authentic_def)
         (rule rej, auto simp: shared_secret_None)
  next
    case 4
    then show ?thesis
      using assms(2-4) body
      by (simp add: webhook_handler_def handle_teams_def well_formed_def entry_pass authentic_def Let_def)
         (rule rej, auto simp: shared_secret_None)
  qed
qed

text \<open>C20: every delivery that fails its authentication is answered 401 and leaves the queue, the store and the
  deduplication as they were; it becomes exactly one row of the security audit, with the source, the
  path, the request id, the actor and the client address of the request, if the table takes the row, and
  is not recorded otherwise. A request id of 65 to 128 bytes, which the client may choose, is such a case.
\<close>

theorem rejection_audited:
  assumes "source \<in> set webhook_sources" and "well_formed source r" and "\<not> authentic cfg source r"
    and "source = ''teams'' \<longrightarrow> rq_query r ''validationToken'' = ''''"
    and "webhook_handler source (process_env cfg v rnd db) r (new_writer, st) = (out, w', st')"
  shows "out = Returned \<and> w_status w' = Some 401
    \<and> gw_pub (cs_gateway st') = gw_pub (cs_gateway st) \<and> gw_store (cs_gateway st') = gw_store (cs_gateway st)
    \<and> gw_dedup (cs_gateway st') = gw_dedup (cs_gateway st) \<and> cs_replays st' = cs_replays st
    \<and> cs_security st' = cs_security st @
        (if audit_takes cfg rnd db r (cs_security st)
         then [(pg_security_record (dr_now (rq_draws r)) rnd (rejection_input cfg source r))
                 \<lparr>sa_at := pg_timestamp (dr_now (rq_draws r))\<rparr>]
         else [])
    \<and> (ascii_text (rq_id r) \<and> 64 < length (rq_id r) \<longrightarrow> cs_security st' = cs_security st)"
proof -
  have nw: "w_status new_writer = None" by (simp add: new_writer_def)
  let ?env = "process_env cfg v rnd db"
  have "rejects ?env source r st (out, w', st')"
    using webhook_rejects [OF assms(1,2) _ assms(4) nw, of ?env st] assms(3,5) by simp
  then have h: "out = Returned" "w_status w' = Some 401"
    "st' = so_save (console_security rnd db) r (rejection_input cfg source r) (wh_observe ?env source 401 st)"
    using rejection_hook [OF assms(1)] by (simp_all add: rejects_def)
  have "list_all column_ok (security_columns
          (pg_security_record (dr_now (rq_draws r)) rnd (rejection_input cfg source r)))
        \<and> db = None \<and> pg_generate_id (dr_now (rq_draws r)) rnd \<notin> sa_id ` set (cs_security st)
      \<longleftrightarrow> audit_takes cfg rnd db r (cs_security st)"
    using rejection_columns [OF assms(1)] by (auto simp: audit_takes_def)
  moreover have "ascii_text (rq_id r) \<and> 64 < length (rq_id r) \<longrightarrow> \<not> audit_takes cfg rnd db r (cs_security st)"
    by (auto simp: audit_takes_def pg_varchar_ascii)
  ultimately show ?thesis
    using h by (auto simp: console_security_def pg_security_save_table)
qed

text \<open>The request ids that do not fit come from the middleware itself, which cuts them at 128 bytes.\<close>

lemma request_id_too_long:
  assumes "ascii_text (request_id_of r)" and "64 < length (request_id_of r)"
  shows "\<not> audit_takes cfg rnd db (r\<lparr>rq_id := request_id_of r\<rparr>) tb"
  using assms by (simp add: audit_takes_def pg_varchar_ascii)

lemma console_security_eq: "ad_security (console_env cfg texts pt cl dn rnd db) = Some (console_security rnd db)"
  by (simp add: console_env_def console_security_def)

section \<open>Facts of the wiring\<close>

text \<open>The constructor of a store may fail, but the store is never off for that: what follows takes
  the nil pointer for a store, and the retry scheduler is started on it.\<close>

lemma failed_constructor_is_used:
  assumes "run_setup cfg b = Inr wi" and "FailedStoreEnabled cfg" and "RetryEnabled cfg"
    and "bt_failed b \<noteq> None"
  shows "wi_failed wi = WiredNilPointer \<and> wi_retry wi \<noteq> None"
  using assms by (auto simp: run_setup_def wire_store_def Let_def split: if_splits)

lemma register_flags_spec:
  "dom (register_flags cfg) = {''dedup.enabled'', ''rate_limit.enabled'', ''schema_validation.enabled'',
     ''retry.enabled'', ''source_rate_limit.enabled'', ''queue_bulkhead.enabled''}"
  by (auto simp: register_flags_def ff_register_def new_feature_flags_def)

text \<open>The user info of an address is hidden up to the first at-sign only: a password that contains one is
  logged in part.\<close>

lemma redact_dsn_url:
  assumes "index_of (p @ ''://'' @ u @ ''@'' @ h) ''://'' = Some (length p)" and "CHR ''@'' \<notin> set u"
  shows "redact_dsn (p @ ''://'' @ u @ ''@'' @ h) = p @ ''://[REDACTED]@'' @ h"
proof -
  have "index_of (u @ ''@'' @ h) ''@'' = Some (length u)"
    using assms(2) by (induction u) (auto simp: has_prefix_def)
  with assms(1) show ?thesis by (simp add: redact_dsn_def)
qed

lemma redact_dsn_leaks:
  "redact_dsn ''postgres://u:p@ss@db/x'' = ''postgres://[REDACTED]@ss@db/x''"
  "redact_dsn ''host=db password=p user=u'' = ''host=db password=[REDACTED] user=u''"
  by code_simp+

section \<open>Concrete runs\<close>

definition forged :: request where
  "forged = demo_http\<lparr>rq_header := (\<lambda>k. []), rq_path := ''/webhooks/github'', rq_id := ''r1''\<rparr>"

lemma forged_rejected: "\<not> authentic gw_config ''github'' forged"
  by (simp add: authentic_def forged_def)

theorem rejection_audited_witness:
  "case webhook_handler ''github'' (process_env gw_config None (Inr ''x'') None) forged (new_writer, demo_console) of
     (out, w', st') \<Rightarrow> out = Returned \<and> w_status w' = Some 401 \<and> length (cs_security st') = 1"
proof -
  obtain out w' st' where h: "webhook_handler ''github'' (process_env gw_config None (Inr ''x'') None) forged
      (new_writer, demo_console) = (out, w', st')" by (metis prod_cases3)
  have "well_formed ''github'' forged"
    by (simp add: well_formed_def forged_def demo_http_def max_request_body_def)
  moreover have "audit_takes gw_config (Inr ''x'') None forged []"
    by code_simp
  ultimately show ?thesis
    using rejection_audited [OF _ _ forged_rejected _ h] h
    by (simp add: webhook_sources_def demo_console_def)
qed

end
