(* ===== verification/Process.thy ===== *)
theory Process
  imports Assembly
begin

text \<open>
  The running process: besides the requests, the workers of the publisher, whose dead letters go back to
  the stores, and the ticks of the retry scheduler, which reads the store behind its breaker and publishes
  into the same queue.
\<close>

section \<open>Workers\<close>

text \<open>A dead letter that the publisher hands to its hook.\<close>

definition dlq_save :: "string result \<Rightarrow> goerr option \<Rightarrow> time \<Rightarrow> gateway \<Rightarrow> hook_event \<Rightarrow> gateway" where
  "dlq_save rnd db now g hk =
     (case hk of
        HookDLQ source body hdrs err \<Rightarrow> gateway_dlq rnd db now source body hdrs g
      | _ \<Rightarrow> g)"

text \<open>A step of a worker or of \<open>Close\<close>; what is not possible changes nothing.\<close>

definition worker_step :: "string result \<Rightarrow> goerr option \<Rightarrow> time \<Rightarrow> action \<Rightarrow> gateway \<Rightarrow> gateway" where
  "worker_step rnd db now a g =
     (case world_step a (init_world (gw_pub g)) of
        None \<Rightarrow> g
      | Some s \<Rightarrow> foldl (dlq_save rnd db now) (g\<lparr>gw_pub := wd_pub s\<rparr>) (wd_hooks s))"

section \<open>The retry scheduler on the process\<close>

definition as_unit :: "goerr option \<times> 'st \<Rightarrow> unit result \<times> 'st" where
  "as_unit p = ((case fst p of None \<Rightarrow> Inr () | Some e \<Rightarrow> Inl e), snd p)"

definition as_error :: "unit result \<times> 'st \<Rightarrow> goerr option \<times> 'st" where
  "as_error p = ((case fst p of Inr u \<Rightarrow> None | Inl e \<Rightarrow> Some e), snd p)"

definition breaker_ops :: "goerr option \<Rightarrow> time \<Rightarrow> (circuit_breaker \<times> pg_table) retry_ops" where
  "breaker_ops db now =
     \<lparr>ro_delete = (\<lambda>i s. as_error (cbs_delete now now (\<lambda>tb. as_unit (pg_delete db i tb)) s)),
      ro_update = (\<lambda>i n s. as_error
        (cbs_update_retry_count now now (\<lambda>tb. as_unit (pg_update_retry_count db i n tb)) s))\<rparr>"

text \<open>The event that a retry puts into the queue; the scheduler's context ends 30 seconds after the
  tick.\<close>

definition retry_queued :: "time \<Rightarrow> failed_event \<Rightarrow> queued_event" where
  "retry_queued now e =
     make_event now (Some (now + 30 * second)) (ev_source e) (ev_body e)
       (retry_headers (ev_headers e) (ev_retry e + 1))"

text \<open>One listed event: an attempt was made exactly when the publisher was called.\<close>

definition gateway_retry ::
  "goerr option \<Rightarrow> (failed_event \<Rightarrow> float64) \<Rightarrow> time \<Rightarrow> scheduler \<Rightarrow> attempt list \<times> gateway \<Rightarrow> failed_event
     \<Rightarrow> attempt list \<times> gateway" where
  "gateway_retry db jitter now sc acc e =
     (case acc of (as, g) \<Rightarrow>
       (case async_publish (retry_queued now e) (gw_pub g) of (answer, hs, p) \<Rightarrow>
         (case process_event (breaker_ops db now) (\<lambda>s b h. answer) jitter now sc e (gw_store g) of (a, s) \<Rightarrow>
            (as @ a, g\<lparr>gw_store := s, gw_pub := (if a = [] then gw_pub g else p)\<rparr>))))"

definition gateway_tick ::
  "goerr option \<Rightarrow> (failed_event \<Rightarrow> float64) \<Rightarrow> (failed_event \<Rightarrow> bool) \<Rightarrow> time \<Rightarrow> scheduler \<Rightarrow> gateway
     \<Rightarrow> attempt list \<times> gateway" where
  "gateway_tick db jitter alive now sc g =
     (case cbs_list_recent (pg_list_recent db 50 (snd (gw_store g))) of
        Inl err \<Rightarrow> ([], g)
      | Inr es \<Rightarrow> foldl (gateway_retry db jitter now sc) ([], g) (takeWhile alive es))"

section \<open>What a retry does\<close>

lemma breaker_ops_delete:
  "snd (ro_delete (breaker_ops db now) i s)
     = (if fst (allow now (fst s)) then
          (let d = pg_delete db i (snd s)
           in (if fst d = None then record_success (snd (allow now (fst s)))
               else record_failure now (snd (allow now (fst s))), snd d))
        else (snd (allow now (fst s)), snd s))"
  by (cases s) (auto simp: breaker_ops_def as_error_def cbs_delete_def guarded_def cb_execute_def as_unit_def
      Let_def split: prod.splits option.splits)

lemma breaker_ops_update:
  "snd (ro_update (breaker_ops db now) i n s)
     = (if fst (allow now (fst s)) then
          (let d = pg_update_retry_count db i n (snd s)
           in (if fst d = None then record_success (snd (allow now (fst s)))
               else record_failure now (snd (allow now (fst s))), snd d))
        else (snd (allow now (fst s)), snd s))"
  by (cases s) (auto simp: breaker_ops_def as_error_def cbs_update_retry_count_def guarded_def cb_execute_def
      as_unit_def Let_def split: prod.splits option.splits)

text \<open>The rows of the table and the events of the queue after one listed event.\<close>

lemma gateway_retry_cases:
  assumes "gateway_retry db jitter now sc (as, g) e = (as', g')"
  shows "gw_dedup g' = gw_dedup g \<and>
    (as' = as \<and> gw_pub g' = gw_pub g
       \<and> (snd (gw_store g') = snd (gw_store g)
          \<or> ev_retry e \<ge> sc_max sc \<and> snd (gw_store g') = snd (pg_delete db (ev_id e) (snd (gw_store g))))
     \<or> held (gw_pub g') = held (gw_pub g) + {#retry_queued now e#}
       \<and> (snd (gw_store g') = snd (gw_store g)
          \<or> snd (gw_store g') = snd (pg_delete db (ev_id e) (snd (gw_store g))))
     \<or> gw_pub g' = gw_pub g
       \<and> (snd (gw_store g') = snd (gw_store g)
          \<or> snd (gw_store g') = snd (pg_update_retry_count db (ev_id e) (ev_retry e + 1) (snd (gw_store g)))))"
proof -
  obtain answer hs p where a: "async_publish (retry_queued now e) (gw_pub g) = (answer, hs, p)"
    by (metis prod_cases3)
  from async_publish_held [OF a] assms a show ?thesis
    by (auto simp: gateway_retry_def process_event_def retry_event_def Let_def breaker_ops_delete
        breaker_ops_update split: if_splits)
qed

lemma pg_delete_ids: "ev_id ` set (snd (pg_delete db i tb)) \<supseteq> ev_id ` set tb - {i}"
  by (auto simp: pg_delete_def Let_def split: option.splits)

lemma gateway_retry_ids:
  assumes "gateway_retry db jitter now sc (as, g) e = (as', g')"
  shows "ev_id ` set (snd (gw_store g)) \<subseteq> ev_id ` set (snd (gw_store g'))
      \<union> {i. i = ev_id e \<and> (sc_max sc \<le> ev_retry e \<or> retry_queued now e \<in># held (gw_pub g'))}"
  using gateway_retry_cases [OF assms] pg_delete_ids [of "snd (gw_store g)" "ev_id e" db]
    arg_cong [OF pg_update_ids [of db "ev_id e" "ev_retry e + 1" "snd (gw_store g)"], of set]
  by auto

lemma gateway_retry_queue:
  assumes "gateway_retry db jitter now sc (as, g) e = (as', g')"
  shows "gw_dedup g' = gw_dedup g
    \<and> (\<exists>M. M \<subseteq># {#e#} \<and> held (gw_pub g') = held (gw_pub g) + image_mset (retry_queued now) M)"
proof -
  from gateway_retry_cases [OF assms]
  have "gw_dedup g' = gw_dedup g \<and> (held (gw_pub g') = held (gw_pub g)
      \<or> held (gw_pub g') = held (gw_pub g) + image_mset (retry_queued now) {#e#})"
    by auto
  moreover have "{#} \<subseteq># {#e#}" by simp
  ultimately show ?thesis by (metis add.right_neutral image_mset_empty subset_mset.order_refl)
qed

lemma retries_keep:
  assumes "foldl (gateway_retry db jitter now sc) (as, g) es = (as', g')"
  shows "gw_dedup g' = gw_dedup g
    \<and> (\<exists>M. M \<subseteq># mset es \<and> held (gw_pub g') = held (gw_pub g) + image_mset (retry_queued now) M)
    \<and> ev_id ` set (snd (gw_store g)) \<subseteq> ev_id ` set (snd (gw_store g'))
      \<union> {i. \<exists>e \<in> set es. i = ev_id e \<and> (sc_max sc \<le> ev_retry e \<or> retry_queued now e \<in># held (gw_pub g'))}"
  using assms
proof (induction es arbitrary: as g)
  case (Cons e es)
  obtain as1 g1 where s: "gateway_retry db jitter now sc (as, g) e = (as1, g1)" by fastforce
  with Cons.prems have "foldl (gateway_retry db jitter now sc) (as1, g1) es = (as', g')" by simp
  note ih = Cons.IH [OF this]
  from ih obtain M where M: "M \<subseteq># mset es"
      "held (gw_pub g') = held (gw_pub g1) + image_mset (retry_queued now) M" by blast
  from gateway_retry_queue [OF s] obtain N where N: "N \<subseteq># {#e#}"
      "held (gw_pub g1) = held (gw_pub g) + image_mset (retry_queued now) N" by blast
  have "N + M \<subseteq># mset (e # es)"
    using subset_mset.add_mono [OF N(1) M(1)] by simp
  moreover have "held (gw_pub g') = held (gw_pub g) + image_mset (retry_queued now) (N + M)"
    using M(2) N(2) by (simp add: add.assoc)
  ultimately have q: "\<exists>M. M \<subseteq># mset (e # es) \<and> held (gw_pub g') = held (gw_pub g) + image_mset (retry_queued now) M"
    by blast
  have up: "x \<in># held (gw_pub g1) \<Longrightarrow> x \<in># held (gw_pub g')" for x using M(2) by simp
  have "i \<in> ev_id ` set (snd (gw_store g')) \<or> (\<exists>e \<in> set (e # es). i = ev_id e
      \<and> (sc_max sc \<le> ev_retry e \<or> retry_queued now e \<in># held (gw_pub g')))"
    if "i \<in> ev_id ` set (snd (gw_store g))" for i
  proof -
    from subsetD [OF gateway_retry_ids [OF s] that]
    consider "i \<in> ev_id ` set (snd (gw_store g1))"
      | "i = ev_id e" "sc_max sc \<le> ev_retry e \<or> retry_queued now e \<in># held (gw_pub g1)" by blast
    then show ?thesis
    proof cases
      case 1
      from subsetD [OF ih [THEN conjunct2, THEN conjunct2] 1] show ?thesis by (auto simp: image_def)
    next
      case 2
      with up show ?thesis by (intro disjI2 bexI [of _ e]) auto
    qed
  qed
  then have ids: "ev_id ` set (snd (gw_store g)) \<subseteq> ev_id ` set (snd (gw_store g')) \<union> {i. \<exists>e \<in> set (e # es).
      i = ev_id e \<and> (sc_max sc \<le> ev_retry e \<or> retry_queued now e \<in># held (gw_pub g'))}" by fast
  have "gw_dedup g' = gw_dedup g"
    using ih [THEN conjunct1] gateway_retry_queue [OF s, THEN conjunct1] by simp
  then show ?case using q ids by (intro conjI)
qed auto


section \<open>Retries that never end\<close>

text \<open>A tick of the scheduler, and the worker that takes the retried event and fails again.\<close>

definition retry_cycle ::
  "string result \<Rightarrow> goerr \<Rightarrow> (failed_event \<Rightarrow> float64) \<Rightarrow> scheduler \<Rightarrow> attempt list \<times> gateway \<Rightarrow> time
     \<Rightarrow> attempt list \<times> gateway" where
  "retry_cycle rnd err jitter sc acc now =
     (case acc of (as, g) \<Rightarrow>
        (case gateway_tick None jitter (\<lambda>e. True) now sc g of (a, g1) \<Rightarrow>
           (as @ a, worker_step rnd None now (AFinish 0 (InnerErr err) 0)
                      (worker_step rnd None now (ATake 0) g1))))"

text \<open>An idle process whose store holds one event, which was never retried.\<close>

definition poisoned :: "failed_event \<Rightarrow> gateway \<Rightarrow> bool" where
  "poisoned e g \<longleftrightarrow>
     snd (gw_store g) = [e] \<and> cb_state (fst (gw_store g)) = ''closed''
     \<and> ev_retry e = 0 \<and> list_all column_ok (event_columns e)
     \<and> dlq_event_id (ev_headers e) = ev_id e \<and> ev_id e \<noteq> ''''
     \<and> (let p = gw_pub g; bp = ao_backpressure (as_opts p)
        in \<not> as_closed p \<and> as_queue p = [] \<and> 0 < as_capacity p \<and> as_workers p \<noteq> []
           \<and> as_workers p ! 0 = Idle \<and> hk_dlq (ao_hooks (as_opts p))
           \<and> (bp_enabled bp \<longrightarrow> 0 \<le> bp_soft bp \<and> 0 < bp_hard bp))"

lemma empty_queue_open:
  assumes "as_queue p = []" and "\<not> as_closed p"
    and "bp_enabled (ao_backpressure (as_opts p)) \<longrightarrow>
           0 \<le> bp_soft (ao_backpressure (as_opts p)) \<and> 0 < bp_hard (ao_backpressure (as_opts p))"
  shows "publish_check source p = (None, [])"
proof -
  have "ps_usage (async_snapshot p) = 0"
    using assms(1) by (simp add: async_snapshot_def make_snapshot_def f_div_def f_int_def clamp_ratio_def)
  with assms(2,3) show ?thesis
    by (auto simp: publish_check_def is_hard_limited_def should_throttle_def Let_def)
qed

lemma poisoned_tick:
  assumes "poisoned e g" and "5 * minute \<le> time_sub now (ev_failed_at e)" and "1 \<le> sc_max sc"
  shows "\<exists>cb. cb_state cb = ''closed'' \<and> gateway_tick None jitter (\<lambda>e. True) now sc g
    = ([\<lparr>at_id = ev_id e, at_source = ev_source e, at_success = True, at_number = 1\<rparr>],
       g\<lparr>gw_store := (cb, []), gw_pub := (gw_pub g)\<lparr>as_queue := [retry_queued now e]\<rparr>\<rparr>)"
proof -
  let ?p = "gw_pub g"
  have "publish_check (qe_source (retry_queued now e)) ?p = (None, [])"
    using assms(1) by (intro empty_queue_open) (auto simp: poisoned_def Let_def)
  then have a: "async_publish (retry_queued now e) ?p = (None, [], ?p\<lparr>as_queue := [retry_queued now e]\<rparr>)"
    using assms(1) by (simp add: async_publish_def publish_send_def poisoned_def Let_def)
  obtain cb where s: "gw_store g = (cb, [e])" and cb: "cb_state cb = ''closed''" "ev_retry e = 0"
    using assms(1) by (cases "gw_store g") (auto simp: poisoned_def)
  have del: "snd (ro_delete (breaker_ops None now) (ev_id e) (cb, [e])) = (record_success cb, [])"
    using cb by (simp add: breaker_ops_delete allow_def pg_delete_def Let_def)
  have "process_event (breaker_ops None now) (\<lambda>s b h. None) jitter now sc e (gw_store g)
      = ([\<lparr>at_id = ev_id e, at_source = ev_source e, at_success = True, at_number = 1\<rparr>],
         (record_success cb, []))"
    using assms(3) cb del backoff_elapsed [OF assms(2)]
    by (simp add: process_event_def retry_event_def s)
  with a have "gateway_retry None jitter now sc ([], g) e
      = ([\<lparr>at_id = ev_id e, at_source = ev_source e, at_success = True, at_number = 1\<rparr>],
         g\<lparr>gw_store := (record_success cb, []), gw_pub := ?p\<lparr>as_queue := [retry_queued now e]\<rparr>\<rparr>)"
    by (simp add: gateway_retry_def)
  then have "gateway_tick None jitter (\<lambda>e. True) now sc g
      = ([\<lparr>at_id = ev_id e, at_source = ev_source e, at_success = True, at_number = 1\<rparr>],
         g\<lparr>gw_store := (record_success cb, []), gw_pub := ?p\<lparr>as_queue := [retry_queued now e]\<rparr>\<rparr>)"
    by (simp add: gateway_tick_def pg_list_recent_def cbs_list_recent_def s clamp_limit_def)
  moreover have "cb_state (record_success cb) = ''closed''" by (simp add: record_success_def)
  ultimately show ?thesis by blast
qed

lemma worker_take:
  assumes "as_queue (gw_pub g) = q # qs" and "as_workers (gw_pub g) \<noteq> []" and "as_workers (gw_pub g) ! 0 = Idle"
  shows "worker_step rnd db now (ATake 0) g
    = g\<lparr>gw_pub := (gw_pub g)\<lparr>as_queue := qs, as_workers := (as_workers (gw_pub g))[0 := Busy q]\<rparr>\<rparr>"
  using assms by (simp add: worker_step_def step_take_def init_world_def Let_def)

text \<open>A worker that fails hands its event to the dead-letter hook once; the other hooks are metrics.\<close>

lemma worker_fails:
  assumes "as_workers (gw_pub g) \<noteq> []" and "as_workers (gw_pub g) ! 0 = Busy q"
    and "hk_dlq (ao_hooks (as_opts (gw_pub g)))"
  shows "\<exists>p. worker_step rnd db now (AFinish 0 (InnerErr err) latency) g
      = gateway_dlq rnd db now (qe_source q) (qe_body q) (qe_headers q) (g\<lparr>gw_pub := p\<rparr>)
    \<and> as_opts p = as_opts (gw_pub g) \<and> as_queue p = as_queue (gw_pub g)
    \<and> as_capacity p = as_capacity (gw_pub g) \<and> as_closed p = as_closed (gw_pub g)
    \<and> as_workers p = (as_workers (gw_pub g))[0 := Idle]"
  using assms
  by (auto simp: worker_step_def step_finish_def init_world_def process_queued_event_def
      record_publish_result_def safe_publish_def emit_publish_def dlq_save_def Let_def)

definition dead_row :: "time \<Rightarrow> string result \<Rightarrow> failed_event \<Rightarrow> headers \<Rightarrow> failed_event" where
  "dead_row now rnd e hdrs =
     (pg_event now rnd \<lparr>sr_id = ev_id e, sr_source = ev_source e, sr_reason = ''async_publish_failed'',
        sr_headers = hdrs, sr_body = ev_body e\<rparr>)\<lparr>ev_failed_at := pg_timestamp now\<rparr>"

lemma poisoned_again:
  assumes "cb_state (fst (gw_store g)) = ''closed''" and "snd (gw_store g) = []"
    and "list_all column_ok (event_columns e)" and "dlq_event_id hdrs = ev_id e" and "ev_id e \<noteq> ''''"
  shows "\<exists>cb d. cb_state cb = ''closed'' \<and> list_all column_ok (event_columns (dead_row now rnd e hdrs))
    \<and> gateway_dlq rnd None now (ev_source e) (ev_body e) hdrs g = g\<lparr>gw_dedup := d, gw_store := (cb, [dead_row now rnd e hdrs])\<rparr>"
proof -
  have "pg_text ''async_publish_failed''" by (simp add: pg_text_ascii ascii_text_def)
  then have cols: "list_all column_ok (event_columns (dead_row now rnd e hdrs))"
    using assms(3,5) by (simp add: event_columns_def dead_row_def pg_event_def)
  obtain cb where s: "gw_store g = (cb, [])" "cb_state cb = ''closed''"
    using assms(1,2) by (cases "gw_store g") auto
  let ?inp = "\<lparr>sr_id = ev_id e, sr_source = ev_source e, sr_reason = ''async_publish_failed'',
      sr_headers = hdrs, sr_body = ev_body e\<rparr>"
  have "snd (pg_save None now rnd ?inp []) = [dead_row now rnd e hdrs]" "\<not> is_err (fst (pg_save None now rnd ?inp []))"
    using cols by (auto simp: pg_save_def dead_row_def column_error_def event_columns_def Let_def)
  then have "snd (cbs_save now now (pg_save None now rnd ?inp) (cb, [])) = (record_success cb, [dead_row now rnd e hdrs])"
    using s(2) by (cases "fst (pg_save None now rnd ?inp [])")
      (auto simp: cbs_save_def guarded_def cb_execute_def allow_def split: prod.splits)
  then obtain res where "cbs_save now now (pg_save None now rnd ?inp) (cb, [])
      = (res, record_success cb, [dead_row now rnd e hdrs])"
    by (metis prod.collapse)
  then have "gateway_dlq rnd None now (ev_source e) (ev_body e) hdrs g
      = g\<lparr>gw_dedup := mem_forget (ev_source e @ '':'' @ ev_id e) (gw_dedup g),
          gw_store := (record_success cb, [dead_row now rnd e hdrs])\<rparr>"
    using assms(4,5) s(1) by (simp add: gateway_dlq_def gateway_save_def gateway_dedup_def Let_def)
  with cols show ?thesis
    by (intro exI [of _ "record_success cb"]
        exI [of _ "mem_forget (ev_source e @ '':'' @ ev_id e) (gw_dedup g)"] conjI)
       (simp_all add: record_success_def)
qed

lemma poisoned_cycle:
  assumes "poisoned e g" and "5 * minute \<le> time_sub now (ev_failed_at e)" and "1 \<le> sc_max sc"
  shows "\<exists>g' e'. retry_cycle rnd err jitter sc (as, g) now
      = (as @ [\<lparr>at_id = ev_id e, at_source = ev_source e, at_success = True, at_number = 1\<rparr>], g')
    \<and> poisoned e' g' \<and> ev_id e' = ev_id e \<and> ev_source e' = ev_source e \<and> ev_body e' = ev_body e
    \<and> ev_failed_at e' = pg_timestamp now"
proof -
  let ?q = "retry_queued now e" and ?p = "gw_pub g" and ?h = "retry_headers (ev_headers e) 1"
  have p: "\<not> as_closed ?p" "as_queue ?p = []" "0 < as_capacity ?p" "as_workers ?p \<noteq> []"
      "as_workers ?p ! 0 = Idle" "hk_dlq (ao_hooks (as_opts ?p))" "ev_retry e = 0"
      "list_all column_ok (event_columns e)" "dlq_event_id (ev_headers e) = ev_id e" "ev_id e \<noteq> []"
    using assms(1) by (auto simp: poisoned_def Let_def)
  obtain cb where cb: "cb_state cb = ''closed''" and t: "gateway_tick None jitter (\<lambda>e. True) now sc g
      = ([\<lparr>at_id = ev_id e, at_source = ev_source e, at_success = True, at_number = 1\<rparr>],
         g\<lparr>gw_store := (cb, []), gw_pub := ?p\<lparr>as_queue := [?q]\<rparr>\<rparr>)"
    using poisoned_tick [OF assms] by blast
  define g2 where "g2 = g\<lparr>gw_store := (cb, []),
      gw_pub := ?p\<lparr>as_queue := [], as_workers := (as_workers ?p)[0 := Busy ?q]\<rparr>\<rparr>"
  have t2: "worker_step rnd None now (ATake 0) (g\<lparr>gw_store := (cb, []), gw_pub := ?p\<lparr>as_queue := [?q]\<rparr>\<rparr>) = g2"
    using p by (subst worker_take) (simp_all add: g2_def)
  have "as_workers (gw_pub g2) \<noteq> []" "as_workers (gw_pub g2) ! 0 = Busy ?q" "hk_dlq (ao_hooks (as_opts (gw_pub g2)))"
    using p by (simp_all add: g2_def)
  from worker_fails [OF this, of rnd None now err 0] obtain p3 where
    t3: "worker_step rnd None now (AFinish 0 (InnerErr err) 0) g2
      = gateway_dlq rnd None now (ev_source e) (ev_body e) ?h (g2\<lparr>gw_pub := p3\<rparr>)"
    and p3: "as_opts p3 = as_opts ?p" "as_queue p3 = []" "as_capacity p3 = as_capacity ?p"
      "as_closed p3 = as_closed ?p" "as_workers p3 = (as_workers ?p)[0 := Idle]"
    using p by (auto simp: g2_def retry_queued_def make_event_def)
  have id: "dlq_event_id ?h = ev_id e"
    using p(9) by (simp add: dlq_event_id_def retry_headers_def get_str_def split: option.splits)
  have "cb_state (fst (gw_store (g2\<lparr>gw_pub := p3\<rparr>))) = ''closed''" "snd (gw_store (g2\<lparr>gw_pub := p3\<rparr>)) = []"
    using cb by (simp_all add: g2_def)
  from poisoned_again [OF this p(8) id p(10), of now rnd] obtain cb' d where
    c: "cb_state cb' = ''closed''" "list_all column_ok (event_columns (dead_row now rnd e ?h))"
    and t4: "gateway_dlq rnd None now (ev_source e) (ev_body e) ?h (g2\<lparr>gw_pub := p3\<rparr>)
      = g2\<lparr>gw_pub := p3, gw_dedup := d, gw_store := (cb', [dead_row now rnd e ?h])\<rparr>"
    by auto
  let ?g' = "g2\<lparr>gw_pub := p3, gw_dedup := d, gw_store := (cb', [dead_row now rnd e ?h])\<rparr>"
  have row: "ev_id (dead_row now rnd e ?h) = ev_id e" "ev_source (dead_row now rnd e ?h) = ev_source e"
      "ev_body (dead_row now rnd e ?h) = ev_body e" "ev_retry (dead_row now rnd e ?h) = 0"
      "ev_failed_at (dead_row now rnd e ?h) = pg_timestamp now" "ev_headers (dead_row now rnd e ?h) = ?h"
    using p(10) by (simp_all add: dead_row_def pg_event_def retry_headers_def)
  have "poisoned (dead_row now rnd e ?h) ?g'"
    using assms(1) p p3 c row id by (auto simp: poisoned_def Let_def)
  moreover have "retry_cycle rnd err jitter sc (as, g) now
      = (as @ [\<lparr>at_id = ev_id e, at_source = ev_source e, at_success = True, at_number = 1\<rparr>], ?g')"
    by (simp add: retry_cycle_def t t2 t3 t4)
  ultimately show ?thesis using row by blast
qed

lemma spaced_elapsed:
  "t + 5 * minute \<le> now \<Longrightarrow> 5 * minute \<le> time_sub now (pg_timestamp t)"
  by (simp add: time_sub_def pg_timestamp_def duration_units int64_min_def int64_max_def)

lemma poisoned_cycles:
  assumes "1 \<le> sc_max sc"
  shows "poisoned e g \<Longrightarrow> sorted_wrt (\<lambda>a b. a + 5 * minute \<le> b) ts \<Longrightarrow>
    (\<forall>t \<in> set ts. 5 * minute \<le> time_sub t (ev_failed_at e)) \<Longrightarrow>
    \<exists>g' e'. foldl (retry_cycle rnd err jitter sc) (as, g) ts
        = (as @ replicate (length ts) \<lparr>at_id = ev_id e, at_source = ev_source e, at_success = True, at_number = 1\<rparr>, g')
      \<and> poisoned e' g' \<and> ev_id e' = ev_id e \<and> ev_source e' = ev_source e \<and> ev_body e' = ev_body e"
proof (induction ts arbitrary: as g e)
  case (Cons t ts)
  then have "5 * minute \<le> time_sub t (ev_failed_at e)" by simp
  from poisoned_cycle [OF Cons.prems(1) this assms] obtain g1 e1 where
    c: "retry_cycle rnd err jitter sc (as, g) t
      = (as @ [\<lparr>at_id = ev_id e, at_source = ev_source e, at_success = True, at_number = 1\<rparr>], g1)"
      "poisoned e1 g1" "ev_id e1 = ev_id e" "ev_source e1 = ev_source e" "ev_body e1 = ev_body e"
      "ev_failed_at e1 = pg_timestamp t" by metis
  have "\<forall>u \<in> set ts. 5 * minute \<le> time_sub u (ev_failed_at e1)"
    using Cons.prems(2) spaced_elapsed c(6) by auto
  from Cons.IH [OF c(2) _ this, of "as @ [\<lparr>at_id = ev_id e, at_source = ev_source e, at_success = True, at_number = 1\<rparr>]"]
  show ?case using c Cons.prems(2) by auto
qed auto

text \<open>C7: an event whose delivery keeps failing behind the queue is retried for ever: the queue takes the retry,
  so the scheduler removes the event as delivered, and the worker's failure saves it again with the
  count 0. However many ticks pass, the attempts are all numbered 1 and reported as successful, and the
  event is still there with the count 0: the maximum of attempts is never reached.
\<close>

theorem retry_count_never_grows:
  assumes "poisoned e g" and "1 \<le> sc_max sc" and "sorted_wrt (\<lambda>a b. a + 5 * minute \<le> b) ts"
    and "\<forall>t \<in> set ts. 5 * minute \<le> time_sub t (ev_failed_at e)"
    and "foldl (retry_cycle rnd err jitter sc) ([], g) ts = (attempts, g')"
  shows "length attempts = length ts \<and> list_all (\<lambda>a. at_number a = 1 \<and> at_success a \<and> at_id a = ev_id e) attempts
    \<and> (\<exists>e'. snd (gw_store g') = [e'] \<and> ev_id e' = ev_id e \<and> ev_body e' = ev_body e \<and> ev_retry e' = 0)"
proof -
  from poisoned_cycles [OF assms(2,1,3,4), of rnd err jitter "[]"] assms(5) obtain e' where
    "attempts = replicate (length ts) \<lparr>at_id = ev_id e, at_source = ev_source e, at_success = True, at_number = 1\<rparr>"
    "poisoned e' g'" "ev_id e' = ev_id e" "ev_body e' = ev_body e" by auto
  then show ?thesis by (auto simp: poisoned_def list_all_iff)
qed

section \<open>Concrete runs\<close>

definition poison :: failed_event where
  "poison = (pg_event 0 (Inr ''x'') pg_request)\<lparr>ev_headers := Some [''X-Event-ID'' \<mapsto> ''e1'']\<rparr>"

definition poison_process :: gateway where
  "poison_process = gw_start\<lparr>gw_store := (new_circuit_breaker 5 (30 * second), [poison])\<rparr>"

lemma poison_fields:
  "ev_id poison = ''e1''" "ev_source poison = ''github''" "ev_reason poison = ''down''" "ev_retry poison = 0"
  "ev_failed_at poison = 0" "ev_headers poison = Some [''X-Event-ID'' \<mapsto> ''e1'']"
  by (simp_all add: poison_def pg_event_def pg_request_def)

lemma poison_poisoned: "poisoned poison poison_process"
proof -
  have "trim_space ''e1'' = ''e1''" by code_simp
  then show ?thesis
    by (simp add: poisoned_def poison_process_def poison_fields event_columns_def pg_request_fits
        dlq_event_id_def get_str_def gw_start_def demo_world_value init_world_def demo_options_def
        new_circuit_breaker_def)
qed

theorem retry_count_never_grows_witness:
  "\<exists>attempts g'. foldl (retry_cycle (Inr ''x'') (ErrText ''down'') (\<lambda>e. 0) (new_scheduler 3 (10 * second)))
       ([], poison_process) [hour, 2 * hour, 3 * hour, 4 * hour] = (attempts, g')
     \<and> length attempts = 4 \<and> list_all (\<lambda>a. at_number a = 1) attempts"
proof -
  let ?run = "foldl (retry_cycle (Inr ''x'') (ErrText ''down'') (\<lambda>e. 0) (new_scheduler 3 (10 * second)))
       ([], poison_process) [hour, 2 * hour, 3 * hour, 4 * hour]"
  obtain attempts g' where r: "?run = (attempts, g')" by fastforce
  have "\<forall>t \<in> set [hour, 2 * hour, 3 * hour, 4 * hour]. 5 * minute \<le> time_sub t (ev_failed_at poison)"
    by (simp add: poison_fields time_sub_def duration_units int64_min_def int64_max_def)
  from retry_count_never_grows [OF poison_poisoned _ _ this r] have
    "length attempts = 4 \<and> list_all (\<lambda>a. at_number a = 1 \<and> at_success a \<and> at_id a = ev_id poison) attempts"
    by (simp add: new_scheduler_def duration_units)
  then show ?thesis using r by (auto simp: list_all_iff)
qed


end
