(* ===== verification/Invariants.thy ===== *)
theory Invariants
  imports Process
begin

text \<open>
  The type of the process state: what holds of the queue, the breaker, the deduplication and the three
  tables at every moment, whatever requests, replays, worker steps, dead letters and retry ticks come in
  whatever order. The webhook handlers and the replay handlers are shown once to keep any property that
  the operations they are given keep; the process interprets the two contracts.
\<close>

section \<open>Handlers keep what their operations keep\<close>

locale webhook_keeps =
  fixes env :: "'st webhook_env" and keeps :: "'st \<Rightarrow> bool"
  assumes seen: "wh_dedup env = Some d \<Longrightarrow> keeps st \<Longrightarrow> keeps (snd (dd_seen d t k st))"
    and forget: "wh_dedup env = Some d \<Longrightarrow> keeps st \<Longrightarrow> keeps (dd_forget d k st)"
    and publish: "keeps st \<Longrightarrow> keeps (snd (wh_publish env r source body hdrs st))"
    and save: "wh_failed env = Some f \<Longrightarrow> keeps st \<Longrightarrow> keeps (snd (f t inp st))"
    and observe: "keeps st \<Longrightarrow> keeps (wh_observe env source n st)"
    and security: "keeps st \<Longrightarrow> keeps (wh_security env r ev st)"
begin

lemma forget_key: "keeps st \<Longrightarrow> keeps (forget_dedup_key env source eid st)"
  by (auto simp: forget_dedup_key_def forget split: option.splits)

lemma persist: "keeps st \<Longrightarrow> keeps (persist_failed_event env r eid source reason hdrs body st)"
  by (auto simp: persist_failed_event_def save split: option.splits)

lemma seen_key: "keeps st \<Longrightarrow> keeps (snd (seen_before env r source eid st))"
  by (auto simp: seen_before_def seen split: option.splits)

lemma refused: "keeps (snd ws) \<Longrightarrow> keeps (snd (publish_refused env r source eid hdrs body err ws))"
  by (cases ws) (auto simp: publish_refused_def Let_def observe persist forget_key split: prod.splits)

lemma publish_ack: "keeps (snd ws) \<Longrightarrow> keeps (snd (snd (publish_and_ack env source body r ws)))"
proof -
  assume k: "keeps (snd ws)"
  let ?eid = "derive_event_id source r body"
  obtain w st where ws: "ws = (w, st)" by fastforce
  obtain b st1 where s: "seen_before env r source ?eid st = (b, st1)" by fastforce
  obtain a st2 where p: "wh_publish env r source body (event_headers r ?eid) st1 = (a, st2)" by fastforce
  have "keeps st" using k ws by simp
  moreover from this have k1: "keeps st1" using seen_key [of st r source ?eid] s by simp
  moreover from this have "keeps st2" using publish [of st1 r source body "event_headers r ?eid"] p by simp
  moreover from this have "keeps (snd (publish_refused env r source ?eid (event_headers r ?eid) body err (w, st2)))"
    for err by (rule refused [of "(w, st2)", simplified])
  ultimately show ?thesis
    by (auto simp: publish_and_ack_def ws s p Let_def observe split: option.splits bool.splits publish_answer.splits)
qed

lemma body: "keeps (snd ws) \<Longrightarrow> (\<And>b. keeps (snd (snd (nxt b r ws)))) \<Longrightarrow>
    keeps (snd (snd (with_body env source check nxt r ws)))"
  by (cases ws) (auto simp: with_body_def reject_unauthorized_def Let_def observe security
      split: sum.splits option.splits)

lemma entered: "keeps (snd ws) \<Longrightarrow> keeps (snd (snd (nxt r ws))) \<Longrightarrow>
    keeps (snd (snd (entry env source allowed nxt r ws)))"
  by (cases ws) (auto simp: entry_def reject_method_def Let_def observe security)

lemma handler: "keeps (snd ws) \<Longrightarrow> keeps (snd (snd (webhook_handler source env r ws)))"
  by (auto simp: webhook_handler_def handle_slack_def handle_github_def handle_gitlab_def handle_teams_def
      Let_def observe intro!: entered body publish_ack split: option.splits)

end

locale replay_keeps =
  fixes env :: "'st admin_env" and keeps :: "'st \<Rightarrow> bool"
  assumes publish: "ad_publish env = Some p \<Longrightarrow> keeps st \<Longrightarrow> keeps (snd (p r source body hdrs st))"
    and audit: "ad_audit env = Some a \<Longrightarrow> keeps st \<Longrightarrow> keeps (au_save a r inp st)"
begin

lemma recorded: "keeps st \<Longrightarrow> keeps (record_replay_audit env r inp st)"
  by (auto simp: record_replay_audit_def audit split: option.splits)

lemma executed: "keeps st \<Longrightarrow> keeps (snd (execute_replay env f r inp st))"
proof -
  assume k: "keeps st"
  have "keeps st1" if "ad_publish env = Some p" "p r src b h st = (a, st1)" for p src b h a st1
    using publish [OF that(1) k, of r src b h] that(2) by simp
  then show ?thesis
    using k by (auto simp: execute_replay_def replay_failure_def replay_success_def Let_def recorded
        split: sum.splits option.splits prod.splits publish_answer.splits)
qed

lemma one: "keeps (snd ws) \<Longrightarrow> keeps (snd (snd (replay_failed_event env r ws)))"
proof -
  assume k: "keeps (snd ws)"
  have "keeps st1" if "execute_replay env f r inp (snd ws) = (x, st1)" for f inp x st1
    using executed [OF k, of f r inp] that by simp
  with k show ?thesis
    by (cases ws) (auto simp: replay_failed_event_def Let_def split: option.splits prod.splits)
qed

lemma looped:
  "keeps st \<Longrightarrow> keeps (snd (replay_loop (\<lambda>i. execute_replay env f r (inp i)) stop n is acc st))"
proof (induction "is" arbitrary: n acc st)
  case (Cons i "is")
  have "keeps st1" if "execute_replay env f r (inp i) st = (x, st1)" for x st1
    using executed [OF Cons.prems, of f r "inp i"] that by simp
  with Cons show ?case by (auto split: prod.splits option.splits)
qed simp

lemma batch: "keeps (snd ws) \<Longrightarrow> keeps (snd (snd (replay_failed_events_batch env r ws)))"
proof -
  assume k: "keeps (snd ws)"
  have "keeps st1" if "replay_loop (\<lambda>i. execute_replay env f r (inp i)) stop n is acc (snd ws) = (x, st1)"
    for f inp stop n "is" acc x st1
    using looped [OF k, of f r inp stop n "is" acc] that by simp
  with k show ?thesis
    by (cases ws) (auto simp: replay_failed_events_batch_def Let_def split: option.splits prod.splits sum.splits)
qed

end

locale admin_keeps = replay_keeps env keeps for env :: "'st admin_env" and keeps :: "'st \<Rightarrow> bool" +
  assumes flag: "ad_flags env = Some ops \<Longrightarrow> keeps st \<Longrightarrow> ff_set k b (fl_get ops st) = (True, fs) \<Longrightarrow> keeps (fl_put ops fs st)"
    and security: "ad_security env = Some s \<Longrightarrow> keeps st \<Longrightarrow> keeps (so_save s r si st)"
begin

lemma flags: "keeps (snd ws) \<Longrightarrow> keeps (snd (snd (feature_flags_handler names env r ws)))"
  by (cases ws) (auto simp: feature_flags_handler_def update_flag_def Let_def
      split: option.splits prod.splits bool.splits intro: security flag)

end

section \<open>The type of the state\<close>

definition row_wf :: "failed_event \<Rightarrow> bool" where
  "row_wf e \<longleftrightarrow> list_all column_ok (event_columns e) \<and> 0 \<le> ev_retry e \<and> ev_headers e \<noteq> None
     \<and> ev_hash e = hex_encode (sha256 (ev_body e))"

definition table_wf :: "pg_table \<Rightarrow> bool" where
  "table_wf tb \<longleftrightarrow> pg_ok tb \<and> list_all row_wf tb"

definition gateway_wf :: "gateway \<Rightarrow> bool" where
  "gateway_wf g \<longleftrightarrow>
     length (as_queue (gw_pub g)) \<le> as_capacity (gw_pub g) \<and> window_wf (as_stats (gw_pub g))
     \<and> cb_wf (fst (gw_store g)) \<and> 0 < threshold (fst (gw_store g)) \<and> table_wf (snd (gw_store g))
     \<and> mem_seen (gw_dedup g) '''' = None"

definition replays_wf :: "replay_table \<Rightarrow> bool" where
  "replays_wf tb \<longleftrightarrow> distinct (map ra_id tb) \<and> list_all (\<lambda>r. list_all column_ok (replay_columns r)) tb"

definition security_wf :: "security_table \<Rightarrow> bool" where
  "security_wf tb \<longleftrightarrow> distinct (map sa_id tb) \<and> list_all (\<lambda>r. list_all column_ok (security_columns r)) tb"

definition console_wf :: "config \<Rightarrow> console \<Rightarrow> bool" where
  "console_wf cfg st \<longleftrightarrow>
     gateway_wf (cs_gateway st) \<and> replays_wf (cs_replays st) \<and> security_wf (cs_security st)
     \<and> dom (cs_flags st) = dom (register_flags cfg)"

section \<open>Its operations keep it\<close>

lemma mem_seen_empty: "mem_seen m [] = None \<Longrightarrow> mem_seen (snd (mem_do_seen now k m)) [] = None"
  by (auto simp: mem_do_seen_def Let_def split: option.splits)

lemma mem_forget_empty: "mem_seen m [] = None \<Longrightarrow> mem_seen (mem_forget k m) [] = None"
  by (simp add: mem_forget_def)

lemma publish_wf:
  assumes "async_publish e p = (res, hs, p')" and "length (as_queue p) \<le> as_capacity p" and "window_wf (as_stats p)"
  shows "length (as_queue p') \<le> as_capacity p' \<and> window_wf (as_stats p')"
  using assms by (auto simp: async_publish_def publish_send_def split: prod.splits option.splits if_splits send_outcome.splits)

lemma upsert_wf: "row_wf e \<Longrightarrow> list_all row_wf tb \<Longrightarrow> list_all row_wf (snd (pg_upsert e tb))"
  by (induction e tb rule: pg_upsert.induct)
     (auto simp: row_wf_def event_columns_def split: prod.splits)

lemma save_wf: "table_wf tb \<Longrightarrow> table_wf (snd (pg_save db now rnd inp tb))"
proof -
  assume wf: "table_wf tb"
  let ?e = "pg_event now rnd inp"
  have "list_all row_wf (snd (pg_save db now rnd inp tb))"
  proof (cases "db = None \<and> list_all column_ok (event_columns ?e)")
    case True
    then have "row_wf (?e\<lparr>ev_failed_at := pg_timestamp now\<rparr>)"
      by (simp add: row_wf_def pg_event_def event_columns_def)
    then have "list_all row_wf (snd (pg_upsert (?e\<lparr>ev_failed_at := pg_timestamp now\<rparr>) tb))"
      using wf by (simp add: upsert_wf table_wf_def)
    moreover have "column_error (event_columns ?e) = None" using True by (simp add: column_error_None)
    ultimately show ?thesis using True by (auto simp: pg_save_def Let_def split: prod.splits)
  next
    case False
    then have "snd (pg_save db now rnd inp tb) = tb"
      by (cases db) (auto simp: pg_save_def column_error_def)
    with wf show ?thesis by (simp add: table_wf_def)
  qed
  with wf show ?thesis by (simp add: table_wf_def pg_save_ok)
qed

lemma delete_wf: "table_wf tb \<Longrightarrow> table_wf (snd (pg_delete db i tb))"
  using pg_delete_ok [of tb db i]
  by (auto simp: table_wf_def pg_delete_def Let_def list_all_iff split: option.splits)

lemma update_wf: "table_wf tb \<Longrightarrow> 0 \<le> n \<Longrightarrow> table_wf (snd (pg_update_retry_count db i n tb))"
  using pg_update_ok [of tb db i n]
  by (auto simp: table_wf_def pg_update_retry_count_def list_all_iff row_wf_def event_columns_def
      split: option.splits)

text \<open>The breaker is well formed after any call, whatever its operation did.\<close>

definition store_wf :: "circuit_breaker \<times> pg_table \<Rightarrow> bool" where
  "store_wf s \<longleftrightarrow> cb_wf (fst s) \<and> 0 < threshold (fst s) \<and> table_wf (snd s)"

lemma guarded_wf:
  assumes "store_wf s" and "table_wf (snd s) \<Longrightarrow> table_wf (snd (op (snd s)))"
  shows "store_wf (snd (guarded pfx t1 t2 op s))"
proof -
  obtain cb tb where s: "s = (cb, tb)" by fastforce
  obtain r cb' called where e: "cb_execute t1 t2 cb (fst (op tb)) = (r, cb', called)" by (metis prod_cases3)
  obtain es where "cb' = cb_run cb es" using cb_execute_state [of t1 t2 cb "fst (op tb)"] e
    by (metis fst_conv snd_conv)
  with assms s e show ?thesis
    by (auto simp: guarded_def store_wf_def cb_wf_run)
qed

lemma gateway_save_wf: "gateway_wf g \<Longrightarrow> gateway_wf (snd (gateway_save rnd db now inp g))"
  using guarded_wf [of "gw_store g" "pg_save db now rnd inp"] save_wf
  by (auto simp: gateway_wf_def gateway_save_frame cbs_save_def store_wf_def)

lemma gateway_dlq_wf: "gateway_wf g \<Longrightarrow> gateway_wf (gateway_dlq rnd db now source body hdrs g)"
  by (auto simp: gateway_dlq_def Let_def gateway_dedup_def intro!: gateway_save_wf)
     (auto simp: gateway_wf_def mem_forget_empty)

lemma as_error_store: "store_wf (snd s) \<Longrightarrow> store_wf (snd (as_error s))"
  by (simp add: as_error_def)

lemma breaker_delete_wf: "store_wf s \<Longrightarrow> store_wf (snd (ro_delete (breaker_ops db now) i s))"
  using guarded_wf [of s "\<lambda>tb. as_unit (pg_delete db i tb)"]
  by (auto simp: breaker_ops_def cbs_delete_def as_unit_def delete_wf intro!: as_error_store)

lemma breaker_update_wf: "store_wf s \<Longrightarrow> 0 \<le> n \<Longrightarrow> store_wf (snd (ro_update (breaker_ops db now) i n s))"
  using guarded_wf [of s "\<lambda>tb. as_unit (pg_update_retry_count db i n tb)"]
  by (auto simp: breaker_ops_def cbs_update_retry_count_def as_unit_def update_wf intro!: as_error_store)

lemma process_event_wf:
  "store_wf s \<Longrightarrow> 0 \<le> ev_retry e \<Longrightarrow> store_wf (snd (process_event (breaker_ops db now) pub jitter now sc e s))"
  by (simp add: process_event_def retry_event_def Let_def breaker_delete_wf breaker_update_wf)

lemma gateway_wf_split:
  "gateway_wf g \<longleftrightarrow>
     length (as_queue (gw_pub g)) \<le> as_capacity (gw_pub g) \<and> window_wf (as_stats (gw_pub g))
     \<and> store_wf (gw_store g) \<and> mem_seen (gw_dedup g) [] = None"
  by (auto simp: gateway_wf_def store_wf_def)

lemma gateway_retry_wf:
  assumes "gateway_wf (snd acc)" and "0 \<le> ev_retry e"
  shows "gateway_wf (snd (gateway_retry db jitter now sc acc e))"
proof -
  obtain as g where acc: "acc = (as, g)" by fastforce
  obtain answer hs p where a: "async_publish (retry_queued now e) (gw_pub g) = (answer, hs, p)"
    by (metis prod_cases3)
  obtain b s where q: "process_event (breaker_ops db now) (\<lambda>s b h. answer) jitter now sc e (gw_store g) = (b, s)"
    by (metis surj_pair)
  have "store_wf s"
    using process_event_wf [of "gw_store g" e db now "\<lambda>s b h. answer" jitter sc] q assms acc
    by (simp add: gateway_wf_split)
  then show ?thesis
    using assms publish_wf [OF a] by (simp add: acc gateway_retry_def a q gateway_wf_split)
qed

lemma gateway_tick_wf:
  assumes "gateway_wf g"
  shows "gateway_wf (snd (gateway_tick db jitter alive now sc g))"
proof -
  have fold: "gateway_wf (snd acc) \<Longrightarrow> \<forall>e \<in> set es. 0 \<le> ev_retry e \<Longrightarrow>
      gateway_wf (snd (foldl (gateway_retry db jitter now sc) acc es))" for acc es
    by (induction es arbitrary: acc) (simp_all add: gateway_retry_wf)
  have "\<forall>e \<in> set (snd (gw_store g)). 0 \<le> ev_retry e"
    using assms by (auto simp: gateway_wf_def table_wf_def list_all_iff row_wf_def)
  then have "\<forall>e \<in> set (takeWhile alive (take n (sort_key f (snd (gw_store g))))). 0 \<le> ev_retry e" for n f
    by (auto dest!: set_takeWhileD in_set_takeD)
  with assms fold [of "([], g)"] show ?thesis
    by (auto simp: gateway_tick_def pg_list_recent_def cbs_list_recent_def split: option.splits)
qed

lemma window_record_wf: "window_wf w \<Longrightarrow> window_wf (window_record b w)"
  using window_record_abs by blast

text \<open>Workers: only the queue, the window and, through the dead letters, the stores change.\<close>

lemma world_step_wf:
  assumes "world_step a (init_world p) = Some s" and "length (as_queue p) \<le> as_capacity p" and "window_wf (as_stats p)"
  shows "length (as_queue (wd_pub s)) \<le> as_capacity (wd_pub s) \<and> window_wf (as_stats (wd_pub s))"
proof (cases a)
  case (AFinish i out latency)
  with assms show ?thesis
    by (auto simp: step_finish_def init_world_def process_queued_event_def record_publish_result_def Let_def
        window_record_wf split: if_splits worker.splits)
qed (use assms in \<open>auto simp: step_check_def step_send_def step_take_def step_exit_def async_close_def init_world_def
      Let_def split: if_splits list.splits option.splits prod.splits\<close>)

lemma worker_step_wf: "gateway_wf g \<Longrightarrow> gateway_wf (worker_step rnd db now a g)"
proof -
  assume wf: "gateway_wf g"
  have dl: "gateway_wf g \<Longrightarrow> gateway_wf (foldl (dlq_save rnd db now) g hs)" for g hs
    by (induction hs arbitrary: g) (auto simp: dlq_save_def gateway_dlq_wf split: hook_event.splits)
  have "gateway_wf (g\<lparr>gw_pub := wd_pub s\<rparr>)" if "world_step a (init_world (gw_pub g)) = Some s" for s
    using wf world_step_wf [OF that] by (simp add: gateway_wf_def)
  with wf dl show ?thesis by (simp add: worker_step_def split: option.splits)
qed

text \<open>The tables of the audits.\<close>

lemma security_save_wf: "security_wf tb \<Longrightarrow> security_wf (snd (pg_security_save db now rnd inp tb))"
  by (auto simp: pg_security_save_table security_wf_def pg_security_record_def security_columns_def)

lemma replay_save_wf: "replays_wf tb \<Longrightarrow> replays_wf (snd (pg_replay_save db now rnd inp tb))"
proof -
  let ?r = "pg_replay_record now rnd inp"
  assume wf: "replays_wf tb"
  show ?thesis
  proof (cases "insert_error db (replay_columns ?r) (ra_id ?r \<in> ra_id ` set tb)")
    case None
    then have "list_all column_ok (replay_columns ?r)" "ra_id ?r \<notin> ra_id ` set tb"
      by (simp_all add: insert_error_None)
    with None wf show ?thesis by (auto simp: pg_replay_save_def replays_wf_def replay_columns_def Let_def)
  next
    case (Some err)
    with wf show ?thesis by (simp add: pg_replay_save_def Let_def)
  qed
qed

lemma console_publish_wf: "console_wf cfg st \<Longrightarrow> console_wf cfg (snd (console_publish r source body hdrs st))"
proof -
  assume wf: "console_wf cfg st"
  obtain res hs p where a: "async_publish (request_event r source body hdrs) (gw_pub (cs_gateway st)) = (res, hs, p)"
    by (metis prod_cases3)
  from publish_wf [OF a] wf show ?thesis
    by (auto simp: console_publish_def gateway_publish_def a console_wf_def gateway_wf_def split: option.splits)
qed

lemma console_security_wf:
  "console_wf cfg st \<Longrightarrow> console_wf cfg (so_save (console_security rnd db) r inp st)"
  by (simp add: console_security_def console_wf_def security_save_wf)

lemma record_event_wf:
  "console_wf cfg st \<Longrightarrow> console_wf cfg (record_security_event c (Some (console_security rnd db)) r inp st)"
  by (simp add: record_security_event_def console_security_wf)

lemma on_gateway_wf:
  "console_wf cfg st \<Longrightarrow> (\<And>g. gateway_wf g \<Longrightarrow> gateway_wf (snd (f g))) \<Longrightarrow> console_wf cfg (snd (on_gateway f st))"
proof -
  assume wf: "console_wf cfg st" and f: "\<And>g. gateway_wf g \<Longrightarrow> gateway_wf (snd (f g))"
  have "gateway_wf (snd (f (cs_gateway st)))" using wf f by (simp add: console_wf_def)
  with wf show ?thesis by (cases "f (cs_gateway st)") (simp add: on_gateway_def console_wf_def)
qed

lemma dedup_wf:
  "gateway_wf g \<Longrightarrow> gateway_wf (snd (dd_seen gateway_dedup t k g))"
  "gateway_wf g \<Longrightarrow> gateway_wf (dd_forget gateway_dedup k g)"
  using mem_seen_empty [of "gw_dedup g" t k]
  by (auto simp: gateway_dedup_def gateway_wf_def mem_forget_empty split: prod.splits)

interpretation hooks: webhook_keeps "process_env cfg v rnd db" "console_wf cfg'"
proof
  fix d st t k
  assume "wh_dedup (process_env cfg v rnd db) = Some d" and wf: "console_wf cfg' st"
  then have "dd_seen d t k = on_gateway (dd_seen gateway_dedup t k)"
    "dd_forget d k st = st\<lparr>cs_gateway := dd_forget gateway_dedup k (cs_gateway st)\<rparr>"
    by (auto simp: process_env_def)
  with wf show "console_wf cfg' (snd (dd_seen d t k st))" "console_wf cfg' (dd_forget d k st)"
    by (simp_all add: on_gateway_wf dedup_wf) (simp add: console_wf_def dedup_wf)
qed (auto simp: process_env_def console_publish_wf webhook_security_hook_def
      intro!: record_event_wf on_gateway_wf gateway_save_wf,
    auto simp: console_wf_def gateway_wf_def)

lemma ff_set_dom: "ff_set k b f = (True, fs) \<Longrightarrow> dom fs = dom f"
  by (auto simp: ff_set_def split: option.splits if_splits)

interpretation desk: admin_keeps "console_env cfg texts pt cl dn rnd db" "console_wf cfg'"
proof
  fix ops st k b fs
  assume "ad_flags (console_env cfg texts pt cl dn rnd db) = Some ops" and wf: "console_wf cfg' st"
    and set: "ff_set k b (fl_get ops st) = (True, fs)"
  then have "fl_put ops fs st = st\<lparr>cs_flags := fs\<rparr>" "fl_get ops st = cs_flags st"
    by (auto simp: console_env_def)
  with wf ff_set_dom [OF set] show "console_wf cfg' (fl_put ops fs st)"
    by (simp add: console_wf_def)
qed (auto simp: console_publish_wf console_security_eq intro!: console_security_wf,
    clarsimp simp: console_env_def console_wf_def replay_save_wf)

section \<open>Runs\<close>

text \<open>What happens to the process, each event with the random bytes and the database error of its
  moment.\<close>

datatype process_event_kind =
    Webhook string request
  | Replay request
  | ReplayBatch request
  | FlagUpdate request
  | Rejection request string int
  | Worker time action
  | Tick time "failed_event \<Rightarrow> float64" "failed_event \<Rightarrow> bool"

record process_setup =
  ps_cfg :: config
  ps_validator :: "(string \<Rightarrow> string \<Rightarrow> goerr option) option"
  ps_desk :: "string result \<Rightarrow> goerr option \<Rightarrow> console admin_env"
  ps_scheduler :: scheduler

fun process_step ::
  "process_setup \<Rightarrow> string result \<times> goerr option \<times> process_event_kind \<Rightarrow> console \<Rightarrow> console" where
  "process_step ps (rnd, db, Webhook source r) st =
     snd (snd (webhook_handler source (process_env (ps_cfg ps) (ps_validator ps) rnd db) r (new_writer, st)))"
| "process_step ps (rnd, db, Replay r) st = snd (snd (replay_failed_event (ps_desk ps rnd db) r (new_writer, st)))"
| "process_step ps (rnd, db, ReplayBatch r) st =
     snd (snd (replay_failed_events_batch (ps_desk ps rnd db) r (new_writer, st)))"
| "process_step ps (rnd, db, FlagUpdate r) st =
     snd (snd (feature_flags_handler [] (ps_desk ps rnd db) r (new_writer, st)))"
| "process_step ps (rnd, db, Rejection r reason status) st =
     security_reject (ps_cfg ps) (Some (console_security rnd db)) r reason status st"
| "process_step ps (rnd, db, Worker now a) st =
     st\<lparr>cs_gateway := worker_step rnd db now a (cs_gateway st)\<rparr>"
| "process_step ps (rnd, db, Tick now jitter alive) st =
     st\<lparr>cs_gateway := snd (gateway_tick db jitter alive now (ps_scheduler ps) (cs_gateway st))\<rparr>"

text \<open>The process as \<open>run\<close> starts it, with the stores in Postgres.\<close>

definition process_start :: "config \<Rightarrow> async_state \<Rightarrow> console" where
  "process_start cfg p =
     \<lparr>cs_gateway = \<lparr>gw_dedup = new_memory (DedupEnabled cfg) (dedup_ttl cfg), gw_pub = p,
        gw_store = (new_circuit_breaker 5 (30 * second), []), gw_observed = [], gw_rejected = []\<rparr>,
      cs_replays = [], cs_security = [], cs_flags = register_flags cfg\<rparr>"

lemma process_start_wf: "new_async_publisher buffer options = Some p \<Longrightarrow> console_wf cfg (process_start cfg p)"
  by (auto simp: process_start_def console_wf_def gateway_wf_def table_wf_def pg_ok_def replays_wf_def
      security_wf_def new_memory_def cb_wf_new new_async_publisher_def Let_def split: if_splits)

lemma process_step_wf:
  assumes "ps_desk ps = console_env (ps_cfg ps) texts pt cl dn" and "console_wf cfg st"
  shows "console_wf cfg (process_step ps ev st)"
  using assms(2)
  by (cases ev; cases "snd (snd ev)")
     (auto simp: assms(1) security_reject_def hooks.handler desk.one desk.batch desk.flags record_event_wf,
      auto simp: console_wf_def worker_step_wf gateway_tick_wf)

text \<open>C6: the state of the process is well typed at every moment: after any sequence of webhook calls, replays,
  flag updates, rejections, worker steps, dead letters and retry ticks, whatever the database and the
  random source do, the queue is within its capacity and the failure window consistent; the breaker's
  state agrees with its count; the failed events have distinct ids, fit their columns, carry the hash of
  their body, headers and a count that is not negative; the rows of both audits have distinct ids and
  fit; no empty key is deduplicated; and the flags are those that \<open>run\<close> registered.
\<close>

theorem process_types:
  assumes "new_async_publisher buffer options = Some p"
    and "ps_desk ps = console_env (ps_cfg ps) texts pt cl dn"
    and "st = fold (process_step ps) evs (process_start (ps_cfg ps) p)"
  shows "length (as_queue (gw_pub (cs_gateway st))) \<le> as_capacity (gw_pub (cs_gateway st))
    \<and> window_wf (as_stats (gw_pub (cs_gateway st)))
    \<and> cb_wf (fst (gw_store (cs_gateway st)))
    \<and> distinct (map ev_id (snd (gw_store (cs_gateway st)))) \<and> list_all row_wf (snd (gw_store (cs_gateway st)))
    \<and> mem_seen (gw_dedup (cs_gateway st)) '''' = None
    \<and> replays_wf (cs_replays st) \<and> security_wf (cs_security st)
    \<and> dom (cs_flags st) = dom (register_flags (ps_cfg ps))"
proof -
  have "console_wf (ps_cfg ps) (fold (process_step ps) evs s)" if "console_wf (ps_cfg ps) s" for s
    using that process_step_wf [OF assms(2)] by (induction evs arbitrary: s) simp_all
  with process_start_wf [OF assms(1)] assms(3) have "console_wf (ps_cfg ps) st" by blast
  then show ?thesis by (simp add: console_wf_def gateway_wf_def table_wf_def pg_ok_def)
qed

definition demo_setup :: process_setup where
  "demo_setup =
     \<lparr>ps_cfg = gw_config, ps_validator = None,
      ps_desk = console_env gw_config demo_texts (\<lambda>s. None) (\<lambda>s t. None) (\<lambda>r n. False),
      ps_scheduler = new_scheduler 3 (10 * second)\<rparr>"

definition demo_events :: "(string result \<times> goerr option \<times> process_event_kind) list" where
  "demo_events =
     [(Inr ''x'', None, Webhook ''github'' forged), (Inr ''y'', None, Worker 7 (ATake 0)),
      (Inr ''z'', None, Tick hour (\<lambda>e. 0) (\<lambda>e. True))]"

theorem process_types_witness:
  "security_wf (cs_security (fold (process_step demo_setup) demo_events
      (process_start (ps_cfg demo_setup) (wd_pub demo_world))))"
proof -
  have start: "new_async_publisher 1 demo_options = Some (wd_pub demo_world)"
    by (simp add: new_async_publisher_def demo_with_defaults demo_world_value init_world_def Let_def)
      (simp add: demo_options_def)
  have "ps_desk demo_setup = console_env (ps_cfg demo_setup) demo_texts (\<lambda>s. None) (\<lambda>s t. None) (\<lambda>r n. False)"
    by (simp add: demo_setup_def)
  from process_types [OF start this refl] show ?thesis by simp
qed

end
