(* ===== verification/Server_Chain.thy ===== *)
theory Server_Chain
  imports Gateway
begin

text \<open>
  Properties of the whole middleware chain that \<open>HandlerBuilder.Build\<close> puts in front of the routes:
  what no request can do, whatever the handlers behind the chain are.
\<close>

text \<open>Requests that agree on what the administrative guards look at.\<close>

definition same_request :: "request \<Rightarrow> request \<Rightarrow> bool" where
  "same_request r r' \<longleftrightarrow> rq_header r' = rq_header r \<and> rq_path r' = rq_path r \<and> rq_remote r' = rq_remote r"

lemma same_request_refl [simp]: "same_request r r"
  by (simp add: same_request_def)

text \<open>\<open>local_mw m\<close>: a middleware looks at the handler behind it only on such requests.\<close>

definition local_mw :: "'st middleware \<Rightarrow> bool" where
  "local_mw m \<longleftrightarrow>
     (\<forall>n1 n2 r ws. (\<forall>r' ws'. same_request r r' \<longrightarrow> n1 r' ws' = n2 r' ws') \<longrightarrow> m n1 r ws = m n2 r ws)"

named_theorems local_mws \<open>middlewares that are local\<close>

lemma local_mwI:
  "(\<And>n1 n2 r ws. (\<And>r' ws'. same_request r r' \<Longrightarrow> n1 r' ws' = n2 r' ws') \<Longrightarrow> m n1 r ws = m n2 r ws)
     \<Longrightarrow> local_mw m"
  unfolding local_mw_def by blast

lemma local_mwD:
  "local_mw m \<Longrightarrow> (\<And>r' ws'. same_request r r' \<Longrightarrow> n1 r' ws' = n2 r' ws') \<Longrightarrow> m n1 r ws = m n2 r ws"
  unfolding local_mw_def by blast

lemma local_api_version [local_mws]: "local_mw (api_version f cfg)"
  by (rule local_mwI) (auto simp: api_version_def Let_def split: prod.splits option.splits)

lemma local_chaos [local_mws]: "local_mw (chaos cfg)"
  by (rule local_mwI) (auto simp: chaos_def Let_def split: prod.splits)

lemma local_request_timeout [local_mws]: "local_mw (request_timeout t)"
  by (rule local_mwI) (auto simp: request_timeout_def Let_def same_request_def)

lemma local_request_id [local_mws]: "local_mw request_id"
  by (rule local_mwI) (auto simp: request_id_def Let_def same_request_def split: prod.splits)

lemma local_rate_limit [local_mws]: "local_mw (rate_limit cfg)"
  by (rule local_mwI) (auto simp: rate_limit_def Let_def split: prod.splits)

lemma local_source_rate_limit [local_mws]: "local_mw (source_rate_limit cfg)"
  by (rule local_mwI) (auto simp: source_rate_limit_def Let_def split: prod.splits)

lemma local_cidr [local_mws]: "local_mw (require_admin_cidr_allowlist f cfg)"
  by (rule local_mwI) (auto simp: require_admin_cidr_allowlist_def Let_def split: option.splits)

lemma local_chain:
  "list_all local_mw ms \<Longrightarrow> (\<And>r' ws'. same_request r r' \<Longrightarrow> h1 r' ws' = h2 r' ws') \<Longrightarrow>
     chain h1 ms r ws = chain h2 ms r ws"
proof (induction ms arbitrary: r ws)
  case (Cons m ms)
  have "chain h1 ms r' ws' = chain h2 ms r' ws'" if "same_request r r'" for r' ws'
    using Cons that by (auto simp: same_request_def intro!: Cons.IH)
  then show ?case using Cons.prems(1) by (auto intro: local_mwD)
qed simp

text \<open>A middleware that returns whenever the handler behind it does.\<close>

definition returns :: "'st handler \<Rightarrow> bool" where
  "returns h \<longleftrightarrow> (\<forall>r ws. fst (h r ws) = Returned)"

lemma returnsI: "(\<And>r ws. fst (h r ws) = Returned) \<Longrightarrow> returns h"
  unfolding returns_def by blast

lemma returnsD [simp]: "returns h \<Longrightarrow> fst (h r ws) = Returned"
  unfolding returns_def by blast

lemma returns_recoverer: "returns (recoverer h)"
  by (rule returnsI) (simp add: recoverer_def split: prod.splits outcome.splits)

lemma returns_api_version: "returns h \<Longrightarrow> returns (api_version f cfg h)"
  by (rule returnsI) (simp add: api_version_def Let_def split: prod.splits option.splits)

lemma returns_chaos: "returns h \<Longrightarrow> returns (chaos cfg h)"
  by (rule returnsI) (simp add: chaos_def Let_def split: prod.splits)

lemma returns_request_timeout: "returns h \<Longrightarrow> returns (request_timeout t h)"
  by (rule returnsI) (simp add: request_timeout_def Let_def)

lemma returns_request_id: "returns h \<Longrightarrow> returns (request_id h)"
  by (rule returnsI) (simp add: request_id_def Let_def split: prod.splits)

lemma returns_rate_limit: "returns h \<Longrightarrow> returns (rate_limit cfg h)"
  by (rule returnsI) (simp add: rate_limit_def Let_def split: prod.splits)

lemma returns_source_rate_limit: "returns h \<Longrightarrow> returns (source_rate_limit cfg h)"
  by (rule returnsI) (simp add: source_rate_limit_def Let_def split: prod.splits)

lemma returns_reject [simp]: "fst (reject_security r s reason f e ws) = Returned"
  by (simp add: reject_security_def split: prod.splits)

lemma returns_cidr: "returns h \<Longrightarrow> returns (require_admin_cidr_allowlist f cfg h)"
  by (rule returnsI) (simp add: require_admin_cidr_allowlist_def Let_def split: option.splits)

lemma returns_jwt: "returns h \<Longrightarrow> returns (require_admin_jwt p cfg h)"
  by (rule returnsI) (simp add: require_admin_jwt_def split: option.splits)

lemmas returns_intros = returns_api_version returns_chaos returns_request_timeout returns_request_id
  returns_rate_limit returns_source_rate_limit returns_cidr returns_jwt returns_recoverer


definition admin_jwt_of :: "config \<Rightarrow> 'st reject_hook \<Rightarrow> 'st jwt_config" where
  "admin_jwt_of cfg sec =
     \<lparr>jw_enabled = AdminAuthEnabled cfg, jw_issuer = AdminJWTIssuer cfg, jw_audience = AdminJWTAudience cfg,
      jw_secret = AdminJWTSecret cfg, jw_on_reject = sec\<rparr>"

lemma local_outer_guards: "list_all local_mw (outer_guards cfg lmt sec ip_text rfc)"
  by (simp add: outer_guards_def local_mws)

lemma guarded_chain:
  assumes "AdminAuthEnabled cfg" and "is_admin_path (rq_path r)"
    and "\<not> jwt_accepts p (admin_jwt_of cfg sec) r"
  shows "build_handler cfg lmt sec emit p ip_text rfc tracing mux r ws
    = build_handler cfg lmt sec emit p ip_text rfc tracing mux' r ws"
proof -
  have j: "require_admin_jwt p (admin_jwt_of cfg sec) n1 r' ws'
      = require_admin_jwt p (admin_jwt_of cfg sec) n2 r' ws'" if "same_request r r'" for n1 n2 r' ws'
  proof -
    have "\<not> jwt_accepts p (admin_jwt_of cfg sec) r'"
      using assms(3) that by (simp add: jwt_accepts_def bearer_token_def same_request_def)
    moreover have "is_admin_path (rq_path r')" using assms(2) that by (simp add: same_request_def)
    ultimately show ?thesis
      using jwt_block [of "admin_jwt_of cfg sec" r' p] assms(1) by (metis admin_jwt_of_def jwt_config.select_convs(1))
  qed
  let ?in = "\<lambda>h. require_admin_jwt p (admin_jwt_of cfg sec) (recoverer (access_log emit (tracing h)))"
  have b: "build_handler cfg lmt sec emit p ip_text rfc tracing h
      = chain (?in h) (outer_guards cfg lmt sec ip_text rfc)" for h
    by (simp add: build_handler_def chain_append admin_jwt_of_def)
  show ?thesis
    unfolding b by (rule local_chain [OF local_outer_guards j])
qed

lemma local_jwt [local_mws]: "local_mw (require_admin_jwt p cfg)"
  by (rule local_mwI) (auto simp: require_admin_jwt_def split: option.splits)

lemma local_mw_same:
  fixes m :: "'st middleware"
  assumes "\<And>n1 n2 r ws. n1 r ws = n2 r ws \<Longrightarrow> m n1 r ws = m n2 r ws"
  shows "local_mw m"
proof (rule local_mwI)
  fix n1 n2 :: "'st handler" and r ws
  assume "\<And>r' ws'. same_request r r' \<Longrightarrow> n1 r' ws' = n2 r' ws'"
  from this [OF same_request_refl] show "m n1 r ws = m n2 r ws" by (rule assms)
qed

lemma local_recoverer [local_mws]: "local_mw recoverer"
  by (rule local_mw_same) (simp add: recoverer_def)

lemma local_access_log [local_mws]: "local_mw (access_log emit)"
  by (rule local_mw_same) (simp add: access_log_def)

text \<open>The chain looks at the routes behind it only on requests with the path, the headers and the remote
  address of its own.\<close>

lemma local_build_handler:
  assumes "local_mw tracing" and "\<And>r' ws'. same_request r r' \<Longrightarrow> h1 r' ws' = h2 r' ws'"
  shows "build_handler cfg lmt sec emit p ip_text rfc tracing h1 r ws
    = build_handler cfg lmt sec emit p ip_text rfc tracing h2 r ws"
  unfolding build_handler_def
  by (rule local_chain) (use assms in \<open>simp_all add: local_outer_guards local_mws\<close>)

text \<open>With administrative authentication on, a request to an administrative path without a valid
  token never reaches a route: the outcome of the whole chain, state and answer, is the same
  whatever the routes are.\<close>

theorem admin_routes_unreachable:
  assumes "AdminAuthEnabled cfg" and "is_admin_path (rq_path r)"
    and "\<not> jwt_accepts p (admin_jwt_of cfg sec) r"
  shows "build_handler cfg lmt sec emit p ip_text rfc tracing mux r ws
    = build_handler cfg lmt sec emit p ip_text rfc tracing mux' r ws"
  by (rule guarded_chain [OF assms])

theorem admin_routes_unreachable_witness:
  "build_handler (default_config\<lparr>AdminAuthEnabled := True\<rparr>) (limiter_of allow_with_info) no_hook
     (\<lambda>e st. st) (\<lambda>k m i a t. Inl (ErrText ''bad'')) (\<lambda>a. '''') (\<lambda>t. '''') (\<lambda>n. n)
     (\<lambda>r ws. (Panicked, ws)) (demo_http\<lparr>rq_path := ''/admin/flags''\<rparr>) (new_writer, new_ip_limiter minute 0)
   = build_handler (default_config\<lparr>AdminAuthEnabled := True\<rparr>) (limiter_of allow_with_info) no_hook
     (\<lambda>e st. st) (\<lambda>k m i a t. Inl (ErrText ''bad'')) (\<lambda>a. '''') (\<lambda>t. '''') (\<lambda>n. n)
     (\<lambda>r ws. (Returned, ws)) (demo_http\<lparr>rq_path := ''/admin/flags''\<rparr>) (new_writer, new_ip_limiter minute 0)"
proof (rule admin_routes_unreachable)
  show "is_admin_path (rq_path (demo_http\<lparr>rq_path := ''/admin/flags''\<rparr>))" by code_simp
  have "bearer_token (demo_http\<lparr>rq_path := ''/admin/flags''\<rparr>) = None" by code_simp
  then show "\<not> jwt_accepts (\<lambda>k m i a t. Inl (ErrText ''bad''))
      (admin_jwt_of (default_config\<lparr>AdminAuthEnabled := True\<rparr>) (no_hook :: ip_limiter reject_hook))
      (demo_http\<lparr>rq_path := ''/admin/flags''\<rparr>)"
    by (simp add: jwt_accepts_def)
qed simp

end
