(* ===== verification/Bulkhead.thy ===== *)
theory Bulkhead
  imports Async_Publisher "HOL-Library.AList"
begin

text \<open>
  \<open>BulkheadPublisher\<close> of \<open>queue/bulkhead.go\<close>: one asynchronous publisher per source. The map of
  sources is an association list with distinct keys, in the order it is ranged over. An operation is
  one atomic step here; the interleaving inside one queue is in \<open>Async_Publisher\<close>. Creating a
  queue in parallel and losing the race closes the new queue and uses the other one, which is the
  same step as finding it.
\<close>

record bulkhead =
  bh_sources :: "(string \<times> async_state) list"
  bh_buffer :: int
  bh_options :: async_options
  bh_soft :: int
  bh_hard :: int

text \<open>\<open>int(math.Ceil(x))\<close> of a float.\<close>

definition limit_from_ratio :: "int \<Rightarrow> float64 \<Rightarrow> int" where
  "limit_from_ratio capacity ratio =
     (if capacity \<le> 0 then 1
      else if ratio \<le> 0 then 1
      else let limit = \<lceil>f_mul (f_int capacity) ratio\<rceil>
           in if limit < 1 then 1 else if limit > capacity then capacity else limit)"

definition new_bulkhead :: "int \<Rightarrow> async_options \<Rightarrow> bulkhead" where
  "new_bulkhead buffer opts =
     (let b = (if buffer \<le> 0 then 1 else buffer); o' = with_defaults opts
      in \<lparr>bh_sources = [], bh_buffer = b, bh_options = o',
          bh_soft = limit_from_ratio b (bp_soft (ao_backpressure o')),
          bh_hard = limit_from_ratio b (bp_hard (ao_backpressure o'))\<rparr>)"

text \<open>The buffer is positive, so the queue of a new source can always be made.\<close>

definition get_or_create_source :: "string \<Rightarrow> bulkhead \<Rightarrow> async_state \<times> bulkhead" where
  "get_or_create_source source b =
     (case map_of (bh_sources b) source of
        Some q \<Rightarrow> (q, b)
      | None \<Rightarrow>
          (let q = the (new_async_publisher (bh_buffer b) (bh_options b))
           in (q, b\<lparr>bh_sources := AList.update source q (bh_sources b)\<rparr>)))"

definition set_source :: "string \<Rightarrow> async_state \<Rightarrow> bulkhead \<Rightarrow> bulkhead" where
  "set_source source q b = b\<lparr>bh_sources := AList.update source q (bh_sources b)\<rparr>"

definition bulkhead_publish ::
  "queued_event \<Rightarrow> bulkhead \<Rightarrow> goerr option \<times> hook_event list \<times> bulkhead" where
  "bulkhead_publish e b =
     (let source = qe_source e; opts = bh_options b; on = bp_enabled (ao_backpressure opts)
      in (case get_or_create_source source b of
            (q, b1) \<Rightarrow>
              (let snap = async_snapshot q
               in if on \<and> ps_depth snap \<ge> bh_hard b
                  then (Some (Sentinel ErrQueueFull), emit_backpressure opts source ''hard_limit'' snap, b1)
                  else
                    let h1 = (if on \<and> ps_depth snap \<ge> bh_soft b
                              then emit_backpressure opts source ''soft_limit'' snap else [])
                    in (case async_publish e q of
                          (err, h2, q') \<Rightarrow>
                            (err, h1 @ h2 @ emit_publish opts source
                               (case err of Some _ \<Rightarrow> ''failed'' | None \<Rightarrow> ''queued'') (async_snapshot q'),
                             set_source source q' b1)))))"

definition bulkhead_close :: "bulkhead \<Rightarrow> bulkhead" where
  "bulkhead_close b = b\<lparr>bh_sources := map (\<lambda>(s, q). (s, async_close q)) (bh_sources b)\<rparr>"

definition source_snapshots :: "bulkhead \<Rightarrow> (string \<times> publisher_snapshot) list" where
  "source_snapshots b = map (\<lambda>(s, q). (s, async_snapshot q)) (bh_sources b)"

definition add_snapshot ::
  "publisher_snapshot \<times> float64 \<Rightarrow> publisher_snapshot \<Rightarrow> publisher_snapshot \<times> float64" where
  "add_snapshot acc s =
     (case acc of (a, w) \<Rightarrow>
        (a\<lparr>ps_depth := ps_depth a + ps_depth s, ps_capacity := ps_capacity a + ps_capacity s,
           ps_samples := ps_samples a + ps_samples s\<rparr>,
         f_add w (f_mul (ps_failure_ratio s) (f_int (ps_samples s)))))"

definition bulkhead_snapshot :: "bulkhead \<Rightarrow> publisher_snapshot" where
  "bulkhead_snapshot b =
     (case foldl add_snapshot (empty_snapshot, 0) (map snd (source_snapshots b)) of
        (a, w) \<Rightarrow>
          (let a1 = (if ps_capacity a > 0
                     then a\<lparr>ps_usage := clamp_ratio (f_div (f_int (ps_depth a)) (f_int (ps_capacity a)))\<rparr>
                     else a)
           in if ps_samples a1 > 0
              then a1\<lparr>ps_failure_ratio := clamp_ratio (f_div w (f_int (ps_samples a1)))\<rparr>
              else a1))"

fun first_unhealthy :: "(string \<times> async_state) list \<Rightarrow> goerr option" where
  "first_unhealthy [] = None"
| "first_unhealthy ((s, q) # qs) =
     (case async_health q of
        Some err \<Rightarrow> Some (Wrapped (''source queue '' @ s @ '' unhealthy: '') err)
      | None \<Rightarrow> first_unhealthy qs)"

definition bulkhead_health :: "goerr option \<Rightarrow> bulkhead \<Rightarrow> goerr option" where
  "bulkhead_health inner b =
     (case inner of
        Some err \<Rightarrow> Some (Wrapped ''inner publisher health check: '' err)
      | None \<Rightarrow> first_unhealthy (bh_sources b))"

lemma limit_from_ratio_bounds:
  "1 \<le> limit_from_ratio c r" "0 < c \<Longrightarrow> limit_from_ratio c r \<le> c"
  by (auto simp: limit_from_ratio_def Let_def)

lemma limit_from_ratio_mono:
  assumes "r \<le> r'" shows "limit_from_ratio c r \<le> limit_from_ratio c r'"
proof (cases "c \<le> 0 \<or> r \<le> 0")
  case True
  then show ?thesis using limit_from_ratio_bounds(1) [of c r'] by (auto simp: limit_from_ratio_def)
next
  case False
  then have "f_mul (f_int c) r \<le> f_mul (f_int c) r'"
    using assms by (simp add: f_mul_def f64_mono mult_left_mono f_int_nonneg)
  then obtain x y where "x = \<lceil>f_mul (f_int c) r\<rceil>" "y = \<lceil>f_mul (f_int c) r'\<rceil>" "x \<le> y"
    using ceiling_mono by blast
  with False assms show ?thesis by (auto simp: limit_from_ratio_def Let_def simp flip: \<open>x = _\<close> \<open>y = _\<close>)
qed

lemma new_bulkhead_buffer [simp]: "0 < bh_buffer (new_bulkhead n opts)"
  by (simp add: new_bulkhead_def Let_def)

lemma new_async_some: "0 \<le> n \<Longrightarrow> new_async_publisher n opts \<noteq> None"
  by (simp add: new_async_publisher_def Let_def)

lemma get_or_create_source_spec:
  "get_or_create_source s b = (q, b') \<Longrightarrow>
     map_of (bh_sources b') s = Some q \<and> bh_options b' = bh_options b \<and> bh_buffer b' = bh_buffer b
     \<and> (\<forall>s'. s' \<noteq> s \<longrightarrow> map_of (bh_sources b') s' = map_of (bh_sources b) s')
     \<and> (distinct (map fst (bh_sources b)) \<longrightarrow> distinct (map fst (bh_sources b')))"
  by (auto simp: get_or_create_source_def Let_def update_conv' distinct_update split: option.splits)

text \<open>The queue a source has, or would be given.\<close>

definition source_queue :: "string \<Rightarrow> bulkhead \<Rightarrow> async_state" where
  "source_queue s b = fst (get_or_create_source s b)"

text \<open>C37: the sources are isolated from each other: publishing an event of one source leaves the
  queue of every other source as it was, and its outcome depends only on the queue of its own source,
  so two bulkheads with the same settings that agree on that queue give the same answer, whatever
  the state of their other queues.\<close>

theorem bulkhead_isolation:
  assumes "source_queue (qe_source e) b = source_queue (qe_source e) c"
    and "bh_options b = bh_options c" and "bh_soft b = bh_soft c" and "bh_hard b = bh_hard c"
    and "s \<noteq> qe_source e"
  shows "fst (bulkhead_publish e b) = fst (bulkhead_publish e c)
    \<and> fst (snd (bulkhead_publish e b)) = fst (snd (bulkhead_publish e c))
    \<and> map_of (bh_sources (snd (snd (bulkhead_publish e b)))) s = map_of (bh_sources b) s"
proof -
  let ?s = "qe_source e"
  obtain q b1 where B: "get_or_create_source ?s b = (q, b1)" by fastforce
  obtain q' c1 where C: "get_or_create_source ?s c = (q', c1)" by fastforce
  have "q' = q" using assms(1) B C by (simp add: source_queue_def)
  with B C assms(2-4) have same: "fst (bulkhead_publish e b) = fst (bulkhead_publish e c)
      \<and> fst (snd (bulkhead_publish e b)) = fst (snd (bulkhead_publish e c))"
    by (simp add: bulkhead_publish_def Let_def split: prod.splits)
  have "map_of (bh_sources (snd (snd (bulkhead_publish e b)))) s = map_of (bh_sources b1) s"
    using B assms(5) by (simp add: bulkhead_publish_def Let_def set_source_def update_conv' split: prod.splits)
  also have "\<dots> = map_of (bh_sources b) s"
    using get_or_create_source_spec [OF B] assms(5) by blast
  finally show ?thesis using same by blast
qed

theorem bulkhead_isolation_witness:
  "\<forall>opts q. fst (bulkhead_publish (make_event 0 None ''github'' ''{}'' None) (new_bulkhead 1 opts))
     = fst (bulkhead_publish (make_event 0 None ''github'' ''{}'' None)
         (set_source ''slack'' q (new_bulkhead 1 opts)))"
proof (intro allI)
  fix opts q
  let ?e = "make_event 0 None ''github'' ''{}'' None" and ?b = "new_bulkhead 1 opts"
  have "source_queue (qe_source ?e) ?b = source_queue (qe_source ?e) (set_source ''slack'' q ?b)"
    by (simp add: source_queue_def get_or_create_source_def set_source_def new_bulkhead_def
        make_event_def Let_def)
  then show "fst (bulkhead_publish ?e ?b) = fst (bulkhead_publish ?e (set_source ''slack'' q ?b))"
    using bulkhead_isolation [of ?e ?b "set_source ''slack'' q ?b" "''slack''"]
    by (simp add: set_source_def make_event_def)
qed

section \<open>Histories\<close>

text \<open>A worker of a source receives the oldest event of its queue.\<close>

definition bulkhead_take :: "string \<Rightarrow> bulkhead \<Rightarrow> bulkhead" where
  "bulkhead_take s b =
     (case map_of (bh_sources b) s of
        None \<Rightarrow> b
      | Some q \<Rightarrow> set_source s (q\<lparr>as_queue := tl (as_queue q)\<rparr>) b)"

datatype bulkhead_op = BhPublish queued_event | BhTake string | BhClose

fun bulkhead_step :: "bulkhead_op \<Rightarrow> bulkhead \<Rightarrow> bulkhead" where
  "bulkhead_step (BhPublish e) b = snd (snd (bulkhead_publish e b))"
| "bulkhead_step (BhTake s) b = bulkhead_take s b"
| "bulkhead_step BhClose b = bulkhead_close b"

definition bulkhead_run :: "bulkhead_op list \<Rightarrow> bulkhead \<Rightarrow> bulkhead" where
  "bulkhead_run ops b = fold bulkhead_step ops b"

definition queue_ok :: "bulkhead \<Rightarrow> string \<times> async_state \<Rightarrow> bool" where
  "queue_ok b sq \<longleftrightarrow>
     as_capacity (snd sq) = nat (bh_buffer b)
     \<and> int (length (as_queue (snd sq))) \<le> bh_buffer b
     \<and> (bp_enabled (ao_backpressure (bh_options b)) \<longrightarrow>
          int (length (as_queue (snd sq))) \<le> bh_hard b)"

definition bulkhead_ok :: "bulkhead \<Rightarrow> bool" where
  "bulkhead_ok b \<longleftrightarrow> 1 \<le> bh_hard b \<and> bh_hard b \<le> bh_buffer b \<and> list_all (queue_ok b) (bh_sources b)"

lemma list_all_update:
  "list_all P al \<Longrightarrow> P (k, v) \<Longrightarrow> list_all P (AList.update k v al)"
  by (induction al) auto

lemma list_all_map_of: "list_all P al \<Longrightarrow> map_of al k = Some v \<Longrightarrow> P (k, v)"
  by (induction al) (auto split: if_splits)

lemma bulkhead_ok_new: "bulkhead_ok (new_bulkhead n opts)"
  using limit_from_ratio_bounds by (auto simp: bulkhead_ok_def new_bulkhead_def Let_def)

lemma queue_ok_cong:
  "bh_buffer b' = bh_buffer b \<Longrightarrow> bh_hard b' = bh_hard b \<Longrightarrow> bh_options b' = bh_options b \<Longrightarrow>
     queue_ok b' = queue_ok b"
  by (simp add: queue_ok_def fun_eq_iff)

lemma bulkhead_ok_set: "bulkhead_ok b \<Longrightarrow> queue_ok b (s, q) \<Longrightarrow> bulkhead_ok (set_source s q b)"
  using queue_ok_cong [of "set_source s q b" b]
  by (simp add: bulkhead_ok_def set_source_def list_all_update)

lemma get_or_create_ok:
  assumes "bulkhead_ok b" and "get_or_create_source s b = (q, b')"
  shows "bulkhead_ok b' \<and> queue_ok b (s, q) \<and> bh_hard b' = bh_hard b
    \<and> bh_buffer b' = bh_buffer b \<and> bh_options b' = bh_options b"
proof (cases "map_of (bh_sources b) s")
  case (Some x)
  with assms list_all_map_of [of "queue_ok b" "bh_sources b" s] show ?thesis
    by (auto simp: get_or_create_source_def bulkhead_ok_def)
next
  case None
  with assms have q: "q = the (new_async_publisher (bh_buffer b) (bh_options b))"
      and b': "b' = set_source s q b"
    by (auto simp: get_or_create_source_def set_source_def Let_def)
  have "queue_ok b (s, q)"
    using assms(1) by (auto simp: q queue_ok_def new_async_publisher_def bulkhead_ok_def Let_def)
  with bulkhead_ok_set [OF assms(1)] show ?thesis by (simp add: b' set_source_def)
qed

lemma async_publish_queue:
  assumes "async_publish e q = (err, hs, q')" and "0 < as_capacity q"
    and "length (as_queue q) \<le> as_capacity q"
  shows "as_capacity q' = as_capacity q \<and> length (as_queue q') \<le> as_capacity q
    \<and> as_queue q' = (if err = None then as_queue q @ [e] else as_queue q)"
  using assms
  by (auto simp: async_publish_def publish_send_def split: prod.splits option.splits
      send_outcome.splits if_splits)

lemma bulkhead_publish_ok:
  assumes ok: "bulkhead_ok b"
  shows "bulkhead_ok (snd (snd (bulkhead_publish e b)))"
proof -
  obtain q b1 where g: "get_or_create_source (qe_source e) b = (q, b1)" by fastforce
  note gk = get_or_create_ok [OF ok g]
  obtain err hs q' where p: "async_publish e q = (err, hs, q')" by (cases "async_publish e q") auto
  have d: "ps_depth (async_snapshot q) = int (length (as_queue q))"
    by (simp add: async_snapshot_def make_snapshot_def Let_def)
  show ?thesis
  proof (cases "bp_enabled (ao_backpressure (bh_options b)) \<and> bh_hard b \<le> int (length (as_queue q))")
    case True
    with g d gk show ?thesis by (simp add: bulkhead_publish_def Let_def)
  next
    case False
    have "0 < as_capacity q" "length (as_queue q) \<le> as_capacity q"
      using ok gk by (auto simp: bulkhead_ok_def queue_ok_def)
    from async_publish_queue [OF p this] False gk ok have "queue_ok b1 (qe_source e, q')"
      by (auto simp: queue_ok_def bulkhead_ok_def)
    with gk have "bulkhead_ok (set_source (qe_source e) q' b1)" by (simp add: bulkhead_ok_set)
    with False g d p show ?thesis by (auto simp: bulkhead_publish_def Let_def)
  qed
qed

lemma bulkhead_take_ok: "bulkhead_ok b \<Longrightarrow> bulkhead_ok (bulkhead_take s b)"
proof (cases "map_of (bh_sources b) s")
  case (Some q)
  assume ok: "bulkhead_ok b"
  with Some list_all_map_of [of "queue_ok b" "bh_sources b" s q]
  have "queue_ok b (s, q)" by (simp add: bulkhead_ok_def)
  then have "queue_ok b (s, q\<lparr>as_queue := tl (as_queue q)\<rparr>)" by (auto simp: queue_ok_def)
  with Some ok bulkhead_ok_set show ?thesis by (simp add: bulkhead_take_def)
qed (simp add: bulkhead_take_def)

lemma bulkhead_close_ok: "bulkhead_ok b \<Longrightarrow> bulkhead_ok (bulkhead_close b)"
  by (auto simp: bulkhead_ok_def bulkhead_close_def queue_ok_def list_all_iff async_close_def)

lemma bulkhead_step_ok: "bulkhead_ok b \<Longrightarrow> bulkhead_ok (bulkhead_step op b)"
  by (cases op) (simp_all add: bulkhead_publish_ok bulkhead_take_ok bulkhead_close_ok)

lemma bulkhead_run_ok: "bulkhead_ok b \<Longrightarrow> bulkhead_ok (bulkhead_run ops b)"
  by (induction ops arbitrary: b) (simp_all add: bulkhead_run_def bulkhead_step_ok)

text \<open>C2: whatever the history of publishes, receives and \<open>Close\<close>, the queue of no source grows past
  its buffer, nor, with backpressure on, past the hard limit, and the hard limit lies between 1 and
  the buffer, so it neither blocks every event nor is ever out of reach.\<close>

theorem bulkhead_bounded:
  "let b = bulkhead_run ops (new_bulkhead n opts)
   in 1 \<le> bh_hard b \<and> bh_hard b \<le> bh_buffer b \<and> list_all (queue_ok b) (bh_sources b)"
  using bulkhead_run_ok [OF bulkhead_ok_new, of ops n opts] by (simp add: bulkhead_ok_def Let_def)

end
