(* ===== verification/Publishers.thy ===== *)
theory Publishers
  imports Bulkhead Resilience Config
begin

text \<open>
  The publishers that wrap another one (\<open>queue/circuit_breaker.go\<close>, \<open>queue/transformation.go\<close>,
  \<open>queue/log_publisher.go\<close>), and \<open>queue/factory.go\<close>, which builds the publisher of the running
  service from its configuration. A wrapped publisher is a function on its own state. The two regular
  expressions of the scrubbing transformers belong to \<open>regexp\<close>, so a transformer is a function.
\<close>

type_synonym 's publish_fn = "string \<Rightarrow> string \<Rightarrow> headers \<Rightarrow> 's \<Rightarrow> goerr option \<times> 's"

section \<open>Wrappers\<close>

definition wrap_error :: "string \<Rightarrow> goerr option \<Rightarrow> goerr option" where
  "wrap_error pfx r = map_option (Wrapped pfx) r"

definition log_publish :: "'s publish_fn" where
  "log_publish source body hdrs s = (None, s)"

text \<open>\<open>t1\<close> and \<open>t2\<close> are the clock at \<open>Allow\<close> and at \<open>RecordFailure\<close>.\<close>

definition breaker_publish ::
  "time \<Rightarrow> time \<Rightarrow> 's publish_fn \<Rightarrow> (circuit_breaker \<times> 's) publish_fn" where
  "breaker_publish t1 t2 inner source body hdrs st =
     (case st of (cb, s) \<Rightarrow>
       (case allow t1 cb of
          (False, cb1) \<Rightarrow> (Some (Sentinel ErrCircuitOpen), cb1, s)
        | (True, cb1) \<Rightarrow>
            (case inner source body hdrs s of
               (Some e, s1) \<Rightarrow>
                 (Some (Wrapped ''circuit breaker wrapped publish: '' e), record_failure t2 cb1, s1)
             | (None, s1) \<Rightarrow> (None, record_success cb1, s1))))"

definition breaker_close :: "goerr option \<Rightarrow> goerr option" where
  "breaker_close inner = wrap_error ''circuit breaker wrapped close: '' inner"

definition breaker_health :: "goerr option \<Rightarrow> goerr option" where
  "breaker_health inner = wrap_error ''circuit breaker wrapped health check: '' inner"

type_synonym transformer = "string \<Rightarrow> string"

definition transform_publish :: "transformer list \<Rightarrow> 's publish_fn \<Rightarrow> 's publish_fn" where
  "transform_publish ts inner source body hdrs s =
     (let scrubbed = foldl (\<lambda>b t. t b) body ts
      in (case inner source scrubbed hdrs s of
            (err, s1) \<Rightarrow> (wrap_error ''transforming publisher publish: '' err, s1)))"

definition transform_close :: "goerr option \<Rightarrow> goerr option" where
  "transform_close inner = wrap_error ''transforming publisher close: '' inner"

definition transform_health :: "goerr option \<Rightarrow> goerr option" where
  "transform_health inner = wrap_error ''transforming publisher health check: '' inner"

lemma wrap_error_is: "map_option (\<lambda>e. errors_is e x) (wrap_error p r) = map_option (\<lambda>e. errors_is e x) r"
  by (cases r) (simp_all add: wrap_error_def)

lemma breaker_publish_open:
  "\<not> fst (allow t1 cb) \<Longrightarrow>
     breaker_publish t1 t2 inner src body hdrs (cb, s)
       = (Some (Sentinel ErrCircuitOpen), snd (allow t1 cb), s)"
  by (cases "allow t1 cb") (simp add: breaker_publish_def)

text \<open>C1: a publisher behind the circuit breaker is called exactly when the breaker allows it: while
  it does not, the event is refused with \<open>ErrCircuitOpen\<close> and the wrapped publisher's state is
  untouched; otherwise the breaker records the outcome, and the error keeps its identity through the
  wrapping, so that the caller still recognises it.\<close>

theorem breaker_publish_spec:
  "let (ok, cb1) = allow t1 cb;
       (err, s1) = inner source body hdrs s;
       (err', cb2, s2) = breaker_publish t1 t2 inner source body hdrs (cb, s)
   in if \<not> ok then err' = Some (Sentinel ErrCircuitOpen) \<and> cb2 = cb1 \<and> s2 = s
      else s2 = s1
        \<and> cb2 = (if err = None then record_success cb1 else record_failure t2 cb1)
        \<and> map_option (\<lambda>e. errors_is e x) err' = map_option (\<lambda>e. errors_is e x) err"
  by (auto simp: breaker_publish_def Let_def split: prod.splits option.splits bool.splits)

section \<open>The publisher of the running service\<close>

datatype base_publisher = BasePubSub | BaseLog
datatype queue_layer = LayerBulkhead bulkhead | LayerAsync async_state
datatype closer = ClosePubSub | CloseBulkhead | CloseAsync

record runtime_publisher =
  rt_base :: base_publisher
  rt_breaker :: "circuit_breaker option"
  rt_queue :: queue_layer
  rt_scrubbing :: bool
  rt_closers :: "closer list"

definition factory_options :: "config \<Rightarrow> async_options \<Rightarrow> async_options" where
  "factory_options cfg opts =
     opts\<lparr>ao_workers := (if QueueWorkers cfg \<le> 0 then 1 else QueueWorkers cfg),
       ao_backpressure :=
         \<lparr>bp_enabled = QueueBackpressureEnabled cfg,
          bp_soft = percent (QueueBackpressureSoftLimitPercent cfg),
          bp_hard = percent (QueueBackpressureHardLimitPercent cfg),
          bp_fail_threshold = percent (QueueFailureBudgetPercent cfg),
          bp_window = QueueFailureBudgetWindow cfg,
          bp_min_samples = QueueFailureBudgetMinSamples cfg\<rparr>\<rparr>"

text \<open>
  \<open>pubsub_init\<close> is the error of creating the Pub/Sub client, if any. Making the asynchronous queue
  panics for a negative buffer, which is the outer \<open>None\<close>.
\<close>

definition build_runtime_publisher ::
  "goerr option \<Rightarrow> config \<Rightarrow> async_options \<Rightarrow> runtime_publisher result option" where
  "build_runtime_publisher pubsub_init cfg opts =
     (let pubsub = (QueueBackend cfg = ''pubsub''); o' = factory_options cfg opts;
          base = (if pubsub then BasePubSub else BaseLog);
          cb = (if pubsub then Some (new_circuit_breaker 5 (30 * second)) else None);
          closers = (if pubsub then [ClosePubSub] else [])
      in if pubsub \<and> pubsub_init \<noteq> None
         then Some (Inl (Wrapped ''init pubsub publisher: '' (the pubsub_init)))
         else if QueueBulkheadEnabled cfg then
           (let buffer = (if QueueBulkheadBufferPerSource cfg \<le> 0 then QueueBuffer cfg
                          else QueueBulkheadBufferPerSource cfg)
            in Some (Inr \<lparr>rt_base = base, rt_breaker = cb,
                          rt_queue = LayerBulkhead (new_bulkhead buffer o'),
                          rt_scrubbing = PIIScrubbingEnabled cfg,
                          rt_closers = closers @ [CloseBulkhead]\<rparr>))
         else
           (case new_async_publisher (QueueBuffer cfg) o' of
              None \<Rightarrow> None
            | Some q \<Rightarrow>
                Some (Inr \<lparr>rt_base = base, rt_breaker = cb, rt_queue = LayerAsync q,
                           rt_scrubbing = PIIScrubbingEnabled cfg,
                           rt_closers = closers @ [CloseAsync]\<rparr>)))"

text \<open>\<open>Close\<close> runs the closers from the last one back and stops at the first error.\<close>

fun run_closers :: "(closer \<Rightarrow> goerr option) \<Rightarrow> closer list \<Rightarrow> closer list \<times> goerr option" where
  "run_closers out [] = ([], None)"
| "run_closers out (c # cs) =
     (case out c of
        Some e \<Rightarrow> ([c], Some e)
      | None \<Rightarrow> (case run_closers out cs of (called, e) \<Rightarrow> (c # called, e)))"

definition runtime_close ::
  "(closer \<Rightarrow> goerr option) \<Rightarrow> runtime_publisher \<Rightarrow> closer list \<times> goerr option" where
  "runtime_close out r = run_closers out (rev (rt_closers r))"

definition runtime_snapshot :: "runtime_publisher \<Rightarrow> publisher_snapshot" where
  "runtime_snapshot r =
     (case rt_queue r of LayerBulkhead b \<Rightarrow> bulkhead_snapshot b | LayerAsync q \<Rightarrow> async_snapshot q)"

definition runtime_source_snapshots ::
  "runtime_publisher \<Rightarrow> (string \<times> publisher_snapshot) list" where
  "runtime_source_snapshots r =
     (case rt_queue r of LayerBulkhead b \<Rightarrow> source_snapshots b | LayerAsync q \<Rightarrow> [])"

definition queue_options :: "queue_layer \<Rightarrow> async_options" where
  "queue_options l = (case l of LayerBulkhead b \<Rightarrow> bh_options b | LayerAsync q \<Rightarrow> as_opts q)"

lemma limits_less:
  assumes "validate cfg = None" and "QueueBackpressureEnabled cfg"
  shows "percent (QueueBackpressureSoftLimitPercent cfg)
    < percent (QueueBackpressureHardLimitPercent cfg)"
proof -
  have "validate_backpressure cfg = None" using assms(1) by (simp add: validate_parts)
  from validate_backpressure_sound [OF this assms(2)] show ?thesis by (simp add: percent_less)
qed

lemma factory_options_kept:
  assumes "validate cfg = None" and "QueueBackpressureEnabled cfg"
  shows "ao_backpressure (with_defaults (factory_options cfg opts))
     = ao_backpressure (factory_options cfg opts)"
proof -
  have v: "1 \<le> QueueBackpressureSoftLimitPercent cfg"
      "QueueBackpressureSoftLimitPercent cfg < QueueBackpressureHardLimitPercent cfg"
      "QueueBackpressureHardLimitPercent cfg \<le> 100"
      "1 \<le> QueueFailureBudgetMinSamples cfg"
      "QueueFailureBudgetMinSamples cfg \<le> QueueFailureBudgetWindow cfg"
    using assms validate_backpressure_sound by (simp_all add: validate_parts)
  have b: "1 \<le> QueueFailureBudgetPercent cfg"
    using assms by (auto simp: validate_parts validate_backpressure_def Let_def split: if_splits)
  note less = limits_less [OF assms]
  have pos: "0 < percent (QueueBackpressureSoftLimitPercent cfg)"
      "0 < percent (QueueBackpressureHardLimitPercent cfg)" "0 < percent (QueueFailureBudgetPercent cfg)"
    using v b by (simp_all add: percent_pos)
  show ?thesis
    using less pos v
    by (simp add: with_defaults_def factory_options_def with_default_soft_def with_default_hard_def
        with_default_budget_def Let_def not_le)
qed

text \<open>C2: for a configuration that passes \<open>Validate\<close> the factory builds a publisher (unless the
  Pub/Sub client cannot be created): it never panics, its queue runs with exactly the configured
  limits when backpressure is on, and \<open>Close\<close> drains the queue before the Pub/Sub client behind it is
  closed.\<close>

theorem factory_builds:
  assumes "validate cfg = None" and "pubsub_init = None"
  shows "\<exists>r. build_runtime_publisher pubsub_init cfg opts = Some (Inr r)
    \<and> (QueueBackpressureEnabled cfg \<longrightarrow>
         bp_soft (ao_backpressure (queue_options (rt_queue r)))
           = percent (QueueBackpressureSoftLimitPercent cfg)
         \<and> bp_hard (ao_backpressure (queue_options (rt_queue r)))
           = percent (QueueBackpressureHardLimitPercent cfg)
         \<and> bp_soft (ao_backpressure (queue_options (rt_queue r)))
           < bp_hard (ao_backpressure (queue_options (rt_queue r))))
    \<and> (\<forall>out. ClosePubSub \<in> set (fst (runtime_close out r)) \<longrightarrow>
         fst (runtime_close out r)
           = [if QueueBulkheadEnabled cfg then CloseBulkhead else CloseAsync, ClosePubSub])"
proof -
  have buf: "0 < QueueBuffer cfg"
    using assms validate_server_sound by (simp add: validate_parts)
  obtain q where q: "new_async_publisher (QueueBuffer cfg) (factory_options cfg opts) = Some q"
    using new_async_some [of "QueueBuffer cfg"] buf by fastforce
  have qo: "as_opts q = with_defaults (factory_options cfg opts)"
    using q by (auto simp: new_async_publisher_def Let_def split: if_splits)
  obtain r where r: "build_runtime_publisher pubsub_init cfg opts = Some (Inr r)"
      and ro: "queue_options (rt_queue r) = with_defaults (factory_options cfg opts)"
      and rc: "rt_closers r = (if QueueBackend cfg = ''pubsub'' then [ClosePubSub] else [])
        @ [if QueueBulkheadEnabled cfg then CloseBulkhead else CloseAsync]"
    using assms(2) q qo
    by (cases "QueueBulkheadEnabled cfg")
       (simp_all add: build_runtime_publisher_def queue_options_def new_bulkhead_def Let_def)
  have lim: "bp_soft (ao_backpressure (queue_options (rt_queue r)))
        = percent (QueueBackpressureSoftLimitPercent cfg)
      \<and> bp_hard (ao_backpressure (queue_options (rt_queue r)))
        = percent (QueueBackpressureHardLimitPercent cfg)
      \<and> bp_soft (ao_backpressure (queue_options (rt_queue r)))
        < bp_hard (ao_backpressure (queue_options (rt_queue r)))"
    if on: "QueueBackpressureEnabled cfg"
    using limits_less [OF assms(1) on] factory_options_kept [OF assms(1) on, of opts]
    by (simp add: ro) (simp add: factory_options_def)
  have "fst (runtime_close out r)
      = [if QueueBulkheadEnabled cfg then CloseBulkhead else CloseAsync, ClosePubSub]"
    if "ClosePubSub \<in> set (fst (runtime_close out r))" for out
    using that by (auto simp: runtime_close_def rc split: option.splits prod.splits if_splits)
  with r lim show ?thesis by blast
qed

theorem factory_builds_witness:
  "\<forall>bp hk. \<exists>r. build_runtime_publisher None (default_config\<lparr>RequireSecrets := False\<rparr>)
       \<lparr>ao_backpressure = bp, ao_hooks = hk, ao_workers = 0\<rparr> = Some (Inr r)"
  using factory_builds [OF validate_dev refl] by blast

end
