(* ===== verification/Scrubber.thy ===== *)
theory Scrubber
  imports Json "HOL-Library.AList"
begin

text \<open>
  \<open>StructuralScrubber\<close> of \<open>queue/scrubber.go\<close>, which redacts the values of sensitive keys anywhere
  in a JSON payload. \<open>json.Unmarshal\<close> into an \<open>any\<close> keeps the last value of a repeated key and turns
  each number into a \<open>float64\<close>; \<open>num64\<close> is that conversion followed by the printing of
  \<open>json.Marshal\<close>, \<open>None\<close> for a literal out of range, and \<open>marshal\<close> prints a tree.
\<close>

definition default_sensitive_fields :: "string list" where
  "default_sensitive_fields =
     [''email'', ''password'', ''token'', ''secret'', ''key'', ''authorization'', ''api_key'',
      ''api-key'', ''apikey'', ''access_token'', ''access-token'', ''client_secret'',
      ''client-secret'', ''auth_token'', ''auth-token'', ''private_key'', ''private-key'',
      ''bearer'', ''credential'']"

definition new_structural_scrubber :: "string list \<Rightarrow> string list" where
  "new_structural_scrubber fields = (if fields = [] then default_sensitive_fields else fields)"

definition is_sensitive :: "string list \<Rightarrow> string \<Rightarrow> bool" where
  "is_sensitive fields key \<longleftrightarrow> to_lower key \<in> set fields"

text \<open>The value an object decodes to, with the last binding of each key.\<close>

fun any_value :: "json \<Rightarrow> json" where
  "any_value (JObj kvs) = JObj (AList.clearjunk (rev (map (\<lambda>(k, v). (k, any_value v)) kvs)))"
| "any_value (JArr vs) = JArr (map any_value vs)"
| "any_value JNull = JNull"
| "any_value (JBool b) = JBool b"
| "any_value (JNum n) = JNum n"
| "any_value (JStr s) = JStr s"

fun number_literals :: "json \<Rightarrow> string list" where
  "number_literals (JObj kvs) = concat (map (\<lambda>(k, v). number_literals v) kvs)"
| "number_literals (JArr vs) = concat (map number_literals vs)"
| "number_literals (JNum n) = [n]"
| "number_literals JNull = []"
| "number_literals (JBool b) = []"
| "number_literals (JStr s) = []"

fun convert_numbers :: "(string \<Rightarrow> string option) \<Rightarrow> json \<Rightarrow> json" where
  "convert_numbers num64 (JObj kvs) = JObj (map (\<lambda>(k, v). (k, convert_numbers num64 v)) kvs)"
| "convert_numbers num64 (JArr vs) = JArr (map (convert_numbers num64) vs)"
| "convert_numbers num64 (JNum n) = JNum (the (num64 n))"
| "convert_numbers num64 JNull = JNull"
| "convert_numbers num64 (JBool b) = JBool b"
| "convert_numbers num64 (JStr s) = JStr s"

definition unmarshal_any :: "(string \<Rightarrow> string option) \<Rightarrow> string \<Rightarrow> json option" where
  "unmarshal_any num64 body =
     (case json_parse body of
        None \<Rightarrow> None
      | Some d \<Rightarrow>
          if list_all (\<lambda>n. num64 n \<noteq> None) (number_literals d)
          then Some (convert_numbers num64 (any_value d)) else None)"

definition redacted :: json where "redacted = JStr ''[REDACTED]''"

fun scrub_recursive :: "string list \<Rightarrow> json \<Rightarrow> json" where
  "scrub_recursive fields (JObj kvs) =
     JObj (map (\<lambda>(k, v). (k, if is_sensitive fields k then redacted else scrub_recursive fields v)) kvs)"
| "scrub_recursive fields (JArr vs) = JArr (map (scrub_recursive fields) vs)"
| "scrub_recursive fields JNull = JNull"
| "scrub_recursive fields (JBool b) = JBool b"
| "scrub_recursive fields (JNum n) = JNum n"
| "scrub_recursive fields (JStr s) = JStr s"

definition scrub ::
  "(string \<Rightarrow> string option) \<Rightarrow> (json \<Rightarrow> string) \<Rightarrow> string list \<Rightarrow> string \<Rightarrow> string" where
  "scrub num64 marshal fields body =
     (case unmarshal_any num64 body of
        None \<Rightarrow> body
      | Some doc \<Rightarrow> marshal (scrub_recursive fields doc))"

section \<open>Specification\<close>

text \<open>The bindings of a document at any depth.\<close>

fun bindings :: "json \<Rightarrow> (string \<times> json) list" where
  "bindings (JObj kvs) = kvs @ concat (map (\<lambda>(k, v). bindings v) kvs)"
| "bindings (JArr vs) = concat (map bindings vs)"
| "bindings JNull = []"
| "bindings (JBool b) = []"
| "bindings (JNum n) = []"
| "bindings (JStr s) = []"

text \<open>A step into a document: a key of an object or an index of an array.\<close>

datatype step = Key string | Index nat

fun json_at :: "step list \<Rightarrow> json \<Rightarrow> json option" where
  "json_at [] d = Some d"
| "json_at (Key k # p) (JObj kvs) =
     (case map_of kvs k of None \<Rightarrow> None | Some v \<Rightarrow> json_at p v)"
| "json_at (Index i # p) (JArr vs) = (if i < length vs then json_at p (vs ! i) else None)"
| "json_at (_ # p) _ = None"

fun sensitive_step :: "string list \<Rightarrow> step \<Rightarrow> bool" where
  "sensitive_step fields (Key k) = is_sensitive fields k"
| "sensitive_step fields (Index i) = False"

lemma bindings_redacted [simp]: "bindings redacted = []"
  by (simp add: redacted_def)

lemma scrub_bindings:
  "(k, v) \<in> set (bindings (scrub_recursive fields d)) \<Longrightarrow> is_sensitive fields k \<Longrightarrow> v = redacted"
proof (induction fields d rule: scrub_recursive.induct)
  case (1 fields kvs)
  then show ?case by (fastforce split: if_splits)
next
  case (2 fields vs)
  then show ?case by auto
qed auto

lemma map_of_scrub:
  "map_of (map (\<lambda>(k, v). (k, f k v)) kvs) k = map_option (f k) (map_of kvs k)"
  by (induction kvs) auto

lemma scrub_at:
  "list_all (\<lambda>s. \<not> sensitive_step fields s) p \<Longrightarrow>
     json_at p (scrub_recursive fields d) = map_option (scrub_recursive fields) (json_at p d)"
proof (induction p d rule: json_at.induct)
  case (2 k p kvs)
  then show ?case by (auto simp: map_of_scrub split: option.splits)
next
  case (3 i p vs)
  then show ?case by auto
qed (auto simp: map_of_scrub)

lemma scrub_at_sensitive:
  "list_all (\<lambda>s. \<not> sensitive_step fields s) p \<Longrightarrow> is_sensitive fields k \<Longrightarrow>
     json_at (p @ [Key k]) d \<noteq> None \<Longrightarrow>
     json_at (p @ [Key k]) (scrub_recursive fields d) = Some redacted"
proof (induction p d rule: json_at.induct)
  case (1 d)
  then show ?case by (cases d) (auto simp: map_of_scrub split: option.splits)
next
  case (2 j p kvs)
  then show ?case by (auto simp: map_of_scrub split: option.splits)
next
  case (3 i p vs)
  then show ?case by (auto split: if_splits)
qed auto

text \<open>C1: a scrubbed payload has no value left under a sensitive key, at any depth, whatever the
  case of its letters; a place reached without crossing a sensitive key holds what it held, and one
  reached by a sensitive key holds the marker. A payload that does not decode (not JSON, or with a
  number outside the range of \<open>float64\<close>) is passed on unchanged, secrets included.\<close>

theorem scrub_removes_secrets:
  assumes "list_all (\<lambda>s. \<not> sensitive_step fields s) p" and "is_sensitive fields k"
  shows "case unmarshal_any num64 body of
      None \<Rightarrow> scrub num64 marshal fields body = body
    | Some d \<Rightarrow> (\<exists>t. scrub num64 marshal fields body = marshal t
        \<and> list_all (\<lambda>(k', v). \<not> is_sensitive fields k' \<or> v = redacted) (bindings t)
        \<and> json_at p t = map_option (scrub_recursive fields) (json_at p d)
        \<and> (json_at (p @ [Key k]) d = None \<or> json_at (p @ [Key k]) t = Some redacted))"
proof (cases "unmarshal_any num64 body")
  case (Some d)
  let ?t = "scrub_recursive fields d"
  have "list_all (\<lambda>(k', v). \<not> is_sensitive fields k' \<or> v = redacted) (bindings ?t)"
    using scrub_bindings [of _ _ fields d] by (auto simp: list_all_iff)
  moreover have "json_at (p @ [Key k]) d = None \<or> json_at (p @ [Key k]) ?t = Some redacted"
    using scrub_at_sensitive [OF assms] by blast
  ultimately show ?thesis
    using Some scrub_at [OF assms(1)] by (auto simp: scrub_def)
qed (simp add: scrub_def)

definition secret_body :: string where
  "secret_body = ''{'' @ [CHR 0x22] @ ''Token'' @ [CHR 0x22] @ '':[1,2]}''"

definition overflow_body :: string where
  "overflow_body = ''{'' @ [CHR 0x22] @ ''Token'' @ [CHR 0x22] @ '':7,'' @ [CHR 0x22] @ ''n''
     @ [CHR 0x22] @ '':1e999}''"

definition small_numbers :: "string \<Rightarrow> string option" where
  "small_numbers n = (if length n \<le> 2 then Some n else None)"

lemma secret_body_value:
  "unmarshal_any small_numbers secret_body = Some (JObj [(''Token'', JArr [JNum ''1'', JNum ''2''])])"
  "unmarshal_any small_numbers overflow_body = None" "json_parse overflow_body \<noteq> None"
  "is_sensitive default_sensitive_fields ''Token''"
  by code_simp+

definition tell_tale :: "json \<Rightarrow> string" where
  "tell_tale t = (if json_at [Key ''Token''] t = Some redacted then ''clean'' else ''leak'')"

theorem scrub_removes_secrets_witness:
  "scrub small_numbers tell_tale default_sensitive_fields secret_body = ''clean''"
  using scrub_removes_secrets [of default_sensitive_fields "[]" "''Token''" small_numbers tell_tale
      secret_body] secret_body_value
  by (auto simp: tell_tale_def)

text \<open>C2: one number outside the range of \<open>float64\<close>, anywhere in the document, turns the scrubber
  off for the whole payload.\<close>

theorem scrub_number_bypass:
  assumes "json_parse body = Some d" and "n \<in> set (number_literals d)" and "num64 n = None"
  shows "scrub num64 marshal fields body = body"
proof -
  have "\<not> list_all (\<lambda>n. num64 n \<noteq> None) (number_literals d)"
    using assms(2,3) by (auto simp: list_all_iff)
  with assms(1) show ?thesis by (simp add: scrub_def unmarshal_any_def)
qed

lemma overflow_body_parse:
  "json_parse overflow_body = Some (JObj [(''Token'', JNum ''7''), (''n'', JNum ''1e999'')])"
  by code_simp

theorem scrub_number_bypass_witness:
  "scrub small_numbers tell_tale default_sensitive_fields overflow_body = overflow_body"
  by (rule scrub_number_bypass [OF overflow_body_parse, of "''1e999''"])
     (simp_all add: small_numbers_def)

end
