(* ===== verification/Envelope.thy ===== *)
theory Envelope
  imports Errors Sha256 Publishers
begin

text \<open>
  The durable queue contract (\<open>queue/envelope.go\<close>), the Pub/Sub publisher that emits it
  (\<open>queue/pubsub_publisher.go\<close>) and the replay input parser (\<open>replay/input.go\<close>). The decoding of
  JSON text into a Go struct and its encoding are parameters (\<open>unmarshal\<close>, \<open>marshal\<close>), as is the
  Pub/Sub client (\<open>send\<close>).
\<close>

section \<open>The raw webhook envelope\<close>

definition raw_webhook_schema :: string where "raw_webhook_schema = ''raw-webhook-envelope''"
definition raw_webhook_schema_version :: int where "raw_webhook_schema_version = 1"

record raw_envelope =
  env_source :: string
  env_headers :: headers
  env_body :: string
  env_received_at :: time
  env_schema :: string
  env_schema_value :: int

definition new_raw_envelope :: "string \<Rightarrow> string \<Rightarrow> headers \<Rightarrow> time \<Rightarrow> raw_envelope" where
  "new_raw_envelope source body hdrs received_at =
     \<lparr>env_source = source,
      env_headers = Some (case hdrs of None \<Rightarrow> Map.empty | Some h \<Rightarrow> h),
      env_body = body, env_received_at = received_at, env_schema = raw_webhook_schema,
      env_schema_value = raw_webhook_schema_version\<rparr>"

datatype envelope_error =
    SourceRequired
  | SchemaMismatch string
  | SchemaValueMismatch int
  | ReceivedAtRequired
  | BodyRequired
  | BodyNotJson
  | HeadersRequired
  | EnvelopeDecode goerr

definition validate_envelope :: "raw_envelope \<Rightarrow> envelope_error option" where
  "validate_envelope e =
     (if env_source e = '''' then Some SourceRequired
      else if env_schema e \<noteq> raw_webhook_schema then Some (SchemaMismatch (env_schema e))
      else if env_schema_value e \<noteq> raw_webhook_schema_version
      then Some (SchemaValueMismatch (env_schema_value e))
      else if is_zero_time (env_received_at e) then Some ReceivedAtRequired
      else if env_body e = '''' then Some BodyRequired
      else if \<not> json_valid (env_body e) then Some BodyNotJson
      else if env_headers e = None then Some HeadersRequired
      else None)"

definition decode_raw_envelope ::
  "(string \<Rightarrow> raw_envelope result) \<Rightarrow> string \<Rightarrow> envelope_error + raw_envelope" where
  "decode_raw_envelope unmarshal payload =
     (case unmarshal payload of
        Inl err \<Rightarrow> Inl (EnvelopeDecode (Wrapped ''decode raw webhook envelope: '' err))
      | Inr e \<Rightarrow> (case validate_envelope e of Some err \<Rightarrow> Inl err | None \<Rightarrow> Inr e))"

lemma validate_envelope_None:
  "validate_envelope e = None \<longleftrightarrow>
     env_source e \<noteq> '''' \<and> env_schema e = raw_webhook_schema
     \<and> env_schema_value e = raw_webhook_schema_version \<and> \<not> is_zero_time (env_received_at e)
     \<and> env_body e \<noteq> '''' \<and> json_valid (env_body e) \<and> env_headers e \<noteq> None"
  by (simp add: validate_envelope_def)

lemma json_valid_nonempty: "json_valid s \<Longrightarrow> s \<noteq> ''''"
  by (auto simp: json_valid_def json_parse_def value_fuel_def pval.simps skip_ws_def)

lemma new_raw_envelope_valid:
  "validate_envelope (new_raw_envelope source body hdrs t) = None \<longleftrightarrow>
     source \<noteq> '''' \<and> \<not> is_zero_time t \<and> json_valid body"
  using json_valid_nonempty by (auto simp: validate_envelope_None new_raw_envelope_def)

section \<open>The Pub/Sub publisher\<close>

datatype limit_exceeded_behavior = FlowControlBlock | FlowControlSignalError | FlowControlIgnore

definition pubsub_limit_exceeded_behavior :: "string \<Rightarrow> limit_exceeded_behavior" where
  "pubsub_limit_exceeded_behavior behavior =
     (let b = trim_space (to_lower behavior)
      in if b = ''block'' then FlowControlBlock
         else if b = ''signal_error'' \<or> b = ''signal-error'' \<or> b = ''error'' then FlowControlSignalError
         else FlowControlIgnore)"

text \<open>\<open>None\<close> for a setting the options leave at the client's default.\<close>

record pubsub_publisher =
  ps_timeout :: duration
  ps_goroutines :: "int option"
  ps_max_messages :: "int option"
  ps_max_bytes :: "int option"
  ps_behavior :: "limit_exceeded_behavior option"
  ps_closed :: bool

definition base_pubsub :: pubsub_publisher where
  "base_pubsub = \<lparr>ps_timeout = 5 * second, ps_goroutines = None, ps_max_messages = None,
     ps_max_bytes = None, ps_behavior = None, ps_closed = False\<rparr>"

definition with_publish_timeout :: "duration \<Rightarrow> pubsub_publisher \<Rightarrow> pubsub_publisher" where
  "with_publish_timeout d p = (if d > 0 then p\<lparr>ps_timeout := d\<rparr> else p)"

definition with_publish_goroutines :: "int \<Rightarrow> pubsub_publisher \<Rightarrow> pubsub_publisher" where
  "with_publish_goroutines n p = (if n > 0 then p\<lparr>ps_goroutines := Some n\<rparr> else p)"

definition with_publish_flow_control ::
  "int \<Rightarrow> int \<Rightarrow> string \<Rightarrow> pubsub_publisher \<Rightarrow> pubsub_publisher" where
  "with_publish_flow_control max_messages max_bytes behavior p =
     (let p1 = (if max_messages > 0 then p\<lparr>ps_max_messages := Some max_messages\<rparr> else p);
          p2 = (if max_bytes > 0 then p1\<lparr>ps_max_bytes := Some max_bytes\<rparr> else p1)
      in p2\<lparr>ps_behavior := Some (pubsub_limit_exceeded_behavior behavior)\<rparr>)"

text \<open>\<open>NewPubSubPublisher\<close>: \<open>client\<close>, \<open>topic\<close> and \<open>close\<close> are the errors of creating the client, of looking
  the topic up (with whether its code is \<open>NotFound\<close>) and of closing the client again; \<open>quoted\<close> is the topic
  id in quotes.\<close>

definition new_pubsub_publisher ::
  "goerr option \<Rightarrow> (goerr \<times> bool) option \<Rightarrow> goerr option \<Rightarrow> string
     \<Rightarrow> (pubsub_publisher \<Rightarrow> pubsub_publisher) list \<Rightarrow> pubsub_publisher result" where
  "new_pubsub_publisher client topic close quoted opts =
     (case client of
        Some err \<Rightarrow> Inl (Wrapped ''create pubsub client: '' err)
      | None \<Rightarrow>
          (case topic of
             Some (err, missing) \<Rightarrow>
               (case close of
                  Some cerr \<Rightarrow>
                    Inl (Wrapped ''check topic existence: ''
                          (Suffixed err (''; client close error: '' @ error_text cerr)))
                | None \<Rightarrow>
                    if missing then Inl (ErrText (''pubsub topic '' @ quoted @ '' does not exist''))
                    else Inl (Wrapped ''check topic existence: '' err))
           | None \<Rightarrow> Inr (foldl (\<lambda>p opt. opt p) base_pubsub opts)))"

record pubsub_message =
  pm_data :: string
  pm_attributes :: "string \<rightharpoonup> string"

definition header_value :: "headers \<Rightarrow> string \<Rightarrow> string" where
  "header_value hdrs key = (case hdrs of None \<Rightarrow> '''' | Some h \<Rightarrow> get_str h key)"

definition pubsub_attributes :: "raw_envelope \<Rightarrow> headers \<Rightarrow> (string \<rightharpoonup> string)" where
  "pubsub_attributes e hdrs =
     (let a = [''source'' \<mapsto> env_source e, ''schema'' \<mapsto> env_schema e,
               ''schema_version'' \<mapsto> itoa (env_schema_value e)];
          tp = header_value hdrs ''Traceparent'';
          a1 = (if tp \<noteq> '''' then a(''traceparent'' \<mapsto> tp) else a);
          rid = header_value hdrs ''X-Request-Id''
      in if rid \<noteq> '''' then a1(''x-request-id'' \<mapsto> rid) else a1)"

definition publish_timeout :: "time \<Rightarrow> time option \<Rightarrow> pubsub_publisher \<Rightarrow> duration" where
  "publish_timeout now deadline p =
     (let timeout = (if ps_timeout p \<le> 0 then 5 * second else ps_timeout p)
      in (case deadline of
            None \<Rightarrow> timeout
          | Some d \<Rightarrow> if time_sub d now < timeout then time_sub d now else timeout))"

definition pubsub_publish ::
  "(raw_envelope \<Rightarrow> string result) \<Rightarrow> (duration \<Rightarrow> pubsub_message \<Rightarrow> goerr option)
     \<Rightarrow> time \<Rightarrow> time option \<Rightarrow> pubsub_publisher \<Rightarrow> string \<Rightarrow> string \<Rightarrow> headers \<Rightarrow> goerr option" where
  "pubsub_publish marshal send now deadline p source body hdrs =
     (let e = new_raw_envelope source body hdrs now
      in (case marshal e of
            Inl err \<Rightarrow> Some (Wrapped ''marshal pubsub payload: '' err)
          | Inr payload \<Rightarrow>
              wrap_error ''pubsub publish: ''
                (send (publish_timeout now deadline p)
                   \<lparr>pm_data = payload, pm_attributes = pubsub_attributes e hdrs\<rparr>)))"

definition pubsub_close :: "goerr option \<Rightarrow> pubsub_publisher \<Rightarrow> goerr option \<times> pubsub_publisher" where
  "pubsub_close client_close p =
     (if ps_closed p then (None, p)
      else (wrap_error ''close pubsub client: '' client_close, p\<lparr>ps_closed := True\<rparr>))"

definition pubsub_health :: "goerr option \<Rightarrow> goerr option" where
  "pubsub_health get_topic = wrap_error ''pubsub health check failed: '' get_topic"

lemma publish_timeout_bounds:
  "publish_timeout now None p = (if ps_timeout p \<le> 0 then 5 * second else ps_timeout p)"
  "publish_timeout now (Some d) p \<le> time_sub d now"
  "publish_timeout now dl p \<le> publish_timeout now None p"
  by (auto simp: publish_timeout_def Let_def split: option.splits)

section \<open>Replay input\<close>

record replay_event =
  re_source :: string
  re_headers :: "string \<rightharpoonup> string"
  re_body :: string

record envelope_file =
  ef_source :: string
  ef_headers :: headers
  ef_body :: string

text \<open>\<open>Some\<close> for a wrapped envelope, \<open>None\<close> for a raw payload.\<close>

definition parse_wrapped_envelope ::
  "(string \<Rightarrow> envelope_file result) \<Rightarrow> string \<Rightarrow> envelope_file option result" where
  "parse_wrapped_envelope unmarshal payload =
     (case unmarshal payload of
        Inl err \<Rightarrow>
          if \<not> json_valid payload then Inl (Wrapped ''invalid JSON payload: '' err) else Inr None
      | Inr f \<Rightarrow>
          if trim_space (ef_source f) = '''' \<or> trim_space (ef_body f) = '''' then Inr None
          else Inr (Some f))"

text \<open>The header overrides, a map, in the order it is ranged over.\<close>

fun override_headers ::
  "(string \<times> string) list \<Rightarrow> (string \<rightharpoonup> string) \<Rightarrow> (string \<rightharpoonup> string) option" where
  "override_headers [] h = Some h"
| "override_headers ((k, v) # kvs) h =
     (let key = trim_space k
      in if key = '''' then None else override_headers kvs (h(key \<mapsto> v)))"

definition finish_replay_event ::
  "(string \<times> string) list \<Rightarrow> string \<Rightarrow> headers \<Rightarrow> string \<Rightarrow> replay_event result" where
  "finish_replay_event overrides source hdrs body =
     (case override_headers overrides (case hdrs of None \<Rightarrow> Map.empty | Some h \<Rightarrow> h) of
        None \<Rightarrow> Inl (ErrText ''header key must not be empty'')
      | Some h \<Rightarrow>
          (let src = trim_space source
           in if src = '''' then Inl (ErrText ''source must not be empty'')
              else if \<not> json_valid body then Inl (ErrText ''event body must be valid JSON'')
              else Inr \<lparr>re_source = src, re_headers = h, re_body = body\<rparr>))"

definition parse_input ::
  "(string \<Rightarrow> envelope_file result) \<Rightarrow> string \<Rightarrow> string \<Rightarrow> (string \<times> string) list
     \<Rightarrow> replay_event result" where
  "parse_input unmarshal raw source_override overrides =
     (let payload = trim_space raw; source = trim_space source_override
      in if payload = '''' then Inl (ErrText ''input payload is empty'')
         else (case parse_wrapped_envelope unmarshal payload of
                 Inl err \<Rightarrow> Inl err
               | Inr (Some f) \<Rightarrow> finish_replay_event overrides (ef_source f) (ef_headers f) (ef_body f)
               | Inr None \<Rightarrow>
                   if source = ''''
                   then Inl (ErrText ''source is required for raw payload replay (use -source)'')
                   else if \<not> json_valid payload
                   then Inl (ErrText ''raw payload must be valid JSON'')
                   else finish_replay_event overrides source None payload))"

lemma finish_replay_event_sound:
  "finish_replay_event ovs src hdrs body = Inr ev \<Longrightarrow>
     re_source ev = trim_space src \<and> re_source ev \<noteq> '''' \<and> re_body ev = body \<and> json_valid body
     \<and> Some (re_headers ev) = override_headers ovs (case hdrs of None \<Rightarrow> Map.empty | Some h \<Rightarrow> h)"
  by (auto simp: finish_replay_event_def Let_def split: option.splits if_splits)

definition override_names :: "(string \<times> string) list \<Rightarrow> string set" where
  "override_names ovs = set (map (\<lambda>(k, v). trim_space k) ovs)"

lemma override_headers_keys:
  "override_headers ovs h = Some h' \<Longrightarrow>
     dom h' = dom h \<union> override_names ovs \<and> '''' \<notin> override_names ovs"
proof (induction ovs h rule: override_headers.induct)
  case (2 k v kvs h)
  then have ne: "trim_space k \<noteq> []" and eq: "override_headers kvs (h(trim_space k \<mapsto> v)) = Some h'"
    by (simp_all add: Let_def split: if_splits)
  from 2(1) [OF refl ne eq] ne show ?case by (auto simp: override_names_def dom_if)
qed (simp add: override_names_def)

text \<open>What the replay parser accepts: the body is valid JSON, the source is not empty, every
  override has a name and is set; a raw payload is replayed as it is, under the source the caller
  gave, and an envelope under its own source.\<close>

theorem parse_input_sound:
  assumes "parse_input unmarshal raw source ovs = Inr ev"
  shows "re_source ev \<noteq> '''' \<and> json_valid (re_body ev)
    \<and> override_names ovs \<subseteq> dom (re_headers ev) \<and> '''' \<notin> override_names ovs
    \<and> ((\<exists>f. unmarshal (trim_space raw) = Inr f \<and> re_body ev = ef_body f
            \<and> re_source ev = trim_space (ef_source f))
       \<or> re_body ev = trim_space raw \<and> re_source ev = trim_space (trim_space source))"
proof -
  obtain src hdrs body where f: "finish_replay_event ovs src hdrs body = Inr ev"
      and o: "(\<exists>f. unmarshal (trim_space raw) = Inr f \<and> body = ef_body f \<and> src = ef_source f)
        \<or> body = trim_space raw \<and> src = trim_space source"
    using assms
    by (auto simp: parse_input_def parse_wrapped_envelope_def Let_def
        split: if_splits sum.splits option.splits)
  note s = finish_replay_event_sound [OF f]
  from s have "dom (re_headers ev) = dom (case hdrs of None \<Rightarrow> Map.empty | Some h \<Rightarrow> h) \<union> override_names ovs
      \<and> '''' \<notin> override_names ovs"
    by (intro override_headers_keys) simp
  with s o show ?thesis by auto
qed

definition no_envelope :: "string \<Rightarrow> envelope_file result" where
  "no_envelope s = Inl (ErrText ''json: cannot unmarshal'')"

lemma parse_input_example:
  "parse_input no_envelope '' [1, 2] '' ''github'' [(''X-Request-Id'', ''r1'')]
     = Inr \<lparr>re_source = ''github'', re_headers = [''X-Request-Id'' \<mapsto> ''r1''], re_body = ''[1, 2]''\<rparr>"
proof -
  have "trim_space '' [1, 2] '' = ''[1, 2]''" "trim_space ''github'' = ''github''"
    "trim_space ''X-Request-Id'' = ''X-Request-Id''" "json_valid ''[1, 2]''"
    by code_simp+
  then show ?thesis
    by (simp add: parse_input_def parse_wrapped_envelope_def finish_replay_event_def
        no_envelope_def)
qed

theorem parse_input_sound_witness:
  "json_valid ''[1, 2]'' \<and> ''X-Request-Id'' \<in> dom [''X-Request-Id'' \<mapsto> ''r1'']"
  using parse_input_sound [OF parse_input_example] by simp

end
