(* ===== verification/Event_Store.thy ===== *)
theory Event_Store
  imports Envelope
begin

text \<open>
  Package \<open>eventstore\<close>: the record built from a queue envelope (\<open>record.go\<close>), the Postgres store
  (\<open>postgres_store.go\<close>) and the Pub/Sub consumer (\<open>consumer.go\<close>). The table is a list of rows and
  the \<open>INSERT\<close> statement a function on it; whether the database fails, and its clock, are arguments.
\<close>

record save_input =
  si_message_id :: string
  si_envelope :: raw_envelope
  si_published_at :: time
  si_delivery_attempt :: "int option"

record event_record =
  er_message_id :: string
  er_source :: string
  er_provider_event_id :: string
  er_schema :: string
  er_schema_value :: int
  er_received_at :: time
  er_published_at :: time
  er_delivery_attempt :: "int option"
  er_headers_json :: string
  er_body_json :: string
  er_body_hash :: string

datatype record_error =
    MessageIDRequired
  | InvalidEnvelope envelope_error
  | HeadersMarshal goerr

definition provider_candidates :: "string list" where
  "provider_candidates =
     [''X-GitHub-Delivery'', ''X-Gitlab-Event-UUID'', ''X-GitLab-Event-UUID'', ''X-Slack-Retry-Num'',
      ''X-Request-Id'', ''X-Request-ID'']"

fun first_header :: "string list \<Rightarrow> (string \<rightharpoonup> string) \<Rightarrow> string" where
  "first_header [] h = ''''"
| "first_header (k # ks) h =
     (let v = trim_space (get_str h k) in if v \<noteq> '''' then v else first_header ks h)"

definition provider_event_id :: "(string \<rightharpoonup> string) \<Rightarrow> string" where
  "provider_event_id h = first_header provider_candidates h"

text \<open>\<open>marshal_headers\<close> is \<open>json.Marshal\<close> on the header map.\<close>

definition build_record ::
  "((string \<rightharpoonup> string) \<Rightarrow> string result) \<Rightarrow> save_input \<Rightarrow> record_error + event_record" where
  "build_record marshal_headers inp =
     (let mid = trim_space (si_message_id inp); e = si_envelope inp
      in if mid = '''' then Inl MessageIDRequired
         else (case validate_envelope e of
                 Some err \<Rightarrow> Inl (InvalidEnvelope err)
               | None \<Rightarrow>
                   (let h = (case env_headers e of None \<Rightarrow> Map.empty | Some m \<Rightarrow> m)
                    in (case marshal_headers h of
                          Inl err \<Rightarrow> Inl (HeadersMarshal (Wrapped ''marshal event headers: '' err))
                        | Inr hj \<Rightarrow>
                            Inr \<lparr>er_message_id = mid, er_source = env_source e,
                              er_provider_event_id = provider_event_id h,
                              er_schema = env_schema e, er_schema_value = env_schema_value e,
                              er_received_at = env_received_at e,
                              er_published_at = si_published_at inp,
                              er_delivery_attempt = si_delivery_attempt inp,
                              er_headers_json = hj, er_body_json = env_body e,
                              er_body_hash = hex_encode (sha256 (env_body e))\<rparr>))))"

section \<open>The table\<close>

record stored_event =
  se_id :: int
  se_record :: event_record
  se_published :: "time option"
  se_stored_at :: time

record event_table =
  et_rows :: "stored_event list"
  et_next_id :: int

definition empty_table :: event_table where
  "empty_table = \<lparr>et_rows = [], et_next_id = 1\<rparr>"

definition find_row :: "string \<Rightarrow> event_table \<Rightarrow> stored_event option" where
  "find_row mid tb = find (\<lambda>r. er_message_id (se_record r) = mid) (et_rows tb)"

text \<open>
  \<open>INSERT ... ON CONFLICT (message_id) DO UPDATE SET message_id = EXCLUDED.message_id RETURNING ...\<close>:
  the row with that message id as it is, or a new row. A zero \<open>PublishedAt\<close> is stored as \<open>NULL\<close>.
\<close>

definition insert_event :: "time \<Rightarrow> event_record \<Rightarrow> event_table \<Rightarrow> stored_event \<times> event_table" where
  "insert_event now r tb =
     (case find_row (er_message_id r) tb of
        Some row \<Rightarrow> (row, tb)
      | None \<Rightarrow>
          (let row = \<lparr>se_id = et_next_id tb, se_record = r,
                      se_published = (if is_zero_time (er_published_at r) then None
                                      else Some (er_published_at r)),
                      se_stored_at = now\<rparr>
           in (row, tb\<lparr>et_rows := et_rows tb @ [row], et_next_id := et_next_id tb + 1\<rparr>)))"

datatype save_error = SaveRecord record_error | SaveDatabase goerr

definition pg_save_event ::
  "((string \<rightharpoonup> string) \<Rightarrow> string result) \<Rightarrow> time \<Rightarrow> goerr option \<Rightarrow> save_input \<Rightarrow> event_table
     \<Rightarrow> (save_error + stored_event) \<times> event_table" where
  "pg_save_event marshal_headers now db_error inp tb =
     (case build_record marshal_headers inp of
        Inl err \<Rightarrow> (Inl (SaveRecord err), tb)
      | Inr r \<Rightarrow>
          (case db_error of
             Some err \<Rightarrow> (Inl (SaveDatabase (Wrapped ''save webhook event: '' err)), tb)
           | None \<Rightarrow> (case insert_event now r tb of (row, tb') \<Rightarrow> (Inr row, tb'))))"

section \<open>The consumer\<close>

record pubsub_delivery =
  pd_id :: string
  pd_data :: string
  pd_publish_time :: time
  pd_attempt :: "int option"

datatype ack = Ack | Nack

definition handle_message ::
  "(string \<Rightarrow> raw_envelope result) \<Rightarrow> (save_input \<Rightarrow> 'st \<Rightarrow> ('e + 'v) \<times> 'st) \<Rightarrow> pubsub_delivery
     \<Rightarrow> 'st \<Rightarrow> ack \<times> 'st" where
  "handle_message unmarshal save msg st =
     (case decode_raw_envelope unmarshal (pd_data msg) of
        Inl err \<Rightarrow> (Ack, st)
      | Inr e \<Rightarrow>
          (case save \<lparr>si_message_id = pd_id msg, si_envelope = e, si_published_at = pd_publish_time msg,
                      si_delivery_attempt = pd_attempt msg\<rparr> st of
             (Inl err, st') \<Rightarrow> (Nack, st')
           | (Inr ev, st') \<Rightarrow> (Ack, st')))"

definition table_ok :: "event_table \<Rightarrow> bool" where
  "table_ok tb \<longleftrightarrow>
     distinct (map (\<lambda>r. er_message_id (se_record r)) (et_rows tb))
     \<and> list_all (\<lambda>r. se_id r < et_next_id tb) (et_rows tb) \<and> distinct (map se_id (et_rows tb))"

lemma table_ok_empty: "table_ok empty_table"
  by (simp add: table_ok_def empty_table_def)

lemma find_row_Some: "find_row mid tb = Some row \<Longrightarrow> row \<in> set (et_rows tb) \<and> er_message_id (se_record row) = mid"
  by (auto simp: find_row_def find_Some_iff)

lemma find_row_None: "find_row mid tb = None \<longleftrightarrow> mid \<notin> (\<lambda>r. er_message_id (se_record r)) ` set (et_rows tb)"
  by (auto simp: find_row_def find_None_iff)

lemma insert_event_ok: "table_ok tb \<Longrightarrow> table_ok (snd (insert_event now r tb))"
  by (auto simp: insert_event_def table_ok_def find_row_None list_all_iff Let_def
      split: option.splits)

lemma insert_event_found:
  "find_row (er_message_id r) (snd (insert_event now r tb)) = Some (fst (insert_event now r tb))"
proof (cases "find_row (er_message_id r) tb")
  case None
  then show ?thesis
    by (simp add: insert_event_def Let_def find_row_def find_app)
qed (simp add: insert_event_def)

lemma insert_event_keeps:
  "find_row mid tb = Some row \<Longrightarrow> find_row mid (snd (insert_event now r tb)) = Some row"
  by (auto simp: insert_event_def Let_def find_row_def find_app split: option.splits)

lemma pg_save_event_ok: "table_ok tb \<Longrightarrow> table_ok (snd (pg_save_event mh now err inp tb))"
  using insert_event_ok [of tb now]
  by (auto simp: pg_save_event_def split: sum.splits option.splits prod.splits) (metis snd_conv)

lemma build_record_id: "build_record mh inp = Inr r \<Longrightarrow> er_message_id r = trim_space (si_message_id inp)"
  by (auto simp: build_record_def Let_def split: if_splits option.splits sum.splits)

text \<open>C32: storing is idempotent: a delivery that was stored once answers with the same row at every
  later attempt, whatever its clock, payload or delivery attempt, and leaves the table as it is; a
  row is never overwritten by another message; and no message id is ever stored twice.\<close>

theorem event_store_idempotent:
  assumes "table_ok tb" and "pg_save_event mh now None inp tb = (Inr row, tb1)"
    and "trim_space (si_message_id inp2) = trim_space (si_message_id inp)"
    and "build_record mh inp2 = Inr r2"
  shows "pg_save_event mh now2 None inp2 tb1 = (Inr row, tb1) \<and> table_ok tb1
    \<and> set (et_rows tb) \<subseteq> set (et_rows tb1)"
proof -
  from assms(2) obtain r where r: "build_record mh inp = Inr r" "insert_event now r tb = (row, tb1)"
    by (auto simp: pg_save_event_def split: sum.splits prod.splits)
  have id: "er_message_id r2 = er_message_id r"
    using build_record_id [OF r(1)] build_record_id [OF assms(4)] assms(3) by simp
  have "find_row (er_message_id r2) tb1 = Some row"
    using insert_event_found [of r now tb] r(2) id by simp
  then have "insert_event now2 r2 tb1 = (row, tb1)" by (simp add: insert_event_def)
  moreover have "table_ok tb1" using insert_event_ok [OF assms(1), of now r] r(2) by simp
  moreover have "set (et_rows tb) \<subseteq> set (et_rows tb1)"
    using r(2) by (auto simp: insert_event_def Let_def split: option.splits)
  ultimately show ?thesis by (simp add: pg_save_event_def assms(4))
qed

definition demo_input :: save_input where
  "demo_input = \<lparr>si_message_id = '' m1 '',
     si_envelope = new_raw_envelope ''github'' ''{}'' None 5, si_published_at = 7,
     si_delivery_attempt = None\<rparr>"

definition plain_headers :: "(string \<rightharpoonup> string) \<Rightarrow> string result" where
  "plain_headers h = Inr ''{}''"

lemma demo_record:
  "\<exists>r. build_record plain_headers demo_input = Inr r \<and> er_message_id r = ''m1''"
proof -
  have "trim_space '' m1 '' = ''m1''" "json_valid ''{}''" "\<not> is_zero_time 5"
    by code_simp+
  then have "validate_envelope (si_envelope demo_input) = None"
    by (simp add: demo_input_def new_raw_envelope_valid)
  then show ?thesis
    using \<open>trim_space '' m1 '' = ''m1''\<close>
    by (simp add: build_record_def plain_headers_def Let_def) (simp add: demo_input_def)
qed

theorem event_store_idempotent_witness:
  "\<exists>row tb1. pg_save_event plain_headers 10 None demo_input empty_table = (Inr row, tb1)
     \<and> pg_save_event plain_headers 99 None demo_input tb1 = (Inr row, tb1)"
proof -
  obtain r where r: "build_record plain_headers demo_input = Inr r" using demo_record by blast
  obtain row tb1 where s: "pg_save_event plain_headers 10 None demo_input empty_table = (Inr row, tb1)"
    using r by (cases "insert_event 10 r empty_table") (simp add: pg_save_event_def)
  from event_store_idempotent [OF table_ok_empty s refl r, of 99] s show ?thesis by blast
qed

text \<open>C33: the consumer loses no event: a message is acknowledged only when its payload is not a valid
  envelope, which can never be stored, or when the table holds a row for it; when the database
  fails, a valid message is left for redelivery.\<close>

theorem consumer_acks_stored:
  assumes "handle_message unmarshal (pg_save_event mh now db_error) msg tb = (ans, tb1)"
    and "decode_raw_envelope unmarshal (pd_data msg) = Inr e"
  shows "(ans = Ack \<longrightarrow> find_row (trim_space (pd_id msg)) tb1 \<noteq> None)
    \<and> (db_error \<noteq> None \<longrightarrow> ans = Nack \<and> tb1 = tb)"
proof -
  let ?in = "\<lparr>si_message_id = pd_id msg, si_envelope = e, si_published_at = pd_publish_time msg,
      si_delivery_attempt = pd_attempt msg\<rparr>"
  show ?thesis
  proof (cases "build_record mh ?in")
    case (Inl err)
    with assms show ?thesis by (auto simp: handle_message_def pg_save_event_def)
  next
    case (Inr r)
    have id: "er_message_id r = trim_space (pd_id msg)" using build_record_id [OF Inr] by simp
    show ?thesis
    proof (cases db_error)
      case None
      have "find_row (er_message_id r) (snd (insert_event now r tb)) \<noteq> None"
        by (simp add: insert_event_found)
      with assms Inr None id show ?thesis
        by (auto simp: handle_message_def pg_save_event_def split: prod.splits)
    next
      case (Some err)
      with assms Inr show ?thesis by (auto simp: handle_message_def pg_save_event_def)
    qed
  qed
qed

definition demo_delivery :: pubsub_delivery where
  "demo_delivery = \<lparr>pd_id = '' m1 '', pd_data = ''payload'', pd_publish_time = 7, pd_attempt = None\<rparr>"

definition demo_unmarshal :: "string \<Rightarrow> raw_envelope result" where
  "demo_unmarshal s = Inr (new_raw_envelope ''github'' ''{}'' None 5)"

theorem consumer_acks_stored_witness:
  "fst (handle_message demo_unmarshal (pg_save_event plain_headers 10 (Some (ErrText ''down'')))
     demo_delivery empty_table) = Nack"
proof -
  have "json_valid ''{}''" "\<not> is_zero_time 5" by code_simp+
  then have "decode_raw_envelope demo_unmarshal (pd_data demo_delivery)
      = Inr (new_raw_envelope ''github'' ''{}'' None 5)"
    using new_raw_envelope_valid [of "''github''" "''{}''" None 5]
    by (simp add: decode_raw_envelope_def demo_unmarshal_def)
  from consumer_acks_stored [OF prod.collapse [symmetric] this] show ?thesis by blast
qed

end
