(* ===== verification/Health.thy ===== *)
theory Health
  imports Http Fail_Store_Pg Async_Safety
begin

text \<open>
  The probes \<open>/healthz\<close> and \<open>/readyz\<close> (\<open>handlers/health.go\<close>). The checks of the collaborators are
  functions of the request and the state of the process: \<open>None\<close> stands for a collaborator that is not
  there. Latencies and the up time are arguments.
\<close>

section \<open>The checker\<close>

record 'st health_checker =
  hc_publisher :: "(request \<Rightarrow> 'st \<Rightarrow> goerr option) option"
  hc_store :: "(request \<Rightarrow> int \<Rightarrow> 'st \<Rightarrow> failed_event list result) option"
  hc_dedup :: bool
  hc_redis :: "(request \<Rightarrow> 'st \<Rightarrow> goerr option) option"
  hc_uptime :: "request \<Rightarrow> string"
  hc_latency :: "request \<Rightarrow> string \<Rightarrow> string option"

record component_health =
  co_status :: string
  co_latency :: "string option"
  co_error :: string

definition disabled :: component_health where
  "disabled = \<lparr>co_status = ''disabled'', co_latency = None, co_error = ''''\<rparr>"

text \<open>The outcome of a check that is timed; a latency of zero is omitted, like an empty error.\<close>

definition timed :: "string option \<Rightarrow> goerr option \<Rightarrow> component_health" where
  "timed latency err =
     (case err of
        Some e \<Rightarrow> \<lparr>co_status = ''error'', co_latency = latency, co_error = error_text e\<rparr>
      | None \<Rightarrow> \<lparr>co_status = ''ok'', co_latency = latency, co_error = ''''\<rparr>)"

definition component_json :: "component_health \<Rightarrow> json" where
  "component_json c =
     JObj ([(''status'', JStr (co_status c))] @
       (case co_latency c of None \<Rightarrow> [] | Some l \<Rightarrow> [(''latency_ms'', JNum l)]) @
       (if co_error c = '''' then [] else [(''error'', JStr (co_error c))]))"

definition with_timeout :: "duration \<Rightarrow> request \<Rightarrow> request" where
  "with_timeout d r =
     (let t = dr_now (rq_draws r) + d
      in r\<lparr>rq_deadline := Some (case rq_deadline r of None \<Rightarrow> t | Some e \<Rightarrow> min e t)\<rparr>)"

definition check_queue :: "'st health_checker \<Rightarrow> request \<Rightarrow> 'st \<Rightarrow> component_health" where
  "check_queue h r st =
     (case hc_publisher h of
        None \<Rightarrow> \<lparr>co_status = ''disabled'', co_latency = None, co_error = ''publisher not configured''\<rparr>
      | Some check \<Rightarrow> timed (hc_latency h r ''queue'') (check (with_timeout second r) st))"

definition check_fail_store ::
  "(request \<Rightarrow> int \<Rightarrow> 'st \<Rightarrow> failed_event list result) \<Rightarrow> request \<Rightarrow> 'st \<Rightarrow> component_health" where
  "check_fail_store list_recent r st =
     timed None (case list_recent (with_timeout second r) 1 st of Inl e \<Rightarrow> Some e | Inr es \<Rightarrow> None)"

definition check_redis :: "'st health_checker \<Rightarrow> request \<Rightarrow> 'st \<Rightarrow> component_health" where
  "check_redis h r st =
     (case hc_redis h of
        None \<Rightarrow> disabled
      | Some ping \<Rightarrow> timed (hc_latency h r ''redis'') (ping (with_timeout second r) st))"

text \<open>The components in the order of the code, each with whether it degrades the whole when it is not
  \<open>ok\<close>.\<close>

definition health_components ::
  "'st health_checker \<Rightarrow> request \<Rightarrow> 'st \<Rightarrow> (string \<times> component_health \<times> bool) list" where
  "health_components h r st =
     [(''queue'', check_queue h r st, True),
      (case hc_store h of
         None \<Rightarrow> (''fail_store'', disabled, False)
       | Some l \<Rightarrow> (''fail_store'', check_fail_store l r st, True)),
      (''dedup'', if hc_dedup h then timed None None else disabled, False),
      (''redis'', check_redis h r st, hc_redis h \<noteq> None)]"

definition degraded :: "'st health_checker \<Rightarrow> request \<Rightarrow> 'st \<Rightarrow> bool" where
  "degraded h r st \<longleftrightarrow> list_ex (\<lambda>(n, c, counts). counts \<and> co_status c \<noteq> ''ok'') (health_components h r st)"

definition healthz :: "'st health_checker \<Rightarrow> 'st handler" where
  "healthz h r ws =
     (case ws of (w, st) \<Rightarrow>
        (let d = degraded h r st
         in (Returned, write_json (if d then 503 else 200)
               [''status'' \<mapsto> JStr (if d then ''degraded'' else ''healthy''),
                ''uptime_sec'' \<mapsto> JNum (hc_uptime h r),
                ''components'' \<mapsto> JObj (map (\<lambda>(n, c, b). (n, component_json c)) (health_components h r st))] w,
             st)))"

definition write_readyz_error :: "string \<Rightarrow> writer \<Rightarrow> writer" where
  "write_readyz_error msg w = write_json 503 [''status'' \<mapsto> JStr ''not_ready'', ''error'' \<mapsto> JStr msg] w"

definition readyz :: "'st health_checker \<Rightarrow> 'st handler" where
  "readyz h r ws =
     (case ws of (w, st) \<Rightarrow>
        (let r2 = with_timeout (2 * second) r
         in (case hc_publisher h of
               None \<Rightarrow> (Returned, write_readyz_error ''publisher not configured'' w, st)
             | Some check \<Rightarrow>
                 (case check r2 st of
                    Some e \<Rightarrow>
                      (Returned, write_readyz_error (''queue health check failed: '' @ error_text e) w, st)
                  | None \<Rightarrow>
                      (case (case hc_redis h of None \<Rightarrow> None | Some ping \<Rightarrow> ping r2 st) of
                         Some e \<Rightarrow>
                           (Returned, write_readyz_error (''redis health check failed: '' @ error_text e) w, st)
                       | None \<Rightarrow> (Returned, write_json 200 [''status'' \<mapsto> JStr ''ready''] w, st))))))"

section \<open>What the probes say\<close>

lemma timed_ok [simp]: "co_status (timed l e) = ''ok'' \<longleftrightarrow> e = None"
  by (cases e) (simp_all add: timed_def)

lemma degraded_iff:
  "\<not> degraded h r st \<longleftrightarrow>
     (\<exists>check. hc_publisher h = Some check \<and> check (with_timeout second r) st = None)
     \<and> (\<forall>l. hc_store h = Some l \<longrightarrow> \<not> is_err (l (with_timeout second r) 1 st))
     \<and> (\<forall>ping. hc_redis h = Some ping \<longrightarrow> ping (with_timeout second r) st = None)"
  by (auto simp: degraded_def health_components_def check_queue_def check_fail_store_def check_redis_def
      is_err_def split: option.splits sum.splits)

lemma json_status: "w_status w = None \<Longrightarrow> w_status (write_json n p w) = Some n"
  by (simp add: write_json_def write_body_def write_header_def set_header_def)

text \<open>The probes answer 200 exactly when what they check is there and well; they change nothing.
  Readiness does not ask the failed-event store.\<close>

theorem probes_spec:
  assumes "w_status w = None"
  shows "(\<exists>w'. healthz h r (w, st) = (Returned, w', st)
      \<and> w_status w' = Some (if (\<exists>c. hc_publisher h = Some c \<and> c (with_timeout second r) st = None)
          \<and> (\<forall>l. hc_store h = Some l \<longrightarrow> \<not> is_err (l (with_timeout second r) 1 st))
          \<and> (\<forall>p. hc_redis h = Some p \<longrightarrow> p (with_timeout second r) st = None) then 200 else 503))
    \<and> (\<exists>w'. readyz h r (w, st) = (Returned, w', st)
      \<and> w_status w' = Some (if (\<exists>c. hc_publisher h = Some c \<and> c (with_timeout (2 * second) r) st = None)
          \<and> (\<forall>p. hc_redis h = Some p \<longrightarrow> p (with_timeout (2 * second) r) st = None) then 200 else 503))"
  using assms degraded_iff [of h r st]
  by (auto simp: healthz_def readyz_def write_readyz_error_def json_status Let_def split: option.splits)

section \<open>What the probes do not see\<close>

text \<open>The checker on the asynchronous publisher and the failed-event store in Postgres behind its
  breaker.\<close>

definition store_checker :: "(async_state \<times> circuit_breaker \<times> pg_table) health_checker" where
  "store_checker =
     \<lparr>hc_publisher = Some (\<lambda>r st. async_health (fst st)),
      hc_store = Some (\<lambda>r n st. cbs_list_recent (pg_list_recent None n (snd (snd st)))),
      hc_dedup = True, hc_redis = None, hc_uptime = (\<lambda>r. ''0''), hc_latency = (\<lambda>r n. None)\<rparr>"

text \<open>The listing goes past the breaker: while the breaker is open and every dead letter is refused, the
  process calls itself healthy.\<close>

theorem health_misses_open_breaker:
  assumes "async_health p = None" and "\<not> fst (allow t1 cb)" and "w_status w = None"
  shows "(\<exists>w'. healthz store_checker r (w, p, cb, tb) = (Returned, w', p, cb, tb) \<and> w_status w' = Some 200)
    \<and> is_err (fst (cbs_save t1 t2 op (cb, tb))) \<and> snd (snd (cbs_save t1 t2 op (cb, tb))) = tb"
proof -
  have "\<not> degraded store_checker r (p, cb, tb)"
    using assms(1) by (simp add: degraded_iff store_checker_def pg_list_recent_def cbs_list_recent_def)
  moreover have "is_err (fst (cbs_save t1 t2 op (cb, tb))) \<and> snd (snd (cbs_save t1 t2 op (cb, tb))) = tb"
    using assms(2) by (cases "allow t1 cb") (simp add: cbs_save_def guarded_def cb_execute_def)
  ultimately show ?thesis using assms(3) by (simp add: healthz_def json_status)
qed

lemma demo_healthy: "async_health (wd_pub demo_world) = None"
  by (simp add: demo_defs async_health_def async_snapshot_def make_snapshot_def Let_def clamp_ratio_def f_div_def
      failure_ratio_def new_publish_window_def)

definition open_breaker :: circuit_breaker where
  "open_breaker = (new_circuit_breaker 5 30)\<lparr>cb_state := ''open'', last_failure := 0\<rparr>"

definition probe :: request where
  "probe = undefined\<lparr>rq_method := ''GET'', rq_path := ''/healthz''\<rparr>"

theorem probes_spec_witness:
  "\<exists>w'. healthz store_checker probe (new_writer, wd_pub demo_world, open_breaker, []) = (Returned, w',
      wd_pub demo_world, open_breaker, []) \<and> w_status w' = Some 200"
  using probes_spec [of new_writer store_checker probe "(wd_pub demo_world, open_breaker, [])"] demo_healthy
  by (auto simp: new_writer_def store_checker_def cbs_list_recent_def pg_list_recent_def)

theorem health_misses_open_breaker_witness:
  "\<exists>w'. healthz store_checker probe (new_writer, wd_pub demo_world, open_breaker, [])
      = (Returned, w', wd_pub demo_world, open_breaker, []) \<and> w_status w' = Some 200"
proof -
  have "\<not> fst (allow 5 open_breaker)"
    by (simp add: open_breaker_def allow_def time_sub_def int64_max_def int64_min_def)
  from health_misses_open_breaker [OF demo_healthy this, of new_writer] show ?thesis
    by (simp add: new_writer_def)
qed

end
