(* ===== verification/Ui.thy ===== *)
theory Ui
  imports Admin
begin

text \<open>
  The pages of the operator console that are not in the templates (\<open>handlers/ui.go\<close>), the rate limiter of
  the smoke tests (\<open>handlers/ui_rate.go\<close>) and the smoke-test proxy (\<open>handlers/ui_smoke.go\<close>), which sends
  a request of its own through the whole server. The texts of the pages, the order of a map range, the
  content type found by sniffing and the encoding of an answer as text are arguments.
\<close>

section \<open>Pages and assets\<close>

definition ui_asset_version :: string where "ui_asset_version = ''20260419.1''"

definition ui_etag :: string where
  "ui_etag = [CHR 0x22] @ ''ui-'' @ ui_asset_version @ [CHR 0x22]"

fun set_headers :: "(string \<times> string) list \<Rightarrow> writer \<Rightarrow> writer" where
  "set_headers [] w = w"
| "set_headers ((k, v) # hs) w = set_headers hs (set_header k v w)"

definition set_ui_security_headers :: "writer \<Rightarrow> writer" where
  "set_ui_security_headers w = set_headers
     [(''X-Content-Type-Options'', ''nosniff''), (''X-Frame-Options'', ''DENY''),
      (''Referrer-Policy'', ''strict-origin-when-cross-origin''),
      (''Permissions-Policy'', ''geolocation=(), microphone=(), camera=()''),
      (''Cross-Origin-Opener-Policy'', ''same-origin''),
      (''Cross-Origin-Resource-Policy'', ''same-origin''), (''Origin-Agent-Cluster'', ''?1'')] w"

definition quoted :: "string \<Rightarrow> string" where
  "quoted s = [CHR 0x27] @ s @ [CHR 0x27]"

definition ui_csp :: string where
  "ui_csp = ''default-src '' @ quoted ''self'' @ ''; '' @ ''script-src '' @ quoted ''self'' @ ''; ''
     @ ''style-src '' @ quoted ''self'' @ '' https://fonts.googleapis.com; ''
     @ ''font-src '' @ quoted ''self'' @ '' https://fonts.gstatic.com; ''
     @ ''img-src '' @ quoted ''self'' @ '' data:; '' @ ''connect-src '' @ quoted ''self'' @ ''; ''
     @ ''base-uri '' @ quoted ''none'' @ ''; '' @ ''frame-ancestors '' @ quoted ''none'' @ ''; ''
     @ ''form-action '' @ quoted ''self''"

definition set_ui_csp_header :: "writer \<Rightarrow> writer" where
  "set_ui_csp_header w = set_header ''Content-Security-Policy'' ui_csp w"

definition set_asset_caching_headers :: "writer \<Rightarrow> writer" where
  "set_asset_caching_headers w =
     set_headers [(''Cache-Control'', ''public, max-age=86400, immutable''), (''ETag'', ui_etag)] w"

definition is_not_modified :: "request \<Rightarrow> writer \<Rightarrow> bool \<times> writer" where
  "is_not_modified r w =
     (if rq_header r ''If-None-Match'' = ui_etag then (True, write_header 304 w) else (False, w))"

definition product_ui :: "string \<Rightarrow> 'st handler" where
  "product_ui page r ws =
     (case ws of (w, st) \<Rightarrow>
        (Returned, write_body (Text page)
           (set_headers [(''Content-Type'', ''text/html; charset=utf-8''), (''Cache-Control'', ''no-store'')]
             (set_ui_csp_header (set_ui_security_headers w))), st))"

definition product_asset :: "string \<Rightarrow> string \<Rightarrow> 'st handler" where
  "product_asset content_type asset r ws =
     (case ws of (w, st) \<Rightarrow>
        (case is_not_modified r (set_asset_caching_headers (set_ui_security_headers w)) of
           (True, w1) \<Rightarrow> (Returned, w1, st)
         | (False, w1) \<Rightarrow>
             (Returned, write_body (Text asset) (set_header ''Content-Type'' content_type w1), st)))"

definition product_ui_styles :: "string \<Rightarrow> 'st handler" where
  "product_ui_styles css = product_asset ''text/css; charset=utf-8'' css"

definition product_ui_script :: "string \<Rightarrow> 'st handler" where
  "product_ui_script js = product_asset ''application/javascript; charset=utf-8'' js"

section \<open>The administrative page\<close>

text \<open>\<open>handlers/admin_ui.go\<close>. \<open>render\<close> is the template: what it writes for a version, and its error.\<close>

definition admin_ui_version :: string where "admin_ui_version = ''20260517.1''"

definition handle_admin_ui :: "(string \<Rightarrow> string \<times> goerr option) \<Rightarrow> 'st handler" where
  "handle_admin_ui render r ws =
     (case ws of (w, st) \<Rightarrow>
        (case render admin_ui_version of
           (page, err) \<Rightarrow>
             (let w1 = (if page = [] then w else write_body (Text page) w)
              in (Returned, if err = None then w1 else http_error ''internal server error'' 500 w1, st))))"

definition admin_ui_styles :: "string \<Rightarrow> 'st handler" where
  "admin_ui_styles css r ws =
     (case ws of (w, st) \<Rightarrow> (Returned, write_body (Text css) (set_header ''Content-Type'' ''text/css'' w), st))"

definition admin_ui_script :: "string \<Rightarrow> 'st handler" where
  "admin_ui_script js = product_asset ''application/javascript; charset=utf-8'' js"

text \<open>The page of the operator forbids framing and foreign scripts, the administrative page sets no header at all.\<close>

lemma set_header_open:
  "w_status (set_header k v w) = w_status w" "w_status w = None \<Longrightarrow> w_header (set_header k v w) = (w_header w)(k \<mapsto> v)"
  by (simp_all add: set_header_def)

lemma write_body_header: "w_header (write_body b w) = w_header w"
  by (simp add: write_body_def)

lemma admin_page_bare:
  "w_header (fst (snd (handle_admin_ui (\<lambda>v. (page, None)) r (new_writer, st)))) = Map.empty"
  "w_header (fst (snd (product_ui page r (new_writer, st)))) ''X-Frame-Options'' = Some ''DENY''"
  "w_header (fst (snd (product_ui page r (new_writer, st)))) ''Content-Security-Policy'' = Some ui_csp"
proof -
  have n: "w_status new_writer = None" "w_header new_writer = Map.empty" by (simp_all add: new_writer_def)
  then show "w_header (fst (snd (handle_admin_ui (\<lambda>v. (page, None)) r (new_writer, st)))) = Map.empty"
    by (simp add: handle_admin_ui_def write_body_header)
  from n show "w_header (fst (snd (product_ui page r (new_writer, st)))) ''X-Frame-Options'' = Some ''DENY''"
    "w_header (fst (snd (product_ui page r (new_writer, st)))) ''Content-Security-Policy'' = Some ui_csp"
    by (simp_all add: product_ui_def set_ui_security_headers_def set_ui_csp_header_def set_header_open write_body_header)
qed

text \<open>An error of the template after it has written cannot change the status any more: the client sees 200 and the page
  cut off.\<close>

lemma admin_page_cut_off:
  "page \<noteq> [] \<Longrightarrow> handle_admin_ui (\<lambda>v. (page, Some e)) r (new_writer, st) = (out, w, st') \<Longrightarrow> w_status w = Some 200"
  by (auto simp: handle_admin_ui_def http_error_def set_header_open) (simp add: write_body_def write_header_def new_writer_def set_header_open)

text \<open>The entity tag of the administrative script is the one of the operator's assets and does not change with the
  script: a browser that revalidates is told to keep what it has.\<close>

lemma admin_script_kept:
  assumes "rq_header r ''If-None-Match'' = ui_etag"
  shows "admin_ui_script js r ws = admin_ui_script js' r ws"
    and "product_ui_script js r ws = admin_ui_script js' r ws"
  using assms by (auto simp: admin_ui_script_def product_ui_script_def product_asset_def is_not_modified_def split: prod.splits)

section \<open>The rate limiter\<close>

record ui_rate_entry =
  ur_start :: time
  ur_count :: int

record ui_limiter =
  ul_entries :: "string \<rightharpoonup> ui_rate_entry"
  ul_cleanup :: time

definition smoke_max_per_minute :: int where "smoke_max_per_minute = 20"

definition new_ui_limiter :: "time \<Rightarrow> ui_limiter" where
  "new_ui_limiter now = \<lparr>ul_entries = Map.empty, ul_cleanup = now\<rparr>"

definition ui_cleanup :: "time \<Rightarrow> ui_limiter \<Rightarrow> ui_limiter" where
  "ui_cleanup now l =
     (if minute \<le> time_sub now (ul_cleanup l)
      then l\<lparr>ul_entries := map_keep (\<lambda>k e. \<not> 2 * minute \<le> time_sub now (ur_start e)) (ul_entries l),
             ul_cleanup := now\<rparr>
      else l)"

definition ui_allow :: "string \<Rightarrow> time \<Rightarrow> ui_limiter \<Rightarrow> bool \<times> ui_limiter" where
  "ui_allow ip now l =
     (let k = (if ip = '''' then ''unknown'' else ip);
          l1 = ui_cleanup now l;
          fresh = l1\<lparr>ul_entries := (ul_entries l1)(k \<mapsto> \<lparr>ur_start = now, ur_count = 1\<rparr>)\<rparr>
      in (case ul_entries l1 k of
            None \<Rightarrow> (True, fresh)
          | Some e \<Rightarrow>
              if minute \<le> time_sub now (ur_start e) then (True, fresh)
              else if ur_count e \<ge> smoke_max_per_minute then (False, l1)
              else (True, l1\<lparr>ul_entries := (ul_entries l1)(k \<mapsto> e\<lparr>ur_count := ur_count e + 1\<rparr>)\<rparr>)))"

section \<open>The request of a smoke test\<close>

definition smoke_max_body :: nat where "smoke_max_body = 256 * 1024"
definition smoke_max_response :: nat where "smoke_max_response = 16 * 1024"

definition smoke_endpoints :: "string list" where
  "smoke_endpoints = [''/webhooks/slack'', ''/webhooks/teams'', ''/webhooks/github'', ''/webhooks/gitlab'']"

definition is_allowed_smoke_endpoint :: "string \<Rightarrow> bool" where
  "is_allowed_smoke_endpoint e \<longleftrightarrow> e \<in> set smoke_endpoints"

text \<open>The members of an object with the text of each value, after the opening brace: what a
  \<open>json.RawMessage\<close> gets.\<close>

function raw_members :: "bool \<Rightarrow> string \<Rightarrow> (string \<times> string) list" where
  "raw_members first s =
     (case next_key first (skip_ws s) of
        None \<Rightarrow> []
      | Some (k, r) \<Rightarrow>
          (case member_value r of
             None \<Rightarrow> []
           | Some (v, r2) \<Rightarrow>
               (let t = skip_ws (drop 1 (skip_ws r))
                in (k, take (length t - length r2) t) # raw_members False r2)))"
  by pat_completeness auto
termination
proof (relation "measure (\<lambda>(first, s). length s)", goal_cases)
  case (2 first s p k r q v r2)
  then have "length r2 < length r" "length r < length (skip_ws s)"
    by (auto dest: member_value_length next_key_length)
  then show ?case using length_skip_ws [of s] by simp
qed simp

declare raw_members.simps [simp del]

definition raw_member :: "string \<Rightarrow> string \<Rightarrow> string" where
  "raw_member obj f =
     (case rev (filter (\<lambda>(k, v). fold_name k = fold_name f)
                  (case skip_ws obj of [] \<Rightarrow> [] | c # t \<Rightarrow> raw_members True t)) of
        [] \<Rightarrow> '''' | (k, v) # kvs \<Rightarrow> v)"

record smoke_request =
  sm_endpoint :: string
  sm_payload :: string
  sm_headers :: "string \<rightharpoonup> string"

text \<open>One value is read from at most \<open>smoke_max_body\<close> bytes; what follows it is not looked at.\<close>

definition decode_smoke :: "string \<Rightarrow> smoke_request option" where
  "decode_smoke body =
     (let s = take smoke_max_body body
      in (case pval (value_fuel s) 0 s of
            Some (JNull, rest) \<Rightarrow> Some \<lparr>sm_endpoint = '''', sm_payload = '''', sm_headers = Map.empty\<rparr>
          | Some (JObj m, rest) \<Rightarrow>
              (case (struct_string m ''endpoint'', decode_string_maps Map.empty (field_values m ''headers'')) of
                 (Some e, Some h) \<Rightarrow>
                   Some \<lparr>sm_endpoint = e, sm_payload = raw_member s ''payload'', sm_headers = h\<rparr>
               | _ \<Rightarrow> None)
          | _ \<Rightarrow> None))"

text \<open>\<open>sanitizeUISmokeHeaders\<close> on the headers in the order in which the map is ranged over.\<close>

definition smoke_header_kept :: "string \<Rightarrow> bool" where
  "smoke_header_kept low \<longleftrightarrow>
     low \<notin> set [''authorization'', ''cookie'', ''x-operator'', ''x-user'']
     \<and> (low = ''content-type'' \<or> has_prefix low ''x-'')"

fun clean_headers :: "(string \<rightharpoonup> string) \<Rightarrow> (string \<times> string) list \<Rightarrow> (string \<rightharpoonup> string)" where
  "clean_headers clean [] = clean"
| "clean_headers clean ((k, v) # kvs) =
     (let key = trim_space k; val = trim_space v
      in clean_headers
           (if key = '''' \<or> val = '''' \<or> \<not> smoke_header_kept (to_lower key) then clean
            else clean(key \<mapsto> val)) kvs)"

definition sanitize_smoke_headers :: "(string \<times> string) list \<Rightarrow> (string \<rightharpoonup> string)" where
  "sanitize_smoke_headers kvs =
     (let clean = clean_headers Map.empty kvs
      in if clean ''Content-Type'' = None then clean(''Content-Type'' \<mapsto> ''application/json'') else clean)"

text \<open>\<open>textproto.CanonicalMIMEHeaderKey\<close>\<close>

definition is_token_char :: "char \<Rightarrow> bool" where
  "is_token_char c \<longleftrightarrow>
     (let n = (of_char c :: nat)
      in 48 \<le> n \<and> n \<le> 57 \<or> 97 \<le> n \<and> n \<le> 122 \<or> 65 \<le> n \<and> n \<le> 90
         \<or> c \<in> set ''!#$%&*+-.^_`|~'' \<or> c = CHR 0x27)"

definition ascii_upper :: "char \<Rightarrow> char" where
  "ascii_upper c =
     (let n = (of_char c :: nat) in if 97 \<le> n \<and> n \<le> 122 then char_of (n - 32) else c)"

fun canonical_from :: "bool \<Rightarrow> string \<Rightarrow> string" where
  "canonical_from up [] = []"
| "canonical_from up (c # s) =
     (if up then ascii_upper c else ascii_lower c) # canonical_from (c = CHR ''-'') s"

definition canonical_key :: "string \<Rightarrow> string" where
  "canonical_key k = (if list_all is_token_char k then canonical_from True k else k)"

fun header_of :: "(string \<times> string) list \<Rightarrow> (string \<rightharpoonup> string) \<Rightarrow> (string \<rightharpoonup> string)" where
  "header_of [] h = h"
| "header_of ((k, v) # kvs) h = header_of kvs (h(canonical_key k \<mapsto> v))"

section \<open>The proxy\<close>

record 'st smoke_env =
  se_trusted :: "string list"
  se_get :: "'st \<Rightarrow> ui_limiter"
  se_put :: "ui_limiter \<Rightarrow> 'st \<Rightarrow> 'st"
  se_range :: "(string \<rightharpoonup> string) \<Rightarrow> (string \<times> string) list"
  se_draws :: "request \<Rightarrow> draws"
  se_render :: "body list \<Rightarrow> string"
  se_sniff :: "body list \<Rightarrow> string"

text \<open>The request the proxy makes: the method, the path, the payload and the cleaned headers are its own,
  the address of the client and the context are those of the outer request.\<close>

definition smoke_inner_request :: "'st smoke_env \<Rightarrow> request \<Rightarrow> smoke_request \<Rightarrow> request" where
  "smoke_inner_request env r req =
     (let hdrs = header_of (se_range env (sanitize_smoke_headers (se_range env (sm_headers req)))) Map.empty;
          t = dr_now (rq_draws r) + 8 * second
      in r\<lparr>rq_method := ''POST'', rq_path := sm_endpoint req, rq_query := (\<lambda>k. ''''),
           rq_header := (\<lambda>k. get_str hdrs (canonical_key k)), rq_cookie := (\<lambda>k. None),
           rq_body := sm_payload req, rq_body_error := None,
           rq_deadline := Some (case rq_deadline r of None \<Rightarrow> t | Some e \<Rightarrow> min e t),
           rq_draws := se_draws env r\<rparr>)"

text \<open>What the recorder holds; its content type is sniffed when a body was written without one.\<close>

definition recorded_type :: "'st smoke_env \<Rightarrow> writer \<Rightarrow> string" where
  "recorded_type env w =
     (case w_header w ''Content-Type'' of
        Some t \<Rightarrow> t
      | None \<Rightarrow> if w_calls w = [] \<and> w_body w \<noteq> [] then se_sniff env (w_body w) else '''')"

definition smoke_answer :: "'st smoke_env \<Rightarrow> string \<Rightarrow> writer \<Rightarrow> (string \<rightharpoonup> json)" where
  "smoke_answer env endpoint rec =
     (let text = se_render env (w_body rec)
      in [''endpoint'' \<mapsto> JStr endpoint,
          ''status'' \<mapsto> JNum (itoa (case w_status rec of None \<Rightarrow> 200 | Some c \<Rightarrow> c)),
          ''headers'' \<mapsto> JObj [(''Content-Type'', JStr (recorded_type env rec)),
             (''X-Request-Id'', JStr (get_str (w_header rec) ''X-Request-Id''))],
          ''body'' \<mapsto> JStr (if smoke_max_response < length text
             then take smoke_max_response text @ [CHR 0x0A] @ ''...truncated'' else text)])"

definition smoke_error :: "int \<Rightarrow> string \<Rightarrow> writer \<Rightarrow> writer" where
  "smoke_error code msg w = write_json code [''error'' \<mapsto> JStr msg] w"

definition ui_smoke_proxy :: "'st smoke_env \<Rightarrow> 'st handler \<Rightarrow> 'st handler" where
  "ui_smoke_proxy env inner r ws =
     (case ws of (w0, st0) \<Rightarrow>
        (let w = set_header ''Cache-Control'' ''no-store'' (set_ui_security_headers w0)
         in (case ui_allow (client_ip r (se_trusted env)) (dr_now (rq_draws r)) (se_get env st0) of (ok, l) \<Rightarrow>
              (let st = se_put env l st0
               in if \<not> ok then (Returned, smoke_error 429 ''rate limit exceeded for UI smoke tests'' w, st)
                  else (case decode_smoke (rq_body r) of
                     None \<Rightarrow> (Returned, smoke_error 400 ''invalid JSON payload'' w, st)
                   | Some req0 \<Rightarrow>
                       (let req = req0\<lparr>sm_endpoint := trim_space (sm_endpoint req0)\<rparr>
                        in if \<not> is_allowed_smoke_endpoint (sm_endpoint req)
                           then (Returned, smoke_error 400 ''endpoint not allowed'' w, st)
                           else if sm_payload req = ''''
                           then (Returned, smoke_error 400 ''payload is required'' w, st)
                           else (case inner (smoke_inner_request env r req) (new_writer, st) of
                                   (Panicked, rec, st1) \<Rightarrow> (Panicked, w, st1)
                                 | (Returned, rec, st1) \<Rightarrow>
                                     (Returned, write_json 200 (smoke_answer env (sm_endpoint req) rec) w,
                                      st1))))))))"

section \<open>What the limiter lets through\<close>

fun ui_serve :: "(string \<times> time) list \<Rightarrow> ui_limiter \<Rightarrow> (string \<times> bool) list" where
  "ui_serve [] l = []"
| "ui_serve ((k, t) # q) l = (case ui_allow k t l of (b, l') \<Rightarrow> (k, b) # ui_serve q l')"

definition ui_answers :: "string \<Rightarrow> (string \<times> bool) list \<Rightarrow> bool list" where
  "ui_answers k as = map snd (filter (\<lambda>(k', b). k' = k) as)"

definition ui_asks :: "string \<Rightarrow> (string \<times> time) list \<Rightarrow> nat" where
  "ui_asks k q = length (filter (\<lambda>(k', t). k' = k) q)"

text \<open>\<open>ui_open l k t0 n\<close>: the window of \<open>k\<close> began at \<open>t0\<close> and has seen \<open>n\<close> requests.\<close>

definition ui_open :: "ui_limiter \<Rightarrow> string \<Rightarrow> time \<Rightarrow> int \<Rightarrow> bool" where
  "ui_open l k t0 n \<longleftrightarrow> ul_entries l k = Some \<lparr>ur_start = t0, ur_count = n\<rparr>"

lemma ui_cleanup_open:
  "ui_open l k t0 n \<Longrightarrow> time_sub t t0 < minute \<Longrightarrow> ui_open (ui_cleanup t l) k t0 n"
  by (simp add: ui_open_def ui_cleanup_def map_keep_def duration_units)

lemma ui_allow_same:
  assumes "ui_open l k t0 n" and "time_sub t t0 < minute" and "k \<noteq> ''''"
  shows "fst (ui_allow k t l) \<longleftrightarrow> n < smoke_max_per_minute"
    and "ui_open (snd (ui_allow k t l)) k t0 (if n < smoke_max_per_minute then n + 1 else n)"
  using ui_cleanup_open [OF assms(1,2)] assms(2,3)
  by (auto simp: ui_allow_def ui_open_def Let_def)

lemma ui_allow_other:
  assumes "ui_open l k t0 n" and "time_sub t t0 < minute" and "k \<noteq> ''unknown''" and "k' \<noteq> k"
  shows "ui_open (snd (ui_allow k' t l)) k t0 n"
  using ui_cleanup_open [OF assms(1,2)] assms(3,4)
  by (auto simp: ui_allow_def ui_open_def Let_def split: option.splits)

text \<open>Once an address has begun its minute, exactly the first twenty of its smoke tests in that minute go
  through, whatever other addresses send in between.\<close>

theorem ui_limiter_window:
  assumes "ui_open l k t0 n" and "1 \<le> n" and "n \<le> smoke_max_per_minute" and "k \<noteq> ''''" and "k \<noteq> ''unknown''"
    and "list_all (\<lambda>(k', t). time_sub t t0 < minute) q"
  shows "ui_answers k (ui_serve q l)
    = replicate (min (ui_asks k q) (nat (smoke_max_per_minute - n))) True
      @ replicate (ui_asks k q - nat (smoke_max_per_minute - n)) False"
  using assms(1-3,6)
proof (induction q arbitrary: l n)
  case (Cons e q)
  obtain k' t where e: "e = (k', t)" by (cases e)
  obtain b l' where a: "ui_allow k' t l = (b, l')" by fastforce
  have t: "time_sub t t0 < minute" and q: "list_all (\<lambda>(k', t). time_sub t t0 < minute) q"
    using Cons.prems(4) e by simp_all
  show ?case
  proof (cases "k' = k")
    case False
    then have "ui_open l' k t0 n" using ui_allow_other [OF Cons.prems(1) t assms(5) False] a by simp
    from Cons.IH [OF this Cons.prems(2,3) q] False show ?thesis
      by (simp add: e a ui_answers_def ui_asks_def)
  next
    case True
    with ui_allow_same [OF Cons.prems(1) t assms(4)] a
    have b: "b \<longleftrightarrow> n < smoke_max_per_minute"
      and o: "ui_open l' k t0 (if n < smoke_max_per_minute then n + 1 else n)" by simp_all
    show ?thesis
    proof (cases "n < smoke_max_per_minute")
      case less: True
      then have "nat (smoke_max_per_minute - n) = Suc (nat (smoke_max_per_minute - (n + 1)))" by simp
      moreover from Cons.IH [OF _ _ _ q, of l' "n + 1"] o less Cons.prems(2)
      have "ui_answers k (ui_serve q l') = replicate (min (ui_asks k q) (nat (smoke_max_per_minute - (n + 1)))) True
        @ replicate (ui_asks k q - nat (smoke_max_per_minute - (n + 1))) False" by simp
      ultimately show ?thesis using True b less a by (simp add: e ui_answers_def ui_asks_def)
    next
      case False
      then have "n = smoke_max_per_minute" using Cons.prems(3) by simp
      moreover from Cons.IH [OF _ Cons.prems(2,3) q, of l'] o False
      have "ui_answers k (ui_serve q l') = replicate (min (ui_asks k q) (nat (smoke_max_per_minute - n))) True
        @ replicate (ui_asks k q - nat (smoke_max_per_minute - n)) False" by simp
      ultimately show ?thesis using True b a by (simp add: e ui_answers_def ui_asks_def)
    qed
  qed
qed (simp add: ui_answers_def ui_asks_def)

theorem ui_limiter_window_witness:
  "ui_answers ''a'' (ui_serve [(''b'', 2 * second), (''a'', 3 * second)]
     (snd (ui_allow ''a'' 0 (new_ui_limiter 0)))) = [True]"
proof -
  have o: "ui_open (snd (ui_allow ''a'' 0 (new_ui_limiter 0))) ''a'' 0 1"
    by (simp add: ui_allow_def ui_open_def new_ui_limiter_def ui_cleanup_def Let_def time_sub_def
        int64_max_def int64_min_def duration_units)
  from ui_limiter_window [OF o, of "[(''b'', 2 * second), (''a'', 3 * second)]"] show ?thesis
    by (simp add: smoke_max_per_minute_def time_sub_def int64_max_def int64_min_def duration_units
        ui_asks_def)
qed

end
