(* ===== verification/Server.thy ===== *)
theory Server
  imports Server_Chain Ui
begin

text \<open>
  The routes of the server and the whole of its handler, as \<open>run\<close> in \<open>cmd/server/main.go\<close> builds them: the
  mux of the application, the public mux with the smoke-test proxy in front of it, the middleware
  chain, and the way back from the proxy into the chain. \<open>http.ServeMux\<close> is modelled with its cleaning of
  paths, its matching of unescaped segments and its answers for what it does not know; \<open>raw\<close> is
  \<open>URL.EscapedPath\<close>, \<open>location\<close> and \<open>link_page\<close> the texts of a redirect.
\<close>

section \<open>Paths\<close>

fun path_unescape :: "string \<Rightarrow> string option" where
  "path_unescape [] = Some []"
| "path_unescape (c # s) =
     (if c = CHR ''%'' then
        (case s of
           a # b # t \<Rightarrow>
             (case (hex_val a, hex_val b) of
                (Some x, Some y) \<Rightarrow> map_option ((#) (char_of (16 * x + y))) (path_unescape t)
              | _ \<Rightarrow> None)
         | _ \<Rightarrow> None)
      else map_option ((#) c) (path_unescape s))"

text \<open>The segments \<open>firstSegment\<close> takes off a path one after the other; a trailing slash is a segment of
  its own.\<close>

definition unescaped :: "string \<Rightarrow> string" where
  "unescaped s = (case path_unescape s of None \<Rightarrow> s | Some t \<Rightarrow> t)"

function path_segments :: "string \<Rightarrow> string list" where
  "path_segments p =
     (if p = '''' then []
      else if p = ''/'' then [''/'']
      else (let q = drop 1 p; s = takeWhile (\<lambda>c. c \<noteq> CHR ''/'') q
            in unescaped s # path_segments (drop (length s) q)))"
  by pat_completeness auto
termination by (relation "measure length") (auto simp: Suc_le_eq)

declare path_segments.simps [simp del]

text \<open>\<open>path.Clean\<close> on a rooted path and \<open>cleanPath\<close> of the mux.\<close>

fun clean_parts :: "string list \<Rightarrow> string list \<Rightarrow> string list" where
  "clean_parts out [] = out"
| "clean_parts out (s # ss) =
     (if s = '''' \<or> s = ''.'' then clean_parts out ss
      else if s = ''..'' then clean_parts (butlast out) ss
      else clean_parts (out @ [s]) ss)"

definition clean_path :: "string \<Rightarrow> string" where
  "clean_path p0 =
     (if p0 = '''' then ''/''
      else (let p = (if hd p0 = CHR ''/'' then p0 else CHR ''/'' # p0);
                parts = clean_parts [] (split_on CHR ''/'' p);
                np = (if parts = [] then ''/'' else concat (map (\<lambda>s. CHR ''/'' # s) parts))
            in if last p = CHR ''/'' \<and> np \<noteq> ''/'' then np @ ''/'' else np))"

section \<open>The mux\<close>

text \<open>A pattern is a method (\<open>GET\<close> also serves \<open>HEAD\<close>) or none, and the segments of a path without
  wildcards.\<close>

record 'st pattern =
  pt_method :: "string option"
  pt_segments :: "string list"
  pt_handler :: "'st handler"

definition method_ok :: "string option \<Rightarrow> string \<Rightarrow> bool" where
  "method_ok m method \<longleftrightarrow> m = None \<or> m = Some method \<or> m = Some ''GET'' \<and> method = ''HEAD''"

definition mux_find :: "'st pattern list \<Rightarrow> string \<Rightarrow> string \<Rightarrow> 'st handler option" where
  "mux_find ps method path =
     map_option pt_handler
       (find (\<lambda>p. pt_segments p = path_segments path \<and> method_ok (pt_method p) method) ps)"

definition matching_methods :: "'st pattern list \<Rightarrow> string \<Rightarrow> string list" where
  "matching_methods ps path =
     sort_strings (remdups (concat (map (\<lambda>p. if pt_segments p \<noteq> path_segments path then []
       else (case pt_method p of None \<Rightarrow> [] | Some m \<Rightarrow> if m = ''GET'' then [''GET'', ''HEAD''] else [m])) ps)))"

record mux_texts =
  mt_raw :: "request \<Rightarrow> string"
  mt_location :: "string \<Rightarrow> request \<Rightarrow> string"
  mt_link_page :: "string \<Rightarrow> request \<Rightarrow> string"

definition redirect_moved :: "mux_texts \<Rightarrow> string \<Rightarrow> request \<Rightarrow> writer \<Rightarrow> writer" where
  "redirect_moved t path r w =
     (let typed = w_header w ''Content-Type'' \<noteq> None;
          page = \<not> typed \<and> rq_method r \<in> {''GET'', ''HEAD''};
          w1 = set_header ''Location'' (mt_location t path r) w;
          w2 = write_header 301 (if page then set_header ''Content-Type'' ''text/html; charset=utf-8'' w1 else w1)
      in if \<not> typed \<and> rq_method r = ''GET'' then write_body (Text (mt_link_page t path r)) w2 else w2)"

text \<open>\<open>ServeMux.ServeHTTP\<close>: \<open>look\<close> finds the handler, \<open>others\<close> the methods a path is known for.\<close>

definition mux_serve ::
  "mux_texts \<Rightarrow> (string \<Rightarrow> string \<Rightarrow> 'st handler option) \<Rightarrow> (string \<Rightarrow> string list) \<Rightarrow> 'st handler" where
  "mux_serve t look others r ws =
     (case ws of (w, st) \<Rightarrow>
        if mt_raw t r = ''*''
        then (Returned, write_header 400 (set_header ''Connection'' ''close'' w), st)
        else (let path = (if rq_method r = ''CONNECT'' then mt_raw t r else clean_path (mt_raw t r))
              in if path \<noteq> mt_raw t r then (Returned, redirect_moved t path r w, st)
                 else (case look (rq_method r) path of
                         Some h \<Rightarrow> h r (w, st)
                       | None \<Rightarrow>
                           if others path \<noteq> []
                           then (Returned, http_error ''Method Not Allowed'' 405
                                  (set_header ''Allow'' (join (others path) '', '') w), st)
                           else (Returned, http_error ''404 page not found'' 404 w, st))))"

section \<open>The routes\<close>

record 'st routes =
  rt_page :: "string \<Rightarrow> 'st handler"
  rt_admin :: "string \<Rightarrow> 'st handler"
  rt_webhook :: "string \<Rightarrow> 'st handler"

definition page_paths :: "string list" where
  "page_paths =
     [''/'', ''/assets/ui.css'', ''/assets/ui.js'', ''/healthz'', ''/readyz'', ''/metrics'',
      ''/assets/admin.css'', ''/assets/admin.js'']"

text \<open>The keys of the table of administrative handlers; the page \<open>/admin/ui\<close> is registered apart.\<close>

definition admin_names :: "string list" where
  "admin_names =
     [''configz'', ''health-summary'', ''providers/health'', ''events/failed'', ''events/replay-audit'',
      ''events/security-audit'', ''flags'', ''events/replay/batch'', ''events/replay'']"

definition posts :: "string \<Rightarrow> bool" where
  "posts n \<longleftrightarrow> has_prefix n ''flags'' \<or> has_prefix n ''events/replay''"

definition route :: "string option \<Rightarrow> string \<Rightarrow> 'st handler \<Rightarrow> 'st pattern" where
  "route m path h = \<lparr>pt_method = m, pt_segments = path_segments path, pt_handler = h\<rparr>"

definition register_versioned_routes ::
  "string list \<Rightarrow> (string \<Rightarrow> 'st handler) \<Rightarrow> string \<Rightarrow> 'st pattern list" where
  "register_versioned_routes names h pfx = map (\<lambda>n. route None (pfx @ n) (h n)) names"

definition admin_routes :: "(string \<Rightarrow> 'st handler) \<Rightarrow> 'st pattern list" where
  "admin_routes h =
     route (Some ''GET'') ''/admin/ui'' (h ''ui'') #
     concat (map (\<lambda>n. route (Some ''GET'') (''/admin/'' @ n) (h n) #
       (if posts n then [route (Some ''POST'') (''/admin/'' @ n) (h n)] else [])) admin_names) @
     register_versioned_routes admin_names h ''/api/v1/admin/''"

definition open_routes :: "'st routes \<Rightarrow> 'st pattern list" where
  "open_routes rts =
     map (\<lambda>p. route (Some ''GET'') p (rt_page rts p)) page_paths @
     register_versioned_routes webhook_sources (rt_webhook rts) ''/api/v1/webhooks/'' @
     register_versioned_routes webhook_sources (rt_webhook rts) ''/webhooks/''"

definition webhook_mux :: "mux_texts \<Rightarrow> 'st routes \<Rightarrow> 'st handler" where
  "webhook_mux t rts =
     (let ps = open_routes rts @ admin_routes (rt_admin rts)
      in mux_serve t (mux_find ps) (matching_methods ps))"

text \<open>\<open>newPublicMux\<close>: everything but the smoke test goes to the application.\<close>

definition new_public_mux :: "mux_texts \<Rightarrow> 'st handler \<Rightarrow> 'st handler \<Rightarrow> 'st handler" where
  "new_public_mux t app smoke =
     mux_serve t
       (\<lambda>method path. if path = '''' then None
          else if path_segments path = [''ui'', ''smoke-test''] then Some smoke else Some app)
       (\<lambda>path. [])"

section \<open>The server\<close>

record 'st server_env =
  sv_cfg :: config
  sv_limiter :: "'st limiter"
  sv_security :: "'st reject_hook"
  sv_emit :: "access_entry \<Rightarrow> 'st \<Rightarrow> 'st"
  sv_jwt :: jwt_parser
  sv_ip_text :: "ip \<Rightarrow> string"
  sv_rfc :: "time \<Rightarrow> string"
  sv_tracing :: "'st middleware"
  sv_texts :: mux_texts
  sv_smoke :: "'st smoke_env"
  sv_routes :: "'st routes"

text \<open>The proxy holds the finished handler through \<open>deferredHandler\<close>, so the server calls itself; \<open>n\<close>
  bounds the depth of these calls.\<close>

fun server :: "'st server_env \<Rightarrow> nat \<Rightarrow> 'st handler" where
  "server env 0 = deferred_serve None"
| "server env (Suc n) =
     build_handler (sv_cfg env) (sv_limiter env) (sv_security env) (sv_emit env) (sv_jwt env)
       (sv_ip_text env) (sv_rfc env) (sv_tracing env)
       (new_public_mux (sv_texts env) (webhook_mux (sv_texts env) (sv_routes env))
          (ui_smoke_proxy (sv_smoke env) (deferred_serve (Some (server env n)))))"

end
