(* ===== verification/Server_Safety.thy ===== *)
theory Server_Safety
  imports Server Admin_Safety
begin

text \<open>
  Properties of the whole server: which paths lead to which handlers, what a request without a token
  can reach, and that the way through the smoke test ends.
\<close>

section \<open>Paths and segments\<close>

lemma path_unescape_append:
  "path_unescape (s @ CHR ''/'' # u) = Some q \<Longrightarrow>
     \<exists>a b. path_unescape s = Some a \<and> path_unescape (CHR ''/'' # u) = Some b \<and> q = a @ b"
proof (induction s arbitrary: q rule: path_unescape.induct)
  case (2 c s)
  show ?case
  proof (cases "c = CHR ''%''")
    case False
    with "2.prems" "2.IH"(2) show ?thesis by fastforce
  next
    case True
    then obtain a b t where s: "s = a # b # t" using "2.prems"
      by (cases s rule: list.exhaust; cases "tl s" rule: list.exhaust)
         (auto simp: hex_val_def split: option.splits list.splits)
    with True "2.prems" obtain x y where xy: "hex_val a = Some x" "hex_val b = Some y"
      by (auto split: option.splits)
    from True "2.prems" s xy obtain q' where q: "path_unescape (t @ CHR ''/'' # u) = Some q'"
        "q = char_of (16 * x + y) # q'" by (auto split: option.splits)
    from "2.IH"(1) [OF True s refl refl xy q(1)] show ?thesis using True s xy q(2) by auto
  qed
qed simp

definition join_segments :: "string list \<Rightarrow> string" where
  "join_segments ss = concat (map (\<lambda>s. CHR ''/'' # s) ss)"

lemma path_unescape_slash:
  "path_unescape (CHR ''/'' # u) = Some b \<longleftrightarrow> (\<exists>b'. b = CHR ''/'' # b' \<and> path_unescape u = Some b')"
  by auto

lemma segments_join:
  "path_unescape p = Some q \<Longrightarrow> p = [] \<or> hd p = CHR ''/'' \<Longrightarrow> ''/'' \<notin> set (path_segments p) \<Longrightarrow>
     q = join_segments (path_segments p)"
proof (induction p arbitrary: q rule: path_segments.induct)
  case (1 p)
  show ?case
  proof (cases "p = [] \<or> p = ''/''")
    case True
    with "1.prems" show ?thesis by (auto simp: path_segments.simps join_segments_def)
  next
    case False
    then obtain t where p: "p = CHR ''/'' # t" using "1.prems"(2) by (cases p) auto
    let ?s = "takeWhile (\<lambda>c. c \<noteq> CHR ''/'') t" and ?u = "dropWhile (\<lambda>c. c \<noteq> CHR ''/'') t"
    have t: "t = ?s @ ?u" by simp
    have d: "drop 1 p = t" using p by simp
    have u: "drop (length ?s) t = ?u" by (simp add: dropWhile_eq_drop)
    have uh: "?u = [] \<or> hd ?u = CHR ''/''" using hd_dropWhile [of "\<lambda>c. c \<noteq> CHR ''/''" t] by auto
    obtain q' where q': "q = CHR ''/'' # q'" "path_unescape t = Some q'"
      using "1.prems"(1) p by auto
    have "\<exists>a b. path_unescape ?s = Some a \<and> path_unescape ?u = Some b \<and> q' = a @ b"
    proof (cases "?u = []")
      case True
      then have "?s = t" using t by (metis append_Nil2)
      with True q'(2) show ?thesis by (metis append_Nil2 path_unescape.simps(1))
    next
      case False
      then obtain v where "?u = CHR ''/'' # v" using uh by (cases ?u) auto
      with path_unescape_append [of ?s v q'] q'(2) t show ?thesis by metis
    qed
    then obtain a b where ab: "path_unescape ?s = Some a" "path_unescape ?u = Some b" "q' = a @ b" by blast
    have ps: "path_segments p = a # path_segments ?u"
      using False p ab(1) u by (subst path_segments.simps) (simp add: unescaped_def Let_def)
    have "b = join_segments (path_segments ?u)"
    proof (rule "1.IH" [OF _ _ refl refl, unfolded d u])
      show "''/'' \<notin> set (path_segments ?u)" using "1.prems"(3) ps by simp
    qed (use False ab(2) uh in auto)
    with ps ab(3) q'(1) show ?thesis by (simp add: join_segments_def)
  qed
qed

section \<open>Where the routes are\<close>

definition admin_paths :: "string list" where
  "admin_paths =
     ''/admin/ui'' # concat (map (\<lambda>n. (''/admin/'' @ n) # (if posts n then [''/admin/'' @ n] else [])) admin_names) @
     map (\<lambda>n. ''/api/v1/admin/'' @ n) admin_names"

lemma admin_routes_segments: "map pt_segments (admin_routes h) = map path_segments admin_paths"
  by (simp add: admin_routes_def admin_paths_def register_versioned_routes_def route_def map_concat comp_def
      if_distrib cong: if_cong)

lemma admin_routes_keys:
  "map (\<lambda>p. (pt_method p, pt_segments p)) (admin_routes h) = map (\<lambda>p. (pt_method p, pt_segments p)) (admin_routes h')"
  by (simp add: admin_routes_def register_versioned_routes_def route_def map_concat comp_def
      if_distrib cong: if_cong)

lemma admin_paths_ok:
  "list_all (\<lambda>p. is_admin_path (join_segments (path_segments p)) \<and> ''/'' \<notin> set (path_segments p)) admin_paths"
  by code_simp

text \<open>What the code relies on of \<open>net/url\<close>: the escaped path decodes to the path, and begins with a slash
  unless it is empty or the asterisk.\<close>

definition raw_ok :: "mux_texts \<Rightarrow> request \<Rightarrow> bool" where
  "raw_ok t r \<longleftrightarrow> path_unescape (mt_raw t r) = Some (rq_path r)
     \<and> (mt_raw t r = [] \<or> mt_raw t r = ''*'' \<or> hd (mt_raw t r) = CHR ''/'')"

lemma admin_pattern_path:
  assumes "raw_ok t r" and "mt_raw t r \<noteq> ''*''" and "p \<in> set (admin_routes h)"
    and "pt_segments p = path_segments (mt_raw t r)"
  shows "is_admin_path (rq_path r)"
proof -
  have "pt_segments p \<in> set (map path_segments admin_paths)"
    using assms(3) by (metis admin_routes_segments image_eqI list.set_map)
  with assms(4) admin_paths_ok have "is_admin_path (join_segments (path_segments (mt_raw t r)))"
    "''/'' \<notin> set (path_segments (mt_raw t r))"
    by (auto simp: list_all_iff)
  moreover have "rq_path r = join_segments (path_segments (mt_raw t r))"
    by (rule segments_join) (use assms(1,2) calculation in \<open>auto simp: raw_ok_def\<close>)
  ultimately show ?thesis by simp
qed

lemma matching_methods_keys:
  assumes "map (\<lambda>p. (pt_method p, pt_segments p)) ps = map (\<lambda>p. (pt_method p, pt_segments p)) qs"
  shows "matching_methods ps path = matching_methods qs path"
proof -
  let ?f = "\<lambda>(m, segs). if segs \<noteq> path_segments path then []
       else (case m of None \<Rightarrow> [] | Some m \<Rightarrow> if m = ''GET'' then [''GET'', ''HEAD''] else [m])"
  have "map ?f (map (\<lambda>p. (pt_method p, pt_segments p)) ps) = map ?f (map (\<lambda>p. (pt_method p, pt_segments p)) qs)"
    by (simp only: assms)
  then show ?thesis by (simp add: matching_methods_def comp_def)
qed

lemma mux_serve_cong:
  assumes "mt_raw t r \<noteq> ''*'' \<Longrightarrow> look (rq_method r) (mt_raw t r) = look' (rq_method r) (mt_raw t r)"
    and "others (mt_raw t r) = others' (mt_raw t r)"
  shows "mux_serve t look others r ws = mux_serve t look' others' r ws"
  using assms by (cases ws; cases "mt_raw t r = ''*''"; cases "rq_method r = ''CONNECT''";
    cases "clean_path (mt_raw t r) = mt_raw t r") (simp_all add: mux_serve_def Let_def split: option.split)

lemma webhook_mux_open:
  fixes rts :: "'st routes"
  assumes "raw_ok t r" and "\<not> is_admin_path (rq_path r)"
  shows "webhook_mux t (rts\<lparr>rt_admin := h\<rparr>) r ws = webhook_mux t rts r ws"
proof -
  have none: "find (\<lambda>p. pt_segments p = path_segments (mt_raw t r) \<and> method_ok (pt_method p) (rq_method r))
      (admin_routes g) = None" if "mt_raw t r \<noteq> ''*''" for g :: "string \<Rightarrow> 'st handler"
    using admin_pattern_path [OF assms(1) that] assms(2) by (auto simp: find_None_iff)
  have o: "open_routes (rts\<lparr>rt_admin := h\<rparr>) = open_routes rts" by (simp add: open_routes_def)
  have "mux_serve t (mux_find (open_routes rts @ admin_routes h)) (matching_methods (open_routes rts @ admin_routes h)) r ws
      = mux_serve t (mux_find (open_routes rts @ admin_routes (rt_admin rts)))
          (matching_methods (open_routes rts @ admin_routes (rt_admin rts))) r ws"
  proof (rule mux_serve_cong)
    show "matching_methods (open_routes rts @ admin_routes h) (mt_raw t r)
        = matching_methods (open_routes rts @ admin_routes (rt_admin rts)) (mt_raw t r)"
      by (rule matching_methods_keys) (use admin_routes_keys [of h "rt_admin rts"] in simp)
  qed (simp only: mux_find_def find_app none simp_thms)
  then show ?thesis by (simp add: webhook_mux_def Let_def o)
qed

section \<open>The requests of the proxy\<close>

lemma smoke_endpoints_open: "is_allowed_smoke_endpoint e \<Longrightarrow> \<not> is_admin_path e"
proof -
  have "list_all (\<lambda>e. \<not> is_admin_path e) smoke_endpoints" by code_simp
  then show "is_allowed_smoke_endpoint e \<Longrightarrow> \<not> is_admin_path e"
    by (simp add: is_allowed_smoke_endpoint_def list_all_iff)
qed

lemma smoke_endpoints_not_smoke:
  "is_allowed_smoke_endpoint e \<Longrightarrow> join_segments [''ui'', ''smoke-test''] \<noteq> e"
  by (auto simp: is_allowed_smoke_endpoint_def smoke_endpoints_def join_segments_def)

lemma ui_smoke_proxy_inner:
  assumes "\<And>req ws'. is_allowed_smoke_endpoint (sm_endpoint req) \<Longrightarrow>
      f (smoke_inner_request env r req) ws' = g (smoke_inner_request env r req) ws'"
  shows "ui_smoke_proxy env f r ws = ui_smoke_proxy env g r ws"
  using assms by (auto simp: ui_smoke_proxy_def Let_def split: prod.splits option.splits)

lemma ascii_case:
  "ascii_lower (ascii_upper c) = ascii_lower c" "ascii_lower (ascii_lower c) = ascii_lower c"
  "is_token_char (ascii_upper c) \<longleftrightarrow> is_token_char c" "is_token_char (ascii_lower c) \<longleftrightarrow> is_token_char c"
  by (auto simp: ascii_lower_def ascii_upper_def is_token_char_def Let_def)

lemma to_lower_token: "list_all is_token_char k \<Longrightarrow> to_lower k = map ascii_lower k"
proof (induction k rule: to_lower.induct)
  case (2 c s)
  then have "(of_char c :: nat) < 128" by (auto simp: is_token_char_def Let_def)
  then have "c \<noteq> CHR 0xE2" "c \<noteq> CHR 0xC4" by auto
  with 2 show ?case by (simp add: has_prefix_def)
qed simp

lemma canonical_from_case:
  "map ascii_lower (canonical_from b k) = map ascii_lower k"
  "list_all is_token_char (canonical_from b k) \<longleftrightarrow> list_all is_token_char k"
  by (induction b k rule: canonical_from.induct) (simp_all add: ascii_case)

lemma canonical_key_lower: "canonical_key a = canonical_key b \<Longrightarrow> to_lower a = to_lower b"
proof -
  assume c: "canonical_key a = canonical_key b"
  then have "list_all is_token_char a \<longleftrightarrow> list_all is_token_char b"
    by (metis canonical_from_case(2) canonical_key_def)
  then show ?thesis using c
    by (cases "list_all is_token_char a")
       (auto simp: canonical_key_def to_lower_token dest: arg_cong [where f = "map ascii_lower"]
         simp: canonical_from_case)
qed

definition range_sound :: "((string \<rightharpoonup> string) \<Rightarrow> (string \<times> string) list) \<Rightarrow> bool" where
  "range_sound rng \<longleftrightarrow> (\<forall>m k v. (k, v) \<in> set (rng m) \<longrightarrow> m k = Some v)"

lemma header_of_Some:
  "header_of kvs h k = Some v \<Longrightarrow> h k = Some v \<or> (\<exists>k'. (k', v) \<in> set kvs \<and> canonical_key k' = k)"
  by (induction kvs h rule: header_of.induct) (auto split: if_splits)

lemma clean_headers_kept:
  "clean_headers m kvs k = Some v \<Longrightarrow> m k = Some v \<or> smoke_header_kept (to_lower k)"
proof (induction m kvs rule: clean_headers.induct)
  case (2 m k' v' kvs)
  from "2.IH" [OF refl refl] "2.prems" show ?case by (auto simp: Let_def split: if_splits)
qed simp

lemma sanitize_kept: "sanitize_smoke_headers kvs k = Some v \<Longrightarrow> smoke_header_kept (to_lower k)"
proof -
  have "smoke_header_kept (to_lower ''Content-Type'')" by code_simp
  then show "sanitize_smoke_headers kvs k = Some v \<Longrightarrow> smoke_header_kept (to_lower k)"
    using clean_headers_kept [of Map.empty kvs k v]
    by (auto simp: sanitize_smoke_headers_def Let_def split: if_splits)
qed

lemma smoke_inner_path [simp]: "rq_path (smoke_inner_request env r req) = sm_endpoint req"
  by (simp add: smoke_inner_request_def Let_def)

lemma smoke_header_absent:
  assumes "range_sound (se_range env)" and "\<not> smoke_header_kept (to_lower k)"
  shows "rq_header (smoke_inner_request env r req) k = []"
proof -
  let ?c = "sanitize_smoke_headers (se_range env (sm_headers req))"
  have "header_of (se_range env ?c) Map.empty (canonical_key k) = None"
  proof (rule ccontr)
    assume "header_of (se_range env ?c) Map.empty (canonical_key k) \<noteq> None"
    then obtain v k' where "(k', v) \<in> set (se_range env ?c)" "canonical_key k' = canonical_key k"
      using header_of_Some [of "se_range env ?c" Map.empty] by fastforce
    with assms(1) have "?c k' = Some v" "to_lower k' = to_lower k"
      by (auto simp: range_sound_def intro: canonical_key_lower)
    with sanitize_kept assms(2) show False by metis
  qed
  then show ?thesis by (simp add: smoke_inner_request_def Let_def get_str_def)
qed

lemma smoke_no_token:
  assumes "range_sound (se_range env)"
  shows "\<not> jwt_accepts p cfg (smoke_inner_request env r req)"
proof -
  have "\<not> smoke_header_kept (to_lower ''Authorization'')" "trim_space [] = []" by code_simp+
  with smoke_header_absent [OF assms] show ?thesis by (simp add: jwt_accepts_def bearer_token_def)
qed

section \<open>The whole server\<close>

text \<open>What is relied on outside the code: \<open>net/url\<close> (\<open>raw_ok\<close>), the tracing middleware (it hands on the
  request with its path, headers and address) and the range over a map.\<close>

definition rooted :: "string \<Rightarrow> bool" where
  "rooted p \<longleftrightarrow> p = [] \<or> p = ''*'' \<or> hd p = CHR ''/''"

lemma smoke_endpoints_rooted: "is_allowed_smoke_endpoint e \<Longrightarrow> rooted e"
  by (auto simp: is_allowed_smoke_endpoint_def smoke_endpoints_def rooted_def)

definition server_ok :: "'st server_env \<Rightarrow> bool" where
  "server_ok env \<longleftrightarrow>
     (\<forall>r. rooted (rq_path r) \<longrightarrow> raw_ok (sv_texts env) r) \<and> local_mw (sv_tracing env) \<and> range_sound (se_range (sv_smoke env))"

lemma new_public_mux_cong:
  assumes "\<And>ws. app r ws = app' r ws" and "\<And>ws. smoke r ws = smoke' r ws"
  shows "new_public_mux t app smoke r ws = new_public_mux t app' smoke' r ws"
  using assms by (cases ws) (simp add: new_public_mux_def mux_serve_def Let_def)

text \<open>C9: nobody without a valid token learns anything from, or changes anything through, the administrative
  handlers: with administrative authentication on, a request without a valid token has the same outcome, answer and
  state, whatever the administrative handlers are, by whatever path, spelling, method or detour over the smoke
  test it comes.\<close>

theorem server_admin_unreachable:
  assumes "server_ok env" and "AdminAuthEnabled (sv_cfg env)"
    and "rooted (rq_path r)" and "\<not> jwt_accepts (sv_jwt env) (admin_jwt_of (sv_cfg env) (sv_security env)) r"
  shows "server (env\<lparr>sv_routes := (sv_routes env)\<lparr>rt_admin := h\<rparr>\<rparr>) n r ws = server env n r ws"
  using assms(3,4)
proof (induction n arbitrary: r ws)
  case (Suc n)
  let ?env = "env\<lparr>sv_routes := (sv_routes env)\<lparr>rt_admin := h\<rparr>\<rparr>"
  show ?case
  proof (cases "is_admin_path (rq_path r)")
    case True
    then show ?thesis using guarded_chain [OF assms(2) True Suc.prems(2)] by simp
  next
    case False
    have rng: "range_sound (se_range (sv_smoke env))" using assms(1) by (simp add: server_ok_def)
    have smoke: "ui_smoke_proxy (sv_smoke env) (deferred_serve (Some (server ?env n))) r' ws'
        = ui_smoke_proxy (sv_smoke env) (deferred_serve (Some (server env n))) r' ws'" for r' ws'
      by (rule ui_smoke_proxy_inner) (simp add: deferred_serve_def Suc.IH smoke_endpoints_rooted smoke_no_token [OF rng])
    have app: "webhook_mux (sv_texts env) ((sv_routes env)\<lparr>rt_admin := h\<rparr>) r' ws'
        = webhook_mux (sv_texts env) (sv_routes env) r' ws'" if "same_request r r'" for r' ws'
      using that assms(1) False Suc.prems(1)
      by (intro webhook_mux_open) (simp_all add: server_ok_def same_request_def)
    show ?thesis
      using assms(1) app smoke
      by (auto simp: server_ok_def intro!: local_build_handler new_public_mux_cong)
  qed
qed simp

text \<open>The server's calls of itself have depth two: a smoke test cannot reach the smoke test.\<close>

theorem server_depth:
  assumes "server_ok env"
  shows "server env (Suc (Suc n)) r ws = server env 2 r ws"
proof -
  have inner: "server env (Suc n) r' ws' = server env (Suc 0) r' ws'"
    if "is_allowed_smoke_endpoint (rq_path r')" for n r' ws'
  proof -
    have "new_public_mux (sv_texts env) app smoke r2 ws2 = new_public_mux (sv_texts env) app smoke' r2 ws2"
      if s: "same_request r' r2" for r2 ws2 app and smoke smoke' :: "'a handler"
    proof -
      have path: "rq_path r2 = rq_path r'" using s by (simp add: same_request_def)
      then have "raw_ok (sv_texts env) r2"
        using assms smoke_endpoints_rooted [OF \<open>is_allowed_smoke_endpoint (rq_path r')\<close>]
        by (simp add: server_ok_def)
      moreover note path
      ultimately have "mt_raw (sv_texts env) r2 \<noteq> ''*'' \<Longrightarrow>
          path_segments (mt_raw (sv_texts env) r2) \<noteq> [''ui'', ''smoke-test'']"
        using segments_join [of "mt_raw (sv_texts env) r2" "rq_path r2"]
          smoke_endpoints_not_smoke [OF \<open>is_allowed_smoke_endpoint (rq_path r')\<close>]
        by (auto simp: raw_ok_def)
      then show ?thesis
        unfolding new_public_mux_def by (intro mux_serve_cong) simp_all
    qed
    then show ?thesis
      using assms by (auto simp: server_ok_def intro!: local_build_handler)
  qed
  have smoke: "ui_smoke_proxy (sv_smoke env) (deferred_serve (Some (server env (Suc n)))) r' ws'
      = ui_smoke_proxy (sv_smoke env) (deferred_serve (Some (server env (Suc 0)))) r' ws'" for r' ws'
    by (rule ui_smoke_proxy_inner) (simp add: deferred_serve_def inner [of _ n] del: server.simps)
  have "server env (Suc (Suc n)) r ws = server env (Suc (Suc 0)) r ws"
    unfolding server.simps(2) [of env "Suc n"] server.simps(2) [of env "Suc 0"]
    using assms by (intro local_build_handler new_public_mux_cong smoke) (simp_all add: server_ok_def)
  then show ?thesis by (simp only: numeral_2_eq_2)
qed

section \<open>A concrete server\<close>

definition escape_all :: "string \<Rightarrow> string" where
  "escape_all p = concat (map (\<lambda>c. if c = CHR ''/'' then [c]
     else [CHR ''%'', hex_digit (of_char c div 16), hex_digit (of_char c mod 16)]) p)"

lemma hex_val_digit: "n < 16 \<Longrightarrow> hex_val (hex_digit n) = Some n"
  by (auto simp: hex_val_def hex_digit_def Let_def)

lemma path_unescape_all: "path_unescape (escape_all p) = Some p"
proof (induction p)
  case (Cons c p)
  have "(of_char c :: nat) < 256" by simp
  then have "(of_char c :: nat) div 16 < 16" by arith
  then have "hex_val (hex_digit (of_char c div 16)) = Some (of_char c div 16)"
    "hex_val (hex_digit (of_char c mod 16)) = Some (of_char c mod 16)"
    by (auto intro!: hex_val_digit)
  with Cons show ?case by (simp add: escape_all_def)
qed (simp add: escape_all_def)

definition demo_server :: "console server_env" where
  "demo_server =
     \<lparr>sv_cfg = gw_config\<lparr>AdminAuthEnabled := True\<rparr>,
      sv_limiter = limiter_of (\<lambda>k n t st.
        (\<lparr>rr_allowed = True, rr_remaining = 1, rr_reset = 0, rr_limit = n\<rparr>, st)),
      sv_security = (\<lambda>r reason status st. st), sv_emit = (\<lambda>e st. st),
      sv_jwt = (\<lambda>k m i a t. Inl (ErrText ''bad'')), sv_ip_text = (\<lambda>a. ''ip''), sv_rfc = itoa,
      sv_tracing = (\<lambda>h. h),
      sv_texts = \<lparr>mt_raw = (\<lambda>r. if rq_path r = ''*'' then ''*'' else escape_all (rq_path r)),
                  mt_location = (\<lambda>p r. p), mt_link_page = (\<lambda>p r. p)\<rparr>,
      sv_smoke = \<lparr>se_trusted = [], se_get = (\<lambda>st. new_ui_limiter 0), se_put = (\<lambda>l st. st),
                  se_range = (\<lambda>m. []), se_draws = rq_draws, se_render = (\<lambda>b. ''{}''), se_sniff = (\<lambda>b. ''text'')\<rparr>,
      sv_routes = \<lparr>rt_page = product_ui,
                   rt_admin = (\<lambda>n. if n = ''events/replay'' then replay_failed_event demo_admin else configz demo_admin),
                   rt_webhook = (\<lambda>s r ws. (Returned, ws))\<rparr>\<rparr>"

lemma demo_server_ok: "server_ok demo_server"
proof -
  have "escape_all p = [] \<or> hd (escape_all p) = CHR ''/''" if "rooted p" "p \<noteq> ''*''" for p
    using that by (cases p) (auto simp: rooted_def escape_all_def)
  then have "raw_ok (sv_texts demo_server) r" if "rooted (rq_path r)" for r
    using that by (auto simp: raw_ok_def demo_server_def path_unescape_all)
  then show ?thesis by (auto simp: server_ok_def demo_server_def range_sound_def local_mw_def)
qed

theorem server_admin_unreachable_witness:
  "server (demo_server\<lparr>sv_routes := (sv_routes demo_server)\<lparr>rt_admin := (\<lambda>n r ws. (Panicked, ws))\<rparr>\<rparr>) 2
      (demo_http\<lparr>rq_path := ''/api/v1/admin/events/replay''\<rparr>) (new_writer, demo_console)
    = server demo_server 2 (demo_http\<lparr>rq_path := ''/api/v1/admin/events/replay''\<rparr>) (new_writer, demo_console)"
proof (rule server_admin_unreachable [OF demo_server_ok])
  have "bearer_token (demo_http\<lparr>rq_path := ''/api/v1/admin/events/replay''\<rparr>) = None" by code_simp
  then show "\<not> jwt_accepts (sv_jwt demo_server) (admin_jwt_of (sv_cfg demo_server) (sv_security demo_server))
      (demo_http\<lparr>rq_path := ''/api/v1/admin/events/replay''\<rparr>)"
    by (simp add: jwt_accepts_def)
qed (simp_all add: demo_server_def rooted_def)

theorem server_depth_witness:
  "server demo_server 5 demo_http (new_writer, demo_console) = server demo_server 2 demo_http (new_writer, demo_console)"
proof -
  have "5 = Suc (Suc 3)" by simp
  then show ?thesis
    using server_depth [OF demo_server_ok, of 3 demo_http "(new_writer, demo_console)"] by (simp only:)
qed

end
