(* ===== verification/Regex.thy ===== *)
theory Regex
  imports Go_Prelude
begin

text \<open>
  The part of \<open>regexp\<close> that the repository uses: concatenation, alternation, groups, optional parts
  and greedy repetition of one character class. A class is a predicate on single-byte characters and
  a list of characters of several bytes (which case folding adds). The matches at a position are listed in the
  order of preference of Go's leftmost-first semantics; a search takes the first match of the first position
  that has one.
\<close>

section \<open>Expressions\<close>

datatype rx =
    ROne "char \<Rightarrow> bool" "string list"
  | RMany "char \<Rightarrow> bool" "string list"
  | ROpt rx
  | RSeq rx rx
  | RAlt rx rx
  | RGroup nat rx

type_synonym captures = "(nat \<times> string) list"

text \<open>The length of the character of the class at the start of a text.\<close>

definition class_len :: "(char \<Rightarrow> bool) \<Rightarrow> string list \<Rightarrow> string \<Rightarrow> nat option" where
  "class_len P extra s =
     (case s of
        [] \<Rightarrow> None
      | c # _ \<Rightarrow>
          if P c then Some 1
          else map_option length (find (\<lambda>x. x \<noteq> [] \<and> has_prefix s x) extra))"

lemma class_len_pos: "class_len P extra s = Some n \<Longrightarrow> 0 < n \<and> n \<le> length s"
  by (auto simp: class_len_def find_Some_iff has_prefix_iff split: list.splits if_splits
      dest: prefix_length_le)

text \<open>One character or more, the longest repetition first.\<close>

function many_lens :: "(char \<Rightarrow> bool) \<Rightarrow> string list \<Rightarrow> string \<Rightarrow> nat list" where
  "many_lens P extra s =
     (case class_len P extra s of
        None \<Rightarrow> []
      | Some n \<Rightarrow> map ((+) n) (many_lens P extra (drop n s)) @ [n])"
  by pat_completeness auto
termination
  by (relation "measure (\<lambda>(P, extra, s). length s)") (auto dest: class_len_pos)

declare many_lens.simps [simp del]

fun rx_matches :: "rx \<Rightarrow> string \<Rightarrow> (nat \<times> captures) list" where
  "rx_matches (ROne P extra) s = (case class_len P extra s of None \<Rightarrow> [] | Some n \<Rightarrow> [(n, [])])"
| "rx_matches (RMany P extra) s = map (\<lambda>n. (n, [])) (many_lens P extra s)"
| "rx_matches (ROpt r) s = rx_matches r s @ [(0, [])]"
| "rx_matches (RSeq r1 r2) s =
     concat (map (\<lambda>(n, g). map (\<lambda>(m, h). (n + m, g @ h)) (rx_matches r2 (drop n s))) (rx_matches r1 s))"
| "rx_matches (RAlt r1 r2) s = rx_matches r1 s @ rx_matches r2 s"
| "rx_matches (RGroup k r) s = map (\<lambda>(n, g). (n, (k, take n s) # g)) (rx_matches r s)"

definition rx_first :: "rx \<Rightarrow> string \<Rightarrow> (nat \<times> captures) option" where
  "rx_first r s = (case rx_matches r s of [] \<Rightarrow> None | m # _ \<Rightarrow> Some m)"

text \<open>A group that took no part is empty in the replacement.\<close>

definition capture :: "captures \<Rightarrow> nat \<Rightarrow> string" where
  "capture g k = (case map_of g k of None \<Rightarrow> [] | Some s \<Rightarrow> s)"

text \<open>\<open>ReplaceAll\<close>, for expressions that do not match the empty text.\<close>

function replace_all :: "rx \<Rightarrow> (captures \<Rightarrow> string) \<Rightarrow> string \<Rightarrow> string" where
  "replace_all r tmpl [] = []"
| "replace_all r tmpl (c # s) =
     (case rx_first r (c # s) of
        Some (Suc n, g) \<Rightarrow> tmpl g @ replace_all r tmpl (drop n s)
      | _ \<Rightarrow> c # replace_all r tmpl s)"
  by pat_completeness auto
termination
  by (relation "measure (\<lambda>(r, tmpl, s). length s)") auto

text \<open>Case folding of a word: \<open>s\<close> also stands for the long s, \<open>k\<close> for the Kelvin sign.\<close>

definition long_s :: string where "long_s = [CHR 0xC5, CHR 0xBF]"
definition kelvin :: string where "kelvin = [CHR 0xE2, CHR 0x84, CHR 0xAA]"

definition fold_letter :: "char \<Rightarrow> rx" where
  "fold_letter c =
     ROne (\<lambda>x. ascii_lower x = c) (if c = CHR ''s'' then [long_s] else if c = CHR ''k'' then [kelvin] else [])"

fun fold_word :: "string \<Rightarrow> rx" where
  "fold_word [] = ROpt (ROne (\<lambda>x. False) [])"
| "fold_word [c] = fold_letter c"
| "fold_word (c # d # s) = RSeq (fold_letter c) (fold_word (d # s))"

definition one_of :: "string \<Rightarrow> rx" where "one_of cs = ROne (\<lambda>c. c \<in> set cs) []"

definition is_lower :: "char \<Rightarrow> bool" where
  "is_lower c \<longleftrightarrow> 97 \<le> (of_char c :: nat) \<and> (of_char c :: nat) \<le> 122"

definition is_upper :: "char \<Rightarrow> bool" where
  "is_upper c \<longleftrightarrow> 65 \<le> (of_char c :: nat) \<and> (of_char c :: nat) \<le> 90"

definition alnum :: "char \<Rightarrow> bool" where
  "alnum c \<longleftrightarrow> is_lower c \<or> is_upper c \<or> is_digit c"

section \<open>The language of an expression\<close>

text \<open>Without characters of several bytes a match depends on the matched text only.\<close>

fun plain :: "rx \<Rightarrow> bool" where
  "plain (ROne P extra) \<longleftrightarrow> extra = []"
| "plain (RMany P extra) \<longleftrightarrow> extra = []"
| "plain (ROpt r) \<longleftrightarrow> plain r"
| "plain (RSeq r1 r2) \<longleftrightarrow> plain r1 \<and> plain r2"
| "plain (RAlt r1 r2) \<longleftrightarrow> plain r1 \<and> plain r2"
| "plain (RGroup k r) \<longleftrightarrow> plain r"

fun lang :: "rx \<Rightarrow> string set" where
  "lang (ROne P extra) = {[c] | c. P c}"
| "lang (RMany P extra) = {w. w \<noteq> [] \<and> list_all P w}"
| "lang (ROpt r) = insert [] (lang r)"
| "lang (RSeq r1 r2) = {u @ v | u v. u \<in> lang r1 \<and> v \<in> lang r2}"
| "lang (RAlt r1 r2) = lang r1 \<union> lang r2"
| "lang (RGroup k r) = lang r"

lemma class_len_plain: "class_len P [] s = (case s of [] \<Rightarrow> None | c # _ \<Rightarrow> if P c then Some 1 else None)"
  by (simp add: class_len_def split: list.splits)

lemma many_lens_plain: "n \<in> set (many_lens P [] s) \<longleftrightarrow> 0 < n \<and> n \<le> length s \<and> list_all P (take n s)"
proof (induction s arbitrary: n)
  case (Cons c s)
  show ?case
  proof (cases "P c")
    case True
    then have "many_lens P [] (c # s) = map Suc (many_lens P [] s) @ [1]"
      by (subst many_lens.simps) (simp add: class_len_plain)
    then have "n \<in> set (many_lens P [] (c # s)) \<longleftrightarrow> n = 1 \<or> (\<exists>m. n = Suc m \<and> m \<in> set (many_lens P [] s))"
      by auto
    with True show ?thesis by (cases n) (auto simp: Cons.IH)
  next
    case False
    then show ?thesis by (subst many_lens.simps) (cases n; simp add: class_len_plain)
  qed
qed (subst many_lens.simps, auto simp: class_len_plain)

lemma rx_matches_lang:
  "plain r \<Longrightarrow> n \<in> fst ` set (rx_matches r s) \<longleftrightarrow> n \<le> length s \<and> take n s \<in> lang r"
proof (induction r arbitrary: n s)
  case (ROne P extra)
  then show ?case by (cases s; cases n) (auto simp: class_len_plain)
next
  case (RMany P extra)
  then show ?case by (auto simp: image_image many_lens_plain)
next
  case (ROpt r)
  then show ?case by auto
next
  case (RSeq r1 r2)
  show ?case
  proof
    assume "n \<in> fst ` set (rx_matches (RSeq r1 r2) s)"
    then obtain a b where "a \<in> fst ` set (rx_matches r1 s)" "b \<in> fst ` set (rx_matches r2 (drop a s))" "n = a + b"
      by force
    with RSeq show "n \<le> length s \<and> take n s \<in> lang (RSeq r1 r2)"
      by (auto simp: take_add)
  next
    assume "n \<le> length s \<and> take n s \<in> lang (RSeq r1 r2)"
    then obtain u v where uv: "take n s = u @ v" "u \<in> lang r1" "v \<in> lang r2" "n \<le> length s" by auto
    let ?a = "length u" and ?b = "length v"
    have n: "n = ?a + ?b" using uv(1,4) by (metis length_append length_take min.absorb2)
    have u: "take ?a s = u" using uv(1) n by (metis append_eq_conv_conj le_add1 min.absorb1 take_take)
    have v: "take ?b (drop ?a s) = v" using uv(1) n by (metis add.commute append_eq_conv_conj drop_take take_drop)
    have "?a \<in> fst ` set (rx_matches r1 s)" using RSeq u uv n by auto
    moreover have "?b \<in> fst ` set (rx_matches r2 (drop ?a s))" using RSeq v uv n by auto
    ultimately show "n \<in> fst ` set (rx_matches (RSeq r1 r2) s)" using n by force
  qed
next
  case (RAlt r1 r2)
  then show ?case by (auto simp: image_Un)
next
  case (RGroup k r)
  then show ?case by (auto simp: image_image case_prod_unfold)
qed

lemma rx_first_None: "plain r \<Longrightarrow> rx_first r s = None \<longleftrightarrow> (\<forall>w. prefix w s \<longrightarrow> w \<notin> lang r)"
proof -
  assume p: "plain r"
  have "rx_first r s = None \<longleftrightarrow> fst ` set (rx_matches r s) = {}"
    by (simp add: rx_first_def split: list.splits)
  also have "\<dots> \<longleftrightarrow> (\<forall>n. \<not> (n \<le> length s \<and> take n s \<in> lang r))"
    unfolding rx_matches_lang [OF p, of _ s, symmetric] by auto
  also have "\<dots> \<longleftrightarrow> (\<forall>w. prefix w s \<longrightarrow> w \<notin> lang r)"
    by (metis append_eq_conv_conj linear prefix_def take_all take_is_prefix prefix_length_le)
  finally show ?thesis .
qed

lemma rx_first_Some: "plain r \<Longrightarrow> rx_first r s = Some (n, g) \<Longrightarrow> take n s \<in> lang r"
proof -
  assume p: "plain r" and f: "rx_first r s = Some (n, g)"
  then have "(n, g) \<in> set (rx_matches r s)" by (auto simp: rx_first_def split: list.splits)
  then have "n \<in> fst ` set (rx_matches r s)" by force
  with rx_matches_lang [OF p] show ?thesis by blast
qed

section \<open>Nothing is left after a replacement\<close>

text \<open>A fixed replacement whose ends no match can contain leaves no match in the whole result.\<close>

locale fence =
  fixes r :: rx and P :: "char \<Rightarrow> bool" and t :: string
  assumes plain: "plain r" and nonempty: "[] \<notin> lang r"
    and chars: "w \<in> lang r \<Longrightarrow> list_all P w"
    and fenced: "t \<noteq> []" "\<not> P (hd t)" "\<not> P (last t)"
    and quiet: "sublist w t \<Longrightarrow> w \<notin> lang r"
begin

lemma kept_prefix: "prefix w (replace_all r (\<lambda>g. t) s) \<Longrightarrow> list_all P w \<Longrightarrow> prefix w s"
proof (induction s arbitrary: w)
  case (Cons c s)
  show ?case
  proof (cases "rx_first r (c # s)")
    case None
    with Cons show ?thesis by (cases w) auto
  next
    case (Some m)
    then obtain n g where "rx_first r (c # s) = Some (Suc n, g)"
      using rx_first_Some [OF plain] nonempty by (metis old.nat.exhaust surj_pair take0)
    then have "prefix w (t @ replace_all r (\<lambda>g. t) (drop n s))" using Cons.prems(1) by simp
    then have "w = []" using Cons.prems(2) fenced(1,2) by (cases w; cases t) auto
    then show ?thesis by simp
  qed
qed simp

lemma no_match_left: "sublist w (replace_all r (\<lambda>g. t) s) \<Longrightarrow> w \<notin> lang r"
proof (induction "length s" arbitrary: s w rule: less_induct)
  case less
  show ?case
  proof (cases s)
    case Nil
    with less.prems nonempty show ?thesis by auto
  next
    case (Cons c u)
    show ?thesis
    proof (cases "rx_first r s")
      case None
      then have e: "replace_all r (\<lambda>g. t) s = c # replace_all r (\<lambda>g. t) u" by (simp add: Cons)
      with less.prems consider "prefix w (replace_all r (\<lambda>g. t) s)" | "sublist w (replace_all r (\<lambda>g. t) u)"
        by (auto simp: sublist_Cons_right)
      then show ?thesis
      proof cases
        case 1
        with kept_prefix chars rx_first_None [OF plain] None show ?thesis by blast
      next
        case 2
        with less.hyps [of u w] Cons show ?thesis by simp
      qed
    next
      case (Some m)
      then obtain n g where m: "rx_first r s = Some (Suc n, g)"
        using rx_first_Some [OF plain] nonempty by (metis old.nat.exhaust surj_pair take0)
      then have e: "replace_all r (\<lambda>g. t) s = t @ replace_all r (\<lambda>g. t) (drop n u)" by (simp add: Cons)
      with less.prems consider "sublist w t" | "sublist w (replace_all r (\<lambda>g. t) (drop n u))"
        | w1 w2 where "w = w1 @ w2" "suffix w1 t" "prefix w2 (replace_all r (\<lambda>g. t) (drop n u))"
        by (auto simp: sublist_append)
      then show ?thesis
      proof cases
        case 1
        with quiet show ?thesis by blast
      next
        case 2
        with less.hyps [of "drop n u" w] Cons show ?thesis by simp
      next
        case (3 w1 w2)
        show ?thesis
        proof (cases "w1 = []")
          case True
          with 3 less.hyps [of "drop n u" w] Cons show ?thesis by (simp add: prefix_imp_sublist)
        next
          case False
          then have "last t \<in> set w" using 3(1,2) fenced(1) by (metis UnI1 last_in_set set_append suffix_def last_append)
          with fenced(3) chars show ?thesis by (auto simp: list_all_iff)
        qed
      qed
    qed
  qed
qed

end

section \<open>Text before a match\<close>

text \<open>A text without a match, followed by a character that no match contains, is passed unchanged.\<close>

lemma replace_all_skip:
  assumes "plain r" and "[] \<notin> lang r" and "\<And>w. w \<in> lang r \<Longrightarrow> list_all P w" and "\<not> P c"
  shows "(\<And>w. sublist w p \<Longrightarrow> w \<notin> lang r) \<Longrightarrow> replace_all r tmpl (p @ c # s) = p @ c # replace_all r tmpl s"
proof (induction p)
  case Nil
  have "\<not> (prefix w (c # s) \<and> w \<in> lang r)" for w
    using assms(2-4) by (cases w) (auto simp: list_all_iff)
  then have "rx_first r (c # s) = None" using rx_first_None [OF assms(1)] by blast
  then show ?case by simp
next
  case (Cons d p)
  have "\<not> (prefix w (d # p @ c # s) \<and> w \<in> lang r)" for w
  proof
    assume w: "prefix w (d # p @ c # s) \<and> w \<in> lang r"
    then have "c \<notin> set w" using assms(3,4) by (auto simp: list_all_iff)
    moreover have "prefix w ((d # p) @ c # s)" using w by simp
    ultimately have "prefix w (d # p)" by (auto simp: prefix_append prefix_Cons)
    with Cons.prems w prefix_imp_sublist show False by blast
  qed
  then have "rx_first r (d # p @ c # s) = None" using rx_first_None [OF assms(1)] by blast
  moreover have "\<And>w. sublist w p \<Longrightarrow> w \<notin> lang r" using Cons.prems by (auto simp: sublist_Cons_right)
  ultimately show ?case using Cons.IH by simp
qed

end
