(* ===== verification/Transform.thy ===== *)
theory Transform
  imports Regex Scrubber Publishers Envelope
begin

text \<open>
  The transformers of \<open>queue/transformation.go\<close> that remove personal data from a payload before it is
  published, and what they and the structural scrubber do one after the other.
\<close>

section \<open>E-mail addresses\<close>

text \<open>\<open>[a-zA-Z0-9._%+-]+@[a-zA-Z0-9.-]+\.[a-zA-Z]{2,}\<close>\<close>

definition local_char :: "char \<Rightarrow> bool" where
  "local_char c \<longleftrightarrow> alnum c \<or> c \<in> set ''._%+-''"

definition domain_char :: "char \<Rightarrow> bool" where
  "domain_char c \<longleftrightarrow> alnum c \<or> c \<in> set ''.-''"

definition alpha :: "char \<Rightarrow> bool" where
  "alpha c \<longleftrightarrow> is_lower c \<or> is_upper c"

definition email_rx :: rx where
  "email_rx =
     RSeq (RMany local_char [])
       (RSeq (one_of ''@'')
         (RSeq (RMany domain_char [])
           (RSeq (one_of ''.'') (RSeq (ROne alpha []) (RMany alpha [])))))"

definition email_mark :: string where "email_mark = ''[REDACTED_EMAIL]''"

definition scrub_emails :: transformer where
  "scrub_emails body = replace_all email_rx (\<lambda>g. email_mark) body"

section \<open>Tokens\<close>

text \<open>\<open>(?i)(["']?(?:bearer|token|secret|password|key)["']?)([=:]\s*|\s+)(["']?)[a-zA-Z0-9\-_.~%]+(["']?)\<close>\<close>

definition space_char :: "char \<Rightarrow> bool" where
  "space_char c \<longleftrightarrow> c \<in> {CHR 0x09, CHR 0x0A, CHR 0x0C, CHR 0x0D, CHR 0x20}"

definition value_char :: "char \<Rightarrow> bool" where
  "value_char c \<longleftrightarrow> alnum c \<or> c \<in> set ''-_.~%''"

definition quote_opt :: rx where
  "quote_opt = ROpt (one_of [CHR 0x22, CHR 0x27])"

definition token_rx :: rx where
  "token_rx =
     RSeq (RGroup 1 (RSeq quote_opt (RSeq
            (RAlt (fold_word ''bearer'') (RAlt (fold_word ''token'') (RAlt (fold_word ''secret'')
              (RAlt (fold_word ''password'') (fold_word ''key'')))))
            quote_opt)))
       (RSeq (RGroup 2 (RAlt (RSeq (one_of ''=:'') (ROpt (RMany space_char []))) (RMany space_char [])))
         (RSeq (RGroup 3 quote_opt)
           (RSeq (RMany value_char [long_s, kelvin]) (RGroup 4 quote_opt))))"

definition token_template :: "captures \<Rightarrow> string" where
  "token_template g = capture g 1 @ capture g 2 @ capture g 3 @ ''[REDACTED_SECRET]'' @ capture g 4"

definition scrub_tokens :: transformer where
  "scrub_tokens body = replace_all token_rx token_template body"

text \<open>The transformers in the order in which the factory puts them.\<close>

definition factory_transformers :: "(string \<Rightarrow> string option) \<Rightarrow> (json \<Rightarrow> string) \<Rightarrow> transformer list" where
  "factory_transformers num64 marshal =
     [scrub_emails, scrub_tokens, scrub num64 marshal (new_structural_scrubber [])]"

lemma token_examples:
  "scrub_tokens ''token=abc x'' = ''token=[REDACTED_SECRET] x''"
  "scrub_tokens ''Bearer abc+def'' = ''Bearer [REDACTED_SECRET]+def''"
  "scrub_tokens ''password: hunter2, monkey: 7'' = ''password: [REDACTED_SECRET], monkey: [REDACTED_SECRET]''"
  by code_simp+

lemma email_examples:
  "scrub_emails ''to a.b@x.org, c@d'' = ''to [REDACTED_EMAIL], c@d''"
  by code_simp

section \<open>No address is left\<close>

definition email_char :: "char \<Rightarrow> bool" where
  "email_char c \<longleftrightarrow> local_char c \<or> domain_char c \<or> c = CHR ''@''"

text \<open>What the expression takes for an address.\<close>

definition is_address :: "string \<Rightarrow> bool" where
  "is_address w \<longleftrightarrow>
     (\<exists>user host top. w = user @ ''@'' @ host @ ''.'' @ top
        \<and> user \<noteq> '''' \<and> list_all local_char user \<and> host \<noteq> '''' \<and> list_all domain_char host
        \<and> 2 \<le> length top \<and> list_all alpha top)"

lemma email_lang: "w \<in> lang email_rx \<longleftrightarrow> is_address w"
proof
  assume "w \<in> lang email_rx"
  then obtain user host a top where "w = user @ ''@'' @ host @ ''.'' @ a # top"
    "user \<noteq> []" "list_all local_char user" "host \<noteq> []" "list_all domain_char host" "alpha a"
    "top \<noteq> []" "list_all alpha top"
    by (auto simp: email_rx_def one_of_def)
  moreover from this have "2 \<le> length (a # top)" by (cases top) auto
  ultimately show "is_address w" unfolding is_address_def
    by (intro exI [of _ user] exI [of _ host] exI [of _ "a # top"] conjI) simp_all
next
  assume "is_address w"
  then obtain user host top where w: "w = user @ ''@'' @ host @ ''.'' @ top" "user \<noteq> []"
      "list_all local_char user" "host \<noteq> []" "list_all domain_char host" "2 \<le> length top" "list_all alpha top"
    by (auto simp: is_address_def)
  then obtain a top' where "top = a # top'" "top' \<noteq> []" by (cases top) (auto simp: Suc_le_eq)
  with w show "w \<in> lang email_rx"
    by (simp add: email_rx_def one_of_def) (metis append_Cons append_Nil)
qed

lemma email_lang_chars: "w \<in> lang email_rx \<Longrightarrow> list_all email_char w \<and> CHR ''@'' \<in> set w"
  by (auto simp: email_lang is_address_def email_char_def list_all_iff local_char_def domain_char_def alpha_def alnum_def)

lemma email_ends: "\<not> email_char (CHR ''['')" "\<not> email_char (CHR '']'')" "\<not> email_char (CHR '','')"
  by code_simp+

interpretation email: fence email_rx email_char email_mark
proof
  show "plain email_rx" by (simp add: email_rx_def one_of_def)
  show "[] \<notin> lang email_rx" using email_lang_chars by fastforce
  show "list_all email_char w" if "w \<in> lang email_rx" for w using that email_lang_chars by blast
  show "email_mark \<noteq> []" "\<not> email_char (hd email_mark)" "\<not> email_char (last email_mark)"
    using email_ends by (simp_all add: email_mark_def)
  show "w \<notin> lang email_rx" if "sublist w email_mark" for w
  proof -
    have "CHR ''@'' \<notin> set email_mark" by (simp add: email_mark_def)
    then have "CHR ''@'' \<notin> set w" using that set_mono_sublist by blast
    then show ?thesis using email_lang_chars by blast
  qed
qed

text \<open>C23: after the first transformer no e-mail address is left anywhere in the payload, whatever the payload is.\<close>

theorem no_address_left: "\<not> (\<exists>before w after. scrub_emails body = before @ w @ after \<and> is_address w)"
  using email.no_match_left [of _ body] by (auto simp: scrub_emails_def email_lang sublist_def)

section \<open>How the token transformer switches the structural scrubber off\<close>

lemmas token_eval = rx_first_def token_rx_def quote_opt_def one_of_def fold_letter_def class_len_def
  ascii_lower_def many_lens.simps space_char_def value_char_def alnum_def is_lower_def is_upper_def
  is_digit_def long_s_def kelvin_def has_prefix_def

definition null_token :: string where
  "null_token = ''{'' @ [CHR 0x22] @ ''token'' @ [CHR 0x22] @ '':null''"

definition broken_token :: string where
  "broken_token = ''{'' @ [CHR 0x22] @ ''token'' @ [CHR 0x22] @ '':[REDACTED_SECRET]''"

lemma token_first:
  "rx_first token_rx (CHR ''{'' # s) = None" "rx_first token_rx (CHR '','' # s) = None"
  "rx_first token_rx ([CHR 0x22] @ ''token'' @ [CHR 0x22] @ '':null,'' @ s)
     = Some (12, [(1, [CHR 0x22] @ ''token'' @ [CHR 0x22]), (2, '':''), (3, []), (4, [])])"
  by (simp_all add: token_eval)

lemma scrub_null_token: "scrub_tokens (null_token @ '','' @ s) = broken_token @ '','' @ scrub_tokens s"
  using token_first(1) [of "tl null_token @ '','' @ s"] token_first(2) [of s] token_first(3) [of s]
  by (simp add: scrub_tokens_def null_token_def broken_token_def token_template_def capture_def)

lemma broken_token_invalid: "json_parse (broken_token @ s) = None"
  by (simp add: broken_token_def json_parse_def value_fuel_def skip_ws_def json_ws_def lex_string_def
      pval.simps pobj.simps parr.simps has_prefix_def lex_number_def lex_int_def is_digit_def)

lemma emails_null_token: "scrub_emails (null_token @ '','' @ s) = null_token @ '','' @ scrub_emails s"
proof -
  have "w \<notin> lang email_rx" if "sublist w null_token" for w
  proof -
    have "CHR ''@'' \<notin> set null_token" by (simp add: null_token_def)
    then have "CHR ''@'' \<notin> set w" using that set_mono_sublist by blast
    then show ?thesis using email_lang_chars by blast
  qed
  then show ?thesis
    using replace_all_skip [OF email.plain email.nonempty email.chars email_ends(3), of null_token "\<lambda>g. email_mark" s]
    by (simp add: scrub_emails_def)
qed

text \<open>The token transformer turns the payload into something that is not JSON any more, so the structural
  scrubber leaves it as it is.\<close>

lemma null_token_disables_scrubber:
  "foldl (\<lambda>b t. t b) (null_token @ '','' @ rest) (factory_transformers num64 marshal)
     = broken_token @ '','' @ scrub_tokens (scrub_emails rest)"
proof -
  have "scrub num64 marshal fields (broken_token @ s) = broken_token @ s" for fields s
    by (simp add: scrub_def unmarshal_any_def broken_token_invalid)
  with emails_null_token [of rest] scrub_null_token [of "scrub_emails rest"] show ?thesis
    by (simp add: factory_transformers_def)
qed

definition credential_rest :: string where
  "credential_rest = [CHR 0x22] @ ''credential'' @ [CHR 0x22] @ '':'' @ [CHR 0x22] @ ''hunter2'' @ [CHR 0x22] @ ''}''"

text \<open>The scrubber alone removes the credential; behind the token transformer it is published.\<close>

lemma credential_published:
  "unmarshal_any small_numbers (null_token @ '','' @ credential_rest)
     = Some (JObj [(''credential'', JStr ''hunter2''), (''token'', JNull)])"
  "is_sensitive default_sensitive_fields ''credential''"
  "foldl (\<lambda>b t. t b) (null_token @ '','' @ credential_rest) (factory_transformers small_numbers tell_tale)
     = broken_token @ '','' @ credential_rest"
  by code_simp+

section \<open>What becomes of such an event\<close>

text \<open>\<open>json.Marshal\<close> refuses an envelope whose raw body is not JSON.\<close>

definition refuses_invalid :: "(raw_envelope \<Rightarrow> string result) \<Rightarrow> bool" where
  "refuses_invalid marshal \<longleftrightarrow> (\<forall>e. json_valid (env_body e) \<or> is_err (marshal e))"



end
