(* ===== verification/Replay_Cmd.thy ===== *)
theory Replay_Cmd
  imports Envelope Fail_Store_Pg
begin

text \<open>
  The command \<open>cmd/replay\<close>: an event from a file or from the failed-event store is published again. The
  values of the flags, what the file system and the database answer, and the answer of the publisher are
  arguments; the text of quoted values is a function.
\<close>

section \<open>Flags\<close>

record replay_flags =
  rf_file :: string
  rf_event :: string
  rf_source :: string
  rf_dry_run :: bool
  rf_timeout :: duration
  rf_headers :: "(string \<times> string) list"

text \<open>\<open>kvFlags.Set\<close>; the map is kept as the list of its keys in the order they were first set.\<close>

definition kv_set ::
  "(string \<Rightarrow> string) \<Rightarrow> string \<Rightarrow> (string \<times> string) list \<Rightarrow> goerr option \<times> (string \<times> string) list" where
  "kv_set quote arg kvs =
     (case split_first (CHR ''='') arg of
        (k, None) \<Rightarrow> (Some (ErrText (''invalid header '' @ quote arg @ '': expected Key=Value'')), kvs)
      | (k, Some v) \<Rightarrow>
          (let key = trim_space k
           in if key = '''' then (Some (ErrText (''invalid header '' @ quote arg @ '': key must not be empty'')), kvs)
              else (None, AList.update key v kvs)))"

section \<open>Loading the event\<close>

record file_access =
  fa_abs :: "string result"
  fa_resolved :: "string result"
  fa_cwd :: "string result"
  fa_read :: "string \<Rightarrow> string result"

definition load_error :: "app_code \<Rightarrow> string \<Rightarrow> goerr option \<Rightarrow> 'a result" where
  "load_error code msg cause = Inl (app_new ''cmd.replay.loadFile'' code msg cause)"

definition load_event_from_file ::
  "(string \<Rightarrow> string) \<Rightarrow> (string \<Rightarrow> envelope_file result) \<Rightarrow> file_access \<Rightarrow> string \<Rightarrow> (string \<times> string) list
     \<Rightarrow> replay_event result" where
  "load_event_from_file quote unmarshal fa source_override overrides =
     (case fa_abs fa of
        Inl err \<Rightarrow> load_error CodeReplayReadFailed ''invalid replay file path'' (Some err)
      | Inr apath \<Rightarrow>
     (case fa_resolved fa of
        Inl err \<Rightarrow> load_error CodeReplayReadFailed ''cannot resolve symlinks in path'' (Some err)
      | Inr resolved \<Rightarrow>
     (case fa_cwd fa of
        Inl err \<Rightarrow> load_error CodeReplayReadFailed ''cannot determine working directory'' (Some err)
      | Inr cwd \<Rightarrow>
          if \<not> has_prefix resolved cwd
          then load_error CodeReplayReadFailed ''file path must be within current directory''
                 (Some (ErrText (''path '' @ quote resolved @ '' not under '' @ quote cwd)))
          else (case fa_read fa resolved of
             Inl err \<Rightarrow> load_error CodeReplayReadFailed ''read replay file failed'' (Some err)
           | Inr raw \<Rightarrow>
               (case parse_input unmarshal raw source_override overrides of
                  Inl err \<Rightarrow> load_error CodeReplayInputInvalid ''invalid replay input'' (Some err)
                | Inr ev \<Rightarrow> Inr ev)))))"

text \<open>The store: Postgres, with the errors of connecting and of creating the table, or the file.\<close>

record store_access =
  sx_connect :: "goerr option"
  sx_create :: "goerr option"
  sx_query :: "goerr option"
  sx_table :: pg_table
  sx_io :: store_io
  sx_files :: "string \<Rightarrow> event_file"

definition store_error :: "app_code \<Rightarrow> string \<Rightarrow> goerr option \<Rightarrow> 'a result" where
  "store_error code msg cause = Inl (app_new ''cmd.replay.loadStore'' code msg cause)"

definition store_lookup :: "store_access \<Rightarrow> config \<Rightarrow> string \<Rightarrow> failed_event result result" where
  "store_lookup sx cfg eid =
     (if trim_space (DatabaseURL cfg) \<noteq> '''' then
        (case sx_connect sx of
           Some err \<Rightarrow> store_error CodeReplayConfigInvalid ''connect to database failed'' (Some err)
         | None \<Rightarrow>
             (case sx_create sx of
                Some err \<Rightarrow> store_error CodeReplayConfigInvalid ''create postgres store failed'' (Some err)
              | None \<Rightarrow> Inr (pg_get_by_id (sx_query sx) eid (sx_table sx))))
      else
        (let path = (if trim_space (FailedStorePath cfg) = '''' then ''data/failed-events.jsonl''
                     else trim_space (FailedStorePath cfg))
         in (case new_file_store path of
               Inl err \<Rightarrow>
                 store_error CodeReplayConfigInvalid ''invalid failed event store configuration'' (Some err)
             | Inr p \<Rightarrow> Inr (fs_get_by_id (sx_io sx) eid (sx_files sx p)))))"

definition load_event_from_store ::
  "store_access \<Rightarrow> config \<Rightarrow> string \<Rightarrow> (string \<times> string) list \<Rightarrow> replay_event result" where
  "load_event_from_store sx cfg eid overrides =
     (case store_lookup sx cfg eid of
        Inl err \<Rightarrow> Inl err
      | Inr (Inl err) \<Rightarrow>
          if errors_is err ErrNotFound
          then store_error CodeReplayEventNotFound ''failed event not found'' (Some err)
          else store_error CodeReplayReadFailed ''read failed event failed'' (Some err)
      | Inr (Inr e) \<Rightarrow>
          Inr \<lparr>re_source = ev_source e,
               re_headers = (case ev_headers e of None \<Rightarrow> Map.empty | Some h \<Rightarrow> h) ++ map_of overrides,
               re_body = ev_body e\<rparr>)"

section \<open>The command\<close>

datatype replay_target = TargetLog | TargetPubSub pubsub_publisher

text \<open>\<open>buildPublisher\<close>; \<open>open_pubsub\<close> is the answer of \<open>NewPubSubPublisher\<close> without options.\<close>

definition build_replay_publisher ::
  "(string \<Rightarrow> string) \<Rightarrow> config \<Rightarrow> pubsub_publisher result \<Rightarrow> replay_target result" where
  "build_replay_publisher quote cfg open_pubsub =
     (if QueueBackend cfg = '''' \<or> QueueBackend cfg = ''log'' then Inr TargetLog
      else if QueueBackend cfg = ''pubsub'' then
        (if trim_space (PubSubProjectID cfg) = '''' \<or> trim_space (PubSubTopicID cfg) = ''''
         then Inl (ErrText ''pubsub replay requires PUBSUB_PROJECT_ID and PUBSUB_TOPIC_ID'')
         else (case open_pubsub of Inl err \<Rightarrow> Inl err | Inr p \<Rightarrow> Inr (TargetPubSub p)))
      else Inl (ErrText (''unsupported queue backend '' @ quote (QueueBackend cfg))))"

record replay_run =
  rn_exit :: int
  rn_message :: "goerr option"
  rn_published :: "replay_event list"

definition replay_exit :: "int \<Rightarrow> goerr option \<Rightarrow> replay_run" where
  "replay_exit code msg = \<lparr>rn_exit = code, rn_message = msg, rn_published = []\<rparr>"

text \<open>\<open>publish\<close> is the answer of the publisher that was built.\<close>

definition run_replay ::
  "(string \<Rightarrow> string) \<Rightarrow> (string \<Rightarrow> envelope_file result) \<Rightarrow> file_access \<Rightarrow> store_access \<Rightarrow> config
     \<Rightarrow> pubsub_publisher result \<Rightarrow> (replay_target \<Rightarrow> replay_event \<Rightarrow> goerr option) \<Rightarrow> replay_flags \<Rightarrow> replay_run"
where
  "run_replay quote unmarshal fa sx cfg open_pubsub publish fl =
     (let file = trim_space (rf_file fl); eid = trim_space (rf_event fl)
      in if (file = '''') = (eid = '''')
         then replay_exit 1 (Some (ErrText ''provide exactly one input source: -file or -event-id''))
         else if rf_timeout fl \<le> 0 then replay_exit 1 (Some (ErrText ''timeout must be > 0''))
         else (case (if file \<noteq> '''' then load_event_from_file quote unmarshal fa (rf_source fl) (rf_headers fl)
                     else load_event_from_store sx cfg eid (rf_headers fl)) of
            Inl err \<Rightarrow> replay_exit 1 (Some err)
          | Inr ev \<Rightarrow>
              if rf_dry_run fl then replay_exit 0 None
              else (case build_replay_publisher quote cfg open_pubsub of
                 Inl err \<Rightarrow> replay_exit 1 (Some (app_new ''cmd.replay.buildPublisher'' CodeReplayConfigInvalid
                                                    ''build publisher failed'' (Some err)))
               | Inr target \<Rightarrow>
                   (case publish target ev of
                      Some err \<Rightarrow>
                        \<lparr>rn_exit = 1, rn_message = Some (app_new ''cmd.replay.publish'' CodeReplayPublishFailed
                           ''publish replay event failed'' (Some err)), rn_published = [ev]\<rparr>
                    | None \<Rightarrow> \<lparr>rn_exit = 0, rn_message = None, rn_published = [ev]\<rparr>))))"

text \<open>What the error stream shows of the message: the code in brackets, if it has one, and the text.\<close>

definition exit_with_app_error :: "goerr \<Rightarrow> string" where
  "exit_with_app_error err =
     (if code_of err = CodeNone then ''replay: '' @ error_text err @ [CHR 0x0A]
      else ''replay: ['' @ code_text (code_of err) @ ''] '' @ error_text err @ [CHR 0x0A])"

section \<open>What the command does\<close>

lemma kv_set_keys: "kv_set quote arg kvs = (None, kvs') \<Longrightarrow>
    \<exists>k v. k \<noteq> [] \<and> map_of kvs' = (map_of kvs)(k \<mapsto> v) \<and> trim_space (fst (split_first (CHR ''='') arg)) = k"
  by (auto simp: kv_set_def Let_def update_conv' split: prod.splits option.splits if_splits)

text \<open>The working directory is compared as a string prefix: a directory beside it passes too.\<close>

lemma sibling_directory_passes:
  "load_event_from_file quote unmarshal
     \<lparr>fa_abs = Inr p, fa_resolved = Inr ''/srv/app-secrets/e.json'', fa_cwd = Inr ''/srv/app'',
      fa_read = (\<lambda>f. Inr raw)\<rparr> source []
   = (case parse_input unmarshal raw source [] of
        Inl err \<Rightarrow> load_error CodeReplayInputInvalid ''invalid replay input'' (Some err) | Inr ev \<Rightarrow> Inr ev)"
  by (simp add: load_event_from_file_def has_prefix_def)

lemma saved_is_found:
  assumes "readable file" and "codec_ok enc (e # file_events file)" and "trim_space (sr_id inp) \<noteq> []"
    and "fs_save enc now rnd WriteOk inp file = (Inr e, file1)"
    and "lookup_event (ev_id e) file = None"
  shows "fs_get_by_id io_ok (ev_id e) file1 = Inr (snd (enc e))" and "trim_space (ev_id e) = ev_id e"
    and "ev_id e \<noteq> []"
proof -
  note ev = fs_save_events [OF assms(4)] and id = fs_save_id [OF assms(4,3)]
  show t: "trim_space (ev_id e) = ev_id e" "ev_id e \<noteq> []" using id assms(3) by simp_all
  have r1: "readable file1" using assms(1,2) ev line_okD [of enc e] by (simp add: readable_def encode_line_def)
  have "ev_id (snd (enc e)) = ev_id e" using assms(2) by (simp add: line_okD)
  then have "lookup_event (ev_id e) file1 = Some (snd (enc e))"
    using assms(5) by (simp add: lookup_event_def ev find_app)
  then show "fs_get_by_id io_ok (ev_id e) file1 = Inr (snd (enc e))"
    using fs_get_lookup [OF r1, of "ev_id e"] t by simp
qed

text \<open>C25: a dead letter goes all the way round: what the file store kept of a failed event under a new id, the
  command publishes once, with its source, its body and its headers overlaid by the header flags, to the
  backend of the configuration; the exit status tells whether the publisher took it. A dry run publishes
  nothing and succeeds.
\<close>

theorem replay_dead_letter:
  assumes "readable file" and "codec_ok enc (e # file_events file)" and "trim_space (sr_id inp) \<noteq> ''''"
    and "fs_save enc now rnd WriteOk inp file = (Inr e, file1)" and "lookup_event (ev_id e) file = None"
    and "sx_io sx = io_ok" and "trim_space (DatabaseURL cfg) = ''''" and "FailedStorePath cfg = path"
    and "trim_space path = path" and "path \<noteq> ''''" and "sx_files sx path = file1"
    and "trim_space (rf_file fl) = ''''" and "trim_space (rf_event fl) = ev_id e" and "0 < rf_timeout fl"
    and "build_replay_publisher quote cfg open_pubsub = Inr target"
  defines "ev \<equiv> \<lparr>re_source = ev_source (snd (enc e)),
      re_headers = (case ev_headers (snd (enc e)) of None \<Rightarrow> Map.empty | Some h \<Rightarrow> h) ++ map_of (rf_headers fl),
      re_body = ev_body (snd (enc e))\<rparr>"
  shows "let run = run_replay quote unmarshal fa sx cfg open_pubsub publish fl
    in rn_published run = (if rf_dry_run fl then [] else [ev])
       \<and> rn_exit run = (if rf_dry_run fl \<or> publish target ev = None then 0 else 1)
       \<and> map_option code_of (rn_message run)
          = (if rf_dry_run fl \<or> publish target ev = None then None else Some CodeReplayPublishFailed)"
proof -
  note saved = saved_is_found [OF assms(1,2) assms(3) assms(4,5)]
  have "load_event_from_store sx cfg (ev_id e) (rf_headers fl) = Inr ev"
    using saved assms(6-11) by (simp add: load_event_from_store_def store_lookup_def new_file_store_def ev_def)
  with saved assms(12-15) show ?thesis
    by (auto simp: run_replay_def replay_exit_def Let_def split: option.splits)
qed

definition demo_access :: store_access where
  "demo_access =
     \<lparr>sx_connect = None, sx_create = None, sx_query = None, sx_table = [], sx_io = io_ok,
      sx_files = (\<lambda>p. snd (fs_save small_codec 5 (Inr ''x'') WriteOk demo_request None))\<rparr>"

definition no_file_access :: file_access where
  "no_file_access =
     \<lparr>fa_abs = Inl (ErrText []), fa_resolved = Inl (ErrText []), fa_cwd = Inr ''/'', fa_read = (\<lambda>f. Inl (ErrText []))\<rparr>"

theorem replay_dead_letter_witness:
  "rn_published (run_replay (\<lambda>s. s) (\<lambda>s. Inl (ErrText s)) no_file_access demo_access
      (default_config\<lparr>DatabaseURL := '''', FailedStorePath := ''dead'', QueueBackend := ''log''\<rparr>) (Inl (ErrText ''no'')) (\<lambda>t ev. None)
      \<lparr>rf_file = '''', rf_event = ''e1'', rf_source = '''', rf_dry_run = False, rf_timeout = second,
       rf_headers = []\<rparr>)
     = [\<lparr>re_source = ''github'', re_headers = Map.empty, re_body = ''{}''\<rparr>]"
proof -
  have t: "trim_space ''dead'' = ''dead''" "trim_space ''e1'' = ''e1''" by code_simp+
  have b: "build_replay_publisher (\<lambda>s. s) (default_config\<lparr>DatabaseURL := '''', FailedStorePath := ''dead'', QueueBackend := ''log''\<rparr>)
      (Inl (ErrText ''no'')) = Inr TargetLog"
    by (simp add: build_replay_publisher_def default_config_def)
  let ?e = "event_of_request 5 ''e1'' demo_request"
  have e: "ev_id ?e = ''e1''" "ev_source ?e = ''github''" "ev_body ?e = ''{}''" "ev_headers ?e = Some Map.empty"
    by (simp_all add: event_of_request_def demo_request_def clone_store_headers_def)
  have sx: "sx_io demo_access = io_ok" "sx_files demo_access ''dead''
      = append_line (encode_line small_codec ?e) None"
    by (simp_all add: demo_access_def demo_save)
  show ?thesis
    using replay_dead_letter [OF _ small_codec_ok _ demo_save [of "Inr ''x''" None] _ _ _ _ _ _ _ _ _ _ b,
        where sx = demo_access and path = "''dead''" and unmarshal = "\<lambda>s. Inl (ErrText s)"
        and fa = no_file_access and publish = "\<lambda>t ev. None"
        and fl = "\<lparr>rf_file = [], rf_event = ''e1'', rf_source = [], rf_dry_run = False, rf_timeout = second,
           rf_headers = []\<rparr>"] t e sx
    by (simp add: readable_def file_lines_def demo_request_check lookup_event_def file_events_def decoded_def
        small_codec_def Let_def duration_units)
qed

end
