(* ===== verification/Doctor.thy ===== *)
theory Doctor
  imports Config Errors
begin

text \<open>
  The command \<open>cmd/doctor\<close>, which checks a workspace before the gateway is started: tools, the files of the
  repository, the environment file and the local ports. What the operating system answers is a record of
  arguments. A report is its lines in order; the counters of the code are kept beside them.
\<close>

section \<open>The report\<close>

datatype report_line = LineOk string | LineWarn string | LineFail string

record doctor_report =
  dr_failures :: int
  dr_warnings :: int
  dr_lines :: "report_line list"

definition empty_report :: doctor_report where
  "empty_report = \<lparr>dr_failures = 0, dr_warnings = 0, dr_lines = []\<rparr>"

definition okf :: "string \<Rightarrow> doctor_report \<Rightarrow> doctor_report" where
  "okf msg r = r\<lparr>dr_lines := dr_lines r @ [LineOk msg]\<rparr>"

definition warnf :: "string \<Rightarrow> doctor_report \<Rightarrow> doctor_report" where
  "warnf msg r = r\<lparr>dr_warnings := dr_warnings r + 1, dr_lines := dr_lines r @ [LineWarn msg]\<rparr>"

definition failf :: "string \<Rightarrow> doctor_report \<Rightarrow> doctor_report" where
  "failf msg r = r\<lparr>dr_failures := dr_failures r + 1, dr_lines := dr_lines r @ [LineFail msg]\<rparr>"

definition finish_report :: "doctor_report \<Rightarrow> string" where
  "finish_report r =
     (if dr_failures r > 0 then ''Doctor found blocking issues.'' else ''Doctor checks passed.'')"

section \<open>Tools\<close>

definition check_command ::
  "(string \<Rightarrow> bool) \<Rightarrow> string \<Rightarrow> string \<Rightarrow> bool \<Rightarrow> doctor_report \<Rightarrow> bool \<times> doctor_report" where
  "check_command installed name label required r =
     (if \<not> installed name
      then (False, if required then failf (label @ '' is missing'') r else warnf (label @ '' is missing'') r)
      else (True, okf (label @ '' is installed'') r))"

text \<open>The version of the Go tool chain: whether it is valid and at least go1.22 is for \<open>go/version\<close>.\<close>

definition check_go_version ::
  "(string \<Rightarrow> string) \<Rightarrow> string \<Rightarrow> (string \<Rightarrow> bool) \<Rightarrow> (string \<Rightarrow> bool) \<Rightarrow> doctor_report \<Rightarrow> doctor_report" where
  "check_go_version quote v valid supported r =
     (if has_prefix v ''devel''
      then warnf (''Go version '' @ quote v @ '' is a development build; expected stable >= go1.22'') r
      else if \<not> valid v then failf (''unable to parse Go version '' @ quote v) r
      else if supported v then okf (''Go version '' @ v @ '' is supported (>= go1.22)'') r
      else failf (''Go version '' @ v @ '' is too old; expected >= go1.22'') r)"

definition check_timed_command :: "string \<Rightarrow> string \<Rightarrow> goerr option \<Rightarrow> doctor_report \<Rightarrow> doctor_report" where
  "check_timed_command ok_message fail_prefix err r =
     (case err of Some e \<Rightarrow> failf (fail_prefix @ error_text e) r | None \<Rightarrow> okf ok_message r)"

definition check_docker ::
  "(string \<Rightarrow> bool) \<Rightarrow> goerr option \<Rightarrow> goerr option \<Rightarrow> doctor_report \<Rightarrow> doctor_report" where
  "check_docker installed info compose r =
     (case check_command installed ''docker'' ''Docker CLI'' True r of
        (False, r1) \<Rightarrow> r1
      | (True, r1) \<Rightarrow>
          check_timed_command ''Docker Compose plugin is available''
            ''Docker Compose plugin is missing or unavailable: '' compose
            (check_timed_command ''Docker daemon is reachable'' ''Docker daemon is not reachable: '' info r1))"

definition optional_tools :: "(string \<times> string) list" where
  "optional_tools =
     [(''make'', ''Make''), (''golangci-lint'', ''golangci-lint''), (''python3'', ''python3''),
      (''govulncheck'', ''govulncheck''), (''terraform'', ''Terraform''), (''checkov'', ''checkov''),
      (''kubectl'', ''kubectl''), (''curl'', ''curl'')]"

section \<open>The environment file\<close>

definition parse_env_line :: "(string \<rightharpoonup> string) \<Rightarrow> string \<Rightarrow> (string \<rightharpoonup> string)" where
  "parse_env_line values raw =
     (let line = trim_space raw
      in if line = '''' \<or> has_prefix line ''#'' then values
         else (case split_first (CHR ''='') (trim_prefix line ''export '') of
                 (a, None) \<Rightarrow> values
               | (a, Some b) \<Rightarrow>
                   (let key = trim_space a
                    in if key = '''' then values
                       else values(key \<mapsto> trim_set (trim_space b) [CHR 0x22, CHR 0x27]))))"

definition parse_env_file :: "string \<Rightarrow> (string \<rightharpoonup> string)" where
  "parse_env_file raw = foldl parse_env_line Map.empty (split_on (CHR 0x0A) raw)"

definition is_truthy :: "string \<Rightarrow> bool" where
  "is_truthy v \<longleftrightarrow> to_lower (trim_space v) \<in> set [''1'', ''true'', ''yes'', ''y'']"

text \<open>\<open>checkRequiredEnvValues\<close>; the failure text is a function of key and file name.\<close>

definition check_required ::
  "string \<Rightarrow> (string \<rightharpoonup> string) \<Rightarrow> (string \<Rightarrow> string \<Rightarrow> string) \<Rightarrow> string list \<Rightarrow> doctor_report \<Rightarrow> doctor_report" where
  "check_required env_name values msg keys r =
     foldl (\<lambda>r key. if trim_space (get_str values key) = '''' then failf (msg key env_name) r
                    else okf (key @ '' is set'') r) r keys"

definition required_text :: "string \<Rightarrow> string \<Rightarrow> string" where
  "required_text key env_name = key @ '' is required but empty in '' @ env_name"

definition check_admin_secret :: "string \<Rightarrow> (string \<rightharpoonup> string) \<Rightarrow> doctor_report \<Rightarrow> doctor_report" where
  "check_admin_secret env_name values r =
     (let secret = trim_space (get_str values ''ADMIN_JWT_SECRET'')
      in if secret = ''''
         then failf (''ADMIN_AUTH_ENABLED=true but ADMIN_JWT_SECRET is empty in '' @ env_name) r
         else if secret = ''change-me'' \<or> length secret < 32
         then failf (''ADMIN_AUTH_ENABLED=true but ADMIN_JWT_SECRET is weak in '' @ env_name) r
         else okf ''ADMIN_JWT_SECRET looks configured for admin auth'' r)"

text \<open>The part of \<open>checkEnvFiles\<close> after the file was parsed.\<close>

definition check_env_values ::
  "(string \<Rightarrow> string) \<Rightarrow> string \<Rightarrow> (string \<rightharpoonup> string) \<Rightarrow> doctor_report \<Rightarrow> doctor_report" where
  "check_env_values quote env_name values r =
     (let b = trim_space (get_str values ''QUEUE_BACKEND''); backend = (if b = '''' then ''log'' else b)
      in if backend = ''pubsub''
         then check_required env_name values
                (\<lambda>key name. ''QUEUE_BACKEND=pubsub but '' @ key @ '' is empty in '' @ name)
                [''PUBSUB_PROJECT_ID'', ''PUBSUB_TOPIC_ID''] r
         else
           let r1 = okf (''QUEUE_BACKEND is '' @ quote backend) r;
               r2 = (if is_truthy (get_str values ''REQUIRE_SECRETS'')
                     then check_required env_name values required_text
                            [''SLACK_SIGNING_SECRET'', ''GITHUB_WEBHOOK_SECRET'', ''GITLAB_WEBHOOK_TOKEN'',
                             ''TEAMS_CLIENT_STATE''] r1
                     else r1);
               r3 = (if is_truthy (get_str values ''SECURITY_AUDIT_ENABLED'')
                     then check_required env_name values required_text [''SECURITY_AUDIT_PATH''] r2 else r2)
           in if is_truthy (get_str values ''ADMIN_AUTH_ENABLED'')
              then check_admin_secret env_name values
                     (check_required env_name values required_text
                        [''ADMIN_JWT_ISSUER'', ''ADMIN_JWT_AUDIENCE''] r3)
              else r3)"

record workspace =
  wk_files :: "string \<Rightarrow> bool"
  wk_read :: "string \<Rightarrow> string result"
  wk_installed :: "string \<Rightarrow> bool"
  wk_docker_info :: "goerr option"
  wk_docker_compose :: "goerr option"
  wk_port_free :: "int \<Rightarrow> bool"
  wk_go_version :: string
  wk_go_valid :: "string \<Rightarrow> bool"
  wk_go_supported :: "string \<Rightarrow> bool"
  wk_quote :: "string \<Rightarrow> string"

text \<open>Files are named relative to the root of the repository.\<close>

definition check_env_files :: "workspace \<Rightarrow> doctor_report \<Rightarrow> doctor_report" where
  "check_env_files wk r =
     (case (if wk_files wk ''.env'' then Some (''.env'', okf ''.env file is present'' r)
            else if wk_files wk ''.env.example''
            then Some (''.env.example'',
                       warnf ''.env file is missing (run 'make env-init' to create it from .env.example)'' r)
            else None) of
        None \<Rightarrow> failf ''neither .env nor .env.example is present'' r
      | Some (name, r1) \<Rightarrow>
          (case wk_read wk name of
             Inl err \<Rightarrow> failf (''unable to parse '' @ name @ '': '' @ error_text err) r1
           | Inr raw \<Rightarrow> check_env_values (wk_quote wk) name (parse_env_file raw) r1))"

definition check_pre_commit_hook :: "workspace \<Rightarrow> doctor_report \<Rightarrow> doctor_report" where
  "check_pre_commit_hook wk r =
     (if wk_files wk ''.git/hooks/pre-commit'' then okf ''pre-commit hook is installed'' r
      else warnf ''pre-commit hook is not installed (run 'make dev-setup' or 'make precommit-install')'' r)"

definition common_ports :: "(int \<times> string) list" where
  "common_ports = [(8080, ''Gateway / smoke checks''), (9090, ''Prometheus''), (3000, ''Grafana''),
     (8085, ''Pub/Sub emulator'')]"

definition check_port :: "workspace \<Rightarrow> int \<Rightarrow> string \<Rightarrow> doctor_report \<Rightarrow> doctor_report" where
  "check_port wk port label r =
     (if wk_port_free wk port then okf (label @ '' port '' @ itoa port @ '' is available'') r
      else warnf (label @ '' port '' @ itoa port
                  @ '' is already in use; local stacks or CI parity checks may fail'') r)"

section \<open>The command\<close>

text \<open>\<open>findRepoRoot\<close>: at most six directories upward. \<open>parent d\<close> is \<open>filepath.Dir\<close>; \<open>look d f\<close> says whether
  the file exists in the directory.\<close>

fun find_root :: "nat \<Rightarrow> (string \<Rightarrow> string) \<Rightarrow> (string \<Rightarrow> string \<Rightarrow> bool) \<Rightarrow> string \<Rightarrow> string option" where
  "find_root 0 parent look dir = None"
| "find_root (Suc n) parent look dir =
     (if look dir ''Makefile'' \<and> look dir ''.env.example'' then Some dir
      else if parent dir = dir then None
      else find_root n parent look (parent dir))"

definition find_repo_root ::
  "string result \<Rightarrow> (string \<Rightarrow> string) \<Rightarrow> (string \<Rightarrow> string \<Rightarrow> bool) \<Rightarrow> string result" where
  "find_repo_root wd parent look =
     (case wd of
        Inl err \<Rightarrow> Inl err
      | Inr dir \<Rightarrow>
          (case find_root 6 parent look dir of
             Some d \<Rightarrow> Inr d
           | None \<Rightarrow> Inl (ErrText ''unable to locate repository root from current directory'')))"

text \<open>The exit status and the report; \<open>wk\<close> gives the workspace at the root that was found.\<close>

definition run_doctor :: "string result \<Rightarrow> (string \<Rightarrow> workspace) \<Rightarrow> int \<times> doctor_report" where
  "run_doctor found open_at =
     (case found of
        Inl err \<Rightarrow> (1, failf (''workspace: '' @ error_text err) empty_report)
      | Inr dir \<Rightarrow>
          (let wk = open_at dir;
               r1 = check_go_version (wk_quote wk) (wk_go_version wk) (wk_go_valid wk) (wk_go_supported wk)
                      empty_report;
               r2 = snd (check_command (wk_installed wk) ''git'' ''Git'' True r1);
               r3 = check_docker (wk_installed wk) (wk_docker_info wk) (wk_docker_compose wk) r2;
               r4 = foldl (\<lambda>r (name, label). snd (check_command (wk_installed wk) name label False r)) r3
                      optional_tools;
               r5 = check_env_files wk (check_pre_commit_hook wk r4)
           in (0, foldl (\<lambda>r (port, label). check_port wk port label r) r5 common_ports)))"

section \<open>The counters\<close>

fun is_fail :: "report_line \<Rightarrow> bool" where
  "is_fail (LineFail m) = True"
| "is_fail (LineOk m) = False"
| "is_fail (LineWarn m) = False"

fun is_warn :: "report_line \<Rightarrow> bool" where
  "is_warn (LineWarn m) = True"
| "is_warn (LineOk m) = False"
| "is_warn (LineFail m) = False"

definition report_wf :: "doctor_report \<Rightarrow> bool" where
  "report_wf r \<longleftrightarrow>
     dr_failures r = int (length (filter is_fail (dr_lines r)))
     \<and> dr_warnings r = int (length (filter is_warn (dr_lines r)))"

named_theorems report_keeps \<open>checks keep the counters of the report\<close>

lemma lines_wf [report_keeps]:
  "report_wf empty_report" "report_wf r \<Longrightarrow> report_wf (okf m r)" "report_wf r \<Longrightarrow> report_wf (warnf m r)"
  "report_wf r \<Longrightarrow> report_wf (failf m r)"
  by (simp_all add: report_wf_def empty_report_def okf_def warnf_def failf_def)

lemma command_wf [report_keeps]: "report_wf r \<Longrightarrow> report_wf (snd (check_command inst n l q r))"
  by (simp add: check_command_def report_keeps)

lemma version_wf [report_keeps]: "report_wf r \<Longrightarrow> report_wf (check_go_version quote v ok spd r)"
  by (simp add: check_go_version_def report_keeps)

lemma timed_wf [report_keeps]: "report_wf r \<Longrightarrow> report_wf (check_timed_command a b e r)"
  by (simp add: check_timed_command_def report_keeps split: option.splits)

lemma docker_wf [report_keeps]:
  assumes "report_wf r"
  shows "report_wf (check_docker inst i c r)"
proof -
  obtain b r1 where c1: "check_command inst ''docker'' ''Docker CLI'' True r = (b, r1)"
    by (cases "check_command inst ''docker'' ''Docker CLI'' True r")
  have "report_wf r1" using command_wf [OF assms] c1 by (metis snd_conv)
  then show ?thesis by (cases b) (simp_all add: check_docker_def c1 report_keeps)
qed

lemma fold_wf: "(\<And>r x. report_wf r \<Longrightarrow> report_wf (f r x)) \<Longrightarrow> report_wf r \<Longrightarrow> report_wf (foldl f r xs)"
  by (induction xs arbitrary: r) simp_all

lemma required_wf [report_keeps]: "report_wf r \<Longrightarrow> report_wf (check_required n v m ks r)"
  unfolding check_required_def by (rule fold_wf) (simp_all add: report_keeps)

lemma secret_wf [report_keeps]: "report_wf r \<Longrightarrow> report_wf (check_admin_secret n v r)"
  by (simp add: check_admin_secret_def Let_def report_keeps)

lemma values_wf [report_keeps]: "report_wf r \<Longrightarrow> report_wf (check_env_values q n v r)"
  by (simp add: check_env_values_def Let_def report_keeps)

lemma files_wf [report_keeps]: "report_wf r \<Longrightarrow> report_wf (check_env_files wk r)"
  by (auto simp: check_env_files_def report_keeps split: sum.splits)

lemma hook_wf [report_keeps]: "report_wf r \<Longrightarrow> report_wf (check_pre_commit_hook wk r)"
  by (simp add: check_pre_commit_hook_def report_keeps)

lemma port_wf [report_keeps]: "report_wf r \<Longrightarrow> report_wf (check_port wk p l r)"
  by (simp add: check_port_def report_keeps)

text \<open>The counters of a finished report count its lines, so the summary speaks of blocking issues exactly when
  a line reports one; but the exit status is 0 whenever the repository was found, whatever failed.\<close>

theorem doctor_counts:
  "let (status, r) = run_doctor found open_at
   in report_wf r \<and> (finish_report r = ''Doctor checks passed.'' \<longleftrightarrow> filter is_fail (dr_lines r) = [])
      \<and> (status = 0 \<longleftrightarrow> \<not> is_err found)"
proof -
  have "report_wf (snd (run_doctor found open_at))"
    by (cases found) (auto simp: run_doctor_def Let_def case_prod_unfold intro!: report_keeps fold_wf)
  then show ?thesis
    by (cases found) (auto simp: run_doctor_def Let_def finish_report_def report_wf_def split: if_splits)
qed

section \<open>The environment file and the gateway\<close>

text \<open>The environment of a process that is started with the values of the file.\<close>

definition env_of :: "(string \<rightharpoonup> string) \<Rightarrow> string \<Rightarrow> string" where
  "env_of values k = get_str values k"

lemma required_failures:
  "dr_failures (check_required n v m ks r)
     = dr_failures r + int (length (filter (\<lambda>k. trim_space (get_str v k) = []) ks))"
  unfolding check_required_def by (induction ks arbitrary: r) (simp_all add: okf_def failf_def)

text \<open>C40: the doctor passes environment files that the gateway refuses: a switch that is not in the file is off
  for the doctor and on for the gateway. Without \<open>ADMIN_AUTH_ENABLED\<close> and \<open>ADMIN_JWT_SECRET\<close> (and with the other
  switches absent) the doctor reports no failure, and the configuration read from the same values does
  not pass \<open>Validate\<close>.
\<close>

theorem doctor_passes_refused:
  assumes "values ''ADMIN_AUTH_ENABLED'' = None" and "values ''ADMIN_JWT_SECRET'' = None"
    and "values ''REQUIRE_SECRETS'' = None" and "values ''SECURITY_AUDIT_ENABLED'' = None"
    and "trim_space (get_str values ''QUEUE_BACKEND'') \<noteq> ''pubsub''"
  shows "dr_failures (check_env_values quote name values r) = dr_failures r
    \<and> validate (load_from_env parse_float (env_of values)) \<noteq> None"
proof
  have "\<not> is_truthy []" by (simp add: is_truthy_def)
  with assms show "dr_failures (check_env_values quote name values r) = dr_failures r"
    by (simp add: check_env_values_def Let_def get_str_def okf_def)
  let ?c = "load_from_env parse_float (env_of values)"
  have "AdminAuthEnabled ?c" "AdminJWTSecret ?c = []"
    using assms(1,2) by (simp_all add: load_from_env_def bool_or_default_def env_of_def get_str_def Let_def)
  then have "validate_admin ?c \<noteq> None"
    by (auto simp: validate_admin_def)
  then show "validate ?c \<noteq> None" by (auto simp: validate_parts)
qed

theorem doctor_passes_refused_witness:
  "dr_failures (check_env_values (\<lambda>s. s) ''.env'' (parse_env_file ''PORT=80'') empty_report) = 0
   \<and> validate (load_from_env (\<lambda>s. None) (env_of (parse_env_file ''PORT=80''))) \<noteq> None"
proof -
  have p: "parse_env_file ''PORT=80'' = [''PORT'' \<mapsto> ''80'']"
  proof -
    have "split_on (CHR 0x0A) ''PORT=80'' = [''PORT=80'']" "trim_space ''PORT=80'' = ''PORT=80''"
      "split_first (CHR ''='') (trim_prefix ''PORT=80'' ''export '') = (''PORT'', Some ''80'')"
      "trim_space ''PORT'' = ''PORT''" "trim_set (trim_space ''80'') [CHR 0x22, CHR 0x27] = ''80''"
      "has_prefix ''PORT=80'' ''#'' = False"
      by code_simp+
    then show ?thesis by (simp add: parse_env_file_def parse_env_line_def)
  qed
  have "trim_space (get_str [''PORT'' \<mapsto> ''80''] ''QUEUE_BACKEND'') \<noteq> ''pubsub''" by (simp add: get_str_def)
  from doctor_passes_refused [OF _ _ _ _ this, of "\<lambda>s. s" "''.env''" empty_report "\<lambda>s. None"] show ?thesis
    unfolding p by (simp add: empty_report_def)
qed

text \<open>With the Pub/Sub backend the check ends before the secrets: only its two values matter.\<close>

lemma doctor_pubsub_skips_secrets:
  assumes "trim_space (get_str values ''QUEUE_BACKEND'') = ''pubsub''"
    and "trim_space (get_str values ''PUBSUB_PROJECT_ID'') \<noteq> []" and "trim_space (get_str values ''PUBSUB_TOPIC_ID'') \<noteq> []"
  shows "dr_failures (check_env_values quote name values r) = dr_failures r"
  using assms by (simp add: check_env_values_def required_failures Let_def)

end
