(* ===== verification/Event_Flow.thy ===== *)
theory Event_Flow
  imports Event_Store Postgres Config
begin

text \<open>
  The way of an event behind the gateway: from the Pub/Sub publisher over the topic to the consumer and
  the row of \<open>webhook_events\<close>, with the answers of the columns of that table; and the command
  \<open>cmd/eventstore\<close> that runs the consumer.
\<close>

section \<open>The columns of the table\<close>

text \<open>An escaped NUL, \<open>\u0000\<close>, in a JSON text. In valid JSON a backslash occurs in strings only, and the character
  after it belongs to it.\<close>

fun nul_escape :: "string \<Rightarrow> bool" where
  "nul_escape [] = False"
| "nul_escape [c] = False"
| "nul_escape (c # d # s) =
     (if c = CHR 0x5C then (d = CHR ''u'' \<and> take 4 s = ''0000'') \<or> nul_escape s
      else nul_escape (d # s))"

text \<open>\<open>jsonb\<close> is what Postgres answers to a text for a \<open>JSONB\<close> column. The types of the table: \<open>TEXT\<close> for the
  ids, the source and the schema, \<open>CHAR(64)\<close> for the hash, \<open>JSONB\<close> for headers and body.\<close>

definition event_insert_error ::
  "(string \<Rightarrow> goerr option) \<Rightarrow> goerr option \<Rightarrow> event_record \<Rightarrow> goerr option" where
  "event_insert_error jsonb db r =
     (case db of
        Some err \<Rightarrow> Some err
      | None \<Rightarrow>
          (case column_error
                  [(None, er_message_id r), (None, er_source r), (None, er_provider_event_id r),
                   (None, er_schema r), (Some 64, er_body_hash r)] of
             Some err \<Rightarrow> Some err
           | None \<Rightarrow>
               (case jsonb (er_headers_json r) of
                  Some err \<Rightarrow> Some err
                | None \<Rightarrow> jsonb (er_body_json r))))"

definition save_event ::
  "((string \<rightharpoonup> string) \<Rightarrow> string result) \<Rightarrow> (string \<Rightarrow> goerr option) \<Rightarrow> time \<Rightarrow> goerr option \<Rightarrow> save_input
     \<Rightarrow> event_table \<Rightarrow> (save_error + stored_event) \<times> event_table" where
  "save_event marshal_headers jsonb now db inp tb =
     (case build_record marshal_headers inp of
        Inl err \<Rightarrow> (Inl (SaveRecord err), tb)
      | Inr r \<Rightarrow> pg_save_event marshal_headers now (event_insert_error jsonb db r) inp tb)"

lemma ascii_hex: "ascii_text (hex_encode s)"
proof -
  have "0 < (of_char (hex_digit n) :: nat) \<and> (of_char (hex_digit n) :: nat) < 128" if "n < 16" for n
    using that by (simp add: hex_digit_def)
  then show ?thesis
    by (induction s) (simp_all add: hex_encode_def ascii_text_def div_less_iff_less_mult)
qed

lemma save_event_refused:
  "build_record mh inp = Inr r \<Longrightarrow> event_insert_error jsonb db r = Some err \<Longrightarrow>
     save_event mh jsonb now db inp tb = (Inl (SaveDatabase (Wrapped ''save webhook event: '' err)), tb)"
  by (simp add: save_event_def pg_save_event_def)

lemma save_event_stored:
  "build_record mh inp = Inr r \<Longrightarrow> event_insert_error jsonb db r = None \<Longrightarrow>
     save_event mh jsonb now db inp tb = (Inr (fst (insert_event now r tb)), snd (insert_event now r tb))"
  by (simp add: save_event_def pg_save_event_def case_prod_unfold)

section \<open>From the publisher to the row\<close>

text \<open>
  \<open>json.Marshal\<close> and \<open>json.Unmarshal\<close> carry an envelope when its texts are UTF-8 and its body nests at
  most 9,999 levels deep. The body does not arrive byte by byte: \<open>json.Marshal\<close> compacts a \<open>json.RawMessage\<close> and
  escapes the characters of HTML, which is the function \<open>shrink\<close>.
\<close>

definition carries ::
  "(string \<Rightarrow> string) \<Rightarrow> (raw_envelope \<Rightarrow> string result) \<Rightarrow> (string \<Rightarrow> raw_envelope result) \<Rightarrow> raw_envelope \<Rightarrow> bool"
where
  "carries shrink marshal unmarshal e \<longleftrightarrow>
     (\<exists>m. marshal e = Inr m \<and> unmarshal m = Inr (e\<lparr>env_body := shrink (env_body e)\<rparr>))"

text \<open>The row the consumer is to write for a publish under a message id.\<close>

definition expected_record ::
  "(string \<Rightarrow> string) \<Rightarrow> string \<Rightarrow> string \<Rightarrow> string \<Rightarrow> headers \<Rightarrow> time \<Rightarrow> pubsub_delivery \<Rightarrow> event_record" where
  "expected_record shrink hj source body hdrs now d =
     \<lparr>er_message_id = trim_space (pd_id d), er_source = source,
      er_provider_event_id = provider_event_id (case hdrs of None \<Rightarrow> Map.empty | Some h \<Rightarrow> h),
      er_schema = raw_webhook_schema, er_schema_value = raw_webhook_schema_version,
      er_received_at = now, er_published_at = pd_publish_time d, er_delivery_attempt = pd_attempt d,
      er_headers_json = hj, er_body_json = shrink body,
      er_body_hash = hex_encode (sha256 (shrink body))\<rparr>"

lemma publish_emits:
  assumes "pubsub_publish marshal send now deadline p source body hdrs = None"
  obtains m t where "marshal (new_raw_envelope source body hdrs now) = Inr m"
    and "send t \<lparr>pm_data = m, pm_attributes = pubsub_attributes (new_raw_envelope source body hdrs now) hdrs\<rparr> = None"
  using assms by (auto simp: pubsub_publish_def Let_def wrap_error_def split: sum.splits)

lemma decode_carried:
  assumes "carries shrink marshal unmarshal (new_raw_envelope source body hdrs now)"
    and "marshal (new_raw_envelope source body hdrs now) = Inr m"
    and "source \<noteq> ''''" and "\<not> is_zero_time now" and "json_valid (shrink body)"
  shows "decode_raw_envelope unmarshal m = Inr (new_raw_envelope source (shrink body) hdrs now)"
proof -
  have "(new_raw_envelope source body hdrs now)\<lparr>env_body := shrink (env_body (new_raw_envelope source body hdrs now))\<rparr>
      = new_raw_envelope source (shrink body) hdrs now"
    by (simp add: new_raw_envelope_def)
  then have "unmarshal m = Inr (new_raw_envelope source (shrink body) hdrs now)"
    using assms(1,2) by (auto simp: carries_def)
  then show ?thesis
    using new_raw_envelope_valid [of source "shrink body" hdrs now] assms(3-5)
    by (simp add: decode_raw_envelope_def)
qed

lemma carried_record:
  assumes "source \<noteq> ''''" and "\<not> is_zero_time now" and "json_valid (shrink body)" and "trim_space (pd_id d) \<noteq> ''''"
    and "mh (case hdrs of None \<Rightarrow> Map.empty | Some h \<Rightarrow> h) = Inr hj"
  shows "build_record mh \<lparr>si_message_id = pd_id d, si_envelope = new_raw_envelope source (shrink body) hdrs now,
      si_published_at = pd_publish_time d, si_delivery_attempt = pd_attempt d\<rparr>
    = Inr (expected_record shrink hj source body hdrs now d)"
  using new_raw_envelope_valid [of source "shrink body" hdrs now] assms
  by (simp add: build_record_def expected_record_def new_raw_envelope_def Let_def)


section \<open>Redelivery\<close>

text \<open>Deliveries of messages one after the other, each with its clock and the state of the database.\<close>

fun deliver_all :: "('x \<Rightarrow> 'st \<Rightarrow> ack \<times> 'st) \<Rightarrow> 'x list \<Rightarrow> 'st \<Rightarrow> ack list \<times> 'st" where
  "deliver_all h [] st = ([], st)"
| "deliver_all h (x # xs) st =
     (let (a, st1) = h x st; (as, st2) = deliver_all h xs st1 in (a # as, st2))"

lemma deliver_all_stuck:
  "(\<And>x. h x st = (a, st)) \<Longrightarrow> deliver_all h xs st = (replicate (length xs) a, st)"
  by (induction xs) simp_all

definition refuses_nul :: "(string \<Rightarrow> goerr option) \<Rightarrow> bool" where
  "refuses_nul jsonb \<longleftrightarrow> (\<forall>s. nul_escape s \<longrightarrow> jsonb s \<noteq> None)"

lemma insert_error_nul:
  "refuses_nul jsonb \<Longrightarrow> nul_escape (er_body_json r) \<Longrightarrow> \<exists>err. event_insert_error jsonb db r = Some err"
  by (auto simp: event_insert_error_def refuses_nul_def split: option.splits)

text \<open>C11: a payload with an escaped NUL is valid JSON for the gateway and for the consumer but not for a \<open>JSONB\<close>
  column: once it is published, every delivery of it fails and is left for redelivery, however often and whenever it
  is tried and whatever the database does, and no row is ever written.
\<close>

theorem nul_escape_never_stored:
  assumes "pubsub_publish marshal send now deadline p source body hdrs = None"
    and "carries shrink marshal unmarshal (new_raw_envelope source body hdrs now)"
    and "source \<noteq> ''''" and "\<not> is_zero_time now" and "json_valid (shrink body)"
    and "refuses_nul jsonb" and "nul_escape (shrink body)"
  shows "\<exists>t m. send t m = None
    \<and> deliver_all (\<lambda>(clock, db, pt, att). handle_message unmarshal (save_event mh jsonb clock db)
          \<lparr>pd_id = mid, pd_data = pm_data m, pd_publish_time = pt, pd_attempt = att\<rparr>) attempts tb
      = (replicate (length attempts) Nack, tb)"
proof -
  let ?e = "new_raw_envelope source body hdrs now"
  obtain m t where m: "marshal ?e = Inr m"
      and sent: "send t \<lparr>pm_data = m, pm_attributes = pubsub_attributes ?e hdrs\<rparr> = None"
    using assms(1) by (rule publish_emits)
  note dec = decode_carried [OF assms(2) m assms(3-5)]
  have "handle_message unmarshal (save_event mh jsonb clock db)
      \<lparr>pd_id = mid, pd_data = m, pd_publish_time = pt, pd_attempt = att\<rparr> tb = (Nack, tb)" for clock db pt att
  proof -
    let ?in = "\<lparr>si_message_id = mid, si_envelope = new_raw_envelope source (shrink body) hdrs now,
      si_published_at = pt, si_delivery_attempt = att\<rparr>"
    show ?thesis
    proof (cases "build_record mh ?in")
      case (Inr r)
      then have "er_body_json r = shrink body"
        by (auto simp: build_record_def Let_def new_raw_envelope_def split: if_splits option.splits sum.splits)
      then obtain err where "event_insert_error jsonb db r = Some err"
        using insert_error_nul assms(6,7) by metis
      with Inr dec show ?thesis by (simp add: handle_message_def save_event_refused)
    qed (simp add: handle_message_def save_event_def dec)
  qed
  with sent show ?thesis
    by (intro exI [of _ t] exI [of _ "\<lparr>pm_data = m, pm_attributes = pubsub_attributes ?e hdrs\<rparr>"])
      (auto intro!: deliver_all_stuck)
qed

definition nul_body :: string where
  "nul_body = [CHR 0x22, CHR 0x5C] @ ''u0000'' @ [CHR 0x22]"

lemma zero_char: "(char_of (0 :: nat) :: char) = CHR 0x00"
  by code_simp

lemma nul_literal: "lex_string ([CHR 0x5C] @ ''u0000'' @ [CHR 0x22]) = Some ([CHR 0x00], [])"
proof -
  have "unquote (Suc (Suc n)) ([CHR 0x5C] @ ''u0000'') = [CHR 0x00]" for n
    by (simp add: hex4_def hex_val_def utf8_encode_def zero_char)
  from this [of 4] show ?thesis by (simp add: lex_string_def hex4_def hex_val_def utf8_encode_def zero_char)
qed

lemma nul_body_valid: "json_valid nul_body"
proof -
  have "pval (Suc n) 0 nul_body = Some (JStr [CHR 0x00], [])" for n
    using nul_literal by (simp add: nul_body_def pval.simps skip_ws_def json_ws_def has_prefix_def)
  from this [of 17] show ?thesis by (simp add: json_valid_def json_parse_def value_fuel_def nul_body_def skip_ws_def)
qed

definition strict_jsonb :: "string \<Rightarrow> goerr option" where
  "strict_jsonb s = (if nul_escape s then Some (ErrText ''ERROR: unsupported Unicode escape sequence (SQLSTATE 22P05)'') else None)"

definition demo_envelope :: "string \<Rightarrow> raw_envelope" where
  "demo_envelope body = new_raw_envelope ''github'' body None 5"

lemma demo_carries:
  "carries (\<lambda>b. b) (\<lambda>e. Inr (env_body e)) (\<lambda>m. Inr (demo_envelope m)) (new_raw_envelope ''github'' body None 5)"
  by (simp add: carries_def demo_envelope_def new_raw_envelope_def)

lemma demo_published: "pubsub_publish (\<lambda>e. Inr (env_body e)) (\<lambda>t m. None) 5 None base_pubsub ''github'' body None = None"
  by (simp add: pubsub_publish_def wrap_error_def Let_def)

theorem nul_escape_never_stored_witness:
  "\<exists>m :: pubsub_message. deliver_all (\<lambda>(clock, db, pt, att). handle_message (\<lambda>m. Inr (demo_envelope m)) (save_event plain_headers strict_jsonb clock db)
          \<lparr>pd_id = ''m1'', pd_data = pm_data m, pd_publish_time = pt, pd_attempt = att\<rparr>)
        [(10, None, 7, None), (20, None, 8, Some 2)] empty_table = ([Nack, Nack], empty_table)"
proof -
  have v: "json_valid nul_body" "nul_escape nul_body" "\<not> is_zero_time 5"
    using nul_body_valid by (simp_all add: nul_body_def is_zero_time_def zero_time_def duration_units)
  have "refuses_nul strict_jsonb" by (simp add: refuses_nul_def strict_jsonb_def)
  note stuck = nul_escape_never_stored [OF demo_published demo_carries _ v(3,1) this v(2),
      of plain_headers "''m1''" "[(10, None, 7, None), (20, None, 8, Some 2)]" empty_table]
  have "replicate (length [(10 :: time, None :: goerr option, 7 :: time, None :: int option), (20, None, 8, Some 2)]) Nack
      = [Nack, Nack]" by simp
  then show ?thesis using stuck by (simp only: list.distinct simp_thms not_False_eq_True)
qed

lemma hash_fits: "pg_varchar 64 (hex_encode (sha256 s))"
  by (simp add: pg_varchar_ascii ascii_hex)


end
