(* ===== verification/Event_Cmd.thy ===== *)
theory Event_Cmd
  imports Event_Flow
begin

text \<open>
  The command \<open>cmd/eventstore\<close>: its settings, their check, and the order in which it opens and closes the
  database pool and the Pub/Sub client around the consumer.
\<close>

section \<open>Settings\<close>

record runtime_config =
  rc_database_url :: string
  rc_project_id :: string
  rc_subscription_id :: string
  rc_max_outstanding :: int
  rc_goroutines :: int

definition load_runtime_config :: "(string \<Rightarrow> string) \<Rightarrow> runtime_config" where
  "load_runtime_config env =
     \<lparr>rc_database_url = env ''DATABASE_URL'',
      rc_project_id = env ''PUBSUB_PROJECT_ID'',
      rc_subscription_id = env_or_default env ''EVENTSTORE_PUBSUB_SUBSCRIPTION_ID'' ''webhook-events-store'',
      rc_max_outstanding = int_or_default env ''EVENTSTORE_MAX_OUTSTANDING_MESSAGES'' 100,
      rc_goroutines = int_or_default env ''EVENTSTORE_RECEIVE_GOROUTINES'' 1\<rparr>"

definition blank_text :: string where "blank_text = [CHR 0x20, CHR 0x09, CHR 0x0A, CHR 0x0D]"

definition missing_values :: "runtime_config \<Rightarrow> string list" where
  "missing_values c =
     (if trim_space (rc_database_url c) = '''' then [''DATABASE_URL''] else [])
     @ (if trim_space (rc_project_id c) = '''' then [''PUBSUB_PROJECT_ID''] else [])
     @ (if trim_space (rc_subscription_id c) = '''' then [''EVENTSTORE_PUBSUB_SUBSCRIPTION_ID''] else [])"

definition validate_runtime :: "runtime_config \<Rightarrow> goerr option" where
  "validate_runtime c =
     (if missing_values c \<noteq> [] then Some (ErrText (''missing required values: '' @ join (missing_values c) '', ''))
      else if contains_any (rc_project_id c) blank_text
      then Some (ErrText ''PUBSUB_PROJECT_ID must not contain whitespace'')
      else if contains_any (rc_subscription_id c) blank_text
      then Some (ErrText ''EVENTSTORE_PUBSUB_SUBSCRIPTION_ID must not contain whitespace'')
      else if rc_max_outstanding c < 1 \<or> rc_max_outstanding c > 100000
      then Some (ErrText (''EVENTSTORE_MAX_OUTSTANDING_MESSAGES must be between 1 and 100000, got ''
                          @ itoa (rc_max_outstanding c)))
      else if rc_goroutines c < 1 \<or> rc_goroutines c > 128
      then Some (ErrText (''EVENTSTORE_RECEIVE_GOROUTINES must be between 1 and 128, got '' @ itoa (rc_goroutines c)))
      else None)"

section \<open>The run\<close>

text \<open>What the services answer: the pool, the creation of the table, the client, the lookup of the subscription,
  and how receiving ended.\<close>

record service_answers =
  sv_pool :: "goerr option"
  sv_table :: "goerr option"
  sv_client :: "goerr option"
  sv_subscription :: "goerr option"
  sv_receive :: "goerr option"

datatype run_step =
    PoolOpen | PoolClose | TableReady | ClientOpen | ClientClose | SubscriptionFound
  | Receiving int int

definition consumer_run :: "goerr option \<Rightarrow> goerr option" where
  "consumer_run receive = wrap_error ''receive pubsub messages: '' receive"

text \<open>The error of \<open>run\<close> and its steps; the deferred calls close what was opened, the last one first. \<open>quote\<close>
  is \<open>%q\<close>.\<close>

definition run_event_store ::
  "(string \<Rightarrow> string) \<Rightarrow> (string \<Rightarrow> string) \<Rightarrow> service_answers \<Rightarrow> goerr option \<times> run_step list" where
  "run_event_store quote env sv =
     (let cfg = load_runtime_config env
      in case validate_runtime cfg of
           Some err \<Rightarrow> (Some (Wrapped ''validate config: '' err), [])
         | None \<Rightarrow>
      (case sv_pool sv of
         Some err \<Rightarrow> (Some (Wrapped ''create postgres pool: '' err), [])
       | None \<Rightarrow>
      (case sv_table sv of
         Some err \<Rightarrow>
           (Some (Wrapped ''initialize event store: '' (Wrapped ''create webhook_events table: '' err)),
            [PoolOpen, PoolClose])
       | None \<Rightarrow>
      (case sv_client sv of
         Some err \<Rightarrow> (Some (Wrapped ''create pubsub client: '' err), [PoolOpen, TableReady, PoolClose])
       | None \<Rightarrow>
      (case sv_subscription sv of
         Some err \<Rightarrow>
           (Some (Wrapped (''check pubsub subscription '' @ quote (rc_subscription_id cfg) @ '': '') err),
            [PoolOpen, TableReady, ClientOpen, ClientClose, PoolClose])
       | None \<Rightarrow>
           ((case consumer_run (sv_receive sv) of
               Some err \<Rightarrow> if errors_is err CtxCanceled then None else Some err
             | None \<Rightarrow> None),
            [PoolOpen, TableReady, ClientOpen, SubscriptionFound,
             Receiving (rc_max_outstanding cfg) (rc_goroutines cfg), ClientClose, PoolClose]))))))"

section \<open>What the run keeps\<close>

text \<open>Opened and not yet closed, the last one first.\<close>

fun open_after :: "run_step list \<Rightarrow> run_step list \<Rightarrow> run_step list option" where
  "open_after st [] = Some st"
| "open_after st (PoolOpen # ss) = open_after (PoolOpen # st) ss"
| "open_after st (ClientOpen # ss) = open_after (ClientOpen # st) ss"
| "open_after st (PoolClose # ss) =
     (case st of PoolOpen # st' \<Rightarrow> open_after st' ss | _ \<Rightarrow> None)"
| "open_after st (ClientClose # ss) =
     (case st of ClientOpen # st' \<Rightarrow> open_after st' ss | _ \<Rightarrow> None)"
| "open_after st (s # ss) = open_after st ss"

lemma missing_none:
  "missing_values c = [] \<longleftrightarrow> trim_space (rc_database_url c) \<noteq> [] \<and> trim_space (rc_project_id c) \<noteq> []
     \<and> trim_space (rc_subscription_id c) \<noteq> []"
  by (simp add: missing_values_def)

lemma validate_runtime_None:
  "validate_runtime c = None \<longleftrightarrow>
     trim_space (rc_database_url c) \<noteq> [] \<and> trim_space (rc_project_id c) \<noteq> [] \<and> trim_space (rc_subscription_id c) \<noteq> []
     \<and> \<not> contains_any (rc_project_id c) blank_text \<and> \<not> contains_any (rc_subscription_id c) blank_text
     \<and> 1 \<le> rc_max_outstanding c \<and> rc_max_outstanding c \<le> 100000
     \<and> 1 \<le> rc_goroutines c \<and> rc_goroutines c \<le> 128"
  unfolding validate_runtime_def missing_none by auto

text \<open>
  Whatever fails, what the command opened is closed again, in the reverse order; it receives messages only
  with checked settings, at most 100,000 outstanding on at most 128 goroutines, an existing table and an
  existing subscription; and it ends without an error exactly when it received until it was cancelled (or
  receiving ended by itself).
\<close>

theorem event_store_run:
  "let (err, steps) = run_event_store quote env sv
   in open_after [] steps = Some []
      \<and> (\<forall>m g. Receiving m g \<in> set steps \<longrightarrow>
           1 \<le> m \<and> m \<le> 100000 \<and> 1 \<le> g \<and> g \<le> 128
           \<and> take 4 steps = [PoolOpen, TableReady, ClientOpen, SubscriptionFound])
      \<and> (err = None \<longleftrightarrow> (\<exists>m g. Receiving m g \<in> set steps)
           \<and> (case sv_receive sv of None \<Rightarrow> True | Some e \<Rightarrow> errors_is e CtxCanceled))"
  by (auto simp: run_event_store_def validate_runtime_None consumer_run_def wrap_error_def Let_def
      split: option.splits)

definition event_store_env :: "string \<Rightarrow> string" where
  "event_store_env k =
     (if k = ''DATABASE_URL'' then ''postgres://db'' else if k = ''PUBSUB_PROJECT_ID'' then ''p1'' else '''')"

lemma event_store_env_valid: "validate_runtime (load_runtime_config event_store_env) = None"
  by code_simp

theorem event_store_run_witness:
  "snd (run_event_store (\<lambda>s. s) event_store_env
      \<lparr>sv_pool = None, sv_table = None, sv_client = None, sv_subscription = None, sv_receive = Some (Sentinel CtxCanceled)\<rparr>)
   = [PoolOpen, TableReady, ClientOpen, SubscriptionFound, Receiving 100 1, ClientClose, PoolClose]
   \<and> fst (run_event_store (\<lambda>s. s) event_store_env
      \<lparr>sv_pool = None, sv_table = None, sv_client = None, sv_subscription = None, sv_receive = Some (Sentinel CtxCanceled)\<rparr>) = None"
proof -
  let ?run = "run_event_store (\<lambda>s. s) event_store_env
      \<lparr>sv_pool = None, sv_table = None, sv_client = None, sv_subscription = None, sv_receive = Some (Sentinel CtxCanceled)\<rparr>"
  have s: "snd ?run = [PoolOpen, TableReady, ClientOpen, SubscriptionFound, Receiving 100 1, ClientClose, PoolClose]"
    by code_simp
  then show ?thesis
    using event_store_run [of "\<lambda>s. s" event_store_env "\<lparr>sv_pool = None, sv_table = None, sv_client = None,
        sv_subscription = None, sv_receive = Some (Sentinel CtxCanceled)\<rparr>"]
    by (auto simp: case_prod_unfold Let_def)
qed

end
