(* ===== verification/Observability.thy ===== *)
theory Observability
  imports Publishers
begin

text \<open>
  Package \<open>observability\<close>: the log level (\<open>logger.go\<close>) and the telemetry (\<open>telemetry.go\<close>): what \<open>Setup\<close> creates
  and in which order, the gauges of the publisher and of the Redis pool, and \<open>Shutdown\<close>. What the
  OpenTelemetry and Prometheus libraries answer is an argument; a shutdown function is named by what it closes.
\<close>

section \<open>The log level\<close>

datatype level = LevelDebug | LevelInfo | LevelWarn | LevelError

definition parse_level :: "string \<Rightarrow> level" where
  "parse_level s =
     (let l = to_lower s
      in if l = ''debug'' then LevelDebug else if l = ''warn'' then LevelWarn
         else if l = ''error'' then LevelError else LevelInfo)"

record logger =
  lg_service :: string
  lg_environment :: string
  lg_version :: string
  lg_level :: level

definition new_logger :: "(string \<Rightarrow> string) \<Rightarrow> string \<Rightarrow> string \<Rightarrow> string \<Rightarrow> logger" where
  "new_logger env service environment version =
     \<lparr>lg_service = service, lg_environment = environment, lg_version = version,
      lg_level = parse_level (env ''LOG_LEVEL'')\<rparr>"

definition set_level :: "level \<Rightarrow> logger \<Rightarrow> logger" where
  "set_level l lg = lg\<lparr>lg_level := l\<rparr>"

section \<open>Setting up\<close>

datatype shutdown_hook = ShutTraces | ShutMetrics | UnbindQueue | UnbindRedis

text \<open>The instruments by name, and the functions that \<open>Shutdown\<close> will call, in the order they were appended.\<close>

record telemetry =
  te_counters :: "string list"
  te_histograms :: "(string \<times> string list) list"
  te_hooks :: "shutdown_hook list"

definition telemetry_counters :: "string list" where
  "telemetry_counters =
     [''webhook_requests_total'', ''security_rejections_total'', ''queue_backpressure_events_total'',
      ''queue_publish_outcomes_total'']"

definition telemetry_histograms :: "(string \<times> string list) list" where
  "telemetry_histograms =
     [(''http_request_duration_seconds'',
       [''0.005'', ''0.01'', ''0.025'', ''0.05'', ''0.1'', ''0.25'', ''0.5'', ''1'', ''2.5'', ''5'', ''10'']),
      (''queue_publish_latency_seconds'',
       [''0.001'', ''0.005'', ''0.01'', ''0.025'', ''0.05'', ''0.1'', ''0.25'', ''0.5'', ''1''])]"

definition counter_error :: "string \<Rightarrow> string" where
  "counter_error name =
     (if name = ''webhook_requests_total'' then ''create metric counter: ''
      else if name = ''security_rejections_total'' then ''create security reject counter: ''
      else if name = ''queue_backpressure_events_total'' then ''create queue backpressure counter: ''
      else if name = ''queue_publish_outcomes_total'' then ''create queue publish counter: ''
      else if name = ''http_request_duration_seconds'' then ''create http duration histogram: ''
      else ''create queue publish latency histogram: '')"

text \<open>What the libraries answer; \<open>None\<close> is success. \<open>ta_collector\<close> is the error of registering the Go collector
  with whether it only says that one is registered already.\<close>

record telemetry_answers =
  ta_resource :: "goerr option"
  ta_otlp :: "goerr option"
  ta_collector :: "(goerr \<times> bool) option"
  ta_prometheus :: "goerr option"
  ta_instrument :: "string \<Rightarrow> goerr option"

text \<open>\<open>Inr True\<close>: spans are exported to the endpoint.\<close>

definition setup_tracing :: "(string \<Rightarrow> string) \<Rightarrow> telemetry_answers \<Rightarrow> bool result" where
  "setup_tracing env ta =
     (if env ''OTEL_EXPORTER_OTLP_ENDPOINT'' = '''' then Inr False
      else (case ta_otlp ta of
              Some err \<Rightarrow> Inl (Wrapped ''init otlp trace exporter: '' err)
            | None \<Rightarrow> Inr True))"

definition setup_metrics :: "telemetry_answers \<Rightarrow> goerr option" where
  "setup_metrics ta =
     (case ta_collector ta of
        Some (err, False) \<Rightarrow> Some (Wrapped ''register go collector: '' err)
      | _ \<Rightarrow> wrap_error ''init prometheus exporter: '' (ta_prometheus ta))"

text \<open>The first instrument that cannot be created.\<close>

fun create_instruments :: "(string \<Rightarrow> goerr option) \<Rightarrow> string list \<Rightarrow> goerr option" where
  "create_instruments answer [] = None"
| "create_instruments answer (n # ns) =
     (case answer n of
        Some err \<Rightarrow> Some (Wrapped (counter_error n) err)
      | None \<Rightarrow> create_instruments answer ns)"

definition setup_telemetry :: "(string \<Rightarrow> string) \<Rightarrow> telemetry_answers \<Rightarrow> telemetry result" where
  "setup_telemetry env ta =
     (case ta_resource ta of
        Some err \<Rightarrow> Inl (Wrapped ''create otel resource: '' err)
      | None \<Rightarrow>
     (case setup_tracing env ta of
        Inl err \<Rightarrow> Inl err
      | Inr exported \<Rightarrow>
     (case setup_metrics ta of
        Some err \<Rightarrow> Inl err
      | None \<Rightarrow>
     (case create_instruments (ta_instrument ta) (telemetry_counters @ map fst telemetry_histograms) of
        Some err \<Rightarrow> Inl err
      | None \<Rightarrow>
          Inr \<lparr>te_counters = telemetry_counters, te_histograms = telemetry_histograms,
               te_hooks = [ShutTraces, ShutMetrics]\<rparr>))))"

section \<open>Gauges\<close>

text \<open>An observation: instrument, source (\<open>None\<close> for the gauges without attribute), value.\<close>

datatype observation =
    ObserveFloat string "string option" float64
  | ObserveInt string "string option" int

definition queue_gauges :: "string list" where
  "queue_gauges =
     [''queue_buffer_usage_ratio'', ''queue_failure_budget_ratio'', ''queue_buffer_depth'',
      ''queue_source_buffer_usage_ratio'', ''queue_source_failure_budget_ratio'', ''queue_source_buffer_depth'']"

definition observe_total :: "publisher_snapshot \<Rightarrow> observation list" where
  "observe_total sn =
     [ObserveFloat ''queue_buffer_usage_ratio'' None (ps_usage sn),
      ObserveFloat ''queue_failure_budget_ratio'' None (ps_failure_ratio sn),
      ObserveInt ''queue_buffer_depth'' None (ps_depth sn)]"

definition observe_source :: "string \<times> publisher_snapshot \<Rightarrow> observation list" where
  "observe_source entry =
     (case entry of (source, sn) \<Rightarrow>
        [ObserveFloat ''queue_source_buffer_usage_ratio'' (Some source) (ps_usage sn),
         ObserveFloat ''queue_source_failure_budget_ratio'' (Some source) (ps_failure_ratio sn),
         ObserveInt ''queue_source_buffer_depth'' (Some source) (ps_depth sn)])"

text \<open>The callback of \<open>BindQueueMetrics\<close>; the list has the sources in the order in which the map is ranged over.\<close>

definition observe_queue :: "publisher_snapshot \<Rightarrow> (string \<times> publisher_snapshot) list \<Rightarrow> observation list" where
  "observe_queue sn sources = observe_total sn @ concat (map observe_source sources)"

text \<open>Registration: the first gauge or the callback that fails ends it; success appends a shutdown function.
  \<open>texts\<close> are the texts of the errors of the gauges.\<close>

definition bind_metrics ::
  "(string \<Rightarrow> goerr option) \<Rightarrow> (string \<times> string) list \<Rightarrow> string \<Rightarrow> goerr option \<Rightarrow> shutdown_hook \<Rightarrow> telemetry
     \<Rightarrow> goerr option \<times> telemetry" where
  "bind_metrics answer gauges callback_text callback hook te =
     (case find (\<lambda>(name, txt). answer name \<noteq> None) gauges of
        Some (name, txt) \<Rightarrow> (map_option (Wrapped txt) (answer name), te)
      | None \<Rightarrow>
          (case callback of
             Some err \<Rightarrow> (Some (Wrapped callback_text err), te)
           | None \<Rightarrow> (None, te\<lparr>te_hooks := te_hooks te @ [hook]\<rparr>)))"

definition bind_queue_metrics ::
  "(string \<Rightarrow> goerr option) \<Rightarrow> goerr option \<Rightarrow> bool \<Rightarrow> telemetry \<Rightarrow> goerr option \<times> telemetry" where
  "bind_queue_metrics answer callback provided te =
     (if \<not> provided then (None, te)
      else bind_metrics answer
        (zip queue_gauges
           [''create queue buffer usage gauge: '', ''create queue failure budget gauge: '',
            ''create queue buffer depth gauge: '', ''create source queue buffer usage gauge: '',
            ''create source queue failure budget gauge: '', ''create source queue buffer depth gauge: ''])
        ''register queue metrics callback: '' callback UnbindQueue te)"

section \<open>The Redis pool\<close>

text \<open>\<open>redis.PoolStats\<close>: the counters are unsigned 32-bit integers.\<close>

record pool_stats =
  po_total :: "32 word"
  po_idle :: "32 word"
  po_stale :: "32 word"
  po_hits :: "32 word"
  po_misses :: "32 word"
  po_timeouts :: "32 word"

definition redis_gauges :: "string list" where
  "redis_gauges =
     [''redis_pool_total_connections'', ''redis_pool_idle_connections'', ''redis_pool_active_connections'',
      ''redis_pool_stale_connections'', ''redis_pool_hits_total'', ''redis_pool_misses_total'',
      ''redis_pool_timeouts_total'']"

text \<open>The active connections are a difference of unsigned integers that is widened afterwards.\<close>

definition observe_pool :: "pool_stats \<Rightarrow> observation list" where
  "observe_pool p =
     map2 (\<lambda>name v. ObserveInt name None (uint v)) redis_gauges
       [po_total p, po_idle p, po_total p - po_idle p, po_stale p, po_hits p, po_misses p, po_timeouts p]"

definition bind_redis_pool_metrics ::
  "(string \<Rightarrow> goerr option) \<Rightarrow> goerr option \<Rightarrow> bool \<Rightarrow> telemetry \<Rightarrow> goerr option \<times> telemetry" where
  "bind_redis_pool_metrics answer callback provided te =
     (if \<not> provided then (None, te)
      else bind_metrics answer
        (zip redis_gauges
           [''create redis total connections gauge: '', ''create redis idle connections gauge: '',
            ''create redis active connections gauge: '', ''create redis stale connections gauge: '',
            ''create redis hits gauge: '', ''create redis misses gauge: '', ''create redis timeouts gauge: ''])
        ''register redis pool metrics callback: '' callback UnbindRedis te)"

section \<open>Shutting down\<close>

text \<open>All functions are called, the last one first; the failures are reported together. The list of calls comes
  with the error; \<open>answer\<close> is what a function returns.\<close>

fun call_hooks :: "(shutdown_hook \<Rightarrow> goerr option) \<Rightarrow> shutdown_hook list \<Rightarrow> shutdown_hook list \<times> goerr list" where
  "call_hooks answer [] = ([], [])"
| "call_hooks answer (h # hs) =
     (case call_hooks answer hs of (called, errs) \<Rightarrow>
        (h # called, (case answer h of None \<Rightarrow> errs | Some e \<Rightarrow> e # errs)))"

definition telemetry_shutdown ::
  "(shutdown_hook \<Rightarrow> goerr option) \<Rightarrow> telemetry \<Rightarrow> shutdown_hook list \<times> goerr option" where
  "telemetry_shutdown answer te =
     (case call_hooks answer (rev (te_hooks te)) of (called, errs) \<Rightarrow>
        (called,
         if errs = [] then None
         else Some (ErrText (''telemetry shutdown errors: ['' @ join (map error_text errs) '' '' @ '']''))))"

lemma call_hooks_spec: "call_hooks answer hs = (hs, List.map_filter answer hs)"
  by (induction hs) (auto simp: List.map_filter_def split: option.splits)

lemma setup_hooks: "setup_telemetry env ta = Inr te \<Longrightarrow> te_hooks te = [ShutTraces, ShutMetrics]"
  by (auto simp: setup_telemetry_def split: sum.splits option.splits)

text \<open>The names of the instruments that are observed are the ones that were registered.\<close>

fun observed_name :: "observation \<Rightarrow> string" where
  "observed_name (ObserveFloat n s v) = n"
| "observed_name (ObserveInt n s v) = n"

lemma observed_registered:
  "set (map observed_name (observe_queue sn sources)) \<subseteq> set queue_gauges"
  "map observed_name (observe_pool p) = redis_gauges"
  by (auto simp: observe_queue_def observe_total_def observe_source_def queue_gauges_def)
    (simp add: observe_pool_def redis_gauges_def)

lemma bind_metrics_good: "bind_metrics (\<lambda>n. None) gs txt None hook te = (None, te\<lparr>te_hooks := te_hooks te @ [hook]\<rparr>)"
proof -
  have "find (\<lambda>(name, txt). (None :: goerr option) \<noteq> None) gs = None" by (auto simp: find_None_iff)
  then show ?thesis by (simp add: bind_metrics_def)
qed

text \<open>
  Whatever is bound after a successful set-up, \<open>Shutdown\<close> undoes everything exactly once, in the reverse
  order, although functions fail: the callbacks are unregistered before the metrics are shut down, and the traces come
  last; it reports an error exactly when one of them failed.
\<close>

theorem telemetry_undone:
  assumes "setup_telemetry env ta = Inr te"
    and "bind_redis_pool_metrics answer1 cb1 redis te = (e1, te1)"
    and "bind_queue_metrics answer2 cb2 True te1 = (e2, te2)"
  shows "let (called, err) = telemetry_shutdown out te2
    in called = (if e2 = None then [UnbindQueue] else []) @ (if redis \<and> e1 = None then [UnbindRedis] else [])
         @ [ShutMetrics, ShutTraces]
       \<and> (err = None \<longleftrightarrow> (\<forall>h \<in> set called. out h = None))"
proof -
  have h1: "te_hooks te1 = [ShutTraces, ShutMetrics] @ (if redis \<and> e1 = None then [UnbindRedis] else [])"
    using assms(2) setup_hooks [OF assms(1)]
    by (auto simp: bind_redis_pool_metrics_def bind_metrics_def find_Some_iff split: if_splits option.splits)
  have h2: "te_hooks te2 = te_hooks te1 @ (if e2 = None then [UnbindQueue] else [])"
    using assms(3)
    by (auto simp: bind_queue_metrics_def bind_metrics_def find_Some_iff split: if_splits option.splits)
  have "List.map_filter out hs = [] \<longleftrightarrow> (\<forall>h \<in> set hs. out h = None)" for hs
    by (induction hs) (auto simp: List.map_filter_def split: option.splits)
  then show ?thesis
    by (auto simp: telemetry_shutdown_def call_hooks_spec h1 h2)
qed

definition good_answers :: telemetry_answers where
  "good_answers = \<lparr>ta_resource = None, ta_otlp = None, ta_collector = None, ta_prometheus = None, ta_instrument = (\<lambda>n. None)\<rparr>"

theorem telemetry_undone_witness:
  "\<exists>te te1 te2. setup_telemetry (\<lambda>k. []) good_answers = Inr te
     \<and> bind_redis_pool_metrics (\<lambda>n. None) None True te = (None, te1)
     \<and> bind_queue_metrics (\<lambda>n. None) None True te1 = (None, te2)
     \<and> fst (telemetry_shutdown (\<lambda>h. if h = ShutMetrics then Some (ErrText ''late'') else None) te2)
         = [UnbindQueue, UnbindRedis, ShutMetrics, ShutTraces]
     \<and> snd (telemetry_shutdown (\<lambda>h. if h = ShutMetrics then Some (ErrText ''late'') else None) te2) \<noteq> None"
proof -
  obtain te te1 te2 where r: "setup_telemetry (\<lambda>k. []) good_answers = Inr te"
      "bind_redis_pool_metrics (\<lambda>n. None) None True te = (None, te1)"
      "bind_queue_metrics (\<lambda>n. None) None True te1 = (None, te2)"
    by (simp add: setup_telemetry_def good_answers_def setup_tracing_def setup_metrics_def wrap_error_def
        telemetry_counters_def telemetry_histograms_def bind_redis_pool_metrics_def bind_queue_metrics_def
        bind_metrics_good)
  from telemetry_undone [OF r, of "\<lambda>h. if h = ShutMetrics then Some (ErrText ''late'') else None"] r
  show ?thesis by (auto simp: case_prod_unfold Let_def)
qed

text \<open>
  The statistics of the pool are read in two steps, so there can be more idle connections than the total
  that was counted before: then the gauge of the active connections jumps to more than two thousand million.
\<close>

lemma active_connections:
  "uint (po_total p - po_idle p) = (uint (po_total p) - uint (po_idle p)) mod 2 ^ 32"
  by (simp add: uint_word_ariths)

lemma active_wraps:
  assumes "uint (po_idle p) = uint (po_total p) + k" and "0 < k" and "k \<le> 2 ^ 31"
  shows "ObserveInt ''redis_pool_active_connections'' None (2 ^ 32 - k) \<in> set (observe_pool p)"
proof -
  have "uint (po_total p - po_idle p) = (- k) mod 2 ^ 32" using active_connections [of p] assms(1) by simp
  also have "(- k) mod 2 ^ 32 = 2 ^ 32 - k" using assms(2,3) by (simp add: zmod_zminus1_eq_if)
  finally show ?thesis by (simp add: observe_pool_def redis_gauges_def)
qed

end
