(* ===== verification/Lifecycle.thy ===== *)
theory Lifecycle
  imports Assembly Observability
begin

text \<open>
  The life of the gateway process as \<open>run\<close> in \<open>cmd/server/main.go\<close> lays it out: what is brought up, in which
  order, what is taken down when the server stops or a step fails, and the exit status. Deferred calls run in the
  reverse order of their registration, after the calls at the end of the function.
\<close>

section \<open>Steps\<close>

datatype part =
    PTelemetry | PRedis | PDedup | PPool | PPublisher | PScheduler | PLimiter | PWatcher | PServer

datatype life_step = Up part | Down part

text \<open>What is done only under a condition.\<close>

definition only_if :: "bool \<Rightarrow> 'a \<Rightarrow> 'a list" where
  "only_if c x = (if c then [x] else [])"

lemma map_only_if [simp]: "map f (only_if c x) = only_if c (f x)"
  by (simp add: only_if_def)

text \<open>The exit status, with what happened before followed by the deferred calls.\<close>

definition end_run :: "int \<Rightarrow> life_step list \<Rightarrow> part list \<Rightarrow> int \<times> life_step list" where
  "end_run status done deferred = (status, done @ map Down deferred)"

text \<open>\<open>wfile\<close> says whether \<open>CONFIG_FILE\<close> is set, \<open>wanswer\<close> whether its watcher could be created; \<open>ended\<close> is how the
  server ended: by a signal (\<open>None\<close>) or by an error of listening. Both lead to the same calls.\<close>

definition run_life ::
  "config \<Rightarrow> boot \<Rightarrow> bool \<Rightarrow> goerr option \<Rightarrow> goerr option \<Rightarrow> int \<times> life_step list" where
  "run_life cfg b wfile wanswer ended =
     (let redis = (RedisAddr cfg \<noteq> ''''); database = (DatabaseURL cfg \<noteq> '''')
      in if validate cfg \<noteq> None \<or> bt_telemetry b \<noteq> None then end_run 1 [] []
         else
           let s1 = [Up PTelemetry] @ only_if redis (Up PRedis) @ [Up PDedup]
           in if database \<and> bt_pool b \<noteq> None then end_run 1 s1 [PTelemetry]
              else
                let s2 = s1 @ only_if database (Up PPool);
                    d2 = only_if database PPool @ [PTelemetry]
                in if bt_publisher b \<noteq> None then end_run 1 s2 d2
                   else if bt_metrics b \<noteq> None then end_run 1 (s2 @ [Up PPublisher]) (PPublisher # d2)
                   else
                     let retry = (RetryEnabled cfg \<and> wire_store (FailedStoreEnabled cfg) (bt_failed b) \<noteq> WiredNone);
                         memory = (wire_limiter cfg = LimitMemory);
                         watch = (wfile \<and> wanswer = None)
                     in end_run 0
                          (s2 @ [Up PPublisher] @ only_if retry (Up PScheduler) @ only_if memory (Up PLimiter)
                           @ only_if watch (Up PWatcher) @ [Up PServer]
                           @ [Down PServer, Down PDedup] @ only_if memory (Down PLimiter) @ only_if redis (Down PRedis))
                          (only_if watch PWatcher @ only_if retry PScheduler @ PPublisher # d2))"

text \<open>The callback of the configuration watcher: only the log level is taken over.\<close>

definition apply_new_config :: "config \<Rightarrow> logger \<Rightarrow> logger" where
  "apply_new_config new_cfg lg = set_level (parse_level (LogLevel new_cfg)) lg"

section \<open>The order of the shutdown\<close>

text \<open>What a part calls while it is up: requests use everything behind the handlers; the scheduler and the workers
  of the publisher write to the database; the scheduler and the requests publish; metrics are recorded everywhere.\<close>

fun uses :: "part \<Rightarrow> part list" where
  "uses PServer = [PDedup, PLimiter, PRedis, PPublisher, PPool, PTelemetry]"
| "uses PScheduler = [PPublisher, PPool, PTelemetry]"
| "uses PPublisher = [PPool, PTelemetry]"
| "uses PDedup = [PRedis]"
| "uses PRedis = [PTelemetry]"
| "uses p = []"

text \<open>\<open>p\<close> is not taken down before \<open>u\<close> was.\<close>

definition still_up :: "life_step list \<Rightarrow> part \<Rightarrow> part \<Rightarrow> bool" where
  "still_up steps u p \<longleftrightarrow> Down p \<notin> set (takeWhile (\<lambda>s. s \<noteq> Down u) steps)"

lemmas life_defs = run_life_def end_run_def only_if_def still_up_def Let_def

lemma setup_agrees:
  "fst (run_life cfg b wfile wanswer ended) = (case run_setup cfg b of Inl code \<Rightarrow> code | Inr w \<Rightarrow> 0)"
  by (simp add: run_life_def run_setup_def end_run_def Let_def)



text \<open>One use is not respected: Redis, over which the scheduler elects its leader, is closed before the scheduler is
  stopped.\<close>

lemma redis_closed_under_scheduler:
  assumes "run_setup cfg b = Inr w" and "wi_leader w"
  shows "\<not> still_up (snd (run_life cfg b wfile wanswer ended)) PScheduler PRedis"
  using assms by (auto simp: run_setup_def life_defs split: if_splits)

text \<open>A start that fails after the stores were chosen leaves the deduplication store and Redis open.\<close>

lemma failed_start_leaves:
  assumes "validate cfg = None" and "bt_telemetry b = None" and "bt_pool b = None" and "bt_publisher b \<noteq> None"
  shows "run_life cfg b wfile wanswer ended =
    (1, [Up PTelemetry] @ (if RedisAddr cfg \<noteq> '''' then [Up PRedis] else []) @ [Up PDedup]
        @ (if DatabaseURL cfg \<noteq> '''' then [Up PPool, Down PPool] else []) @ [Down PTelemetry])"
  using assms by (simp add: life_defs)

end
