(* ===== verification/Fixtures.thy ===== *)
theory Fixtures
  imports Errors "HOL-Library.List_Lexorder" "HOL-Library.Char_ord" "HOL-Library.AList"
begin

text \<open>
  The catalogue of webhook fixtures (\<open>internal/testhelpers/fixturecatalog\<close>) and the command \<open>cmd/fixturelint\<close> that
  checks it: the validation of a loaded catalogue, the coverage summary and the lint rules. Reading files and decoding
  the catalogue are arguments. Strings are ordered byte by byte, as \<open>sort.Strings\<close> does.
\<close>

section \<open>The catalogue\<close>

record fixture =
  fx_id :: string
  fx_version :: int
  fx_provider :: string
  fx_event_family :: string
  fx_variant :: string
  fx_path :: string
  fx_negative :: bool
  fx_expected_status :: int
  fx_publish :: bool
  fx_notes :: string

record schema_ref =
  sf_name :: string
  sf_version :: int
  sf_file :: string

record catalog =
  cg_version :: int
  cg_schema :: schema_ref
  cg_fixtures :: "fixture list"

definition published_fixtures :: "catalog \<Rightarrow> fixture list" where
  "published_fixtures c = filter fx_publish (cg_fixtures c)"

text \<open>\<open>ReadFixture\<close>; \<open>quote\<close> is \<open>%q\<close>.\<close>

definition read_fixture :: "(string \<Rightarrow> string) \<Rightarrow> (string \<Rightarrow> string result) \<Rightarrow> fixture \<Rightarrow> string result" where
  "read_fixture quote read f =
     (case read (fx_path f) of
        Inl err \<Rightarrow> Inl (Wrapped (''read fixture file '' @ quote (fx_path f) @ '': '') err)
      | Inr body \<Rightarrow> Inr body)"

text \<open>One round of the loop of \<open>Validate\<close>, with the ids and paths seen before.\<close>

definition fixture_error :: "(string \<Rightarrow> string) \<Rightarrow> fixture \<Rightarrow> string \<Rightarrow> goerr option" where
  "fixture_error quote f what = Some (ErrText (''fixture '' @ quote (fx_id f) @ '' '' @ what))"

definition check_fixture ::
  "(string \<Rightarrow> string) \<Rightarrow> (string \<Rightarrow> string result) \<Rightarrow> string list \<Rightarrow> string list \<Rightarrow> fixture \<Rightarrow> goerr option"
where
  "check_fixture quote read ids paths f =
     (if trim_space (fx_id f) = '''' then Some (ErrText ''fixture id must not be empty'')
      else if fx_id f \<in> set ids then Some (ErrText (''duplicate fixture id '' @ quote (fx_id f)))
      else if fx_version f < 1 then fixture_error quote f ''must declare version >= 1''
      else if trim_space (fx_provider f) = '''' then fixture_error quote f ''provider must not be empty''
      else if trim_space (fx_event_family f) = '''' then fixture_error quote f ''event_family must not be empty''
      else if trim_space (fx_variant f) = '''' then fixture_error quote f ''variant must not be empty''
      else if trim_space (fx_path f) = '''' then fixture_error quote f ''path must not be empty''
      else if fx_path f \<in> set paths then Some (ErrText (''duplicate fixture path '' @ quote (fx_path f)))
      else if fx_expected_status f < 100 \<or> fx_expected_status f > 599
      then fixture_error quote f ''expected_status must be between 100 and 599''
      else (case read_fixture quote read f of
              Inl err \<Rightarrow> Some (Wrapped (''fixture '' @ quote (fx_id f) @ '': '') err)
            | Inr body \<Rightarrow>
                if \<not> json_valid body then fixture_error quote f ''must contain valid JSON'' else None))"

fun check_fixtures ::
  "(string \<Rightarrow> string) \<Rightarrow> (string \<Rightarrow> string result) \<Rightarrow> string list \<Rightarrow> string list \<Rightarrow> fixture list \<Rightarrow> goerr option"
where
  "check_fixtures quote read ids paths [] = None"
| "check_fixtures quote read ids paths (f # fs) =
     (case check_fixture quote read ids paths f of
        Some err \<Rightarrow> Some err
      | None \<Rightarrow> check_fixtures quote read (fx_id f # ids) (fx_path f # paths) fs)"

text \<open>\<open>stat\<close> is the error of looking up the schema file.\<close>

definition validate_catalog ::
  "(string \<Rightarrow> string) \<Rightarrow> (string \<Rightarrow> goerr option) \<Rightarrow> (string \<Rightarrow> string result) \<Rightarrow> catalog \<Rightarrow> goerr option" where
  "validate_catalog quote stat read c =
     (if cg_version c < 1 then Some (ErrText ''catalog_version must be >= 1'')
      else if trim_space (sf_name (cg_schema c)) = ''''
      then Some (ErrText ''envelope_schema.name must not be empty'')
      else if sf_version (cg_schema c) < 1 then Some (ErrText ''envelope_schema.version must be >= 1'')
      else if trim_space (sf_file (cg_schema c)) = ''''
      then Some (ErrText ''envelope_schema.file must not be empty'')
      else (case stat (sf_file (cg_schema c)) of
              Some err \<Rightarrow> Some (Wrapped ''envelope schema file missing: '' err)
            | None \<Rightarrow>
                if cg_fixtures c = []
                then Some (ErrText ''fixture catalog must contain at least one fixture'')
                else check_fixtures quote read [] [] (cg_fixtures c)))"

definition catalog_file_name :: string where "catalog_file_name = ''catalog-v1.json''"

definition load_catalog ::
  "(string \<Rightarrow> string) \<Rightarrow> (string \<Rightarrow> goerr option) \<Rightarrow> (string \<Rightarrow> string result) \<Rightarrow> (string \<Rightarrow> catalog result)
     \<Rightarrow> catalog result" where
  "load_catalog quote stat read unmarshal =
     (case read catalog_file_name of
        Inl err \<Rightarrow> Inl (Wrapped ''read fixture catalog: '' err)
      | Inr raw \<Rightarrow>
          (case unmarshal raw of
             Inl err \<Rightarrow> Inl (Wrapped ''unmarshal fixture catalog: '' err)
           | Inr c \<Rightarrow>
               (case validate_catalog quote stat read c of Some err \<Rightarrow> Inl err | None \<Rightarrow> Inr c)))"

definition name_key :: "string \<Rightarrow> string" where
  "name_key s = to_lower (trim_space s)"

definition family_key :: "fixture \<Rightarrow> string" where
  "family_key f = name_key (fx_provider f) @ ''|'' @ name_key (fx_event_family f)"

definition provider_families :: "catalog \<Rightarrow> string list" where
  "provider_families c =
     sort (foldl (\<lambda>out f. if family_key f \<in> set out then out else out @ [family_key f]) [] (cg_fixtures c))"

text \<open>The entries of the directory: name, and whether it is a directory.\<close>

definition list_fixture_files :: "(string \<times> bool) list result \<Rightarrow> string list result" where
  "list_fixture_files dir =
     (case dir of
        Inl err \<Rightarrow> Inl (Wrapped ''read contracts dir: '' err)
      | Inr entries \<Rightarrow>
          Inr (sort (map fst (filter (\<lambda>(name, isdir). \<not> isdir \<and> has_suffix name ''.json'' \<and> name \<noteq> catalog_file_name)
                 entries))))"

section \<open>Coverage\<close>

record provider_coverage =
  pc_fixtures :: nat
  pc_families :: nat
  pc_publishable :: nat

record catalog_coverage =
  cs_total :: nat
  cs_publishable :: nat
  cs_providers :: nat
  cs_families :: nat
  cs_by_provider :: "(string \<times> provider_coverage) list"

definition no_coverage :: provider_coverage where
  "no_coverage = \<lparr>pc_fixtures = 0, pc_families = 0, pc_publishable = 0\<rparr>"

definition coverage_of :: "(string \<times> provider_coverage) list \<Rightarrow> string \<Rightarrow> provider_coverage" where
  "coverage_of by p = (case map_of by p of None \<Rightarrow> no_coverage | Some c \<Rightarrow> c)"

text \<open>The first loop of \<open>CoverageSummary\<close>, on the summary and the set of families.\<close>

definition count_fixture :: "catalog_coverage \<times> string list \<Rightarrow> fixture \<Rightarrow> catalog_coverage \<times> string list" where
  "count_fixture acc f =
     (case acc of (s, fams) \<Rightarrow>
        let p = name_key (fx_provider f); fam = name_key (fx_event_family f); one = (if fx_publish f then 1 else 0)
        in if p = '''' then (s, fams)
           else
             let pc = coverage_of (cs_by_provider s) p;
                 pc1 = pc\<lparr>pc_fixtures := pc_fixtures pc + 1, pc_publishable := pc_publishable pc + one\<rparr>;
                 fams1 = (if fam = '''' then fams else List.insert (p @ ''|'' @ fam) fams);
                 mine = filter (\<lambda>k. has_prefix k (p @ ''|'')) fams1;
                 pc2 = (if fam = '''' then pc1
                        else pc1\<lparr>pc_families := length (remdups (map (\<lambda>k. trim_prefix k (p @ ''|'')) mine))\<rparr>)
             in (s\<lparr>cs_total := cs_total s + 1, cs_publishable := cs_publishable s + one,
                   cs_by_provider := AList.update p pc2 (cs_by_provider s)\<rparr>, fams1))"

text \<open>The second loop counts the families of a provider again.\<close>

definition families_of :: "string \<Rightarrow> fixture list \<Rightarrow> string list" where
  "families_of p fs =
     foldl (\<lambda>out f. if name_key (fx_provider f) \<noteq> p \<or> name_key (fx_event_family f) = '''' then out
                    else List.insert (name_key (fx_event_family f)) out) [] fs"

definition coverage_summary :: "catalog \<Rightarrow> catalog_coverage" where
  "coverage_summary c =
     (case foldl count_fixture
             (\<lparr>cs_total = 0, cs_publishable = 0, cs_providers = 0, cs_families = 0, cs_by_provider = []\<rparr>, [])
             (cg_fixtures c) of
        (s, fams) \<Rightarrow>
          s\<lparr>cs_by_provider := map (\<lambda>(p, pc). (p, pc\<lparr>pc_families := length (families_of p (cg_fixtures c))\<rparr>))
                               (cs_by_provider s),
            cs_providers := length (cs_by_provider s), cs_families := length fams\<rparr>)"

section \<open>Lint\<close>

text \<open>The patterns \<open>^[a-z0-9]+(?:_[a-z0-9]+)*$\<close> and \<open>^[a-z0-9]+(?:_[a-z0-9]+)*\.json$\<close>.\<close>

definition slug_char :: "char \<Rightarrow> bool" where
  "slug_char c \<longleftrightarrow> c \<in> set ''abcdefghijklmnopqrstuvwxyz0123456789''"

definition slug_word :: "string \<Rightarrow> bool" where
  "slug_word w \<longleftrightarrow> w \<noteq> '''' \<and> list_all slug_char w"

definition fixture_slug :: "string \<Rightarrow> bool" where
  "fixture_slug s \<longleftrightarrow> list_all slug_word (split_on (CHR ''_'') s)"

definition fixture_path :: "string \<Rightarrow> bool" where
  "fixture_path s \<longleftrightarrow> has_suffix s ''.json'' \<and> fixture_slug (trim_suffix s ''.json'')"

text \<open>\<open>filepath.Base\<close>.\<close>

definition base_name :: "string \<Rightarrow> string" where
  "base_name path =
     (if path = '''' then ''.''
      else let p = rev (dropWhile (\<lambda>c. c = CHR ''/'') (rev path))
           in if p = '''' then ''/'' else rev (takeWhile (\<lambda>c. c \<noteq> CHR ''/'') (rev p)))"

datatype lint_issue =
    ProviderNotSlug string string
  | FamilyNotSlug string string
  | VariantNotSlug string string
  | IdFormat string string
  | NestedPath string string
  | PathNotSlug string string
  | PathPrefix string string string
  | NotesEmpty string
  | NegativeBaseline string
  | PublishStatus string int
  | NoBaseline string string

definition expected_id :: "fixture \<Rightarrow> string" where
  "expected_id f =
     trim_space (fx_provider f) @ ''.'' @ trim_space (fx_event_family f) @ ''.'' @ trim_space (fx_variant f)
       @ ''.v'' @ itoa (fx_version f)"

definition issue_if :: "bool \<Rightarrow> lint_issue \<Rightarrow> lint_issue list" where
  "issue_if b i = (if b then [i] else [])"

definition lint_fixture :: "fixture \<Rightarrow> lint_issue list" where
  "lint_fixture f =
     (let provider = trim_space (fx_provider f); family = trim_space (fx_event_family f);
          variant = trim_space (fx_variant f); path = trim_space (fx_path f); base = base_name path
      in issue_if (\<not> fixture_slug provider) (ProviderNotSlug (fx_id f) provider)
         @ issue_if (\<not> fixture_slug family) (FamilyNotSlug (fx_id f) family)
         @ issue_if (\<not> fixture_slug variant) (VariantNotSlug (fx_id f) variant)
         @ issue_if (fx_id f \<noteq> expected_id f) (IdFormat (fx_id f) (expected_id f))
         @ issue_if (base \<noteq> path) (NestedPath (fx_id f) path)
         @ issue_if (\<not> fixture_path base) (PathNotSlug (fx_id f) path)
         @ issue_if (provider \<noteq> '''' \<and> \<not> has_prefix base (provider @ ''_''))
             (PathPrefix (fx_id f) path (provider @ ''_''))
         @ issue_if (trim_space (fx_notes f) = '''') (NotesEmpty (fx_id f))
         @ issue_if (variant = ''baseline'' \<and> fx_negative f) (NegativeBaseline (fx_id f))
         @ issue_if (fx_publish f \<and> (fx_expected_status f < 200 \<or> fx_expected_status f \<ge> 300))
             (PublishStatus (fx_id f) (fx_expected_status f)))"

definition lint_family :: "fixture \<Rightarrow> string" where
  "lint_family f = trim_space (fx_provider f) @ ''|'' @ trim_space (fx_event_family f)"

definition is_baseline :: "fixture \<Rightarrow> bool" where
  "is_baseline f \<longleftrightarrow> trim_space (fx_variant f) = ''baseline''"

definition missing_baselines :: "fixture list \<Rightarrow> string list" where
  "missing_baselines fs =
     sort (filter (\<lambda>k. \<not> list_ex (\<lambda>f. is_baseline f \<and> lint_family f = k) fs) (remdups (map lint_family fs)))"

definition no_baseline :: "string \<Rightarrow> lint_issue" where
  "no_baseline k =
     (case split_first (CHR ''|'') k of (p, rest) \<Rightarrow> NoBaseline p (case rest of None \<Rightarrow> '''' | Some e \<Rightarrow> e))"

definition lint_catalog :: "catalog \<Rightarrow> lint_issue list" where
  "lint_catalog c =
     concat (map lint_fixture (cg_fixtures c)) @ map no_baseline (missing_baselines (cg_fixtures c))"

section \<open>The command\<close>

datatype lint_output = LintFailed goerr | LintIssues "lint_issue list" | LintPassed catalog_coverage "string list"

definition run_fixture_lint :: "catalog result \<Rightarrow> int \<times> lint_output" where
  "run_fixture_lint loaded =
     (case loaded of
        Inl err \<Rightarrow> (1, LintFailed err)
      | Inr c \<Rightarrow>
          (if lint_catalog c \<noteq> [] then (1, LintIssues (lint_catalog c))
           else (0, LintPassed (coverage_summary c) (sort (map fst (cs_by_provider (coverage_summary c)))))))"

section \<open>The slug patterns\<close>

lemma split_on_word: "d \<notin> set w \<Longrightarrow> split_on d w = [w]"
  by (induction w) auto

lemma split_on_cons: "d \<notin> set w \<Longrightarrow> split_on d (w @ d # s) = w # split_on d s"
  by (induction w) auto

lemma split_on_words:
  "list_all (\<lambda>x. d \<notin> set x) (w # ws) \<Longrightarrow> split_on d (w @ concat (map ((#) d) ws)) = w # ws"
proof (induction ws arbitrary: w)
  case Nil
  then show ?case by (simp add: split_on_word)
next
  case (Cons v ws)
  then show ?case using split_on_cons [of d w "v @ concat (map ((#) d) ws)"] by simp
qed

lemma split_on_join: "split_on d s = w # ws \<Longrightarrow> s = w @ concat (map ((#) d) ws)"
proof (induction s arbitrary: w ws)
  case (Cons c s)
  obtain v vs where v: "split_on d s = v # vs" by (cases "split_on d s") auto
  note s = Cons.IH [OF v]
  show ?case
  proof (cases "c = d")
    case True
    with Cons.prems v have "w = []" "ws = v # vs" by simp_all
    with True s show ?thesis by simp
  next
    case False
    with Cons.prems v have "w = c # v" "ws = vs" by simp_all
    with s show ?thesis by simp
  qed
qed simp

lemma slug_word_chars: "slug_word w \<Longrightarrow> CHR ''_'' \<notin> set w \<and> CHR ''|'' \<notin> set w"
proof -
  have "\<not> slug_char (CHR ''_'')" "\<not> slug_char (CHR ''|'')" by code_simp+
  then show "slug_word w \<Longrightarrow> CHR ''_'' \<notin> set w \<and> CHR ''|'' \<notin> set w"
    unfolding slug_word_def list_all_iff by blast
qed

text \<open>The test by splitting accepts exactly the words of the pattern.\<close>

lemma slug_language:
  "fixture_slug s \<longleftrightarrow> (\<exists>w ws. list_all slug_word (w # ws) \<and> s = w @ concat (map ((#) (CHR ''_'')) ws))"
proof
  assume s: "fixture_slug s"
  obtain w ws where w: "split_on (CHR ''_'') s = w # ws" by (cases "split_on (CHR ''_'') s") auto
  with s split_on_join [OF w] show "\<exists>w ws. list_all slug_word (w # ws) \<and> s = w @ concat (map ((#) (CHR ''_'')) ws)"
    by (auto simp: fixture_slug_def)
next
  assume "\<exists>w ws. list_all slug_word (w # ws) \<and> s = w @ concat (map ((#) (CHR ''_'')) ws)"
  then obtain w ws where w: "list_all slug_word (w # ws)" "s = w @ concat (map ((#) (CHR ''_'')) ws)" by blast
  then have "list_all (\<lambda>x. CHR ''_'' \<notin> set x) (w # ws)" by (auto simp: list_all_iff dest: slug_word_chars)
  from split_on_words [OF this] w show "fixture_slug s" by (simp add: fixture_slug_def)
qed

lemma slug_chars:
  assumes "fixture_slug s"
  shows "CHR ''|'' \<notin> set s \<and> s \<noteq> []"
proof -
  obtain w ws where w: "list_all slug_word (w # ws)" "s = w @ concat (map ((#) (CHR ''_'')) ws)"
    using assms slug_language by blast
  then have "\<forall>x \<in> set (w # ws). CHR ''|'' \<notin> set x" by (auto simp: list_all_iff dest: slug_word_chars)
  with w show ?thesis by (auto simp: slug_word_def)
qed

section \<open>What a clean catalogue guarantees\<close>

lemma check_fixture_ids:
  "check_fixture quote read ids paths f = None \<Longrightarrow> fx_id f \<notin> set ids \<and> fx_path f \<notin> set paths"
  by (auto simp: check_fixture_def fixture_error_def split: if_splits)

lemma check_fixtures_distinct:
  "check_fixtures quote read ids paths fs = None \<Longrightarrow>
     distinct (map fx_id fs) \<and> distinct (map fx_path fs)
     \<and> set (map fx_id fs) \<inter> set ids = {} \<and> set (map fx_path fs) \<inter> set paths = {}"
proof (induction fs arbitrary: ids paths)
  case (Cons f fs)
  then have c: "check_fixture quote read ids paths f = None"
      "check_fixtures quote read (fx_id f # ids) (fx_path f # paths) fs = None"
    by (auto split: option.splits)
  from Cons.IH [OF c(2)] check_fixture_ids [OF c(1)] show ?case by auto
qed simp

lemma load_distinct:
  assumes "load_catalog quote stat read unmarshal = Inr c"
  shows "distinct (map fx_id (cg_fixtures c)) \<and> distinct (map fx_path (cg_fixtures c)) \<and> cg_fixtures c \<noteq> []"
proof -
  have v: "validate_catalog quote stat read c = None"
    using assms by (auto simp: load_catalog_def split: sum.splits option.splits)
  then have "check_fixtures quote read [] [] (cg_fixtures c) = None" "cg_fixtures c \<noteq> []"
    by (auto simp: validate_catalog_def split: if_splits option.splits)
  then show ?thesis using check_fixtures_distinct by blast
qed

lemma issue_if_Nil [simp]: "issue_if b i = [] \<longleftrightarrow> \<not> b"
  by (simp add: issue_if_def)

lemma missing_baselines_Nil:
  "missing_baselines fs = [] \<longleftrightarrow> (\<forall>f \<in> set fs. \<exists>g \<in> set fs. is_baseline g \<and> lint_family g = lint_family f)"
proof -
  have "missing_baselines fs = [] \<longleftrightarrow> set (missing_baselines fs) = {}" by simp
  also have "\<dots> \<longleftrightarrow> (\<forall>k \<in> lint_family ` set fs. \<exists>g \<in> set fs. is_baseline g \<and> lint_family g = k)"
    unfolding missing_baselines_def set_sort set_filter set_remdups set_map list_ex_iff by blast
  finally show ?thesis by blast
qed

lemma lint_clean:
  "lint_catalog c = [] \<longleftrightarrow>
     (\<forall>f \<in> set (cg_fixtures c). lint_fixture f = [])
     \<and> (\<forall>f \<in> set (cg_fixtures c). \<exists>g \<in> set (cg_fixtures c). is_baseline g \<and> lint_family g = lint_family f)"
  by (simp add: lint_catalog_def missing_baselines_Nil)

lemma lint_fixture_clean:
  assumes "lint_fixture f = []"
  shows "fixture_slug (trim_space (fx_provider f))" and "fixture_slug (trim_space (fx_event_family f))"
    and "fx_id f = expected_id f" and "is_baseline f \<Longrightarrow> \<not> fx_negative f"
    and "fx_publish f \<Longrightarrow> 200 \<le> fx_expected_status f \<and> fx_expected_status f < 300"
    and "has_prefix (trim_space (fx_path f)) (trim_space (fx_provider f) @ ''_'')"
proof -
  show s: "fixture_slug (trim_space (fx_provider f))" "fixture_slug (trim_space (fx_event_family f))"
    and "fx_id f = expected_id f" and "is_baseline f \<Longrightarrow> \<not> fx_negative f"
    and "fx_publish f \<Longrightarrow> 200 \<le> fx_expected_status f \<and> fx_expected_status f < 300"
    using assms by (auto simp: lint_fixture_def Let_def is_baseline_def)
  show "has_prefix (trim_space (fx_path f)) (trim_space (fx_provider f) @ ''_'')"
    using assms slug_chars [OF s(1)] by (auto simp: lint_fixture_def Let_def)
qed

lemma family_parts:
  assumes "p @ ''|'' @ e = q @ ''|'' @ g" and "CHR ''|'' \<notin> set p" and "CHR ''|'' \<notin> set q"
  shows "p = q \<and> e = g"
proof -
  have split: "split_first (CHR ''|'') (p @ ''|'' @ e) = (p, Some e)" if "CHR ''|'' \<notin> set p" for p e
    using that by (induction p) auto
  have "(p, Some e) = split_first (CHR ''|'') (p @ ''|'' @ e)" by (rule split [OF assms(2), symmetric])
  also have "\<dots> = (q, Some g)" unfolding assms(1) by (rule split [OF assms(3)])
  finally show ?thesis by simp
qed

text \<open>
  A catalogue that loads and has no lint issue identifies its fixtures by provider, family, variant and version,
  keeps every fixture in a file of its own that is named after the provider, has for every family that occurs a
  baseline that is not a negative example, and publishes only where a success is expected.
\<close>

theorem clean_catalogue:
  assumes "load_catalog quote stat read unmarshal = Inr c" and "lint_catalog c = []"
  shows "distinct (map (\<lambda>f. (trim_space (fx_provider f), trim_space (fx_event_family f), trim_space (fx_variant f),
                            fx_version f)) (cg_fixtures c))
    \<and> distinct (map fx_path (cg_fixtures c))
    \<and> (\<forall>f \<in> set (cg_fixtures c).
         has_prefix (trim_space (fx_path f)) (trim_space (fx_provider f) @ ''_'')
         \<and> (fx_publish f \<longrightarrow> 200 \<le> fx_expected_status f \<and> fx_expected_status f < 300)
         \<and> (\<exists>g \<in> set (cg_fixtures c). trim_space (fx_provider g) = trim_space (fx_provider f)
              \<and> trim_space (fx_event_family g) = trim_space (fx_event_family f)
              \<and> trim_space (fx_variant g) = ''baseline'' \<and> \<not> fx_negative g))"
proof (intro conjI ballI)
  note clean = assms(2) [unfolded lint_clean]
  have ids: "\<forall>f \<in> set (cg_fixtures c). fx_id f = expected_id f" using clean lint_fixture_clean(3) by blast
  have "inj_on fx_id (set (cg_fixtures c))" "distinct (cg_fixtures c)"
    using load_distinct [OF assms(1)] by (auto simp: distinct_map)
  then show "distinct (map (\<lambda>f. (trim_space (fx_provider f), trim_space (fx_event_family f), trim_space (fx_variant f),
      fx_version f)) (cg_fixtures c))"
    using ids by (auto simp: distinct_map inj_on_def expected_id_def)
  show "distinct (map fx_path (cg_fixtures c))" using load_distinct [OF assms(1)] by blast
  fix f
  assume f: "f \<in> set (cg_fixtures c)"
  note lf = lint_fixture_clean [OF clean [THEN conjunct1, rule_format, OF f]]
  show "has_prefix (trim_space (fx_path f)) (trim_space (fx_provider f) @ ''_'')" by (rule lf(6))
  show "fx_publish f \<longrightarrow> 200 \<le> fx_expected_status f \<and> fx_expected_status f < 300" using lf(5) by blast
  obtain g where g: "g \<in> set (cg_fixtures c)" "is_baseline g" "lint_family g = lint_family f" using clean f by blast
  note lg = lint_fixture_clean [OF clean [THEN conjunct1, rule_format, OF g(1)]]
  have "trim_space (fx_provider g) = trim_space (fx_provider f) \<and> trim_space (fx_event_family g) = trim_space (fx_event_family f)"
    using family_parts [OF g(3) [unfolded lint_family_def]] slug_chars [OF lf(1)] slug_chars [OF lg(1)] by blast
  then show "\<exists>g \<in> set (cg_fixtures c). trim_space (fx_provider g) = trim_space (fx_provider f)
      \<and> trim_space (fx_event_family g) = trim_space (fx_event_family f)
      \<and> trim_space (fx_variant g) = ''baseline'' \<and> \<not> fx_negative g"
    using g(1,2) lg(4) by (auto simp: is_baseline_def)
qed

definition one_fixture :: fixture where
  "one_fixture =
     \<lparr>fx_id = ''slack.url.baseline.v1'', fx_version = 1, fx_provider = ''slack'', fx_event_family = ''url'',
      fx_variant = ''baseline'', fx_path = ''slack_url.json'', fx_negative = False, fx_expected_status = 200,
      fx_publish = False, fx_notes = ''handshake''\<rparr>"

definition one_catalog :: catalog where
  "one_catalog =
     \<lparr>cg_version = 1, cg_schema = \<lparr>sf_name = ''raw'', sf_version = 1, sf_file = ''raw.json''\<rparr>,
      cg_fixtures = [one_fixture]\<rparr>"

theorem clean_catalogue_witness:
  "\<exists>g \<in> set (cg_fixtures one_catalog). trim_space (fx_variant g) = ''baseline'' \<and> \<not> fx_negative g"
proof -
  have v: "validate_catalog (\<lambda>s. s) (\<lambda>p. None) (\<lambda>p. Inr ''{}'') one_catalog = None" by code_simp
  have "load_catalog (\<lambda>s. s) (\<lambda>p. None) (\<lambda>p. Inr ''{}'') (\<lambda>raw. Inr one_catalog) = Inr one_catalog"
    using v by (simp add: load_catalog_def)
  moreover have "lint_catalog one_catalog = []" by code_simp
  ultimately show ?thesis using clean_catalogue [of "\<lambda>s. s"] by (fastforce simp: one_catalog_def)
qed

section \<open>The coverage summary counts what it names\<close>

lemma map_of_map_keyed: "map_of (map (\<lambda>(k, v). (k, f k v)) xs) k = map_option (f k) (map_of xs k)"
  by (induction xs) auto

definition named :: "fixture list \<Rightarrow> fixture list" where
  "named fs = filter (\<lambda>f. name_key (fx_provider f) \<noteq> '''') fs"

definition of_provider :: "string \<Rightarrow> fixture list \<Rightarrow> fixture list" where
  "of_provider p fs = filter (\<lambda>f. name_key (fx_provider f) = p) fs"

definition family_set :: "fixture list \<Rightarrow> string set" where
  "family_set fs = {name_key (fx_event_family f) |f. f \<in> set fs \<and> name_key (fx_event_family f) \<noteq> ''''}"

definition pair_set :: "fixture list \<Rightarrow> string set" where
  "pair_set fs = {family_key f |f. f \<in> set fs \<and> name_key (fx_event_family f) \<noteq> ''''}"

text \<open>What the first loop keeps: the totals, the names and counts of the providers, and the set of families.\<close>

definition counted :: "fixture list \<Rightarrow> catalog_coverage \<times> string list \<Rightarrow> bool" where
  "counted fs acc \<longleftrightarrow>
     (case acc of (s, fams) \<Rightarrow>
        cs_total s = length (named fs) \<and> cs_publishable s = length (filter fx_publish (named fs))
        \<and> distinct (map fst (cs_by_provider s))
        \<and> set (map fst (cs_by_provider s)) = (\<lambda>f. name_key (fx_provider f)) ` set (named fs)
        \<and> (\<forall>p. p \<noteq> [] \<longrightarrow>
              pc_fixtures (coverage_of (cs_by_provider s) p) = length (of_provider p fs)
              \<and> pc_publishable (coverage_of (cs_by_provider s) p) = length (filter fx_publish (of_provider p fs)))
        \<and> distinct fams \<and> set fams = pair_set (named fs))"

lemma coverage_of_update: "coverage_of (AList.update p c by) q = (if q = p then c else coverage_of by q)"
  by (simp add: coverage_of_def update_conv')

lemma named_append: "named (fs @ [f]) = named fs @ (if name_key (fx_provider f) = '''' then [] else [f])"
  by (simp add: named_def)

lemma of_provider_append: "of_provider p (fs @ [f]) = of_provider p fs @ (if name_key (fx_provider f) = p then [f] else [])"
  by (simp add: of_provider_def)

lemma pair_set_append:
  "pair_set (fs @ [f]) = (if name_key (fx_event_family f) = [] then pair_set fs else insert (family_key f) (pair_set fs))"
  by (auto simp: pair_set_def)

lemma counted_step:
  assumes "counted fs (s, fams)"
  shows "counted (fs @ [f]) (count_fixture (s, fams) f)"
proof (cases "name_key (fx_provider f) = []")
  case True
  with assms show ?thesis by (simp add: count_fixture_def counted_def named_append of_provider_append Let_def)
next
  case False
  have fk: "family_key f = name_key (fx_provider f) @ ''|'' @ name_key (fx_event_family f)"
    by (simp add: family_key_def)
  show ?thesis
    using assms False unfolding counted_def count_fixture_def Let_def
    by (auto simp: named_append of_provider_append pair_set_append coverage_of_update dom_update distinct_update fk)
qed

lemma counted_all:
  "counted fs (foldl count_fixture
     (\<lparr>cs_total = 0, cs_publishable = 0, cs_providers = 0, cs_families = 0, cs_by_provider = []\<rparr>, []) fs)"
proof (induction fs rule: rev_induct)
  case Nil
  show ?case by (simp add: counted_def named_def of_provider_def pair_set_def coverage_of_def no_coverage_def)
next
  case (snoc f fs)
  then show ?case using counted_step by (metis foldl_Cons foldl_Nil foldl_append prod.collapse)
qed

lemma families_of_spec: "distinct (families_of p fs) \<and> set (families_of p fs) = family_set (of_provider p fs)"
proof (induction fs rule: rev_induct)
  case Nil
  show ?case by (simp add: families_of_def family_set_def of_provider_def)
next
  case (snoc f fs)
  have "families_of p (fs @ [f]) =
      (if name_key (fx_provider f) \<noteq> p \<or> name_key (fx_event_family f) = [] then families_of p fs
       else List.insert (name_key (fx_event_family f)) (families_of p fs))"
    by (simp add: families_of_def)
  with snoc show ?case by (auto simp: of_provider_append family_set_def)
qed

text \<open>C40: the summary of a catalogue, computed by two loops over a map, is what its names say: the fixtures with a
  provider and the published ones among them, the number of different providers (after trimming and lower case)
  and of different pairs of provider and family, and for every provider its fixtures, its published fixtures and
  its different families; no other provider is listed, and none twice.
\<close>

theorem coverage_counts:
  "let s = coverage_summary c; fs = cg_fixtures c; by = cs_by_provider s
   in cs_total s = length (named fs) \<and> cs_publishable s = length (filter fx_publish (named fs))
      \<and> cs_providers s = card ((\<lambda>f. name_key (fx_provider f)) ` set (named fs))
      \<and> cs_families s = card (pair_set (named fs))
      \<and> map_of by = (\<lambda>p. if p \<in> (\<lambda>f. name_key (fx_provider f)) ` set (named fs)
           then Some \<lparr>pc_fixtures = length (of_provider p fs), pc_families = card (family_set (of_provider p fs)),
                      pc_publishable = length (filter fx_publish (of_provider p fs))\<rparr>
           else None)
      \<and> distinct (map fst by)"
proof -
  let ?fs = "cg_fixtures c"
  obtain s fams where r: "foldl count_fixture
      (\<lparr>cs_total = 0, cs_publishable = 0, cs_providers = 0, cs_families = 0, cs_by_provider = []\<rparr>, []) ?fs = (s, fams)"
    by (metis prod.exhaust)
  have inv: "counted ?fs (s, fams)" using counted_all [of ?fs] r by simp
  let ?keys = "(\<lambda>f. name_key (fx_provider f)) ` set (named ?fs)"
  have keys: "set (map fst (cs_by_provider s)) = ?keys" "distinct (map fst (cs_by_provider s))"
    using inv by (simp_all add: counted_def)
  have len: "length (cs_by_provider s) = card ?keys"
    using distinct_card [OF keys(2)] keys(1) by simp
  have sum: "coverage_summary c = s\<lparr>cs_by_provider := map (\<lambda>(p, pc). (p, pc\<lparr>pc_families := length (families_of p ?fs)\<rparr>))
      (cs_by_provider s), cs_providers := length (cs_by_provider s), cs_families := length fams\<rparr>"
    by (simp add: coverage_summary_def r)
  have entry: "map_of (cs_by_provider (coverage_summary c)) p = (if p \<in> ?keys
      then Some \<lparr>pc_fixtures = length (of_provider p ?fs), pc_families = card (family_set (of_provider p ?fs)),
                 pc_publishable = length (filter fx_publish (of_provider p ?fs))\<rparr> else None)" for p
  proof -
    have m: "map_of (cs_by_provider (coverage_summary c)) p
        = map_option (\<lambda>pc. pc\<lparr>pc_families := length (families_of p ?fs)\<rparr>) (map_of (cs_by_provider s) p)"
      by (simp add: sum map_of_map_keyed)
    show ?thesis
    proof (cases "p \<in> ?keys")
      case True
      then have "p \<noteq> []" by (auto simp: named_def)
      from True keys(1) have "map_of (cs_by_provider s) p \<noteq> None" by (simp add: map_of_eq_None_iff)
      then obtain pc where pc: "map_of (cs_by_provider s) p = Some pc" by blast
      have "pc_fixtures pc = length (of_provider p ?fs) \<and> pc_publishable pc = length (filter fx_publish (of_provider p ?fs))"
        using inv \<open>p \<noteq> []\<close> pc by (auto simp: counted_def coverage_of_def)
      with m pc True families_of_spec [of p ?fs] show ?thesis
        by (auto simp flip: distinct_card)
    next
      case False
      then have "map_of (cs_by_provider s) p = None" using keys(1) by (simp add: map_of_eq_None_iff)
      with m False show ?thesis by simp
    qed
  qed
  have names: "map fst (cs_by_provider (coverage_summary c)) = map fst (cs_by_provider s)"
    by (simp add: sum case_prod_unfold)
  have fams: "length fams = card (pair_set (named ?fs))"
    using inv distinct_card [of fams] by (simp add: counted_def)
  have totals: "cs_total (coverage_summary c) = length (named ?fs)"
    "cs_publishable (coverage_summary c) = length (filter fx_publish (named ?fs))"
    "cs_providers (coverage_summary c) = card ?keys" "cs_families (coverage_summary c) = card (pair_set (named ?fs))"
    using inv len fams by (simp_all add: sum counted_def)
  show ?thesis unfolding Let_def
    by (intro conjI ext totals entry) (simp only: names keys(2))
qed

end
