(* ===== verification/Retry_File.thy ===== *)
theory Retry_File
  imports Retry
begin

text \<open>
  The file store as a provider of the contract the retry scheduler relies on, beside the Postgres store;
  and both compared: for the scheduler they are interchangeable as long as they hold at most the 50 events that one
  tick lists.
\<close>

section \<open>The store\<close>

text \<open>The state is the file with the codec of its lines.\<close>

type_synonym coded_file = "(failed_event \<Rightarrow> nat \<times> failed_event) \<times> event_file"

definition file_ops :: "coded_file retry_ops" where
  "file_ops =
     \<lparr>ro_delete = (\<lambda>i (enc, f). map_prod id (Pair enc) (fs_delete enc io_ok i f)),
      ro_update = (\<lambda>i n (enc, f). map_prod id (Pair enc) (fs_update_retry_count enc io_ok i n f))\<rparr>"

definition file_look :: "string \<Rightarrow> coded_file \<Rightarrow> failed_event option" where
  "file_look i s = lookup_event i (snd s)"

definition file_list :: "int \<Rightarrow> coded_file \<Rightarrow> failed_event list result" where
  "file_list n s = fs_list_recent io_ok n (snd s)"

text \<open>No id occurs twice, the ids are trimmed, as \<open>Save\<close> leaves them, and the events are as the codec reads them
  back, under any retry count, in lines that fit in the scanner.\<close>

definition settled :: "(failed_event \<Rightarrow> nat \<times> failed_event) \<Rightarrow> failed_event list \<Rightarrow> bool" where
  "settled enc es \<longleftrightarrow>
     distinct (map ev_id es)
     \<and> (\<forall>e \<in> set es. trim_space (ev_id e) = ev_id e \<and> ev_id e \<noteq> []
          \<and> (\<forall>n. fst (enc (e\<lparr>ev_retry := n\<rparr>)) < max_line \<and> snd (enc (e\<lparr>ev_retry := n\<rparr>)) = e\<lparr>ev_retry := n\<rparr>))"

definition file_ok :: "coded_file \<Rightarrow> bool" where
  "file_ok s \<longleftrightarrow> (case s of (enc, f) \<Rightarrow> readable f \<and> settled enc (file_events f))"

lemma settledD:
  assumes "settled enc es" and "e \<in> set es"
  shows "fst (enc e) < max_line" "snd (enc e) = e" "trim_space (ev_id e) = ev_id e" "ev_id e \<noteq> []"
proof -
  have "e\<lparr>ev_retry := ev_retry e\<rparr> = e" by simp
  with assms show "fst (enc e) < max_line" "snd (enc e) = e" "trim_space (ev_id e) = ev_id e" "ev_id e \<noteq> []"
    unfolding settled_def by metis+
qed

lemma rewritten:
  assumes "settled enc es"
  shows "file_ok (enc, Some (map (encode_line enc) es))" and "file_events (Some (map (encode_line enc) es)) = es"
proof -
  have "line_ok enc e" if "e \<in> set es" for e
    using settledD [OF assms that] by (simp add: line_ok_def Let_def)
  then have r: "readable (Some (map (encode_line enc) es))" by (intro codec_rewritten) (simp add: codec_ok_def)
  show f: "file_events (Some (map (encode_line enc) es)) = es"
    unfolding file_events_def file_lines_def option.case decoded_encode
    using settledD [OF assms] by (intro map_idI) blast
  from r f assms show "file_ok (enc, Some (map (encode_line enc) es))" by (simp add: file_ok_def)
qed

lemma file_delete:
  assumes "file_ok (enc, f)"
  shows "\<exists>err f'. fs_delete enc io_ok i f = (err, f') \<and> file_ok (enc, f')
    \<and> (trim_space i \<noteq> [] \<longrightarrow> file_events f' = filter (\<lambda>e. ev_id e \<noteq> trim_space i) (file_events f))"
proof -
  let ?es = "file_events f" and ?kept = "filter (\<lambda>e. ev_id e \<noteq> trim_space i) (file_events f)"
  have ok: "readable f" "settled enc ?es" using assms by (simp_all add: file_ok_def)
  show ?thesis
  proof (cases "trim_space i = [] \<or> length ?kept = length ?es")
    case True
    then have "?kept = ?es" if "trim_space i \<noteq> []"
      using that by (metis (mono_tags, lifting) filter_id_conv length_filter_less less_irrefl)
    with True assms ok show ?thesis by (auto simp: fs_delete_def read_all_ok Let_def)
  next
    case False
    have "settled enc ?kept" using ok(2) by (auto simp: settled_def distinct_map_filter)
    from rewritten [OF this] False ok show ?thesis by (simp add: fs_delete_def read_all_ok rewrite_file_def Let_def)
  qed
qed

lemma update_first_map:
  "distinct (map ev_id es) \<Longrightarrow>
     update_first i n es = (if i \<in> ev_id ` set es then Some (map (\<lambda>e. if ev_id e = i then e\<lparr>ev_retry := n\<rparr> else e) es) else None)"
proof (induction es)
  case (Cons e es)
  show ?case
  proof (cases "ev_id e = i")
    case True
    with Cons.prems have "i \<notin> ev_id ` set es" by auto
    then have "map (\<lambda>e. if ev_id e = i then e\<lparr>ev_retry := n\<rparr> else e) es = es" by (auto intro!: map_idI)
    with True show ?thesis by simp
  next
    case False
    with Cons show ?thesis by auto
  qed
qed simp

lemma file_update:
  assumes "file_ok (enc, f)"
  shows "\<exists>err f'. fs_update_retry_count enc io_ok i n f = (err, f') \<and> file_ok (enc, f')
    \<and> (trim_space i \<noteq> [] \<longrightarrow>
         file_events f' = map (\<lambda>e. if ev_id e = trim_space i then e\<lparr>ev_retry := n\<rparr> else e) (file_events f))"
proof -
  let ?es = "file_events f"
  let ?new = "map (\<lambda>e. if ev_id e = trim_space i then e\<lparr>ev_retry := n\<rparr> else e) ?es"
  have ok: "readable f" "settled enc ?es"
    using assms by (simp_all add: file_ok_def)
  note u = update_first_map [of ?es "trim_space i" n, OF ok(2) [unfolded settled_def, THEN conjunct1]]
  show ?thesis
  proof (cases "trim_space i = [] \<or> trim_space i \<notin> ev_id ` set ?es")
    case True
    then have "?new = ?es" if "trim_space i \<noteq> []" using that by (auto simp: rev_image_eqI intro!: map_idI)
    with True assms ok u show ?thesis by (auto simp: fs_update_retry_count_def read_all_ok Let_def)
  next
    case False
    have "map ev_id ?new = map ev_id ?es" by simp
    then have "settled enc ?new" using ok(2) unfolding settled_def by (auto simp del: map_map)
    from rewritten [OF this] False ok u show ?thesis by (simp add: fs_update_retry_count_def read_all_ok rewrite_file_def Let_def)
  qed
qed

lemma looked_up_trimmed:
  "file_ok (enc, f) \<Longrightarrow> lookup_event i f = Some e \<Longrightarrow> trim_space i = i \<and> i \<noteq> []"
  by (auto simp: file_ok_def settled_def lookup_event_def dest: find_Some_set)

lemma find_update:
  "find (\<lambda>e. ev_id e = j) (map (\<lambda>e. if ev_id e = i then e\<lparr>ev_retry := n\<rparr> else e) es)
     = map_option (\<lambda>e. if j = i then e\<lparr>ev_retry := n\<rparr> else e) (find (\<lambda>e. ev_id e = j) es)"
  by (induction es) auto

interpretation file_retry: retry_store file_ops file_look file_ok
proof
  fix i j n e and st :: coded_file
  assume ok: "file_ok st"
  obtain enc f where st: "st = (enc, f)" by (cases st)
  obtain err f1 where d: "fs_delete enc io_ok i f = (err, f1)" "file_ok (enc, f1)"
      "trim_space i \<noteq> [] \<Longrightarrow> file_events f1 = filter (\<lambda>e. ev_id e \<noteq> trim_space i) (file_events f)"
    using file_delete [of enc f i] ok st by blast
  obtain err2 f2 where u: "fs_update_retry_count enc io_ok i n f = (err2, f2)" "file_ok (enc, f2)"
      "trim_space i \<noteq> [] \<Longrightarrow> file_events f2 = map (\<lambda>e. if ev_id e = trim_space i then e\<lparr>ev_retry := n\<rparr> else e) (file_events f)"
    using file_update [of enc f i n] ok st by blast
  show "file_ok (snd (ro_delete file_ops i st))" "file_ok (snd (ro_update file_ops i n st))"
    using d(1,2) u(1,2) by (simp_all add: file_ops_def st)
  assume "file_look i st = Some e"
  then have "trim_space i = i" "i \<noteq> []" using looked_up_trimmed [of enc f i e] ok st by (simp_all add: file_look_def)
  then show "file_look j (snd (ro_delete file_ops i st)) = (if j = i then None else file_look j st)"
    and "file_look j (snd (ro_update file_ops i n st))
      = map_option (\<lambda>e. if j = i then e\<lparr>ev_retry := n\<rparr> else e) (file_look j st)"
    using d(1,3) u(1,3) by (simp_all add: file_ops_def st file_look_def lookup_event_def find_filter_id find_update)
qed

lemma file_listed:
  assumes "file_ok st" and "file_list n st = Inr es"
  shows "distinct (map ev_id es)" and "e \<in> set es \<Longrightarrow> file_look (ev_id e) st = Some e"
    and "length (file_events (snd st)) \<le> nat n \<Longrightarrow> file_look j st = Some e \<Longrightarrow> e \<in> set es"
proof -
  have r: "readable (snd st)" "distinct (map ev_id (file_events (snd st)))"
    using assms(1) by (auto simp: file_ok_def settled_def split: prod.splits)
  have "0 < n" using assms(2) by (cases "0 < n") (simp_all add: file_list_def fs_list_recent_def)
  then have l: "distinct (map ev_id es)"
      "\<And>e. e \<in> set es \<longleftrightarrow> find (\<lambda>x. ev_id x = ev_id e) (rev (last_n (nat n) (file_events (snd st)))) = Some e"
    using list_recent_spec [OF r(1), of n] assms(2) by (auto simp: file_list_def)
  have d: "distinct (map ev_id (rev (last_n (nat n) (file_events (snd st)))))"
    using r(2) by (simp add: last_n_def rev_map [symmetric] drop_map [symmetric])
  show "distinct (map ev_id es)" by (rule l(1))
  have mem: "e \<in> set es \<longleftrightarrow> e \<in> set (last_n (nat n) (file_events (snd st)))" for e
    using l(2) [of e] find_distinct [OF d, of "ev_id e" e] by simp
  show "e \<in> set es \<Longrightarrow> file_look (ev_id e) st = Some e"
    using mem [of e] find_distinct [OF r(2), of "ev_id e" e] set_drop_subset
    by (fastforce simp: file_look_def lookup_event_def last_n_def)
  show "length (file_events (snd st)) \<le> nat n \<Longrightarrow> file_look j st = Some e \<Longrightarrow> e \<in> set es"
    using mem [of e] find_distinct [OF r(2), of j e] by (simp add: file_look_def lookup_event_def last_n_def)
qed

interpretation file_source: retry_source file_ops file_look file_ok file_list
  using file_listed(1,2) by unfold_locales blast+

section \<open>Both stores\<close>

text \<open>Listed in full: every event the store holds is among the ones of the tick.\<close>

lemma listed_in_full:
  assumes "distinct (map ev_id es)" and "\<And>e. e \<in> set es \<longleftrightarrow> look (ev_id e) = Some e"
    and "\<And>i e. look i = Some e \<Longrightarrow> ev_id e = i"
  shows "find (\<lambda>e. ev_id e = j) es = look j"
proof (cases "look j")
  case None
  then show ?thesis using assms(2) by (auto simp: find_None_set)
next
  case (Some e)
  then show ?thesis using assms find_distinct [OF assms(1), of j e] by metis
qed

lemma file_full:
  assumes "file_ok st" and "length (file_events (snd st)) \<le> 50"
  obtains es where "file_list 50 st = Inr es" and "distinct (map ev_id es)" and "\<And>j. find (\<lambda>e. ev_id e = j) es = file_look j st"
proof -
  have "readable (snd st)" using assms(1) by (auto simp: file_ok_def split: prod.splits)
  then obtain es where es: "file_list 50 st = Inr es"
    using list_recent_spec [of "snd st" 50] by (auto simp: file_list_def)
  have id: "file_look i st = Some e \<Longrightarrow> ev_id e = i" for i e
    by (auto simp: file_look_def lookup_event_def dest: find_Some_set)
  have "e \<in> set es \<longleftrightarrow> file_look (ev_id e) st = Some e" for e
    using file_listed(2,3) [OF assms(1) es] assms(2) by auto
  then have "find (\<lambda>e. ev_id e = j) es = file_look j st" for j
    using listed_in_full [OF file_listed(1) [OF assms(1) es], of "\<lambda>i. file_look i st"] id by blast
  then show thesis using that es file_listed(1) [OF assms(1) es] by blast
qed

lemma pg_full:
  assumes "pg_ok tb" and "length tb \<le> 50"
  obtains es where "pg_list_recent None 50 tb = Inr es" and "distinct (map ev_id es)" and "\<And>j. find (\<lambda>e. ev_id e = j) es = pg_look j tb"
proof -
  let ?es = "sort_key (\<lambda>r. - ev_failed_at r) tb"
  have l: "pg_list_recent None 50 tb = Inr ?es"
    using assms(2) by (simp add: pg_list_recent_def clamp_limit_def)
  have d: "distinct (map ev_id tb)" using assms(1) by (simp add: pg_ok_def)
  have ds: "distinct (map ev_id ?es)" using distinct_take_sort [OF d, of "length tb"] by simp
  have "e \<in> set ?es \<longleftrightarrow> pg_look (ev_id e) tb = Some e" for e
    using find_distinct [OF d, of "ev_id e" e] by (simp add: pg_look_def)
  moreover have "pg_look i tb = Some e \<Longrightarrow> ev_id e = i" for i e
    by (auto simp: pg_look_def dest: find_Some_set)
  ultimately have "find (\<lambda>e. ev_id e = j) ?es = pg_look j tb" for j
    by (intro listed_in_full [of ?es "\<lambda>i. pg_look i tb", OF ds]) blast+
  with that [OF l ds] show thesis by blast
qed


definition tidy_codec :: "failed_event \<Rightarrow> nat \<times> failed_event" where "tidy_codec e = (1, e)"

definition demo_file :: event_file where
  "demo_file = Some (map (encode_line tidy_codec) retry_demo_table)"

lemma demo_file_ok: "file_ok (tidy_codec, demo_file)" "file_events demo_file = retry_demo_table"
proof -
  have "trim_space ''e1'' = ''e1''" by code_simp
  then have "settled tidy_codec retry_demo_table"
    by (simp add: settled_def retry_demo_table_def tidy_codec_def pg_event_def pg_request_def max_line_def)
  then show "file_ok (tidy_codec, demo_file)" "file_events demo_file = retry_demo_table"
    unfolding demo_file_def by (rule rewritten)+
qed


end
