(* ===== verification/Test_Tools.thy ===== *)
theory Test_Tools
  imports Gateway "HOL-Library.Signed_Division"
begin

text \<open>
  Two tools beside the gateway: the load test (\<open>scripts/load-test/main.go\<close>), with what it reports about a gateway
  that refuses everything it sends, and the helpers for the Pub/Sub emulator
  (\<open>internal/testhelpers/pubsubtest/emulator.go\<close>). The answers of the HTTP client, of the Pub/Sub client and the messages it
  delivers are arguments, and so is the formatting of floats.
\<close>

section \<open>The load test\<close>

record load_flags =
  lf_target :: string
  lf_rate :: int
  lf_duration :: duration
  lf_source :: string
  lf_payload :: string

definition default_load_flags :: load_flags where
  "default_load_flags =
     \<lparr>lf_target = ''http://localhost:8080'', lf_rate = 100, lf_duration = 30 * second, lf_source = ''github'',
      lf_payload = ''{'' @ [CHR 0x22] @ ''action'' @ [CHR 0x22] @ '':'' @ [CHR 0x22] @ ''opened'' @ [CHR 0x22] @ ''}''\<rparr>"

definition load_endpoint :: "load_flags \<Rightarrow> string" where
  "load_endpoint fl = lf_target fl @ ''/webhooks/'' @ lf_source fl"

text \<open>\<open>time.Second / time.Duration(rate)\<close> panics for the rate 0, and \<open>NewTicker\<close> for an interval that is not positive.\<close>

definition load_interval :: "load_flags \<Rightarrow> duration option" where
  "load_interval fl =
     (if lf_rate fl = 0 then None
      else (let d = second sdiv lf_rate fl in if d \<le> 0 then None else Some d))"

definition load_headers :: "(string \<times> string) list" where
  "load_headers =
     [(''Content-Type'', ''application/json''), (''X-GitHub-Event'', ''pull_request''),
      (''X-Hub-Signature-256'', ''sha256=skip-for-load-test'')]"

text \<open>The answer of \<open>Do\<close>, if any, as its status; and the three counters.\<close>

type_synonym load_answer = "int option"

datatype counter_add = AddTotal | AddSuccess | AddFailed

record load_counts =
  lc_total :: int
  lc_success :: int
  lc_failed :: int

text \<open>A request adds to two of the counters, in this order, each atomically.\<close>

definition load_adds :: "load_answer \<Rightarrow> counter_add list" where
  "load_adds a = [AddTotal, case a of Some s \<Rightarrow> if s < 500 then AddSuccess else AddFailed | None \<Rightarrow> AddFailed]"

fun load_add :: "counter_add \<Rightarrow> load_counts \<Rightarrow> load_counts" where
  "load_add AddTotal c = c\<lparr>lc_total := wrap64 (lc_total c + 1)\<rparr>"
| "load_add AddSuccess c = c\<lparr>lc_success := wrap64 (lc_success c + 1)\<rparr>"
| "load_add AddFailed c = c\<lparr>lc_failed := wrap64 (lc_failed c + 1)\<rparr>"

definition load_counts_of :: "counter_add list \<Rightarrow> load_counts" where
  "load_counts_of adds = fold load_add adds \<lparr>lc_total = 0, lc_success = 0, lc_failed = 0\<rparr>"

text \<open>The report; \<open>ratio s t\<close> is the text of \<open>float64(s)/float64(t)*100\<close> and \<open>rps t d\<close> of the throughput.\<close>

definition load_report :: "(int \<Rightarrow> int \<Rightarrow> string) \<Rightarrow> (int \<Rightarrow> duration \<Rightarrow> string) \<Rightarrow> load_flags \<Rightarrow> load_counts \<Rightarrow> string list" where
  "load_report ratio rps fl c =
     [''=== Results ==='', ''Total:     '' @ itoa (lc_total c),
      ''Success:   '' @ itoa (lc_success c) @ '' ('' @ ratio (lc_success c) (lc_total c) @ ''%)'',
      ''Failed:    '' @ itoa (lc_failed c) @ '' ('' @ ratio (lc_failed c) (lc_total c) @ ''%)'',
      ''Throughput: '' @ rps (lc_total c) (lf_duration fl) @ '' rps'']"

datatype load_end = LoadPanics | LoadReport load_counts "string list"

text \<open>A run: \<open>url_ok\<close> says whether \<open>NewRequest\<close> accepts the endpoint (its error is dropped and the nil request used),
  \<open>answers\<close> has an entry for every tick before the deadline, and \<open>adds\<close> is the order in which the requests added.\<close>

definition load_test ::
  "(int \<Rightarrow> int \<Rightarrow> string) \<Rightarrow> (int \<Rightarrow> duration \<Rightarrow> string) \<Rightarrow> (string \<Rightarrow> bool) \<Rightarrow> load_flags \<Rightarrow> load_answer list \<Rightarrow> counter_add list
     \<Rightarrow> load_end"
where
  "load_test ratio rps url_ok fl answers adds =
     (case load_interval fl of
        None \<Rightarrow> LoadPanics
      | Some d \<Rightarrow>
          if answers \<noteq> [] \<and> \<not> url_ok (load_endpoint fl) then LoadPanics
          else LoadReport (load_counts_of adds) (load_report ratio rps fl (load_counts_of adds)))"

lemma load_interval_some: "(\<exists>d. load_interval fl = Some d) \<longleftrightarrow> 0 < lf_rate fl \<and> lf_rate fl \<le> 1000000000"
proof (cases "0 < lf_rate fl")
  case True
  then have "second sdiv lf_rate fl = second div lf_rate fl"
    by (simp add: signed_divide_int_def duration_units)
  moreover have "second div lf_rate fl \<le> 0 \<longleftrightarrow> 1000000000 < lf_rate fl"
    using True pos_imp_zdiv_pos_iff [of "lf_rate fl" second] by (simp add: duration_units not_less [symmetric] del: not_less)
  ultimately show ?thesis using True by (auto simp: load_interval_def Let_def)
next
  case False
  then have "second sdiv lf_rate fl \<le> 0" if "lf_rate fl \<noteq> 0"
    using that by (simp add: signed_divide_int_def duration_units mult_le_0_iff sgn_if pos_imp_zdiv_nonneg_iff)
  then show ?thesis using False by (auto simp: load_interval_def Let_def)
qed

text \<open>Whatever the order of the additions, the counters end as the numbers of answers.\<close>

lemma load_counts_fold:
  "int (length adds) \<le> int64_max \<Longrightarrow>
     load_counts_of adds = \<lparr>lc_total = int (count (mset adds) AddTotal), lc_success = int (count (mset adds) AddSuccess),
       lc_failed = int (count (mset adds) AddFailed)\<rparr>"
proof (induction adds rule: rev_induct)
  case Nil
  show ?case by (simp add: load_counts_of_def)
next
  case (snoc a adds)
  have le: "int (count (mset adds) x) + 1 \<le> int64_max" for x
    using snoc.prems count_le_size [of "mset adds" x] by (simp add: count_mset)
  have w: "wrap64 (int (count (mset adds) x) + 1) = int (count (mset adds) x) + 1" for x
    by (rule wrap64_id) (use le [of x] in \<open>simp add: in_int64_def int64_min_def\<close>)
  have "load_counts_of (adds @ [a]) = load_add a (load_counts_of adds)" by (simp add: load_counts_of_def)
  with snoc w show ?case by (cases a) simp_all
qed

lemma load_counts_any_order:
  assumes "mset adds = mset (concat (map load_adds answers))" and "2 * int (length answers) \<le> int64_max"
  shows "load_counts_of adds =
    \<lparr>lc_total = int (length answers),
     lc_success = int (length (filter (\<lambda>a. \<exists>s < 500. a = Some s) answers)),
     lc_failed = int (length (filter (\<lambda>a. \<forall>s < 500. a \<noteq> Some s) answers))\<rparr>"
proof -
  have l: "length (concat (map load_adds as)) = 2 * length as" for as
    by (induction as) (simp_all add: load_adds_def)
  have "length adds = length (concat (map load_adds answers))" using assms(1) by (metis size_mset)
  then have "int (length adds) \<le> int64_max" using assms(2) l by simp
  moreover have "count (mset (concat (map load_adds as))) AddTotal = length as
      \<and> count (mset (concat (map load_adds as))) AddSuccess = length (filter (\<lambda>a. \<exists>s < 500. a = Some s) as)
      \<and> count (mset (concat (map load_adds as))) AddFailed = length (filter (\<lambda>a. \<forall>s < 500. a \<noteq> Some s) as)" for as
    by (induction as) (auto simp: load_adds_def split: option.splits)
  ultimately show ?thesis using assms(1) by (simp add: load_counts_fold)
qed

section \<open>The load test against the gateway\<close>

definition load_request :: "load_flags \<Rightarrow> string \<Rightarrow> string \<Rightarrow> draws \<Rightarrow> request" where
  "load_request fl remote rid d =
     \<lparr>rq_method = ''POST'', rq_path = ''/webhooks/'' @ lf_source fl, rq_query = (\<lambda>k. ''''),
      rq_header = (\<lambda>k. get_str (map_of load_headers) k), rq_cookie = (\<lambda>k. None), rq_remote = remote,
      rq_body = lf_payload fl, rq_body_error = None, rq_ctx_error = None, rq_deadline = None, rq_id = rid,
      rq_draws = d\<rparr>"

text \<open>The webhook handler of the source answers one request after the other.\<close>

fun load_serve :: "gateway webhook_env \<Rightarrow> load_flags \<Rightarrow> (string \<times> string \<times> draws) list \<Rightarrow> gateway \<Rightarrow> load_answer list \<times> gateway" where
  "load_serve env fl [] st = ([], st)"
| "load_serve env fl ((remote, rid, d) # rs) st =
     (case webhook_handler (lf_source fl) env (load_request fl remote rid d) (new_writer, st) of
        (out, w, st1) \<Rightarrow>
          (case load_serve env fl rs st1 of
             (as, st2) \<Rightarrow>
               ((if out = Panicked then None
                 else Some (case w_status w of Some s \<Rightarrow> s | None \<Rightarrow> 200)) # as, st2)))"

lemma load_header [simp]:
  "rq_header (load_request fl a i d) ''X-Hub-Signature-256'' = ''sha256=skip-for-load-test''"
  "rq_header (load_request fl a i d) ''X-Slack-Request-Timestamp'' = []"
  "rq_header (load_request fl a i d) ''X-Slack-Signature'' = []"
  "rq_header (load_request fl a i d) ''X-Gitlab-Token'' = []"
  "rq_header (load_request fl a i d) ''X-Client-State'' = []"
  "rq_query (load_request fl a i d) k = []"
  by (simp_all add: load_request_def load_headers_def get_str_def)

lemma load_unauthentic:
  assumes "source \<in> set webhook_sources"
  shows "\<not> authentic cfg source (load_request fl a i d)"
proof -
  have "length ''sha256=skip-for-load-test'' \<noteq> length (''sha256='' @ hex_encode (hmac_sha256 k m))" for k m
    by simp
  then have "''sha256=skip-for-load-test'' \<noteq> ''sha256='' @ hex_encode (hmac_sha256 k m)" for k m
    by metis
  moreover have "[] \<noteq> ''v0='' @ xs" for xs by simp
  ultimately show ?thesis using assms by (auto simp: webhook_sources_def authentic_def)
qed

definition rejects :: "outcome \<times> writer \<times> 'st \<Rightarrow> bool" where
  "rejects x \<longleftrightarrow> (case x of (out, w, st) \<Rightarrow> out = Returned \<and> w_status w \<in> {Some 401, Some 413, Some 400})"

lemma with_body_status:
  assumes "check (rq_body r) \<noteq> None"
  shows "rejects (with_body env source check next r (new_writer, st))"
  using assms
  by (auto simp: rejects_def with_body_def read_body_def reject_unauthorized_def new_writer_def Let_def split: option.splits)

lemma load_rejected:
  assumes "source \<in> set webhook_sources" and "lf_source fl = source"
  shows "\<exists>w st'. webhook_handler source (gateway_env cfg v rnd db) (load_request fl a i d) (new_writer, st) = (Returned, w, st')
    \<and> quiet st st' \<and> (w_status w = Some 401 \<or> w_status w = Some 413 \<or> w_status w = Some 400)"
proof -
  let ?r = "load_request fl a i d" and ?env = "gateway_env cfg v rnd db"
  obtain out w st' where h: "webhook_handler source ?env ?r (new_writer, st) = (out, w, st')"
    by (cases "webhook_handler source ?env ?r (new_writer, st)") auto
  have q: "quiet st st'" using webhook_cases [OF h assms(1)] load_unauthentic [OF assms(1)] by blast
  have e: "entry ?env s (''POST'' # ms) n ?r ws = n ?r ws" "entry ?env s [m, ''POST''] n ?r ws = n ?r ws" for s ms n ws m
    by (simp_all add: load_request_def entry_pass)
  have "rejects (webhook_handler source ?env ?r (new_writer, st))"
  proof -
    have n: "validate_slack k [] b [] n m \<noteq> None" "validate_github k b ''sha256=skip-for-load-test'' \<noteq> None"
        "validate_gitlab k [] \<noteq> None" "validate_teams_client_state k [] \<noteq> None" for k b n m
      using load_unauthentic [of "''github''" "cfg\<lparr>GitHubWebhookSecret := k\<rparr>" "fl\<lparr>lf_payload := b\<rparr>" a i d]
      by (auto simp: validate_slack_def shared_secret_None github_None webhook_sources_def authentic_def load_request_def
          load_headers_def get_str_def Let_def)
    consider "source = ''slack''" | "source = ''github''" | "source = ''gitlab''" | "source = ''teams''"
      using assms(1) by (auto simp: webhook_sources_def)
    then show ?thesis
      by cases (simp_all add: webhook_handler_def handle_slack_def handle_github_def handle_gitlab_def handle_teams_def
          e Let_def n with_body_status del: not_None_eq)
  qed
  with h q show ?thesis by (auto simp: rejects_def)
qed

text \<open>
  The load test measures rejections: no request it sends is authentic, whatever the secrets of the gateway, so
  nothing is queued, no key is kept and no dead letter written; but each rejection has a status below 500, and
  the report counts all of them as successes.
\<close>

lemma load_serve_rejected:
  fixes st :: gateway and cfg :: config
  assumes "lf_source fl \<in> set webhook_sources"
  shows "case load_serve (gateway_env cfg v rnd db) fl rs st of
    (as, st') \<Rightarrow> quiet st st' \<and> length as = length rs \<and> (\<forall>a \<in> set as. a \<in> {Some 401, Some 413, Some 400})"
proof (induction rs arbitrary: st)
  case Nil
  show ?case by (simp add: quiet_def)
next
  case (Cons x rs)
  obtain remote rid d where x: "x = (remote, rid, d)" by (cases x)
  obtain w st1 where h: "webhook_handler (lf_source fl) (gateway_env cfg v rnd db) (load_request fl remote rid d) (new_writer, st)
      = (Returned, w, st1)" "quiet st st1" "w_status w = Some 401 \<or> w_status w = Some 413 \<or> w_status w = Some 400"
    using load_rejected [OF assms refl] by blast
  show ?case using Cons.IH [of st1] h by (auto simp: x quiet_def split: prod.splits)
qed

theorem load_test_counts_rejections:
  assumes "lf_source fl \<in> set webhook_sources" and "load_interval fl = Some d" and "url_ok (load_endpoint fl)"
    and "load_serve (gateway_env cfg v rnd db) fl rs st = (answers, st')"
    and "mset adds = mset (concat (map load_adds answers))" and "2 * int (length rs) \<le> int64_max"
  shows "gw_pub st' = gw_pub st \<and> gw_dedup st' = gw_dedup st \<and> gw_store st' = gw_store st
    \<and> (\<exists>report. load_test ratio rps url_ok fl answers adds
         = LoadReport \<lparr>lc_total = int (length rs), lc_success = int (length rs), lc_failed = 0\<rparr> report)"
proof -
  have s: "quiet st st'" "length answers = length rs" "\<forall>a \<in> set answers. a \<in> {Some 401, Some 413, Some 400}"
    using load_serve_rejected [OF assms(1), where cfg = cfg and v = v and rnd = rnd and db = db and rs = rs and st = st] assms(4) by auto
  have "filter (\<lambda>a. \<exists>s < 500. a = Some s) answers = answers" "filter (\<lambda>a. \<forall>s < 500. a \<noteq> Some s) answers = []"
    using s(3) by (fastforce simp: filter_id_conv filter_empty_conv)+
  with load_counts_any_order [OF assms(5)] s(1,2) assms(2,3,6) show ?thesis
    by (simp add: load_test_def quiet_def)
qed

theorem load_test_counts_rejections_witness:
  "\<exists>report. load_test (\<lambda>s t. []) (\<lambda>t d. []) (\<lambda>u. True) default_load_flags
     (fst (load_serve (gateway_env gw_config None (Inr ''x'') None) default_load_flags [([], [], demo_draws)] gw_start))
     (concat (map load_adds (fst (load_serve (gateway_env gw_config None (Inr ''x'') None) default_load_flags
        [([], [], demo_draws)] gw_start))))
     = LoadReport \<lparr>lc_total = 1, lc_success = 1, lc_failed = 0\<rparr> report"
proof -
  obtain d where d: "load_interval default_load_flags = Some d"
    using load_interval_some [of default_load_flags] by (auto simp: default_load_flags_def)
  have src: "lf_source default_load_flags \<in> set webhook_sources" by (simp add: default_load_flags_def webhook_sources_def)
  obtain as st' where s: "load_serve (gateway_env gw_config None (Inr ''x'') None) default_load_flags [([], [], demo_draws)] gw_start
      = (as, st')" by fastforce
  show ?thesis
    using load_test_counts_rejections [OF _ d _ s refl, of "\<lambda>u. True" "\<lambda>s t. []" "\<lambda>t d. []"] src
    by (simp add: s int64_max_def del: load_serve.simps)
qed

section \<open>The Pub/Sub emulator: topics and subscriptions\<close>

record emulator_config =
  em_project :: string
  em_host_port :: string

definition default_emulator_config :: emulator_config where
  "default_emulator_config = \<lparr>em_project = ''test-project'', em_host_port = ''localhost:8085''\<rparr>"

text \<open>\<open>connect\<close> is \<open>pubsub.NewClient\<close>, which reads the environment.\<close>

definition new_pubsub_client ::
  "goerr option \<Rightarrow> ((string \<rightharpoonup> string) \<Rightarrow> string \<Rightarrow> 'c result) \<Rightarrow> emulator_config \<Rightarrow> (string \<rightharpoonup> string)
     \<Rightarrow> 'c result \<times> (string \<rightharpoonup> string)"
where
  "new_pubsub_client setenv_error connect cfg vars =
     (case setenv_error of
        Some e \<Rightarrow> (Inl (Wrapped ''failed to set PUBSUB_EMULATOR_HOST: '' e), vars)
      | None \<Rightarrow>
          (let vars1 = vars(''PUBSUB_EMULATOR_HOST'' \<mapsto> em_host_port cfg)
           in (map_err (Wrapped ''failed to create Pub/Sub client: '') (connect vars1 (em_project cfg)), vars1)))"

text \<open>The answer of a call: an error with the code that \<open>status.Code\<close> reads from it, or none.\<close>

datatype rpc_code = RpcOK | RpcNotFound | RpcAlreadyExists | RpcOther

type_synonym rpc_answer = "(rpc_code \<times> goerr) option"

definition status_code :: "rpc_answer \<Rightarrow> rpc_code" where
  "status_code a = (case a of None \<Rightarrow> RpcOK | Some (c, e) \<Rightarrow> c)"

text \<open>A call that may answer with the code \<open>fine\<close>: any other error is wrapped.\<close>

definition rpc_result :: "rpc_code \<Rightarrow> string \<Rightarrow> rpc_answer \<Rightarrow> goerr option" where
  "rpc_result fine what a =
     (case a of None \<Rightarrow> None | Some (c, e) \<Rightarrow> if status_code a = fine then None else Some (Wrapped (what @ '': '') e))"

definition topic_name :: "string \<Rightarrow> string \<Rightarrow> string" where
  "topic_name project topic = ''projects/'' @ project @ ''/topics/'' @ topic"

definition subscription_name :: "string \<Rightarrow> string \<Rightarrow> string" where
  "subscription_name project sub = ''projects/'' @ project @ ''/subscriptions/'' @ sub"

text \<open>The calls act on the state \<open>'st\<close> of the emulator; \<open>quote\<close> is \<open>%q\<close>.\<close>

definition create_topic ::
  "(string \<Rightarrow> string) \<Rightarrow> (string \<Rightarrow> 'st \<Rightarrow> rpc_answer \<times> 'st) \<Rightarrow> (string \<Rightarrow> 'p) \<Rightarrow> string \<Rightarrow> string \<Rightarrow> 'st \<Rightarrow> 'p result \<times> 'st"
where
  "create_topic quote call publisher project topic st =
     (case call (topic_name project topic) st of
        (a, st1) \<Rightarrow>
          ((case rpc_result RpcAlreadyExists (''failed to create topic '' @ quote topic) a of
              Some e \<Rightarrow> Inl e | None \<Rightarrow> Inr (publisher topic)), st1))"

record subscription_request =
  sq_name :: string
  sq_topic :: string
  sq_ack_seconds :: int

definition create_subscription ::
  "(string \<Rightarrow> string) \<Rightarrow> (subscription_request \<Rightarrow> 'st \<Rightarrow> rpc_answer \<times> 'st) \<Rightarrow> (string \<Rightarrow> 's) \<Rightarrow> string \<Rightarrow> string \<Rightarrow> string \<Rightarrow> 'st
     \<Rightarrow> 's result \<times> 'st"
where
  "create_subscription quote call subscriber project sub topic st =
     (case call \<lparr>sq_name = subscription_name project sub, sq_topic = topic_name project topic, sq_ack_seconds = 30\<rparr> st of
        (a, st1) \<Rightarrow>
          ((case rpc_result RpcAlreadyExists (''failed to create subscription '' @ quote sub) a of
              Some e \<Rightarrow> Inl e | None \<Rightarrow> Inr (subscriber sub)), st1))"

definition delete_topic ::
  "(string \<Rightarrow> string) \<Rightarrow> (string \<Rightarrow> 'st \<Rightarrow> rpc_answer \<times> 'st) \<Rightarrow> string \<Rightarrow> string \<Rightarrow> 'st \<Rightarrow> goerr option \<times> 'st" where
  "delete_topic quote call project topic st =
     (case call (topic_name project topic) st of
        (a, st1) \<Rightarrow> (rpc_result RpcNotFound (''failed to delete topic '' @ quote topic) a, st1))"

definition delete_subscription ::
  "(string \<Rightarrow> string) \<Rightarrow> (string \<Rightarrow> 'st \<Rightarrow> rpc_answer \<times> 'st) \<Rightarrow> string \<Rightarrow> string \<Rightarrow> 'st \<Rightarrow> goerr option \<times> 'st" where
  "delete_subscription quote call project sub st =
     (case call (subscription_name project sub) st of
        (a, st1) \<Rightarrow> (rpc_result RpcNotFound (''failed to delete subscription '' @ quote sub) a, st1))"

text \<open>Setting up twice and tearing down twice is no error.\<close>

lemma create_topic_again:
  "call (topic_name project topic) st = (Some (RpcAlreadyExists, e), st1) \<Longrightarrow>
     create_topic quote call publisher project topic st = (Inr (publisher topic), st1)"
  by (simp add: create_topic_def rpc_result_def status_code_def)

lemma delete_topic_again:
  "call (topic_name project topic) st = (Some (RpcNotFound, e), st1) \<Longrightarrow>
     delete_topic quote call project topic st = (None, st1)"
  by (simp add: delete_topic_def rpc_result_def status_code_def)

section \<open>The Pub/Sub emulator: receiving\<close>

record receive_settings =
  rs_goroutines :: int
  rs_outstanding :: int

record 'm received =
  rc_messages :: "'m list"
  rc_error :: "goerr option"
  rc_acked :: "'m list"
  rc_cancelled :: bool
  rc_settings :: receive_settings

definition collect_message :: "int \<Rightarrow> 'm list \<Rightarrow> 'm \<Rightarrow> 'm list" where
  "collect_message n ms m = (if int (length ms) < n then ms @ [m] else ms)"

text \<open>\<open>receive s\<close> is the call of \<open>Receive\<close> under the settings \<open>s\<close>: the messages its callback is given, with one
  goroutine one after the other, and the error it returns. How many come after the callback's own \<open>cancel\<close> is for the client
  to decide. The deferred assignments put the settings back.\<close>

definition receive_messages ::
  "(receive_settings \<Rightarrow> 'm list \<times> goerr option) \<Rightarrow> int \<Rightarrow> receive_settings \<Rightarrow> 'm received" where
  "receive_messages receive n s =
     (if n \<le> 0 then \<lparr>rc_messages = [], rc_error = None, rc_acked = [], rc_cancelled = False, rc_settings = s\<rparr>
      else (case receive (s\<lparr>rs_goroutines := 1, rs_outstanding := 1\<rparr>) of
              (ms, err) \<Rightarrow>
                (let collected = foldl (collect_message n) [] ms; got = int (length collected)
                 in \<lparr>rc_messages = collected,
                     rc_error =
                       (if err = Some (Sentinel CtxCanceled) \<and> n \<le> got then None
                        else (case err of
                                Some e \<Rightarrow> Some (Wrapped ''failed to receive messages: '' e)
                              | None \<Rightarrow>
                                  if got < n
                                  then Some (ErrText (''received '' @ itoa got @ ''/'' @ itoa n @ '' messages before timeout''))
                                  else None)),
                     rc_acked = ms, rc_cancelled = (n \<le> got), rc_settings = s\<rparr>)))"

lemma foldl_collect: "0 \<le> n \<Longrightarrow> int (length acc) \<le> n \<Longrightarrow>
  foldl (collect_message n) acc ms = acc @ take (nat n - length acc) ms"
  by (induction ms arbitrary: acc) (auto simp: collect_message_def Suc_diff_le take_Cons' nat_le_iff)

text \<open>The caller gets the first \<open>n\<close> messages, without an error exactly when there were as many and \<open>Receive\<close> ended
  normally or by the cancellation. Every message delivered is acknowledged, so those after the first \<open>n\<close> are lost.\<close>

lemma receive_messages_spec:
  assumes "0 < n" and "receive (s\<lparr>rs_goroutines := 1, rs_outstanding := 1\<rparr>) = (ms, err)"
  shows "rc_messages (receive_messages receive n s) = take (nat n) ms"
    and "rc_acked (receive_messages receive n s) = take (nat n) ms @ drop (nat n) ms"
    and "rc_error (receive_messages receive n s) = None \<longleftrightarrow>
      n \<le> int (length ms) \<and> (err = None \<or> err = Some (Sentinel CtxCanceled))"
    and "rc_settings (receive_messages receive n s) = s"
proof -
  have c: "foldl (collect_message n) [] ms = take (nat n) ms" using foldl_collect [of n "[]" ms] assms(1) by simp
  show "rc_messages (receive_messages receive n s) = take (nat n) ms"
    and "rc_acked (receive_messages receive n s) = take (nat n) ms @ drop (nat n) ms"
    and "rc_error (receive_messages receive n s) = None \<longleftrightarrow>
      n \<le> int (length ms) \<and> (err = None \<or> err = Some (Sentinel CtxCanceled))"
    and "rc_settings (receive_messages receive n s) = s"
    using assms by (auto simp: receive_messages_def c Let_def min_def split: option.splits)
qed

definition purge_subscription :: "'m list \<times> goerr option \<Rightarrow> 'm list \<times> goerr option" where
  "purge_subscription received =
     (case received of
        (ms, err) \<Rightarrow>
          (ms, if err = Some (Sentinel CtxCanceled) \<or> err = Some (Sentinel CtxDeadlineExceeded) then None
               else map_option (Wrapped ''failed to purge subscription: '') err))"

section \<open>The Pub/Sub emulator: the collector\<close>

text \<open>\<open>mc_running\<close> counts the goroutines that \<open>Collect\<close> started and whose \<open>Receive\<close> has not returned, \<open>mc_unacked\<close> the
  callbacks that have appended their message and not acknowledged it.\<close>

record 'm collector =
  mc_messages :: "'m list"
  mc_done :: bool
  mc_running :: nat
  mc_unacked :: "'m multiset"
  mc_acked :: "'m multiset"
  mc_crashed :: bool

definition new_message_collector :: "'m collector" where
  "new_message_collector =
     \<lparr>mc_messages = [], mc_done = False, mc_running = 0, mc_unacked = {#}, mc_acked = {#}, mc_crashed = False\<rparr>"

definition collector_start :: "'m collector \<Rightarrow> 'm collector" where
  "collector_start c = c\<lparr>mc_running := mc_running c + 1\<rparr>"

definition collector_append :: "'m \<Rightarrow> 'm collector \<Rightarrow> 'm collector" where
  "collector_append m c = c\<lparr>mc_messages := mc_messages c @ [m], mc_unacked := add_mset m (mc_unacked c)\<rparr>"

definition collector_ack :: "'m \<Rightarrow> 'm collector \<Rightarrow> 'm collector" where
  "collector_ack m c = c\<lparr>mc_unacked := mc_unacked c - {#m#}, mc_acked := add_mset m (mc_acked c)\<rparr>"

text \<open>\<open>Receive\<close> returns when its callbacks have; the second \<open>close\<close> of the channel panics.\<close>

definition collector_end :: "'m collector \<Rightarrow> 'm collector" where
  "collector_end c = c\<lparr>mc_running := mc_running c - 1, mc_crashed := mc_crashed c \<or> mc_done c, mc_done := True\<rparr>"

text \<open>\<open>Stop\<close> waits for the channel or the timeout and copies the messages; \<open>None\<close> while it waits.\<close>

definition collector_stop :: "bool \<Rightarrow> 'm collector \<Rightarrow> 'm list option" where
  "collector_stop timed_out c = (if mc_done c \<or> timed_out then Some (mc_messages c) else None)"

definition collector_messages :: "'m collector \<Rightarrow> 'm list" where
  "collector_messages c = mc_messages c"

definition collector_count :: "'m collector \<Rightarrow> nat" where
  "collector_count c = length (mc_messages c)"

definition find_message :: "('m \<Rightarrow> bool) \<Rightarrow> 'm collector \<Rightarrow> 'm option" where
  "find_message p c = find p (mc_messages c)"

inductive collector_step :: "'m collector \<Rightarrow> 'm collector \<Rightarrow> bool" where
  Start: "collector_step c (collector_start c)"
| Append: "0 < mc_running c \<Longrightarrow> collector_step c (collector_append m c)"
| Ack: "m \<in># mc_unacked c \<Longrightarrow> collector_step c (collector_ack m c)"
| End: "0 < mc_running c \<Longrightarrow> 1 < mc_running c \<or> mc_unacked c = {#} \<Longrightarrow> collector_step c (collector_end c)"

inductive_cases collector_stepE: "collector_step c c'"

inductive collector_reach :: "'m collector \<Rightarrow> 'm collector \<Rightarrow> bool" where
  Here: "collector_reach c c"
| Step: "collector_reach c c' \<Longrightarrow> collector_step c' c'' \<Longrightarrow> collector_reach c c''"

lemmas collector_defs = collector_start_def collector_append_def collector_ack_def collector_end_def

text \<open>No message is acknowledged before it is collected, and none is collected and forgotten.\<close>

lemma collector_keeps_acked:
  "collector_reach c c' \<Longrightarrow> mset (mc_messages c) = mc_acked c + mc_unacked c \<Longrightarrow>
     mset (mc_messages c') = mc_acked c' + mc_unacked c'"
  by (induction rule: collector_reach.induct) (auto elim!: collector_stepE simp: collector_defs)

text \<open>What a reader saw stays the beginning of what the next one sees.\<close>

lemma collector_only_appends:
  "collector_reach c c' \<Longrightarrow> \<exists>ms. mc_messages c' = mc_messages c @ ms"
  by (induction rule: collector_reach.induct) (fastforce elim!: collector_stepE simp: collector_defs)+

lemma find_message_stays:
  "collector_reach c c' \<Longrightarrow> find_message p c = Some m \<Longrightarrow> find_message p c' = Some m"
  using collector_only_appends [of c c'] by (auto simp: find_message_def find_app)

text \<open>\<open>Stop\<close> does not stop: after its timeout the collector goes on collecting and acknowledging.\<close>

lemma stop_does_not_stop:
  assumes "0 < mc_running c" and "m \<notin># mc_unacked c"
  shows "\<exists>c'. collector_stop True c = Some (mc_messages c) \<and> collector_reach c c'
    \<and> mc_messages c' = mc_messages c @ [m] \<and> mc_acked c' = add_mset m (mc_acked c)"
proof -
  let ?a = "collector_append m c"
  have "collector_step c ?a" using assms(1) by (rule Append)
  moreover have "collector_step ?a (collector_ack m ?a)" by (rule Ack) (simp add: collector_append_def)
  ultimately have "collector_reach c (collector_ack m ?a)" by (blast intro: Here Step)
  then show ?thesis by (intro exI [of _ "collector_ack m ?a"]) (simp add: collector_stop_def collector_defs)
qed

text \<open>A second \<open>Collect\<close> of the same collector brings the test process down when both have ended.\<close>

lemma second_collect_crashes:
  "mc_crashed (collector_end (collector_end (collector_start (collector_start new_message_collector))))"
  by (simp add: collector_defs)

end
