(* ===== verification/Spec2Isabelle.thy ===== *)
theory Spec2Isabelle
  imports Invariants Server_Chain Publishers Bulkhead Scrubber Event_Store Retry Config_Watch
    Schema Security_Audit Replay_Audit Admin_Safety Health Server_Safety Transform
    Replay_Cmd Doctor Event_Cmd Observability Lifecycle Fixtures
    Retry_File Test_Tools
begin

text \<open>
  The ingestion gateway of TeamPulseBridge (\<open>services/ingestion-gateway\<close>): an HTTP service that receives
  webhooks of Slack, GitHub, GitLab and Teams, authenticates them, drops duplicates and publishes
  them, with everything around that path: stores for dead letters and audits, a retry scheduler, an administration,
  an operator console, and the commands of the repository. This development models its Go code and proves
  what makes it correct, and where it is not, that it is not. Paths below are relative to the service.

  \<^bold>\<open>How the parts interact.\<close> A request passes the middlewares (\<open>internal/httpx\<close>: recovery, request
  ids, access log, limits, timeouts, API version, the administrative guards) to one of the handlers
  (\<open>internal/handlers\<close>). A webhook handler validates the signature (\<open>internal/platform/signature\<close>) and
  the schema (\<open>internal/schema\<close>), asks the deduplication store (\<open>internal/dedup\<close>) and hands the body to the
  publisher (\<open>internal/queue\<close>): transformers that scrub personal data, then an asynchronous queue (or one per
  source) with backpressure, whose workers publish through a circuit breaker to the log or to Pub/Sub. What a
  worker cannot publish becomes a dead letter in the failed-event store (\<open>internal/failstore\<close>, behind a
  second breaker); the retry scheduler (\<open>internal/retry\<close>, one leader over Redis) and the administration
  replay dead letters into the same queue. Behind Pub/Sub the event-store consumer (\<open>internal/eventstore\<close>)
  writes the events to a table. Rejected requests and replays are audited (\<open>internal/securityaudit\<close>,
  \<open>internal/replayaudit\<close>). \<open>cmd/server/main.go\<close> puts all of it together.

  \<^bold>\<open>How code is modelled.\<close> A Go string or byte slice is a list of bytes (\<open>string\<close>), a map a partial function (an
  association list where its order or its size matters), a struct a record, an error a \<open>goerr\<close> with
  its printed text, its wrapping and its sentinels. Integers are \<open>int\<close> with \<open>wrap64\<close> where they can overflow, words in the
  hash function and in the counters of the Redis pool; floats are IEEE doubles as rationals with
  rounding (\<open>Float64\<close>). Instants are nanoseconds; every reading of the clock, every random number and every answer of the
  operating system, a database, Redis or Pub/Sub is an argument, so a theorem holds for all of them. A handler takes a
  request, a response writer and the state and gives them back with whether it returned or panicked. Goroutines
  appear where their order matters: the asynchronous publisher is an interleaving of steps (\<open>world_step\<close>,
  \<open>world_reach\<close>), the process a sequence of requests, worker steps, dead letters and retry ticks
  (\<open>process_step\<close>).

  \<^bold>\<open>Theories, from the bottom up.\<close>

  \<^item> \<open>Go_Prelude\<close> (strings, numbers, time, maps), \<open>Json\<close> (the scanner of \<open>encoding/json\<close>), \<open>Errors\<close>
    (\<open>internal/apperr\<close>), \<open>Float64\<close>, \<open>Net_IP\<close> (addresses and networks), \<open>Sha256\<close> (SHA-256 and HMAC),
    \<open>Regex\<close> (leftmost-first matching, with the locale \<open>fence\<close>: when a replacement leaves no match), \<open>Line_File\<close>
    (files of JSON lines), \<open>Postgres\<close> (column types and errors of a statement).
  \<^item> \<open>Resilience\<close> (\<open>platform/resilience\<close>): the circuit breaker and its trace specification.
    \<open>Signature\<close>: the four validations, each accepted exactly when the header carries the expected MAC or secret.
    \<open>Dedup\<close>: locale \<open>dedup_store\<close>, interpreted on the memory store; a key is seen exactly within its window.
    \<open>Schema\<close>: the validator against JSON objects with the required fields.
  \<^item> \<open>Config\<close>, \<open>Config_Watch\<close> (\<open>internal/config\<close>): loading, \<open>Validate\<close>, the watcher and the feature flags.
  \<^item> \<open>Backpressure\<close>, \<open>Async_Publisher\<close>, \<open>Async_Safety\<close>, \<open>Bulkhead\<close>, \<open>Publishers\<close>, \<open>Scrubber\<close>, \<open>Transform\<close>,
    \<open>Envelope\<close> (\<open>internal/queue\<close>, and \<open>internal/replay\<close>): the ring buffer as the list of the last
    results, the admission, conservation and order of events in every interleaving, draining on \<open>Close\<close>,
    isolation of sources, what the scrubbers remove.
  \<^item> \<open>Fail_Store\<close>, \<open>Fail_Store_Pg\<close>, \<open>Replay_Audit\<close>, \<open>Security_Audit\<close>: the file and Postgres stores: round
    trips, retention, and pages that list every record exactly once (locale \<open>replay_pager\<close>, interpreted on the file and on the
    SQL query).
  \<^item> \<open>Event_Store\<close>, \<open>Event_Flow\<close>, \<open>Event_Cmd\<close> (\<open>internal/eventstore\<close>, \<open>cmd/eventstore\<close>): idempotent storing, the way
    from a publish to the row, what is redelivered for ever, and the run of the consumer.
  \<^item> \<open>Retry\<close> (\<open>internal/retry\<close>): locales \<open>retry_store\<close> and \<open>retry_source\<close>, interpreted on the Postgres store
    and, in \<open>Retry_File\<close>, on the file store, which are then interchangeable; what a tick does to every event, bounds of the backoff, the lease of the leader.
  \<^item> \<open>Http\<close>, \<open>Rate_Limit\<close> (locale \<open>rate_limiter\<close>), \<open>Http_Auth\<close>: the middlewares and the guards. \<open>Webhooks\<close>,
    \<open>Admin_Text\<close>, \<open>Admin\<close>, \<open>Admin_Safety\<close>, \<open>Health\<close>, \<open>Ui\<close>: the handlers.
  \<^item> \<open>Gateway\<close>, \<open>Server\<close>, \<open>Server_Chain\<close>, \<open>Server_Safety\<close>, \<open>Assembly\<close>, \<open>Lifecycle\<close> (\<open>cmd/server/main.go\<close>): the handlers
    on the stores of the process, the routes and the middleware chain, the server that calls itself through
    the smoke test, the wiring, and start and shutdown. \<open>Observability\<close>: log level and telemetry.
  \<^item> \<open>Process\<close>, \<open>Invariants\<close>: the process as a whole. The locales \<open>webhook_keeps\<close>, \<open>replay_keeps\<close> and
    \<open>admin_keeps\<close> state once that the handlers keep any property that their collaborators keep; the process
    interprets them, which gives the typing of its state (\<open>process_types\<close>).
  \<^item> \<open>Replay_Cmd\<close>, \<open>Doctor\<close>, \<open>Fixtures\<close>: the commands \<open>cmd/replay\<close>, \<open>cmd/doctor\<close> and \<open>cmd/fixturelint\<close> with the
    catalogue it checks. \<open>Test_Tools\<close>: the load test of \<open>scripts\<close>, run against the model of the gateway, and the helpers
    for the Pub/Sub emulator.

  \<^bold>\<open>What the properties show.\<close> First the promises of the gateway to the providers: an event that reaches the queue was
  authenticated, it is accepted once within the deduplication window, and an accepted delivery is not lost silently, since
  it is queued, published, or stored as a dead letter, or its key is free again (\<open>Gateway\<close>); the conservation of events in every
  interleaving (\<open>Async_Safety\<close>) and over retry ticks (\<open>Process\<close>); the way to the row (\<open>Event_Flow\<close>). Then
  the promises to the operator: no administrative handler is reached without a valid token, by no path, method or detour
  (\<open>Server_Safety\<close>); rejected requests are in the audit; histories are complete; shutdown respects what is in use.
  Then each component on its own. Several theorems state the wrong behaviour the code has: a retried event that
  keeps failing never reaches its limit (\<open>Process\<close>), a body with an escaped NUL is redelivered for ever (\<open>Event_Flow\<close>),
  a null token disables the structural scrubber and makes the event undeliverable (\<open>Transform\<close>), a stored body can
  crash the listing of failed events (\<open>Admin_Safety\<close>).

  \<^bold>\<open>Bounds and fuel.\<close> The JSON scanner runs on fuel \<open>2 * length + 2\<close>; more fuel gives the same result (\<open>pval_fuel\<close>). Its depth limit
  is the 10000 of the package. \<open>unquote\<close> is given the length of its literal. The server calls itself through
  the smoke test; depth 2 is enough (\<open>server_depth\<close>). \<open>find_root\<close> looks at 6 directories as the code does.
  Everything else is structural or has a measure.

  \<^bold>\<open>Parameters and their laws.\<close> The JSON codec of a stored line (\<open>codec_ok\<close>: for the events at hand, the line fits in the scanner,
  the id and the retry count survive, and what was read back is written as it is), of an envelope (\<open>carries\<close>,
  \<open>refuses_invalid\<close>) and of the time cursor (\<open>time_text_ok\<close>); what a \<open>JSONB\<close> column takes (\<open>refuses_nul\<close>);
  the JWT library; \<open>strconv.ParseFloat\<close>; the texts of \<open>html/template\<close>, quoting, content
  sniffing and the order of map ranges (\<open>server_ok\<close>: a rooted path parses, the tracing middleware only passes the
  request on, and a range visits the entries of the map); \<open>otelhttp\<close>,
  OpenTelemetry, Prometheus, the clients of Redis, Postgres and Pub/Sub.

  \<^bold>\<open>Not modelled.\<close> The HTML, CSS and JavaScript constants of the consoles (\<open>ui_assets.go\<close>, \<open>ui_template.go\<close> and those
  in \<open>admin_ui.go\<close>), which are data of the binary and not Go code: they are arguments of the handlers. Log lines and
  the attributes of metrics, which no operation reads. Timeouts are modelled as answers of the operation that is
  cut off, not as running clocks; a retry tick and an SQL statement are atomic steps.
\<close>

end
